(* ===== verification/Prelude.thy ===== *)
theory Prelude
  imports Complex_Main "HOL-Library.Char_ord" "HOL-Library.List_Lexorder"
    "HOL-Library.Multiset"
begin

text \<open>
  What every component of the development shares.

  \<^item> The exceptions of the Python sources (\<open>exn\<close>) and the result of a fallible operation
    (\<open>'a res\<close>): a raise is an \<open>Inl\<close>, a return is an \<open>Inr\<close>; \<open>rbind\<close> is the sequencing of
    statements, \<open>ensure\<close> is \<open>if not b: raise e\<close>.
  \<^item> Loops whose body may raise: \<open>res_fold\<close> (a \<open>for\<close> loop over a mutable state) and
    \<open>res_map\<close> (a list built element by element), with the locale \<open>res_machine\<close> that lifts
    a one-step invariant of such a loop to the whole run.
  \<^item> Python dictionaries as insertion-ordered association lists over a key equality
    (\<open>dget\<close>, \<open>dset\<close>, \<open>dpop\<close>): assigning to a present key keeps its position and its key object.
    The key equality is a parameter since \<open>Decimal\<close> keys that compare equal are one key
    (0.5 and 0.50) although they are different objects.
\<close>

named_theorems res_simps "how the result monad computes and inverts"

section \<open>Exceptions and results\<close>

text \<open>
  The exception classes the sources raise or let escape. The coded errors of the repository carry
  their stable code; the built-in ones carry the constant part of their message (values
  interpolated into messages are not modelled).
\<close>

datatype exn =
    ValueError string
  | HistoricalDataError string
  | ProductTermsError string
  | CaptureV2Error string
  | InvalidOperation
  | DecimalOverflow
  | DivisionByZero
  | OverflowError
  | TypeError
  | KeyError
  | IndexError
  | AttributeError
  | AssertionError

text \<open>\<open>except ValueError\<close>: the repository's coded errors are subclasses of \<open>ValueError\<close>.\<close>

fun is_value_error :: "exn \<Rightarrow> bool" where
  "is_value_error (ValueError _) = True"
| "is_value_error (HistoricalDataError _) = True"
| "is_value_error (ProductTermsError _) = True"
| "is_value_error (CaptureV2Error _) = True"
| "is_value_error _ = False"

type_synonym 'a res = "exn + 'a"

definition rbind :: "'a res \<Rightarrow> ('a \<Rightarrow> 'b res) \<Rightarrow> 'b res" where
  "rbind m f = (case m of Inl e \<Rightarrow> Inl e | Inr x \<Rightarrow> f x)"

definition ensure :: "bool \<Rightarrow> exn \<Rightarrow> unit res" where
  "ensure b e = (if b then Inr () else Inl e)"

definition of_option :: "exn \<Rightarrow> 'a option \<Rightarrow> 'a res" where
  "of_option e x = (case x of None \<Rightarrow> Inl e | Some y \<Rightarrow> Inr y)"

definition is_ok :: "'a res \<Rightarrow> bool" where
  "is_ok m = (case m of Inl _ \<Rightarrow> False | Inr _ \<Rightarrow> True)"

text \<open>\<open>try: m except (classes): raise e\<close>.\<close>

definition reraise :: "(exn \<Rightarrow> bool) \<Rightarrow> exn \<Rightarrow> 'a res \<Rightarrow> 'a res" where
  "reraise caught e m = (case m of Inl e' \<Rightarrow> Inl (if caught e' then e else e') | Inr x \<Rightarrow> Inr x)"

lemma rbind_simps [simp, res_simps]:
  "rbind (Inl e) f = Inl e"
  "rbind (Inr x) f = f x"
  by (simp_all add: rbind_def)

lemma rbind_eq_Inr [res_simps]: "rbind m f = Inr y \<longleftrightarrow> (\<exists>x. m = Inr x \<and> f x = Inr y)"
  by (cases m) auto

lemma rbind_eq_Inl [res_simps]:
  "rbind m f = Inl e \<longleftrightarrow> m = Inl e \<or> (\<exists>x. m = Inr x \<and> f x = Inl e)"
  by (cases m) auto

lemma rbind_assoc: "rbind (rbind m f) g = rbind m (\<lambda>x. rbind (f x) g)"
  by (cases m) auto

lemma rbind_Inr_right [simp]: "rbind m Inr = m"
  by (cases m) auto

lemma rbind_cong [fundef_cong]:
  "m = m' \<Longrightarrow> (\<And>x. m' = Inr x \<Longrightarrow> f x = f' x) \<Longrightarrow> rbind m f = rbind m' f'"
  by (cases m') auto

lemma ensure_eq [simp, res_simps]:
  "ensure b e = Inr u \<longleftrightarrow> b"
  "ensure b e = Inl e' \<longleftrightarrow> \<not> b \<and> e' = e"
  by (auto simp: ensure_def)

lemma ensure_bool [simp, res_simps]: "ensure True e = Inr ()" "ensure False e = Inl e"
  by (simp_all add: ensure_def)

lemma of_option_eq [simp, res_simps]:
  "of_option e x = Inr y \<longleftrightarrow> x = Some y"
  "of_option e x = Inl e' \<longleftrightarrow> x = None \<and> e' = e"
  by (auto simp: of_option_def split: option.splits)

lemma of_option_simps [simp]: "of_option e None = Inl e" "of_option e (Some y) = Inr y"
  by (simp_all add: of_option_def)

lemma is_ok_simps [simp]: "is_ok (Inr x)" "\<not> is_ok (Inl e)"
  by (simp_all add: is_ok_def)

lemma reraise_eq [simp, res_simps]:
  "reraise c e m = Inr x \<longleftrightarrow> m = Inr x"
  by (auto simp: reraise_def split: sum.splits)

section \<open>Loops that may raise\<close>

fun res_fold :: "('s \<Rightarrow> 'a \<Rightarrow> 's res) \<Rightarrow> 's \<Rightarrow> 'a list \<Rightarrow> 's res" where
  "res_fold f s [] = Inr s"
| "res_fold f s (x # xs) = rbind (f s x) (\<lambda>s'. res_fold f s' xs)"

fun res_map :: "('a \<Rightarrow> 'b res) \<Rightarrow> 'a list \<Rightarrow> 'b list res" where
  "res_map f [] = Inr []"
| "res_map f (x # xs) = rbind (f x) (\<lambda>y. rbind (res_map f xs) (\<lambda>ys. Inr (y # ys)))"

text \<open>\<open>for x in xs: check(x)\<close>: the checks run in order and the first failure is raised.\<close>

fun res_all :: "('a \<Rightarrow> unit res) \<Rightarrow> 'a list \<Rightarrow> unit res" where
  "res_all f [] = Inr ()"
| "res_all f (x # xs) = rbind (f x) (\<lambda>_. res_all f xs)"

lemma res_fold_append:
  "res_fold f s (xs @ ys) = rbind (res_fold f s xs) (\<lambda>s'. res_fold f s' ys)"
  by (induction xs arbitrary: s) (auto simp: rbind_assoc)

lemma res_map_Inr_length: "res_map f xs = Inr ys \<Longrightarrow> length ys = length xs"
  by (induction xs arbitrary: ys) (auto simp: res_simps)

lemma res_map_Inr_conv:
  "res_map f xs = Inr ys \<longleftrightarrow> list_all2 (\<lambda>x y. f x = Inr y) xs ys"
proof (induction xs arbitrary: ys)
  case Nil
  then show ?case by (cases ys) auto
next
  case (Cons x xs)
  then show ?case by (cases ys) (auto simp: rbind_eq_Inr)
qed

lemma res_map_ok: "(\<And>x. x \<in> set xs \<Longrightarrow> f x = Inr (g x)) \<Longrightarrow> res_map f xs = Inr (map g xs)"
  by (induction xs) auto

lemma res_all_Inr: "res_all f xs = Inr u \<longleftrightarrow> (\<forall>x \<in> set xs. f x = Inr ())"
  by (induction xs) (auto simp: rbind_eq_Inr)

text \<open>
  The contract of a component that consumes a sequence of inputs: its step keeps an invariant.
  Every run then keeps it, and every intermediate state of a successful run satisfies it.
\<close>

locale res_machine =
  fixes step :: "'s \<Rightarrow> 'a \<Rightarrow> 's res"
    and inv :: "'s \<Rightarrow> bool"
  assumes step_inv: "inv s \<Longrightarrow> step s x = Inr s' \<Longrightarrow> inv s'"
begin

lemma run_inv: "inv s \<Longrightarrow> res_fold step s xs = Inr s' \<Longrightarrow> inv s'"
proof (induction xs arbitrary: s)
  case Nil
  then show ?case by simp
next
  case (Cons x xs)
  from Cons.prems obtain t where "step s x = Inr t" and run: "res_fold step t xs = Inr s'"
    by (auto simp: rbind_eq_Inr)
  with Cons.prems(1) have "inv t" by (blast intro: step_inv)
  then show ?case using run by (rule Cons.IH)
qed

lemma prefix_inv:
  assumes "inv s" and "res_fold step s (xs @ ys) = Inr s'"
  shows "\<exists>t. res_fold step s xs = Inr t \<and> inv t \<and> res_fold step t ys = Inr s'"
  using assms by (auto simp: res_fold_append rbind_eq_Inr intro: run_inv)

end

text \<open>
  A machine with a quantity that every step moves by a known amount (a watermark, a counter, an
  ordinal): after a run it has moved by the sum over the inputs.
\<close>

locale res_counter = res_machine step inv
  for step :: "'s \<Rightarrow> 'a \<Rightarrow> 's res" and inv :: "'s \<Rightarrow> bool" +
  fixes count :: "'s \<Rightarrow> int"
    and weight :: "'a \<Rightarrow> int"
  assumes step_count: "inv s \<Longrightarrow> step s x = Inr s' \<Longrightarrow> count s' = count s + weight x"
begin

lemma run_count: "inv s \<Longrightarrow> res_fold step s xs = Inr s' \<Longrightarrow> count s' = count s + sum_list (map weight xs)"
proof (induction xs arbitrary: s)
  case Nil
  then show ?case by simp
next
  case (Cons x xs)
  from Cons.prems obtain t where t: "step s x = Inr t" and run: "res_fold step t xs = Inr s'"
    by (auto simp: rbind_eq_Inr)
  with Cons.prems(1) have "inv t" by (blast intro: step_inv)
  from Cons.IH [OF this run] step_count [OF Cons.prems(1) t] show ?case by simp
qed

end

section \<open>Dictionaries\<close>

fun dget :: "('k \<Rightarrow> 'k \<Rightarrow> bool) \<Rightarrow> ('k \<times> 'v) list \<Rightarrow> 'k \<Rightarrow> 'v option" where
  "dget eq [] k = None"
| "dget eq ((k', v) # d) k = (if eq k' k then Some v else dget eq d k)"

fun dset :: "('k \<Rightarrow> 'k \<Rightarrow> bool) \<Rightarrow> ('k \<times> 'v) list \<Rightarrow> 'k \<Rightarrow> 'v \<Rightarrow> ('k \<times> 'v) list" where
  "dset eq [] k v = [(k, v)]"
| "dset eq ((k', v') # d) k v = (if eq k' k then (k', v) # d else (k', v') # dset eq d k v)"

fun dpop :: "('k \<Rightarrow> 'k \<Rightarrow> bool) \<Rightarrow> ('k \<times> 'v) list \<Rightarrow> 'k \<Rightarrow> ('k \<times> 'v) list" where
  "dpop eq [] k = []"
| "dpop eq ((k', v') # d) k = (if eq k' k then d else (k', v') # dpop eq d k)"

definition dmem :: "('k \<Rightarrow> 'k \<Rightarrow> bool) \<Rightarrow> ('k \<times> 'v) list \<Rightarrow> 'k \<Rightarrow> bool" where
  "dmem eq d k = (dget eq d k \<noteq> None)"

text \<open>No two keys of a dictionary compare equal.\<close>

definition dwf :: "('k \<Rightarrow> 'k \<Rightarrow> bool) \<Rightarrow> ('k \<times> 'v) list \<Rightarrow> bool" where
  "dwf eq d = sorted_wrt (\<lambda>a b. \<not> eq (fst a) (fst b)) d"

lemma dwf_Nil [simp]: "dwf eq []"
  by (simp add: dwf_def)

lemma dwf_Cons: "dwf eq ((k, v) # d) \<longleftrightarrow> (\<forall>(k', v') \<in> set d. \<not> eq k k') \<and> dwf eq d"
  by (auto simp: dwf_def)

lemma dget_SomeD: "dget eq d k = Some v \<Longrightarrow> \<exists>k'. (k', v) \<in> set d \<and> eq k' k"
  by (induction d) (auto split: if_splits)

lemma dget_None: "dget eq d k = None \<longleftrightarrow> (\<forall>(k', v) \<in> set d. \<not> eq k' k)"
  by (induction d) (auto split: if_splits)

lemma dpop_subset: "set (dpop eq d k) \<subseteq> set d"
  by (induction d) (auto split: if_splits)

lemma dset_keysD:
  "(a, b) \<in> set (dset eq d k v) \<Longrightarrow> (a, b) = (k, v) \<or> (\<exists>v'. (a, v') \<in> set d)"
  by (induction d) (auto split: if_splits)

lemma dset_valuesD: "(a, b) \<in> set (dset eq d k v) \<Longrightarrow> b = v \<or> (a, b) \<in> set d"
  by (induction d) (auto split: if_splits)

text \<open>
  The laws of a dictionary whose key equality is a partial equivalence: \<open>=\<close> on strings and
  integers, numeric equality on \<open>Decimal\<close> (where a NaN is not equal to itself).
\<close>

locale dict_keys =
  fixes eq :: "'k \<Rightarrow> 'k \<Rightarrow> bool"
  assumes eq_sym: "eq a b \<Longrightarrow> eq b a"
    and eq_trans: "eq a b \<Longrightarrow> eq b c \<Longrightarrow> eq a c"
begin

lemma eq_cong: "eq k k' \<Longrightarrow> eq a k \<longleftrightarrow> eq a k'"
  by (blast intro: eq_sym eq_trans)

lemma eq_cross: "eq a k \<Longrightarrow> eq a k' \<Longrightarrow> eq k k'"
  by (blast intro: eq_sym eq_trans)

lemma dget_cong: "eq k k' \<Longrightarrow> dget eq d k = dget eq d k'"
  by (induction d) (auto simp: eq_cong)

lemma dget_dset_same: "eq k k \<Longrightarrow> eq k k' \<Longrightarrow> dget eq (dset eq d k v) k' = Some v"
  by (induction d) (auto simp: eq_cong dest: eq_cross)

lemma dget_dset_other: "\<not> eq k k' \<Longrightarrow> dget eq (dset eq d k v) k' = dget eq d k'"
  by (induction d) (auto simp: eq_cong dest: eq_cross)

lemma dget_dset:
  "eq k k \<Longrightarrow> dget eq (dset eq d k v) k' = (if eq k k' then Some v else dget eq d k')"
  by (simp add: dget_dset_same dget_dset_other)

lemma dwf_dset: "dwf eq d \<Longrightarrow> dwf eq (dset eq d k v)"
proof (induction d)
  case Nil
  then show ?case by (simp add: dwf_Cons)
next
  case (Cons p d)
  obtain k' v' where p: "p = (k', v')" by (cases p)
  show ?case
  proof (cases "eq k' k")
    case True
    then show ?thesis using Cons.prems by (simp add: p dwf_Cons)
  next
    case False
    have "\<not> eq k' a" if "(a, b) \<in> set (dset eq d k v)" for a b
      using dset_keysD [OF that] False Cons.prems by (auto simp: p dwf_Cons)
    with False Cons show ?thesis by (auto simp: p dwf_Cons)
  qed
qed

lemma dwf_dpop: "dwf eq d \<Longrightarrow> dwf eq (dpop eq d k)"
proof (induction d)
  case Nil
  then show ?case by simp
next
  case (Cons p d)
  obtain k' v' where p: "p = (k', v')" by (cases p)
  from Cons show ?case using dpop_subset [of eq d k] by (auto simp: p dwf_Cons)
qed

lemma dget_dpop_other: "\<not> eq k k' \<Longrightarrow> dget eq (dpop eq d k) k' = dget eq d k'"
  by (induction d) (auto simp: eq_cong dest: eq_cross)

lemma dget_dpop_same: "dwf eq d \<Longrightarrow> eq k k' \<Longrightarrow> dget eq (dpop eq d k) k' = None"
proof (induction d)
  case Nil
  then show ?case by simp
next
  case (Cons p d)
  obtain a v where p: "p = (a, v)" by (cases p)
  from Cons show ?case
    by (force simp: p dwf_Cons dget_None eq_cong dest: eq_cross intro: eq_sym eq_trans)
qed

lemma dget_dpop:
  "dwf eq d \<Longrightarrow> dget eq (dpop eq d k) k' = (if eq k k' then None else dget eq d k')"
  by (simp add: dget_dpop_same dget_dpop_other)

lemma dget_member: "dwf eq d \<Longrightarrow> (k, v) \<in> set d \<Longrightarrow> eq k k \<Longrightarrow> dget eq d k = Some v"
  by (induction d) (auto simp: dwf_Cons)

text \<open>
  The order of a dictionary is not observable through its keys: lookups, assignments and removals
  of two dictionaries with the same items agree.
\<close>

lemma dwf_count: "dwf eq d \<longleftrightarrow> (\<forall>k. length (filter (\<lambda>p. eq (fst p) k) d) \<le> 1)"
proof (induction d)
  case Nil
  then show ?case by simp
next
  case (Cons p d)
  have none: "(\<forall>q \<in> set d. \<not> eq (fst p) (fst q)) \<longleftrightarrow>
      (\<forall>k. eq (fst p) k \<longrightarrow> filter (\<lambda>q. eq (fst q) k) d = [])" (is "?l \<longleftrightarrow> ?r")
  proof
    assume ?l
    then show ?r by (auto simp: filter_empty_conv dest: eq_sym eq_trans)
  next
    assume r: ?r
    show ?l
    proof
      fix q assume q: "q \<in> set d"
      show "\<not> eq (fst p) (fst q)"
      proof
        assume e: "eq (fst p) (fst q)"
        then have "eq (fst q) (fst q)" by (blast intro: eq_sym eq_trans)
        with e r q show False by (auto simp: filter_empty_conv)
      qed
    qed
  qed
  have "dwf eq (p # d) \<longleftrightarrow> (\<forall>q \<in> set d. \<not> eq (fst p) (fst q)) \<and> dwf eq d"
    by (simp add: dwf_def)
  also have "\<dots> \<longleftrightarrow> (\<forall>k. length (filter (\<lambda>q. eq (fst q) k) (p # d)) \<le> 1)"
    unfolding none Cons.IH by (auto simp: le_Suc_eq)
  finally show ?case .
qed

lemma length_filter_mset: "mset d = mset d' \<Longrightarrow> length (filter P d) = length (filter P d')"
  by (metis mset_filter size_mset)

lemma dwf_perm: "mset d = mset d' \<Longrightarrow> dwf eq d = dwf eq d'"
  by (simp only: dwf_count length_filter_mset [of d d'])

lemma dwf_unique: "dwf eq d \<Longrightarrow> p \<in> set d \<Longrightarrow> q \<in> set d \<Longrightarrow> eq (fst p) (fst q) \<Longrightarrow> p = q"
  by (induction d) (auto simp: dwf_def dest: eq_sym)

lemma dget_Some_iff:
  "dwf eq d \<Longrightarrow> dget eq d k = Some v \<longleftrightarrow> (\<exists>k'. (k', v) \<in> set d \<and> eq k' k)"
proof
  assume "dget eq d k = Some v"
  then show "\<exists>k'. (k', v) \<in> set d \<and> eq k' k" by (rule dget_SomeD)
next
  assume wf: "dwf eq d" and "\<exists>k'. (k', v) \<in> set d \<and> eq k' k"
  then obtain a where a: "(a, v) \<in> set d" "eq a k" by blast
  then obtain w where w: "dget eq d k = Some w" using dget_None [of eq d k] by force
  then obtain b where b: "(b, w) \<in> set d" "eq b k" by (auto dest: dget_SomeD)
  from a(2) b(2) have "eq a b" by (blast intro: eq_sym eq_trans)
  with dwf_unique [OF wf a(1) b(1)] w show "dget eq d k = Some v" by simp
qed

lemma dget_perm:
  assumes "dwf eq d" and "mset d = mset d'"
  shows "dget eq d k = dget eq d' k"
proof -
  have "dwf eq d'" using assms(1) unfolding dwf_perm [OF assms(2)] .
  with assms(1) have "dget eq d k = Some v \<longleftrightarrow> dget eq d' k = Some v" for v
    by (simp add: dget_Some_iff mset_eq_setD [OF assms(2)])
  then show ?thesis by (metis not_None_eq)
qed

lemma dwf_hd: "dwf eq (p # d) \<Longrightarrow> eq (fst p) k \<Longrightarrow> q \<in> set d \<Longrightarrow> \<not> eq (fst q) k"
proof
  assume "dwf eq (p # d)" "q \<in> set d" and e: "eq (fst p) k" "eq (fst q) k"
  then have "\<not> eq (fst p) (fst q)" by (simp add: dwf_def)
  with e show False by (blast intro: eq_sym eq_trans)
qed

lemma dset_map:
  "dwf eq d \<Longrightarrow> dget eq d k \<noteq> None \<Longrightarrow>
   dset eq d k v = map (\<lambda>p. if eq (fst p) k then (fst p, v) else p) d"
proof (induction d)
  case (Cons p d)
  have "map (\<lambda>p. if eq (fst p) k then (fst p, v) else p) d = d" if "eq (fst p) k"
    using dwf_hd [OF Cons.prems(1) that] by (intro map_idI) auto
  with Cons show ?case by (cases p) (auto simp: dwf_Cons)
qed simp

lemma dset_new: "dget eq d k = None \<Longrightarrow> dset eq d k v = d @ [(k, v)]"
  by (induction d) (auto split: if_splits)

lemma dpop_filter: "dwf eq d \<Longrightarrow> dpop eq d k = filter (\<lambda>p. \<not> eq (fst p) k) d"
proof (induction d)
  case (Cons p d)
  have "filter (\<lambda>p. \<not> eq (fst p) k) d = d" if "eq (fst p) k"
    using dwf_hd [OF Cons.prems(1) that] by (intro filter_True) auto
  with Cons show ?case by (cases p) (auto simp: dwf_Cons)
qed simp

lemma dset_perm:
  assumes "dwf eq d" and "mset d = mset d'"
  shows "mset (dset eq d k v) = mset (dset eq d' k v)"
proof -
  have wf: "dwf eq d'" using assms(1) unfolding dwf_perm [OF assms(2)] .
  have get: "dget eq d' k = dget eq d k" by (rule dget_perm [OF assms, symmetric])
  show ?thesis
  proof (cases "dget eq d k = None")
    case True
    then show ?thesis using assms(2) get by (simp add: dset_new)
  next
    case False
    then show ?thesis using assms wf get by (simp add: dset_map)
  qed
qed

lemma dpop_perm:
  assumes "dwf eq d" and "mset d = mset d'"
  shows "mset (dpop eq d k) = mset (dpop eq d' k)"
  using assms dwf_perm [OF assms(2)] by (simp add: dpop_filter)

end

interpretation plain: dict_keys "(=)"
  by unfold_locales auto

abbreviation sget :: "('k \<times> 'v) list \<Rightarrow> 'k \<Rightarrow> 'v option" where
  "sget \<equiv> dget (=)"

abbreviation sset :: "('k \<times> 'v) list \<Rightarrow> 'k \<Rightarrow> 'v \<Rightarrow> ('k \<times> 'v) list" where
  "sset \<equiv> dset (=)"

abbreviation spop :: "('k \<times> 'v) list \<Rightarrow> 'k \<Rightarrow> ('k \<times> 'v) list" where
  "spop \<equiv> dpop (=)"

lemma sget_sset [simp]: "sget (sset d k v) k' = (if k = k' then Some v else sget d k')"
  by (simp add: plain.dget_dset)

lemma dwf_plain: "dwf (=) d \<longleftrightarrow> distinct (map fst d)"
  by (induction d) (force simp: dwf_Cons image_iff)+

lemma sget_mem: "sget d k = Some v \<Longrightarrow> (k, v) \<in> set d"
  using dget_SomeD by fastforce

text \<open>\<open>collections.Counter\<close>: \<open>c[k] += n\<close>, a missing key counts zero.\<close>

definition counter_get :: "('k \<times> int) list \<Rightarrow> 'k \<Rightarrow> int" where
  "counter_get c k = (case sget c k of None \<Rightarrow> 0 | Some n \<Rightarrow> n)"

definition counter_add :: "('k \<times> int) list \<Rightarrow> 'k \<Rightarrow> int \<Rightarrow> ('k \<times> int) list" where
  "counter_add c k n = sset c k (counter_get c k + n)"

lemma counter_get_add [simp]:
  "counter_get (counter_add c k n) k' = (if k = k' then counter_get c k + n else counter_get c k')"
  by (simp add: counter_get_def counter_add_def)

lemma counter_get_Nil [simp]: "counter_get [] k = 0"
  by (simp add: counter_get_def)

end
