(* ===== verification/Py_Strings.thy ===== *)
theory Py_Strings
  imports Prelude
begin

text \<open>
  The Python string operations the sources rely on, over \<open>string\<close> (a list of bytes: a Python
  \<open>str\<close> is represented by its UTF-8 bytes, whose lexicographic order is the code-point order that
  \<open>sorted\<close> uses). Decimal digits, \<open>str(int)\<close>, \<open>int(str)\<close>, \<open>str.strip\<close>, \<open>str.replace\<close> of a
  character by nothing. Only ASCII digits and ASCII white space are recognised: CPython also
  accepts other Unicode digits and spaces.
\<close>

section \<open>Digits\<close>

definition digit_char :: "nat \<Rightarrow> char" where
  "digit_char d = ''0123456789'' ! min d 9"

definition is_digit :: "char \<Rightarrow> bool" where
  "is_digit c = (c \<in> set ''0123456789'')"

definition digit_val :: "char \<Rightarrow> nat" where
  "digit_val c = length (takeWhile (\<lambda>d. d \<noteq> c) ''012345678'')"

definition digits_val :: "string \<Rightarrow> nat" where
  "digits_val s = foldl (\<lambda>n c. 10 * n + digit_val c) 0 s"

fun nat_str :: "nat \<Rightarrow> string" where
  "nat_str n = (if n < 10 then [digit_char n] else nat_str (n div 10) @ [digit_char (n mod 10)])"

declare nat_str.simps [simp del]

text \<open>The number of digits of a coefficient; zero is written with one digit.\<close>

fun ndigits :: "nat \<Rightarrow> nat" where
  "ndigits n = (if n < 10 then 1 else Suc (ndigits (n div 10)))"

declare ndigits.simps [simp del]

lemma digit_cases:
  assumes "d < (10::nat)"
  shows "d \<in> set [0..<10]"
  using assms by simp

lemma upt_ten: "[0..<10] = [0, 1, 2, 3, 4, 5, 6, 7, 8, 9::nat]"
  by (simp add: upt_conv_Cons)

lemma digit_val_char [simp]: "d < 10 \<Longrightarrow> digit_val (digit_char d) = d"
  using digit_cases [of d] unfolding upt_ten by (auto simp: digit_val_def digit_char_def)

lemma is_digit_char [simp]: "is_digit (digit_char d)"
  unfolding is_digit_def digit_char_def by (rule nth_mem) simp

lemma digit_char_val [simp]: "is_digit c \<Longrightarrow> digit_char (digit_val c) = c"
  by (auto simp: is_digit_def digit_val_def digit_char_def)

lemma digit_val_less [simp]: "digit_val c < 10"
proof -
  have "length (takeWhile (\<lambda>d. d \<noteq> c) ''012345678'') \<le> length ''012345678''" by (rule length_takeWhile_le)
  then show ?thesis by (simp add: digit_val_def)
qed

lemma digits_val_Nil [simp]: "digits_val [] = 0"
  by (simp add: digits_val_def)

lemma digits_val_snoc [simp]: "digits_val (s @ [c]) = 10 * digits_val s + digit_val c"
  by (simp add: digits_val_def)

lemma digits_val_append: "digits_val (s @ t) = digits_val s * 10 ^ length t + digits_val t"
proof (induction t rule: rev_induct)
  case Nil
  then show ?case by simp
next
  case (snoc c t)
  have "digits_val (s @ t @ [c]) = 10 * digits_val (s @ t) + digit_val c"
    using digits_val_snoc [of "s @ t" c] by simp
  with snoc show ?case by simp
qed

lemma digits_val_replicate_zero [simp]: "digits_val (replicate n (CHR ''0'')) = 0"
proof (induction n)
  case 0
  then show ?case by simp
next
  case (Suc n)
  then show ?case
    using digits_val_snoc [of "replicate n (CHR ''0'')" "CHR ''0''"]
    by (simp add: replicate_append_same digit_val_def)
qed

lemma digits_val_nat_str [simp]: "digits_val (nat_str n) = n"
proof (induction n rule: nat_str.induct)
  case (1 n)
  show ?case
  proof (cases "n < 10")
    case True
    then show ?thesis
      using digits_val_snoc [of "[]" "digit_char n"] by (simp add: nat_str.simps [of n])
  next
    case False
    with 1 show ?thesis by (simp add: nat_str.simps [of n])
  qed
qed

lemma nat_str_digits: "c \<in> set (nat_str n) \<Longrightarrow> is_digit c"
proof (induction n rule: nat_str.induct)
  case (1 n)
  then show ?case by (cases "n < 10") (auto simp: nat_str.simps [of n])
qed

lemma nat_str_all_digits [simp]: "list_all is_digit (nat_str n)"
  by (auto simp: list_all_iff nat_str_digits)

lemma nat_str_nonempty [simp]: "nat_str n \<noteq> []"
  by (subst nat_str.simps) simp

lemma length_nat_str [simp]: "length (nat_str n) = ndigits n"
proof (induction n rule: nat_str.induct)
  case (1 n)
  then show ?case by (simp add: nat_str.simps [of n] ndigits.simps [of n])
qed

lemma nat_str_inject [simp]: "nat_str m = nat_str n \<longleftrightarrow> m = n"
  using digits_val_nat_str by metis

lemma ndigits_pos [simp]: "0 < ndigits n"
  by (subst ndigits.simps) simp

lemma ndigits_upper: "n < 10 ^ ndigits n"
proof (induction n rule: ndigits.induct)
  case (1 n)
  show ?case
  proof (cases "n < 10")
    case True
    then show ?thesis by (simp add: ndigits.simps [of n])
  next
    case False
    with 1 have "n div 10 < 10 ^ ndigits (n div 10)" by simp
    then have "n < 10 * 10 ^ ndigits (n div 10)" by linarith
    with False show ?thesis by (simp add: ndigits.simps [of n])
  qed
qed

lemma ndigits_lower: "0 < n \<Longrightarrow> 10 ^ (ndigits n - Suc 0) \<le> n"
proof (induction n rule: ndigits.induct)
  case (1 n)
  show ?case
  proof (cases "n < 10")
    case True
    with 1 show ?thesis by (simp add: ndigits.simps [of n])
  next
    case False
    then have pos: "0 < n div 10" by simp
    with 1 False have "10 ^ (ndigits (n div 10) - 1) \<le> n div 10" by simp
    then have "10 * 10 ^ (ndigits (n div 10) - 1) \<le> n" by linarith
    moreover have "(10::nat) ^ ndigits (n div 10) = 10 * 10 ^ (ndigits (n div 10) - Suc 0)"
      by (metis One_nat_def Suc_pred ndigits_pos power_Suc)
    ultimately show ?thesis using False by (simp add: ndigits.simps [of n])
  qed
qed

lemma ndigits_le: "n < 10 ^ k \<Longrightarrow> 0 < k \<Longrightarrow> ndigits n \<le> k"
proof (rule ccontr)
  assume n: "n < 10 ^ k" and k: "0 < k" and "\<not> ndigits n \<le> k"
  then have less: "k \<le> ndigits n - 1" by simp
  show False
  proof (cases "n = 0")
    case True
    with \<open>\<not> ndigits n \<le> k\<close> k show False by (simp add: ndigits.simps [of 0])
  next
    case False
    then have "10 ^ (ndigits n - 1) \<le> n" by (simp add: ndigits_lower)
    moreover have "(10::nat) ^ k \<le> 10 ^ (ndigits n - 1)" using less by (intro power_increasing) auto
    ultimately show False using n by linarith
  qed
qed

lemma ndigits_le_iff: "0 < k \<Longrightarrow> ndigits n \<le> k \<longleftrightarrow> n < 10 ^ k"
proof
  assume "0 < k" and "ndigits n \<le> k"
  then have "(10::nat) ^ ndigits n \<le> 10 ^ k" by (intro power_increasing) auto
  with ndigits_upper [of n] show "n < 10 ^ k" by linarith
qed (rule ndigits_le)

lemma ndigits_unique: "0 < n \<Longrightarrow> 10 ^ k \<le> n \<Longrightarrow> n < 10 ^ Suc k \<Longrightarrow> ndigits n = Suc k"
proof -
  assume "0 < n" and low: "10 ^ k \<le> n" and high: "n < 10 ^ Suc k"
  from high have "ndigits n \<le> Suc k" by (intro ndigits_le) auto
  moreover have "\<not> ndigits n \<le> k"
  proof
    assume le: "ndigits n \<le> k"
    have "0 < k" using le ndigits_pos [of n] by linarith
    with le have "n < 10 ^ k" by (simp add: ndigits_le_iff)
    with low show False by simp
  qed
  ultimately show ?thesis by simp
qed

section \<open>Stripping and removing characters\<close>

definition is_space :: "char \<Rightarrow> bool" where
  "is_space c = (c = CHR '' '' \<or> c = CHR 0x09 \<or> c = CHR 0x0A \<or> c = CHR 0x0B \<or> c = CHR 0x0C
     \<or> c = CHR 0x0D \<or> c = CHR 0x1C \<or> c = CHR 0x1D \<or> c = CHR 0x1E \<or> c = CHR 0x1F)"

definition strip :: "string \<Rightarrow> string" where
  "strip s = rev (dropWhile is_space (rev (dropWhile is_space s)))"

definition remove_char :: "char \<Rightarrow> string \<Rightarrow> string" where
  "remove_char c s = filter (\<lambda>x. x \<noteq> c) s"

lemma digit_not_space: "is_digit c \<Longrightarrow> \<not> is_space c"
  by (auto simp: is_digit_def is_space_def)

lemma dropWhile_id: "s = [] \<or> \<not> P (hd s) \<Longrightarrow> dropWhile P s = s"
  by (cases s) auto

lemma strip_id: "s = [] \<or> (\<not> is_space (hd s) \<and> \<not> is_space (last s)) \<Longrightarrow> strip s = s"
  by (auto simp: strip_def dropWhile_id hd_rev)

lemma strip_no_space: "(\<And>c. c \<in> set s \<Longrightarrow> \<not> is_space c) \<Longrightarrow> strip s = s"
  by (cases "s = []") (auto intro!: strip_id)

section \<open>\<open>str(int)\<close> and \<open>int(str)\<close>\<close>

definition int_str :: "int \<Rightarrow> string" where
  "int_str i = (if i < 0 then CHR ''-'' # nat_str (nat (- i)) else nat_str (nat i))"

text \<open>
  The digit part of \<open>int(str)\<close>: one or more digits, single underscores allowed between them.
\<close>

fun int_digits :: "string \<Rightarrow> string option" where
  "int_digits [] = None"
| "int_digits [c] = (if is_digit c then Some [c] else None)"
| "int_digits (c # d # s) =
     (if \<not> is_digit c then None
      else if d = CHR ''_'' then map_option (\<lambda>t. c # t) (int_digits s)
      else map_option (\<lambda>t. c # t) (int_digits (d # s)))"

text \<open>
  \<open>int(str)\<close>: \<open>None\<close> stands for the \<open>ValueError\<close>, which CPython also raises for more than 4300
  digits.
\<close>

definition int_of_str :: "string \<Rightarrow> int option" where
  "int_of_str s =
     (let t = strip s;
          neg = (t \<noteq> [] \<and> hd t = CHR ''-'');
          body = (if t \<noteq> [] \<and> (hd t = CHR ''-'' \<or> hd t = CHR ''+'') then tl t else t)
      in case int_digits body of
           None \<Rightarrow> None
         | Some ds \<Rightarrow>
             (if 4300 < length ds then None
              else Some (if neg then - int (digits_val ds) else int (digits_val ds))))"

lemma int_digits_digits: "s \<noteq> [] \<Longrightarrow> list_all is_digit s \<Longrightarrow> int_digits s = Some s"
proof (induction s rule: int_digits.induct)
  case (3 c d s)
  then have "d \<noteq> CHR ''_''" by (auto simp: is_digit_def)
  with 3 show ?case by simp
qed auto

lemma nat_str_hd: "is_digit (hd (nat_str n))"
  by (rule nat_str_digits [OF hd_in_set]) simp

lemma strip_nat_str [simp]: "strip (nat_str n) = nat_str n"
  by (rule strip_no_space) (auto dest: nat_str_digits digit_not_space)

lemma strip_int_str [simp]: "strip (int_str i) = int_str i"
proof (rule strip_no_space)
  fix c assume "c \<in> set (int_str i)"
  then consider "c = CHR ''-''" | "is_digit c"
    by (auto simp: int_str_def dest: nat_str_digits split: if_splits)
  then show "\<not> is_space c" by cases (auto simp: is_space_def is_digit_def)
qed

text \<open>\<open>int(str(i)) == i\<close> below CPython's limit on the number of digits.\<close>

lemma int_of_int_str: "ndigits (nat \<bar>i\<bar>) \<le> 4300 \<Longrightarrow> int_of_str (int_str i) = Some i"
proof -
  assume len: "ndigits (nat \<bar>i\<bar>) \<le> 4300"
  let ?d = "nat_str (nat \<bar>i\<bar>)"
  have ds: "int_digits ?d = Some ?d" by (rule int_digits_digits) auto
  have hd: "hd ?d \<noteq> CHR ''-''" "hd ?d \<noteq> CHR ''+''"
    using nat_str_hd [of "nat \<bar>i\<bar>"] by (auto simp: is_digit_def)
  show ?thesis
  proof (cases "i < 0")
    case True
    then have "int_str i = CHR ''-'' # ?d" by (simp add: int_str_def)
    with True ds len show ?thesis
      using strip_int_str [of i] by (simp add: int_of_str_def Let_def)
  next
    case False
    then have "int_str i = ?d" by (simp add: int_str_def)
    with False ds len hd show ?thesis by (simp add: int_of_str_def Let_def)
  qed
qed

lemma int_str_inject [simp]: "int_str i = int_str j \<longleftrightarrow> i = j"
proof
  assume eq: "int_str i = int_str j"
  have neg: "hd (nat_str n) \<noteq> CHR ''-''" for n
    using nat_str_hd [of n] by (auto simp: is_digit_def)
  have neg': "CHR ''-'' # s \<noteq> nat_str n" for s n
    using neg [of n] by (metis list.sel(1))
  from eq neg' neg' [symmetric] show "i = j"
    by (auto simp: int_str_def split: if_splits)
qed simp

lemma int_str_nonempty [simp]: "int_str i \<noteq> []"
  by (simp add: int_str_def)

end
