(* ===== verification/Py_Floats.thy ===== *)
theory Py_Floats
  imports Py_Strings "HOL-Library.Log_Nat"
begin

text \<open>
  Python floats, as far as the sources meet them: \<open>json.loads\<close> reads numbers with a fraction or an
  exponent as binary64 values, \<open>str\<close> writes the shortest text that reads back, \<open>int\<close> truncates.
  A finite float is its sign, mantissa and binary exponent as \<open>float_of_ratio\<close> produces them.
\<close>

datatype pyfloat =
    Flt bool nat int      \<comment> \<open>negative?, mantissa, binary exponent\<close>
  | FInf bool
  | FNaN

section \<open>Rounding to binary64\<close>

text \<open>The quotient rounded to the nearest integer, ties to even.\<close>

definition div_half_even :: "nat \<Rightarrow> nat \<Rightarrow> nat" where
  "div_half_even a b =
     (let q = a div b; r = a mod b
      in if 2 * r < b then q else if b < 2 * r then Suc q else if even q then q else Suc q)"

definition float_of_ratio :: "bool \<Rightarrow> nat \<Rightarrow> nat \<Rightarrow> pyfloat" where
  "float_of_ratio neg num den =
     (if num = 0 then Flt neg 0 0
      else
        (let e0 = int (floorlog 2 num) - int (floorlog 2 den) - 53;
             e1 = (if 2 ^ 53 * den * 2 ^ nat e0 \<le> num * 2 ^ nat (- e0) then e0 + 1 else e0);
             e2 = max e1 (-1074);
             m = div_half_even (num * 2 ^ nat (- e2)) (den * 2 ^ nat e2)
         in if m = 2 ^ 53
            then (if 971 < e2 + 1 then FInf neg else Flt neg (2 ^ 52) (e2 + 1))
            else (if 971 < e2 then FInf neg else if m = 0 then Flt neg 0 0 else Flt neg m e2)))"

text \<open>The value of \<open>digits * 10 ^ e10\<close>, which is how a decimal literal reads.\<close>

definition float_of_decimal :: "bool \<Rightarrow> nat \<Rightarrow> int \<Rightarrow> pyfloat" where
  "float_of_decimal neg c e10 = float_of_ratio neg (c * 10 ^ nat e10) (10 ^ nat (- e10))"

fun float_num :: "pyfloat \<Rightarrow> nat" where
  "float_num (Flt _ m e) = m * 2 ^ nat e"
| "float_num _ = 0"

fun float_den :: "pyfloat \<Rightarrow> nat" where
  "float_den (Flt _ m e) = 2 ^ nat (- e)"
| "float_den _ = 1"

section \<open>\<open>str(float)\<close>\<close>

fun drop_zeros :: "nat \<Rightarrow> int \<Rightarrow> nat \<times> int" where
  "drop_zeros d e = (if d \<noteq> 0 \<and> d mod 10 = 0 then drop_zeros (d div 10) (e + 1) else (d, e))"

declare drop_zeros.simps [simp del]

text \<open>
  The shortest decimal that rounds to the given positive float: the first length from 1 to 17
  digits whose nearest decimal reads back.
\<close>

definition shortest_digits :: "pyfloat \<Rightarrow> nat \<times> int" where
  "shortest_digits x =
     (let num = float_num x; den = float_den x;
          k0 = int (ndigits num) - int (ndigits den);
          k = (if den * 10 ^ nat k0 \<le> num * 10 ^ nat (- k0) then k0 + 1 else k0);
          cand = (\<lambda>n. (div_half_even (num * 10 ^ nat (int n - k)) (den * 10 ^ nat (k - int n)), k - int n));
          fits = (\<lambda>n. case cand n of (d, e) \<Rightarrow> float_of_decimal False d e = x)
      in case_prod drop_zeros (cand (case filter fits [1..<17] of [] \<Rightarrow> 17 | n # _ \<Rightarrow> n)))"

definition float_digits_str :: "nat \<times> int \<Rightarrow> string" where
  "float_digits_str p =
     (let ds = nat_str (fst p); n = int (length ds); pt = n + snd p
      in if pt \<le> -4 \<or> 16 < pt then
           (let x = pt - 1; xs = nat_str (nat \<bar>x\<bar>)
            in take 1 ds @ (if n = 1 then [] else CHR ''.'' # drop 1 ds) @
               (if x < 0 then ''e-'' else ''e+'') @ (if length xs = 1 then CHR ''0'' # xs else xs))
         else if pt \<le> 0 then ''0.'' @ replicate (nat (- pt)) (CHR ''0'') @ ds
         else if n \<le> pt then ds @ replicate (nat (pt - n)) (CHR ''0'') @ ''.0''
         else take (nat pt) ds @ ''.'' @ drop (nat pt) ds)"

definition float_repr :: "pyfloat \<Rightarrow> string" where
  "float_repr x =
     (case x of
        FNaN \<Rightarrow> ''nan''
      | FInf neg \<Rightarrow> (if neg then ''-inf'' else ''inf'')
      | Flt neg m e \<Rightarrow>
          (if neg then ''-'' else []) @
          (if m = 0 then ''0.0'' else float_digits_str (shortest_digits (Flt False m e))))"

section \<open>Value, truncation, equality\<close>

text \<open>\<open>int(float)\<close>: \<open>None\<close> is the error of an infinity or a NaN.\<close>

fun float_trunc :: "pyfloat \<Rightarrow> int option" where
  "float_trunc (Flt neg m e) =
     Some (let q = int (float_num (Flt neg m e) div float_den (Flt neg m e)) in if neg then - q else q)"
| "float_trunc _ = None"

fun float_is_int :: "pyfloat \<Rightarrow> int \<Rightarrow> bool" where
  "float_is_int (Flt neg m e) i =
     ((if neg then - int (m * 2 ^ nat e) else int (m * 2 ^ nat e)) = i * int (2 ^ nat (- e)))"
| "float_is_int _ i = False"

fun float_eq :: "pyfloat \<Rightarrow> pyfloat \<Rightarrow> bool" where
  "float_eq (Flt s1 m1 e1) (Flt s2 m2 e2) =
     ((if s1 then - int (m1 * 2 ^ nat e1 * 2 ^ nat (- e2)) else int (m1 * 2 ^ nat e1 * 2 ^ nat (- e2))) =
      (if s2 then - int (m2 * 2 ^ nat e2 * 2 ^ nat (- e1)) else int (m2 * 2 ^ nat e2 * 2 ^ nat (- e1))))"
| "float_eq (FInf s) (FInf t) = (s = t)"
| "float_eq _ _ = False"

lemma div_half_even_exact: "0 < b \<Longrightarrow> b dvd a \<Longrightarrow> div_half_even a b * b = a"
  by (auto simp: div_half_even_def Let_def)

lemma float_trunc_of_int: "float_is_int x i \<Longrightarrow> float_trunc x = Some i"
proof (cases x)
  case (Flt neg m e)
  assume "float_is_int x i"
  with Flt have eq: "(if neg then - int (m * 2 ^ nat e) else int (m * 2 ^ nat e)) = i * int (2 ^ nat (- e))"
    by simp
  have *: "int (m * 2 ^ nat e) = \<bar>i\<bar> * int (2 ^ nat (- e))"
    using arg_cong [OF eq, of abs] by (cases neg) (auto simp: abs_mult)
  then have "int (m * 2 ^ nat e) div int (2 ^ nat (- e)) = \<bar>i\<bar>"
    by (metis nonzero_mult_div_cancel_right of_nat_eq_0_iff power_eq_0_iff zero_neq_numeral)
  then have q: "int (m * 2 ^ nat e div 2 ^ nat (- e)) = \<bar>i\<bar>"
    by (simp add: zdiv_int)
  have "\<bar>i\<bar> = (if neg then - i else i)"
  proof (cases neg)
    case True
    with eq have "i * int (2 ^ nat (- e)) \<le> 0" by (metis neg_le_0_iff_le of_nat_0_le_iff)
    then have "i \<le> 0" by (simp add: mult_le_0_iff)
    with True show ?thesis by simp
  next
    case False
    with eq have "0 \<le> i * int (2 ^ nat (- e))" by (metis of_nat_0_le_iff)
    then have "0 \<le> i" by (simp add: zero_le_mult_iff)
    with False show ?thesis by simp
  qed
  with q Flt show ?thesis by (auto simp: Let_def simp del: of_nat_mult of_nat_power)
qed simp_all

end
