(* ===== verification/Json.thy ===== *)
theory Json
  imports Py_Floats
begin

text \<open>
  The values of \<open>json\<close>: what \<open>json.loads\<close> returns and what the sources build and write. A Python
  dict is the list of its items in insertion order (\<open>jobj\<close>), \<open>d.get(k)\<close> is \<open>oget d k\<close>.

  \<^item> The Python views of a value the sources use: truth (\<open>truthy\<close>), \<open>==\<close> (\<open>py_eq\<close>, where
    \<open>True == 1 == 1.0\<close> and dicts compare without order), \<open>str\<close> and \<open>repr\<close>, membership of a set
    of strings (\<open>in_names\<close>, which raises \<open>TypeError\<close> on an unhashable value).
  \<^item> \<open>canonical_json\<close>, the printer all content hashes are taken of: sorted keys, no spaces, no
    escaping of non-ASCII text.
  \<^item> \<open>json_loads\<close>, the decoder (without the recursion limit of the interpreter).
\<close>

datatype json =
    JNull
  | JBool bool
  | JInt int
  | JFloat pyfloat
  | JStr string
  | JArr "json list"
  | JObj "(string \<times> json) list"

type_synonym jobj = "(string \<times> json) list"

section \<open>Access\<close>

definition oget :: "jobj \<Rightarrow> string \<Rightarrow> json" where
  "oget d k = (case sget d k of None \<Rightarrow> JNull | Some v \<Rightarrow> v)"

definition oget_default :: "jobj \<Rightarrow> string \<Rightarrow> json \<Rightarrow> json" where
  "oget_default d k v = (case sget d k of None \<Rightarrow> v | Some w \<Rightarrow> w)"

definition ohas :: "jobj \<Rightarrow> string \<Rightarrow> bool" where
  "ohas d k = (sget d k \<noteq> None)"

text \<open>\<open>d[k]\<close>: a missing key raises.\<close>

definition oindex :: "jobj \<Rightarrow> string \<Rightarrow> json res" where
  "oindex d k = of_option KeyError (sget d k)"

fun as_obj :: "json \<Rightarrow> jobj option" where
  "as_obj (JObj d) = Some d"
| "as_obj _ = None"

fun as_arr :: "json \<Rightarrow> json list option" where
  "as_arr (JArr xs) = Some xs"
| "as_arr _ = None"

fun as_str :: "json \<Rightarrow> string option" where
  "as_str (JStr s) = Some s"
| "as_str _ = None"

text \<open>\<open>isinstance(x, str) and x\<close>.\<close>

definition nonempty_str :: "json \<Rightarrow> bool" where
  "nonempty_str j = (case j of JStr s \<Rightarrow> s \<noteq> [] | _ \<Rightarrow> False)"

text \<open>\<open>x in {names}\<close>: a list or a dict is unhashable.\<close>

fun in_names :: "json \<Rightarrow> string list \<Rightarrow> bool res" where
  "in_names (JStr s) ns = Inr (s \<in> set ns)"
| "in_names (JArr _) ns = Inl TypeError"
| "in_names (JObj _) ns = Inl TypeError"
| "in_names _ ns = Inr False"

text \<open>\<open>bool(x)\<close>.\<close>

fun truthy :: "json \<Rightarrow> bool" where
  "truthy JNull = False"
| "truthy (JBool b) = b"
| "truthy (JInt i) = (i \<noteq> 0)"
| "truthy (JFloat f) = (\<not> float_is_int f 0)"
| "truthy (JStr s) = (s \<noteq> [])"
| "truthy (JArr xs) = (xs \<noteq> [])"
| "truthy (JObj d) = (d \<noteq> [])"

text \<open>\<open>==\<close>: booleans are the integers 0 and 1, numbers compare by value, dicts ignore the order.\<close>

definition num_of :: "json \<Rightarrow> int option" where
  "num_of j = (case j of JBool b \<Rightarrow> Some (if b then 1 else 0) | JInt i \<Rightarrow> Some i | _ \<Rightarrow> None)"

fun py_eq :: "json \<Rightarrow> json \<Rightarrow> bool" where
  "py_eq (JArr xs) y = (case y of JArr ys \<Rightarrow> list_all2 py_eq xs ys | _ \<Rightarrow> False)"
| "py_eq (JObj d) y =
     (case y of
        JObj d' \<Rightarrow> length d = length d' \<and>
          list_all (\<lambda>(k, v). case sget d' k of None \<Rightarrow> False | Some w \<Rightarrow> py_eq v w) d
      | _ \<Rightarrow> False)"
| "py_eq JNull y = (y = JNull)"
| "py_eq (JStr s) y = (y = JStr s)"
| "py_eq (JBool b) y =
     (case y of JFloat f \<Rightarrow> float_is_int f (if b then 1 else 0) | _ \<Rightarrow> num_of y = Some (if b then 1 else 0))"
| "py_eq (JInt i) y = (case y of JFloat f \<Rightarrow> float_is_int f i | _ \<Rightarrow> num_of y = Some i)"
| "py_eq (JFloat f) y =
     (case y of
        JFloat g \<Rightarrow> float_eq f g
      | _ \<Rightarrow> (case num_of y of None \<Rightarrow> False | Some i \<Rightarrow> float_is_int f i))"

lemma py_eq_JStr [simp]: "py_eq y (JStr s) \<longleftrightarrow> y = JStr s"
  by (cases y) (auto simp: num_of_def)

lemma py_eq_JNull [simp]: "py_eq y JNull \<longleftrightarrow> y = JNull"
  by (cases y) (auto simp: num_of_def)

section \<open>\<open>str\<close> and \<open>repr\<close>\<close>

fun join :: "string \<Rightarrow> string list \<Rightarrow> string" where
  "join sep [] = []"
| "join sep [s] = s"
| "join sep (s # t # ss) = s @ sep @ join sep (t # ss)"

definition hex_char :: "nat \<Rightarrow> char" where
  "hex_char d = (if d < 10 then digit_char d else char_of (87 + d))"

definition repr_char :: "char \<Rightarrow> char \<Rightarrow> string" where
  "repr_char q c =
     (let n = of_char c :: nat
      in if c = q \<or> c = CHR 0x5C then [CHR 0x5C, c]
         else if c = CHR 0x0A then [CHR 0x5C, CHR ''n'']
         else if c = CHR 0x0D then [CHR 0x5C, CHR ''r'']
         else if c = CHR 0x09 then [CHR 0x5C, CHR ''t'']
         else if n < 32 \<or> n = 127 then [CHR 0x5C, CHR ''x'', hex_char (n div 16), hex_char (n mod 16)]
         else [c])"

definition str_repr :: "string \<Rightarrow> string" where
  "str_repr s =
     (let q = (if CHR 0x27 \<in> set s \<and> CHR 0x22 \<notin> set s then CHR 0x22 else CHR 0x27)
      in q # concat (map (repr_char q) s) @ [q])"

fun py_repr :: "json \<Rightarrow> string" where
  "py_repr JNull = ''None''"
| "py_repr (JBool b) = (if b then ''True'' else ''False'')"
| "py_repr (JInt i) = int_str i"
| "py_repr (JFloat f) = float_repr f"
| "py_repr (JStr s) = str_repr s"
| "py_repr (JArr xs) = ''['' @ join '', '' (map py_repr xs) @ '']''"
| "py_repr (JObj d) = CHR 0x7B # join '', '' (map (\<lambda>(k, v). str_repr k @ '': '' @ py_repr v) d) @ [CHR 0x7D]"

definition py_str :: "json \<Rightarrow> string" where
  "py_str j = (case j of JStr s \<Rightarrow> s | _ \<Rightarrow> py_repr j)"

lemma py_str_simps [simp]:
  "py_str (JStr s) = s" "py_str (JInt i) = int_str i" "py_str JNull = ''None''"
  by (simp_all add: py_str_def)

section \<open>Canonical text\<close>

definition json_char :: "char \<Rightarrow> string" where
  "json_char c =
     (let n = of_char c :: nat
      in if c = CHR 0x22 \<or> c = CHR 0x5C then [CHR 0x5C, c]
         else if c = CHR 0x0A then [CHR 0x5C, CHR ''n'']
         else if c = CHR 0x0D then [CHR 0x5C, CHR ''r'']
         else if c = CHR 0x09 then [CHR 0x5C, CHR ''t'']
         else if c = CHR 0x0C then [CHR 0x5C, CHR ''f'']
         else if c = CHR 0x08 then [CHR 0x5C, CHR ''b'']
         else if n < 32 then [CHR 0x5C, CHR ''u'', CHR ''0'', CHR ''0'', hex_char (n div 16), hex_char (n mod 16)]
         else [c])"

definition json_quote :: "string \<Rightarrow> string" where
  "json_quote s = CHR 0x22 # concat (map json_char s) @ [CHR 0x22]"

definition json_float :: "pyfloat \<Rightarrow> string" where
  "json_float f =
     (case f of FNaN \<Rightarrow> ''NaN'' | FInf neg \<Rightarrow> (if neg then ''-Infinity'' else ''Infinity'')
      | Flt _ _ _ \<Rightarrow> float_repr f)"

text \<open>\<open>json.dumps(value, separators=(",", ":"), sort_keys=True, ensure_ascii=False)\<close>.\<close>

fun canonical_json :: "json \<Rightarrow> string" where
  "canonical_json JNull = ''null''"
| "canonical_json (JBool b) = (if b then ''true'' else ''false'')"
| "canonical_json (JInt i) = int_str i"
| "canonical_json (JFloat f) = json_float f"
| "canonical_json (JStr s) = json_quote s"
| "canonical_json (JArr xs) = ''['' @ join '','' (map canonical_json xs) @ '']''"
| "canonical_json (JObj d) =
     CHR 0x7B # join '','' (map (\<lambda>(k, t). json_quote k @ '':'' @ t)
       (sort_key fst (map (\<lambda>(k, v). (k, canonical_json v)) d))) @ [CHR 0x7D]"

section \<open>Indented text\<close>

text \<open>The code points of UTF-8 bytes; a stray byte stands for itself.\<close>

fun utf8_points :: "string \<Rightarrow> nat list" where
  "utf8_points [] = []"
| "utf8_points (a # s) =
     (let n = of_char a :: nat; b = map (\<lambda>c. (of_char c :: nat) mod 64) s
      in if 240 \<le> n \<and> 3 \<le> length s
           then ((((n - 240) * 64 + b ! 0) * 64 + b ! 1) * 64 + b ! 2) # utf8_points (drop 3 s)
         else if 224 \<le> n \<and> n < 240 \<and> 2 \<le> length s
           then (((n - 224) * 64 + b ! 0) * 64 + b ! 1) # utf8_points (drop 2 s)
         else if 192 \<le> n \<and> n < 224 \<and> 1 \<le> length s
           then ((n - 192) * 64 + b ! 0) # utf8_points (drop 1 s)
         else n # utf8_points s)"

definition ascii_unit :: "nat \<Rightarrow> string" where
  "ascii_unit n = [CHR 0x5C, CHR ''u'', hex_char (n div 4096), hex_char (n div 256 mod 16),
     hex_char (n div 16 mod 16), hex_char (n mod 16)]"

definition ascii_point :: "nat \<Rightarrow> string" where
  "ascii_point n =
     (if n < 127 then json_char (char_of n)
      else if n < 65536 then ascii_unit n
      else ascii_unit (0xD800 + (n - 65536) div 1024) @ ascii_unit (0xDC00 + (n - 65536) mod 1024))"

definition ascii_quote :: "string \<Rightarrow> string" where
  "ascii_quote s = CHR 0x22 # concat (map ascii_point (utf8_points s)) @ [CHR 0x22]"

definition new_line :: "nat \<Rightarrow> string" where
  "new_line n = CHR 0x0A # replicate (2 * n) (CHR '' '')"

text \<open>\<open>json.dumps(value, indent=2, sort_keys=True)\<close>, at a nesting level.\<close>

fun pretty_json :: "nat \<Rightarrow> json \<Rightarrow> string" where
  "pretty_json n (JStr s) = ascii_quote s"
| "pretty_json n (JArr xs) =
     (if xs = [] then ''[]''
      else ''['' @ new_line (Suc n) @ join ('','' @ new_line (Suc n)) (map (pretty_json (Suc n)) xs) @
           new_line n @ '']'')"
| "pretty_json n (JObj d) =
     (if d = [] then [CHR 0x7B, CHR 0x7D]
      else CHR 0x7B # new_line (Suc n) @
           join ('','' @ new_line (Suc n)) (map (\<lambda>(k, t). ascii_quote k @ '': '' @ t)
             (sort_key fst (map (\<lambda>(k, v). (k, pretty_json (Suc n) v)) d))) @
           new_line n @ [CHR 0x7D])"
| "pretty_json n j = canonical_json j"

text \<open>What \<open>write_json\<close> writes.\<close>

definition json_file :: "jobj \<Rightarrow> string" where
  "json_file d = pretty_json 0 (JObj d) @ [CHR 0x0A]"

section \<open>Decoding\<close>

definition is_json_space :: "char \<Rightarrow> bool" where
  "is_json_space c = (c = CHR '' '' \<or> c = CHR 0x09 \<or> c = CHR 0x0A \<or> c = CHR 0x0D)"

definition skip_ws :: "string \<Rightarrow> string" where
  "skip_ws s = dropWhile is_json_space s"

definition hex_val :: "char \<Rightarrow> nat option" where
  "hex_val c =
     (let n = of_char c :: nat
      in if 48 \<le> n \<and> n \<le> 57 then Some (n - 48)
         else if 97 \<le> n \<and> n \<le> 102 then Some (n - 87)
         else if 65 \<le> n \<and> n \<le> 70 then Some (n - 55)
         else None)"

definition hex4 :: "string \<Rightarrow> nat option" where
  "hex4 s =
     (case map hex_val (take 4 s) of
        [Some a, Some b, Some c, Some d] \<Rightarrow> Some (((a * 16 + b) * 16 + c) * 16 + d)
      | _ \<Rightarrow> None)"

definition utf8 :: "nat \<Rightarrow> string" where
  "utf8 n =
     (if n < 128 then [char_of n]
      else if n < 2048 then [char_of (192 + n div 64), char_of (128 + n mod 64)]
      else if n < 65536 then
        [char_of (224 + n div 4096), char_of (128 + n div 64 mod 64), char_of (128 + n mod 64)]
      else [char_of (240 + n div 262144), char_of (128 + n div 4096 mod 64),
            char_of (128 + n div 64 mod 64), char_of (128 + n mod 64)])"

definition simple_escape :: "char \<Rightarrow> char option" where
  "simple_escape c =
     (if c = CHR 0x22 \<or> c = CHR 0x5C \<or> c = CHR ''/'' then Some c
      else if c = CHR ''b'' then Some (CHR 0x08)
      else if c = CHR ''f'' then Some (CHR 0x0C)
      else if c = CHR ''n'' then Some (CHR 0x0A)
      else if c = CHR ''r'' then Some (CHR 0x0D)
      else if c = CHR ''t'' then Some (CHR 0x09)
      else None)"

text \<open>
  A \<open>\u\<close> escape, \<open>s\<close> being the text after the \<open>u\<close>: the code point, joined with a following
  low surrogate when it is a high one, and how many characters of \<open>s\<close> it takes.
\<close>

definition unicode_escape :: "string \<Rightarrow> (string \<times> nat) option" where
  "unicode_escape s =
     (case hex4 s of
        None \<Rightarrow> None
      | Some h \<Rightarrow>
          (if 0xD800 \<le> h \<and> h \<le> 0xDBFF \<and> take 2 (drop 4 s) = [CHR 0x5C, CHR ''u''] then
             (case hex4 (drop 6 s) of
                Some l \<Rightarrow> (if 0xDC00 \<le> l \<and> l \<le> 0xDFFF
                           then Some (utf8 (0x10000 + (h - 0xD800) * 1024 + (l - 0xDC00)), 10)
                           else Some (utf8 h, 4))
              | None \<Rightarrow> Some (utf8 h, 4))
           else Some (utf8 h, 4)))"

text \<open>The rest of a string literal after its opening quote, and what follows the closing one.\<close>

fun json_string :: "string \<Rightarrow> (string \<times> string) option" where
  "json_string [] = None"
| "json_string (c # r) =
     (if c = CHR 0x22 then Some ([], r)
      else if c = CHR 0x5C then
        (case r of
           [] \<Rightarrow> None
         | e # q \<Rightarrow>
             (if e = CHR ''u'' then
                (case unicode_escape q of
                   None \<Rightarrow> None
                 | Some (u, k) \<Rightarrow> map_option (\<lambda>(t, rest). (u @ t, rest)) (json_string (drop k q)))
              else
                (case simple_escape e of
                   None \<Rightarrow> None
                 | Some x \<Rightarrow> map_option (\<lambda>(t, rest). (x # t, rest)) (json_string q))))
      else if (of_char c :: nat) < 32 then None
      else map_option (\<lambda>(t, rest). (c # t, rest)) (json_string r))"

text \<open>A number: an integer unless it has a fraction or an exponent.\<close>

definition json_number :: "string \<Rightarrow> (json \<times> string) option" where
  "json_number s =
     (let neg = (s \<noteq> [] \<and> hd s = CHR ''-'');
          u = (if neg then tl s else s);
          ip = (if u \<noteq> [] \<and> hd u = CHR ''0'' then [CHR ''0''] else takeWhile is_digit u);
          r = drop (length ip) u;
          fp = (if r \<noteq> [] \<and> hd r = CHR ''.'' then takeWhile is_digit (tl r) else []);
          q = (if fp = [] then r else drop (Suc (length fp)) r);
          ex = (if q \<noteq> [] \<and> (hd q = CHR ''e'' \<or> hd q = CHR ''E'') then tl q else []);
          sg = (if ex \<noteq> [] \<and> (hd ex = CHR ''-'' \<or> hd ex = CHR ''+'') then tl ex else ex);
          ep = takeWhile is_digit sg;
          x = (if ex \<noteq> [] \<and> hd ex = CHR ''-'' then - int (digits_val ep) else int (digits_val ep));
          rest = (if ep = [] then q else drop (length ep) sg)
      in if ip = [] then None
         else if fp = [] \<and> ep = [] then
           (if 4300 < length ip then None
            else Some (JInt (if neg then - int (digits_val ip) else int (digits_val ip)), rest))
         else Some (JFloat (float_of_decimal neg (digits_val (ip @ fp)) (x - int (length fp))), rest))"

fun strip_prefix :: "string \<Rightarrow> string \<Rightarrow> string option" where
  "strip_prefix [] s = Some s"
| "strip_prefix (p # ps) [] = None"
| "strip_prefix (p # ps) (c # s) = (if p = c then strip_prefix ps s else None)"

definition json_word :: "string \<Rightarrow> (json \<times> string) option" where
  "json_word s =
     (case strip_prefix ''null'' s of Some r \<Rightarrow> Some (JNull, r) | None \<Rightarrow>
      (case strip_prefix ''true'' s of Some r \<Rightarrow> Some (JBool True, r) | None \<Rightarrow>
       (case strip_prefix ''false'' s of Some r \<Rightarrow> Some (JBool False, r) | None \<Rightarrow>
        (case strip_prefix ''NaN'' s of Some r \<Rightarrow> Some (JFloat FNaN, r) | None \<Rightarrow>
         (case strip_prefix ''Infinity'' s of Some r \<Rightarrow> Some (JFloat (FInf False), r) | None \<Rightarrow>
          (case strip_prefix ''-Infinity'' s of Some r \<Rightarrow> Some (JFloat (FInf True), r) | None \<Rightarrow>
           json_number s))))))"

text \<open>
  The recursive descent. Every second call is on a shorter text, so twice the length of the text
  is enough fuel (\<open>json_loads\<close>).
\<close>

fun json_value :: "nat \<Rightarrow> string \<Rightarrow> (json \<times> string) option"
  and json_items :: "nat \<Rightarrow> string \<Rightarrow> (json list \<times> string) option"
  and json_members :: "nat \<Rightarrow> jobj \<Rightarrow> string \<Rightarrow> (jobj \<times> string) option"
where
  "json_value 0 s = None"
| "json_value (Suc n) s =
     (case s of
        [] \<Rightarrow> None
      | c # r \<Rightarrow>
          (if c = CHR 0x22 then map_option (\<lambda>(t, rest). (JStr t, rest)) (json_string r)
           else if c = CHR 0x5B then
             (case skip_ws r of
                [] \<Rightarrow> None
              | c' # r' \<Rightarrow>
                  (if c' = CHR 0x5D then Some (JArr [], r')
                   else map_option (\<lambda>(xs, rest). (JArr xs, rest)) (json_items n (c' # r'))))
           else if c = CHR 0x7B then
             (case skip_ws r of
                [] \<Rightarrow> None
              | c' # r' \<Rightarrow>
                  (if c' = CHR 0x7D then Some (JObj [], r')
                   else map_option (\<lambda>(d, rest). (JObj d, rest)) (json_members n [] (c' # r'))))
           else json_word s))"
| "json_items 0 s = None"
| "json_items (Suc n) s =
     (case json_value n s of
        None \<Rightarrow> None
      | Some (x, r) \<Rightarrow>
          (case skip_ws r of
             [] \<Rightarrow> None
           | c # r' \<Rightarrow>
               (if c = CHR 0x5D then Some ([x], r')
                else if c = CHR '','' then
                  map_option (\<lambda>(xs, rest). (x # xs, rest)) (json_items n (skip_ws r'))
                else None)))"
| "json_members 0 d s = None"
| "json_members (Suc n) d s =
     (case s of
        [] \<Rightarrow> None
      | q # r0 \<Rightarrow>
          (if q \<noteq> CHR 0x22 then None
           else
             (case json_string r0 of
                None \<Rightarrow> None
              | Some (k, r1) \<Rightarrow>
                  (case skip_ws r1 of
                     [] \<Rightarrow> None
                   | c # r2 \<Rightarrow>
                       (if c \<noteq> CHR '':'' then None
                        else
                          (case json_value n (skip_ws r2) of
                             None \<Rightarrow> None
                           | Some (v, r3) \<Rightarrow>
                               (case skip_ws r3 of
                                  [] \<Rightarrow> None
                                | c' # r4 \<Rightarrow>
                                    (if c' = CHR 0x7D then Some (sset d k v, r4)
                                     else if c' = CHR '','' then json_members n (sset d k v) (skip_ws r4)
                                     else None)))))))) "

text \<open>\<open>json.loads\<close>: \<open>None\<close> is the \<open>JSONDecodeError\<close>.\<close>

definition json_loads :: "string \<Rightarrow> json option" where
  "json_loads s =
     (case json_value (Suc (2 * length s)) (skip_ws s) of
        None \<Rightarrow> None
      | Some (j, r) \<Rightarrow> (if skip_ws r = [] then Some j else None))"

section \<open>Facts on access\<close>

lemma oget_Nil [simp]: "oget [] k = JNull"
  by (simp add: oget_def)

lemma oget_Cons [simp]: "oget ((k', v) # d) k = (if k' = k then v else oget d k)"
  by (simp add: oget_def)

lemma oget_sset [simp]: "oget (sset d k v) k' = (if k = k' then v else oget d k')"
  by (simp add: oget_def)

lemma oget_default_simps [simp]:
  "oget_default [] k w = w"
  "oget_default ((k', v) # d) k w = (if k' = k then v else oget_default d k w)"
  by (simp_all add: oget_default_def)

lemma as_obj_Some [simp]: "as_obj j = Some d \<longleftrightarrow> j = JObj d"
  by (cases j) auto

lemma as_arr_Some [simp]: "as_arr j = Some d \<longleftrightarrow> j = JArr d"
  by (cases j) auto

lemma as_str_Some [simp]: "as_str j = Some s \<longleftrightarrow> j = JStr s"
  by (cases j) auto

lemma in_names_True [simp]: "in_names j ns = Inr True \<longleftrightarrow> (\<exists>s. j = JStr s \<and> s \<in> set ns)"
  by (cases j) auto

lemma nonempty_str_iff: "nonempty_str j \<longleftrightarrow> (\<exists>s. j = JStr s \<and> s \<noteq> [])"
  by (auto simp: nonempty_str_def split: json.splits)

end
