(* ===== verification/Decimals.thy ===== *)
theory Decimals
  imports Py_Strings
begin

text \<open>
  Python's \<open>decimal.Decimal\<close> under the default context, as the sources use it: 28 significant
  digits, \<open>ROUND_HALF_EVEN\<close>, \<open>Emax = 999999\<close>, \<open>Emin = -999999\<close>, traps for invalid operation,
  division by zero and overflow. A finite value is a sign, a coefficient and an exponent, so that
  0.5 and 0.50 are different objects that compare equal, which the dictionaries of the order book
  and the formatted artifacts both depend on.

  The operations follow the specification of the arithmetic: an exact result which \<open>dec_fix\<close>
  rounds to the context. The lemmas give their value as a rational number (\<open>dval\<close>), exactly when
  the result has at most 28 digits, and the two directions of the text conversion.
\<close>

datatype decimal =
    Fin bool nat int         \<comment> \<open>negative?, coefficient, exponent\<close>
  | Inf bool
  | NaN bool bool string     \<comment> \<open>signaling?, negative?, payload digits\<close>

definition dec_prec :: nat where "dec_prec = 28"
definition dec_emax :: int where "dec_emax = 999999"
definition dec_emin :: int where "dec_emin = -999999"

lemmas dec_ctx = dec_prec_def dec_emax_def dec_emin_def

section \<open>Value and order\<close>

fun dval :: "decimal \<Rightarrow> rat" where
  "dval (Fin s c e) = (if s then - of_nat c else of_nat c) * 10 powi e"
| "dval _ = 0"

fun finite_dec :: "decimal \<Rightarrow> bool" where
  "finite_dec (Fin _ _ _) = True"
| "finite_dec _ = False"

fun is_nan :: "decimal \<Rightarrow> bool" where
  "is_nan (NaN _ _ _) = True"
| "is_nan _ = False"

fun is_snan :: "decimal \<Rightarrow> bool" where
  "is_snan (NaN s _ _) = s"
| "is_snan _ = False"

definition dec_of_int :: "int \<Rightarrow> decimal" where
  "dec_of_int i = Fin (i < 0) (nat \<bar>i\<bar>) 0"

text \<open>The signed coefficient at a common exponent \<open>m \<le> e\<close>: how two values are aligned.\<close>

definition scaled :: "int \<Rightarrow> bool \<Rightarrow> nat \<Rightarrow> int \<Rightarrow> int" where
  "scaled m s c e = (if s then - int c else int c) * 10 ^ nat (e - m)"

fun dec_eq :: "decimal \<Rightarrow> decimal \<Rightarrow> bool" where
  "dec_eq (Fin s1 c1 e1) (Fin s2 c2 e2) =
     (let m = min e1 e2 in scaled m s1 c1 e1 = scaled m s2 c2 e2)"
| "dec_eq (Inf s1) (Inf s2) = (s1 = s2)"
| "dec_eq _ _ = False"

text \<open>Ordering comparisons raise \<open>InvalidOperation\<close> on a NaN.\<close>

fun dec_le :: "decimal \<Rightarrow> decimal \<Rightarrow> bool res" where
  "dec_le (Fin s1 c1 e1) (Fin s2 c2 e2) =
     (let m = min e1 e2 in Inr (scaled m s1 c1 e1 \<le> scaled m s2 c2 e2))"
| "dec_le (NaN _ _ _) _ = Inl InvalidOperation"
| "dec_le _ (NaN _ _ _) = Inl InvalidOperation"
| "dec_le (Inf s) (Inf t) = Inr (s \<or> \<not> t)"
| "dec_le (Inf s) (Fin _ _ _) = Inr s"
| "dec_le (Fin _ _ _) (Inf t) = Inr (\<not> t)"

definition dec_lt :: "decimal \<Rightarrow> decimal \<Rightarrow> bool res" where
  "dec_lt a b = rbind (dec_le b a) (\<lambda>g. Inr (\<not> g))"

lemma scaled_dval: "m \<le> e \<Longrightarrow> of_int (scaled m s c e) = dval (Fin s c e) * 10 powi (- m)"
proof -
  assume "m \<le> e"
  then have "(10::rat) ^ nat (e - m) = 10 powi (e - m)" by (simp add: power_int_def)
  also have "\<dots> = 10 powi e * 10 powi (- m)"
    by (simp add: power_int_diff power_int_minus divide_inverse)
  finally show ?thesis by (simp add: scaled_def)
qed

lemma powi10_pos [simp]: "(0::rat) < 10 powi m"
  by (simp add: zero_less_power_int)

lemma dec_eq_Fin [simp]: "dec_eq (Fin s1 c1 e1) (Fin s2 c2 e2) \<longleftrightarrow> dval (Fin s1 c1 e1) = dval (Fin s2 c2 e2)"
proof -
  let ?m = "min e1 e2"
  have "scaled ?m s1 c1 e1 = scaled ?m s2 c2 e2 \<longleftrightarrow>
      (of_int (scaled ?m s1 c1 e1) :: rat) = of_int (scaled ?m s2 c2 e2)" by simp
  also have "\<dots> \<longleftrightarrow> dval (Fin s1 c1 e1) * 10 powi (- ?m) = dval (Fin s2 c2 e2) * 10 powi (- ?m)"
    by (simp only: scaled_dval min.cobounded1 min.cobounded2)
  also have "\<dots> \<longleftrightarrow> dval (Fin s1 c1 e1) = dval (Fin s2 c2 e2)"
    using powi10_pos [of "- ?m"] by (metis less_irrefl mult_cancel_right)
  finally show ?thesis by (simp only: dec_eq.simps Let_def)
qed

lemma dec_le_Fin [simp]:
  "dec_le (Fin s1 c1 e1) (Fin s2 c2 e2) = Inr (dval (Fin s1 c1 e1) \<le> dval (Fin s2 c2 e2))"
proof -
  let ?m = "min e1 e2"
  have "scaled ?m s1 c1 e1 \<le> scaled ?m s2 c2 e2 \<longleftrightarrow>
      (of_int (scaled ?m s1 c1 e1) :: rat) \<le> of_int (scaled ?m s2 c2 e2)" by simp
  also have "\<dots> \<longleftrightarrow> dval (Fin s1 c1 e1) * 10 powi (- ?m) \<le> dval (Fin s2 c2 e2) * 10 powi (- ?m)"
    by (simp only: scaled_dval min.cobounded1 min.cobounded2)
  also have "\<dots> \<longleftrightarrow> dval (Fin s1 c1 e1) \<le> dval (Fin s2 c2 e2)"
    by (rule mult_le_cancel_right_pos) simp
  finally show ?thesis by (simp only: dec_le.simps Let_def)
qed

text \<open>
  The two defining equations that align the coefficients stay available for evaluating closed
  terms (\<open>dec_run\<close>); reasoning uses the rational value.
\<close>

lemmas dec_run = dec_eq.simps(1) dec_le.simps(1)
declare dec_run [simp del]
declare dval.simps(1) [simp del]

lemma dec_le_finite: "finite_dec a \<Longrightarrow> finite_dec b \<Longrightarrow> dec_le a b = Inr (dval a \<le> dval b)"
  by (cases a; cases b) auto

lemma dec_lt_finite: "finite_dec a \<Longrightarrow> finite_dec b \<Longrightarrow> dec_lt a b = Inr (dval a < dval b)"
  by (simp add: dec_lt_def dec_le_finite not_le)

lemma dec_eq_finite: "finite_dec a \<Longrightarrow> finite_dec b \<Longrightarrow> dec_eq a b \<longleftrightarrow> dval a = dval b"
  by (cases a; cases b) auto

lemma dec_eq_finite_iff: "dec_eq a b \<Longrightarrow> finite_dec a \<longleftrightarrow> finite_dec b"
  by (cases a; cases b) auto

lemma dec_eq_refl: "\<not> is_nan a \<Longrightarrow> dec_eq a a"
  by (cases a) auto

lemma dec_le_Inr: "dec_le a b = Inr r \<Longrightarrow> \<not> is_nan a \<and> \<not> is_nan b"
  by (cases a; cases b) auto

lemma dec_eq_sym: "dec_eq a b \<Longrightarrow> dec_eq b a"
  by (cases a; cases b) auto

lemma dec_eq_trans: "dec_eq a b \<Longrightarrow> dec_eq b c \<Longrightarrow> dec_eq a c"
  by (cases a; cases b; cases c) auto

interpretation dec: dict_keys dec_eq
  by unfold_locales (auto intro: dec_eq_sym dec_eq_trans)

lemma dval_of_int [simp]: "dval (dec_of_int i) = of_int i"
  by (simp add: dec_of_int_def dval.simps(1))

lemma finite_of_int [simp]: "finite_dec (dec_of_int i)"
  by (simp add: dec_of_int_def)

lemma dval_eq_0: "dval (Fin s c e) = 0 \<longleftrightarrow> c = 0"
  by (auto simp: dval.simps(1))

section \<open>Rounding to the context\<close>

text \<open>
  \<open>Decimal._fix\<close>: clamp the exponent of a zero, refuse what exceeds \<open>Emax\<close>, round half even to 28
  digits (to the least exponent for a subnormal), and drop the digit that a carry adds.
\<close>

definition round_half_even :: "nat \<Rightarrow> nat \<Rightarrow> nat" where
  "round_half_even c k =
     (let q = c div 10 ^ k; r = c mod 10 ^ k
      in if 2 * r > 10 ^ k \<or> (2 * r = 10 ^ k \<and> odd q) then q + 1 else q)"

fun dec_fix :: "decimal \<Rightarrow> decimal res" where
  "dec_fix (Fin s c e) =
     (let etiny = dec_emin - int dec_prec + 1; etop = dec_emax - int dec_prec + 1
      in if c = 0 then Inr (Fin s 0 (min (max e etiny) dec_emax))
         else
           let exp_min = int (ndigits c) + e - int dec_prec
           in if exp_min > etop then Inl DecimalOverflow
              else
                let exp_min = max exp_min etiny
                in if e < exp_min then
                     (let c' = round_half_even c (nat (exp_min - e));
                          carry = ndigits c' > dec_prec;
                          c'' = (if carry then c' div 10 else c');
                          e'' = (if carry then exp_min + 1 else exp_min)
                      in if e'' > etop then Inl DecimalOverflow else Inr (Fin s c'' e''))
                   else Inr (Fin s c e))"
| "dec_fix d = Inr d"

text \<open>Results that need no rounding: 28 digits and an exponent inside the context's range.\<close>

definition exact_range :: "nat \<Rightarrow> int \<Rightarrow> bool" where
  "exact_range c e \<longleftrightarrow> c < 10 ^ dec_prec \<and> -1000 \<le> e \<and> e \<le> 1000"

lemma ndigits_prec: "c < 10 ^ dec_prec \<Longrightarrow> ndigits c \<le> dec_prec"
  by (intro ndigits_le) (auto simp: dec_prec_def)

lemma dec_fix_exact: "exact_range c e \<Longrightarrow> dec_fix (Fin s c e) = Inr (Fin s c e)"
  using ndigits_prec [of c] ndigits_pos [of c] by (auto simp: exact_range_def dec_ctx Let_def)

declare dec_fix.simps(1) [simp del]

section \<open>Arithmetic\<close>

text \<open>An operand that is a NaN: signaling raises, quiet propagates (the left one first).\<close>

definition nan_result :: "decimal \<Rightarrow> decimal \<Rightarrow> decimal res option" where
  "nan_result a b =
     (if is_snan a \<or> is_snan b then Some (Inl InvalidOperation)
      else if is_nan a then Some (Inr a)
      else if is_nan b then Some (Inr b) else None)"

fun dec_add_num :: "decimal \<Rightarrow> decimal \<Rightarrow> decimal res" where
  "dec_add_num (Fin s1 c1 e1) (Fin s2 c2 e2) =
     (let m = min e1 e2; n = scaled m s1 c1 e1 + scaled m s2 c2 e2
      in dec_fix (Fin (n < 0 \<or> n = 0 \<and> c1 = 0 \<and> c2 = 0 \<and> s1 \<and> s2) (nat \<bar>n\<bar>) m))"
| "dec_add_num (Inf s) (Inf t) = (if s = t then Inr (Inf s) else Inl InvalidOperation)"
| "dec_add_num (Inf s) _ = Inr (Inf s)"
| "dec_add_num _ (Inf t) = Inr (Inf t)"
| "dec_add_num a _ = Inr a"

definition dec_add :: "decimal \<Rightarrow> decimal \<Rightarrow> decimal res" where
  "dec_add a b = (case nan_result a b of Some r \<Rightarrow> r | None \<Rightarrow> dec_add_num a b)"

fun copy_negate :: "decimal \<Rightarrow> decimal" where
  "copy_negate (Fin s c e) = Fin (\<not> s) c e"
| "copy_negate (Inf s) = Inf (\<not> s)"
| "copy_negate (NaN q s p) = NaN q (\<not> s) p"

definition dec_sub :: "decimal \<Rightarrow> decimal \<Rightarrow> decimal res" where
  "dec_sub a b = (case nan_result a b of Some r \<Rightarrow> r | None \<Rightarrow> dec_add_num a (copy_negate b))"

text \<open>Unary minus: the negative of zero is zero.\<close>

fun dec_neg :: "decimal \<Rightarrow> decimal res" where
  "dec_neg (Fin s c e) = dec_fix (Fin (if c = 0 then False else \<not> s) c e)"
| "dec_neg (Inf s) = Inr (Inf (\<not> s))"
| "dec_neg (NaN sig s p) = (if sig then Inl InvalidOperation else Inr (NaN sig s p))"

fun dec_abs :: "decimal \<Rightarrow> decimal res" where
  "dec_abs (Fin s c e) = dec_fix (Fin False c e)"
| "dec_abs (Inf s) = Inr (Inf False)"
| "dec_abs (NaN sig s p) = (if sig then Inl InvalidOperation else Inr (NaN sig s p))"

fun dec_mul_num :: "decimal \<Rightarrow> decimal \<Rightarrow> decimal res" where
  "dec_mul_num (Fin s1 c1 e1) (Fin s2 c2 e2) = dec_fix (Fin (s1 \<noteq> s2) (c1 * c2) (e1 + e2))"
| "dec_mul_num (Inf s) (Fin t c _) = (if c = 0 then Inl InvalidOperation else Inr (Inf (s \<noteq> t)))"
| "dec_mul_num (Fin t c _) (Inf s) = (if c = 0 then Inl InvalidOperation else Inr (Inf (s \<noteq> t)))"
| "dec_mul_num (Inf s) (Inf t) = Inr (Inf (s \<noteq> t))"
| "dec_mul_num a _ = Inr a"

definition dec_mul :: "decimal \<Rightarrow> decimal \<Rightarrow> decimal res" where
  "dec_mul a b = (case nan_result a b of Some r \<Rightarrow> r | None \<Rightarrow> dec_mul_num a b)"

text \<open>Removing trailing zeros of an exact quotient, up to the ideal exponent.\<close>

fun strip_zeros :: "nat \<Rightarrow> nat \<Rightarrow> int \<Rightarrow> nat \<times> int" where
  "strip_zeros 0 c e = (c, e)"
| "strip_zeros (Suc n) c e = (if c mod 10 = 0 then strip_zeros n (c div 10) (e + 1) else (c, e))"

fun dec_div_num :: "decimal \<Rightarrow> decimal \<Rightarrow> decimal res" where
  "dec_div_num (Fin s1 c1 e1) (Fin s2 c2 e2) =
     (if c2 = 0 then Inl (if c1 = 0 then InvalidOperation else DivisionByZero)
      else if c1 = 0 then dec_fix (Fin (s1 \<noteq> s2) 0 (e1 - e2))
      else
        let shift = int (ndigits c2) - int (ndigits c1) + int dec_prec + 1;
            e = e1 - e2 - shift;
            num = (if shift \<ge> 0 then c1 * 10 ^ nat shift else c1);
            den = (if shift \<ge> 0 then c2 else c2 * 10 ^ nat (- shift));
            q = num div den
        in if num mod den \<noteq> 0
           then dec_fix (Fin (s1 \<noteq> s2) (if q mod 5 = 0 then q + 1 else q) e)
           else (case strip_zeros (nat (e1 - e2 - e)) q e of (q', e') \<Rightarrow> dec_fix (Fin (s1 \<noteq> s2) q' e')))"
| "dec_div_num (Inf s) (Inf t) = Inl InvalidOperation"
| "dec_div_num (Inf s) (Fin t _ _) = Inr (Inf (s \<noteq> t))"
| "dec_div_num (Fin t _ _) (Inf s) = Inr (Fin (s \<noteq> t) 0 (dec_emin - int dec_prec + 1))"
| "dec_div_num a _ = Inr a"

definition dec_div :: "decimal \<Rightarrow> decimal \<Rightarrow> decimal res" where
  "dec_div a b = (case nan_result a b of Some r \<Rightarrow> r | None \<Rightarrow> dec_div_num a b)"

text \<open>
  Remainder with the sign of the dividend; an integer quotient of more than 28 digits is an
  invalid operation (division impossible), as is a zero divisor.
\<close>

fun dec_mod_num :: "decimal \<Rightarrow> decimal \<Rightarrow> decimal res" where
  "dec_mod_num (Fin s1 c1 e1) (Fin s2 c2 e2) =
     (if c2 = 0 then Inl InvalidOperation
      else
        let m = min e1 e2; a = c1 * 10 ^ nat (e1 - m); b = c2 * 10 ^ nat (e2 - m)
        in if ndigits (a div b) \<le> dec_prec then dec_fix (Fin s1 (a mod b) m) else Inl InvalidOperation)"
| "dec_mod_num (Inf s) _ = Inl InvalidOperation"
| "dec_mod_num (Fin s c e) (Inf _) = dec_fix (Fin s c e)"
| "dec_mod_num a _ = Inr a"

definition dec_mod :: "decimal \<Rightarrow> decimal \<Rightarrow> decimal res" where
  "dec_mod a b = (case nan_result a b of Some r \<Rightarrow> r | None \<Rightarrow> dec_mod_num a b)"

text \<open>\<open>to_integral_value()\<close> and \<open>int(d)\<close>.\<close>

fun dec_to_integral :: "decimal \<Rightarrow> decimal res" where
  "dec_to_integral (Fin s c e) =
     Inr (if e \<ge> 0 then Fin s c e else Fin s (round_half_even c (nat (- e))) 0)"
| "dec_to_integral (Inf s) = Inr (Inf s)"
| "dec_to_integral (NaN sig s p) = (if sig then Inl InvalidOperation else Inr (NaN sig s p))"

fun dec_int :: "decimal \<Rightarrow> int res" where
  "dec_int (Fin s c e) =
     (let n = (if e \<ge> 0 then c * 10 ^ nat e else c div 10 ^ nat (- e))
      in Inr (if s then - int n else int n))"
| "dec_int (Inf _) = Inl OverflowError"
| "dec_int (NaN _ _ _) = Inl (ValueError ''cannot convert NaN to integer'')"

text \<open>\<open>min\<close> and \<open>max\<close> of two values return the first one when they are equal.\<close>

definition dec_min :: "decimal \<Rightarrow> decimal \<Rightarrow> decimal res" where
  "dec_min a b = rbind (dec_lt b a) (\<lambda>l. Inr (if l then b else a))"

section \<open>Exactness\<close>

lemma dval_scaled: "dval (Fin s (nat \<bar>n\<bar>) m) = (if s then - of_int \<bar>n\<bar> else of_int \<bar>n\<bar>) * 10 powi m"
  by (simp add: dval.simps(1))

lemma scaled_back: "m \<le> e \<Longrightarrow> of_int (scaled m s c e) * 10 powi m = dval (Fin s c e)"
  by (simp add: scaled_dval power_int_minus)

text \<open>
  When the exact sum fits the context, addition returns it: the value is the sum of the values.
\<close>

lemma dec_add_exact:
  assumes "exact_range (nat \<bar>scaled (min e1 e2) s1 c1 e1 + scaled (min e1 e2) s2 c2 e2\<bar>) (min e1 e2)"
  shows "\<exists>s c. dec_add (Fin s1 c1 e1) (Fin s2 c2 e2) = Inr (Fin s c (min e1 e2))
      \<and> c = nat \<bar>scaled (min e1 e2) s1 c1 e1 + scaled (min e1 e2) s2 c2 e2\<bar>
      \<and> dval (Fin s c (min e1 e2)) = dval (Fin s1 c1 e1) + dval (Fin s2 c2 e2)"
proof -
  let ?m = "min e1 e2"
  let ?n = "scaled ?m s1 c1 e1 + scaled ?m s2 c2 e2"
  define s where "s = (?n < 0 \<or> ?n = 0 \<and> c1 = 0 \<and> c2 = 0 \<and> s1 \<and> s2)"
  have "dec_add (Fin s1 c1 e1) (Fin s2 c2 e2) = dec_fix (Fin s (nat \<bar>?n\<bar>) ?m)"
    by (simp add: dec_add_def nan_result_def Let_def s_def)
  also have "\<dots> = Inr (Fin s (nat \<bar>?n\<bar>) ?m)" using assms by (rule dec_fix_exact)
  finally have add: "dec_add (Fin s1 c1 e1) (Fin s2 c2 e2) = Inr (Fin s (nat \<bar>?n\<bar>) ?m)" .
  have "dval (Fin s (nat \<bar>?n\<bar>) ?m) = of_int ?n * 10 powi ?m"
    by (auto simp: dval_scaled s_def)
  also have "\<dots> = of_int (scaled ?m s1 c1 e1) * 10 powi ?m + of_int (scaled ?m s2 c2 e2) * 10 powi ?m"
    by (simp add: distrib_right)
  also have "\<dots> = dval (Fin s1 c1 e1) + dval (Fin s2 c2 e2)"
    by (simp only: scaled_back min.cobounded1 min.cobounded2)
  finally show ?thesis using add by blast
qed

lemma copy_negate_dval [simp]: "dval (copy_negate d) = - dval d"
  by (cases d) (auto simp: dval.simps(1))

lemma copy_negate_finite [simp]: "finite_dec (copy_negate d) = finite_dec d"
  by (cases d) auto

lemma is_nan_finite: "finite_dec d \<Longrightarrow> \<not> is_nan d" "finite_dec d \<Longrightarrow> \<not> is_snan d"
  by (cases d; simp)+

lemma dec_sub_add: "finite_dec a \<Longrightarrow> finite_dec b \<Longrightarrow> dec_sub a b = dec_add a (copy_negate b)"
  by (cases a; cases b) (auto simp: dec_sub_def dec_add_def nan_result_def)


section \<open>A grid on which arithmetic is exact\<close>

text \<open>
  Market data lives on a grid of fixed-point decimals: at most \<open>k\<close> decimal places. On such a grid
  sums and differences are exact as long as they have at most 28 digits, which is how the bounds
  of the later components discharge rounding.
\<close>

fun dgrid :: "nat \<Rightarrow> decimal \<Rightarrow> bool" where
  "dgrid k (Fin s c e) \<longleftrightarrow> - int k \<le> e \<and> e \<le> 1000"
| "dgrid k _ \<longleftrightarrow> False"

definition dfits :: "nat \<Rightarrow> rat \<Rightarrow> bool" where
  "dfits k v \<longleftrightarrow> k \<le> 1000 \<and> \<bar>v\<bar> * 10 ^ k < 10 ^ dec_prec"

lemma dgrid_finite: "dgrid k d \<Longrightarrow> finite_dec d"
  by (cases d) auto

lemma dgrid_of_int [simp]: "dgrid k (dec_of_int i)"
  by (simp add: dec_of_int_def)

lemma dgrid_negate [simp]: "dgrid k (copy_negate d) = dgrid k d"
  by (cases d) auto

lemma dgrid_mono: "dgrid j d \<Longrightarrow> j \<le> k \<Longrightarrow> dgrid k d"
  by (cases d) auto

lemma dfits_neg [simp]: "dfits k (- v) = dfits k v"
  by (simp add: dfits_def)

lemma dfits_mono: "dfits k v \<Longrightarrow> \<bar>w\<bar> \<le> \<bar>v\<bar> \<Longrightarrow> dfits k w"
proof -
  assume v: "dfits k v" and "\<bar>w\<bar> \<le> \<bar>v\<bar>"
  then have "\<bar>w\<bar> * 10 ^ k \<le> \<bar>v\<bar> * 10 ^ k" by (intro mult_right_mono) auto
  also have "\<dots> < 10 ^ dec_prec" using v by (simp add: dfits_def)
  finally show ?thesis using v by (simp add: dfits_def)
qed

lemma powi_le_pow:
  assumes "- int k \<le> m"
  shows "(10::rat) powi (- m) \<le> 10 ^ k"
proof (cases "m \<le> 0")
  case True
  then have "(10::rat) powi (- m) = 10 ^ nat (- m)" by (simp add: power_int_def)
  also have "\<dots> \<le> 10 ^ k" using assms True by (intro power_increasing) auto
  finally show ?thesis .
next
  case False
  then have "(10::rat) powi (- m) = inverse (10 ^ nat m)"
    by (simp add: power_int_def power_one_over inverse_eq_divide)
  also have "\<dots> \<le> 1" by (simp add: inverse_le_1_iff)
  also have "(1::rat) \<le> 10 ^ k" by simp
  finally show ?thesis .
qed

text \<open>The coefficient of a value \<open>v\<close> at exponent \<open>m\<close> fits when \<open>v\<close> fits the grid.\<close>

lemma exact_range_grid:
  assumes v: "of_int n = v * 10 powi (- m)" and fits: "dfits k v"
    and m: "- int k \<le> m" "m \<le> 1000"
  shows "exact_range (nat \<bar>n\<bar>) m"
proof -
  have "of_int \<bar>n\<bar> = \<bar>v\<bar> * 10 powi (- m)"
    using powi10_pos [of "- m"] by (simp add: v abs_mult del: powi10_pos)
  also have "\<dots> \<le> \<bar>v\<bar> * 10 ^ k" by (intro mult_left_mono powi_le_pow m) auto
  also have "\<dots> < 10 ^ dec_prec" using fits by (simp add: dfits_def)
  finally have "of_int \<bar>n\<bar> < (of_int (10 ^ dec_prec) :: rat)" by simp
  then have "\<bar>n\<bar> < 10 ^ dec_prec" by (simp only: of_int_less_iff)
  then have "nat \<bar>n\<bar> < 10 ^ dec_prec" by (simp add: nat_less_iff)
  with m fits show ?thesis by (auto simp: exact_range_def dfits_def)
qed

lemma scaled_sum_dval:
  "of_int (scaled (min e1 e2) s1 c1 e1 + scaled (min e1 e2) s2 c2 e2)
    = (dval (Fin s1 c1 e1) + dval (Fin s2 c2 e2)) * 10 powi (- min e1 e2)"
  by (simp only: of_int_add scaled_dval min.cobounded1 min.cobounded2 distrib_right)

lemma dec_add_grid:
  assumes a: "dgrid k a" and b: "dgrid k b" and fits: "dfits k (dval a + dval b)"
  shows "\<exists>r. dec_add a b = Inr r \<and> dgrid k r \<and> dval r = dval a + dval b"
proof -
  obtain s1 c1 e1 s2 c2 e2 where ab: "a = Fin s1 c1 e1" "b = Fin s2 c2 e2"
    using a b by (cases a; cases b) auto
  have m: "- int k \<le> min e1 e2" "min e1 e2 \<le> 1000" using a b by (auto simp: ab)
  have "exact_range (nat \<bar>scaled (min e1 e2) s1 c1 e1 + scaled (min e1 e2) s2 c2 e2\<bar>) (min e1 e2)"
    by (rule exact_range_grid [OF scaled_sum_dval _ m]) (use fits in \<open>simp add: ab\<close>)
  from dec_add_exact [OF this] m show ?thesis by (auto simp: ab)
qed

lemma dec_sub_grid:
  assumes "dgrid k a" and "dgrid k b" and "dfits k (dval a - dval b)"
  shows "\<exists>r. dec_sub a b = Inr r \<and> dgrid k r \<and> dval r = dval a - dval b"
  using dec_add_grid [of k a "copy_negate b"] assms
  by (auto simp: dec_sub_add dgrid_finite)

lemma dfits_range: "dgrid k (Fin s c e) \<Longrightarrow> dfits k (dval (Fin s c e)) \<Longrightarrow> exact_range c e"
proof -
  assume g: "dgrid k (Fin s c e)" and f: "dfits k (dval (Fin s c e))"
  have "of_int (if s then - int c else int c) = dval (Fin s c e) * 10 powi (- e)"
    by (simp add: dval.simps(1) power_int_minus)
  from exact_range_grid [OF this f] g show ?thesis by (auto split: if_splits)
qed

lemma dec_neg_grid:
  assumes "dgrid k a" and "dfits k (dval a)"
  shows "\<exists>r. dec_neg a = Inr r \<and> dgrid k r \<and> dval r = - dval a"
proof -
  obtain s c e where a: "a = Fin s c e" using assms(1) by (cases a) auto
  with assms have "exact_range c e" by (blast intro: dfits_range)
  with assms(1) show ?thesis by (auto simp: a dec_fix_exact dval.simps(1))
qed

lemma dec_abs_grid:
  assumes "dgrid k a" and "dfits k (dval a)"
  shows "\<exists>r. dec_abs a = Inr r \<and> dgrid k r \<and> dval r = \<bar>dval a\<bar>"
proof -
  obtain s c e where a: "a = Fin s c e" using assms(1) by (cases a) auto
  with assms have "exact_range c e" by (blast intro: dfits_range)
  with assms(1) show ?thesis
    using powi10_pos [of e] by (auto simp: a dec_fix_exact dval.simps(1) abs_mult)
qed

lemma dec_mul_grid:
  assumes a: "dgrid j a" and b: "dgrid k b" and fits: "dfits (j + k) (dval a * dval b)"
    and ea: "\<And>s c e. a = Fin s c e \<Longrightarrow> e \<le> 500" and eb: "\<And>s c e. b = Fin s c e \<Longrightarrow> e \<le> 500"
  shows "\<exists>r. dec_mul a b = Inr r \<and> dgrid (j + k) r \<and> dval r = dval a * dval b"
proof -
  obtain s1 c1 e1 s2 c2 e2 where ab: "a = Fin s1 c1 e1" "b = Fin s2 c2 e2"
    using a b by (cases a; cases b) auto
  have val: "dval (Fin (s1 \<noteq> s2) (c1 * c2) (e1 + e2)) = dval a * dval b"
    by (auto simp: ab dval.simps(1) power_int_add)
  have g: "dgrid (j + k) (Fin (s1 \<noteq> s2) (c1 * c2) (e1 + e2))"
    using a b ea [of s1 c1 e1] eb [of s2 c2 e2] by (auto simp: ab)
  have "exact_range (c1 * c2) (e1 + e2)"
    by (rule dfits_range [OF g]) (simp only: val fits)
  with g val show ?thesis by (auto simp: ab dec_mul_def nan_result_def dec_fix_exact)
qed

lemma dec_min_grid:
  assumes "finite_dec a" and "finite_dec b"
  shows "\<exists>r. dec_min a b = Inr r \<and> (r = a \<or> r = b) \<and> dval r = min (dval a) (dval b)"
  using assms by (auto simp: dec_min_def dec_lt_finite)

section \<open>Divisibility\<close>

text \<open>Rounding to the context never turns a nonzero coefficient into zero above the least exponent.\<close>

lemma round_half_even_pos: "10 ^ k \<le> c \<Longrightarrow> 0 < round_half_even c k"
proof -
  assume "10 ^ k \<le> c"
  then have "0 < c div 10 ^ k" by (simp add: div_greater_zero_iff)
  then show ?thesis by (simp add: round_half_even_def Let_def)
qed

lemma dec_fix_zero:
  assumes "dec_fix (Fin s c m) = Inr r" and "-1000 \<le> m"
  shows "finite_dec r \<and> (dval r = 0 \<longleftrightarrow> c = 0)"
proof (cases "c = 0")
  case True
  then show ?thesis using assms(1) by (auto simp: dec_fix.simps(1) Let_def dval_eq_0)
next
  case False
  let ?k = "nat (int (ndigits c) + m - int dec_prec - m)"
  show ?thesis
  proof (cases "m < int (ndigits c) + m - int dec_prec")
    case True
    then have lt: "dec_prec < ndigits c" by simp
    have k: "?k \<le> ndigits c - 1" using lt ndigits_pos [of c] by (simp add: dec_prec_def)
    have "(10::nat) ^ ?k \<le> 10 ^ (ndigits c - 1)" using k by (intro power_increasing) auto
    also have "\<dots> \<le> c" using False ndigits_lower [of c] by simp
    finally have pos: "0 < round_half_even c ?k" by (rule round_half_even_pos)
    let ?q = "round_half_even c ?k"
    have tens: "0 < ?q div 10" if "dec_prec < ndigits ?q"
    proof -
      have "(10::nat) ^ 1 \<le> 10 ^ (ndigits ?q - 1)" using that by (intro power_increasing) (auto simp: dec_prec_def)
      also have "\<dots> \<le> ?q" using pos ndigits_lower [of ?q] by simp
      finally show ?thesis by simp
    qed
    have max: "max (int (ndigits c) + m - int dec_prec) (dec_emin - int dec_prec + 1)
        = int (ndigits c) + m - int dec_prec"
      using assms(2) True by (simp add: dec_ctx)
    show ?thesis
      using assms(1) False True pos tens
      unfolding dec_fix.simps(1) Let_def max
      by (auto simp: dval_eq_0 split: if_splits)
  next
    case notless: False
    have max: "max (int (ndigits c) + m - int dec_prec) (dec_emin - int dec_prec + 1) \<le> m"
      using assms(2) notless by (simp add: dec_ctx)
    then show ?thesis
      using assms(1) False unfolding dec_fix.simps(1) Let_def
      by (auto simp: dval_eq_0 split: if_splits)
  qed
qed

text \<open>A zero remainder is divisibility: the value is an integer multiple of the step.\<close>

lemma dec_mod_zero:
  assumes a: "dgrid k a" and b: "dgrid k b" and k: "k \<le> 1000" and r: "dec_mod a b = Inr r"
  shows "finite_dec r \<and> (dval r = 0 \<longleftrightarrow> (\<exists>n::int. dval a = of_int n * dval b))"
proof -
  obtain s1 c1 e1 s2 c2 e2 where ab: "a = Fin s1 c1 e1" "b = Fin s2 c2 e2"
    using a b by (cases a; cases b) auto
  define m where "m = min e1 e2"
  define x where "x = c1 * 10 ^ nat (e1 - m)"
  define y where "y = c2 * 10 ^ nat (e2 - m)"
  have le: "m \<le> e1" "m \<le> e2" "-1000 \<le> m" using a b k by (auto simp: ab m_def)
  have fix': "dec_fix (Fin s1 (x mod y) m) = Inr r" and c2: "c2 \<noteq> 0"
    using r by (auto simp: dec_mod_def nan_result_def ab Let_def m_def x_def y_def split: if_splits)
  from dec_fix_zero [OF fix' le(3)] have zero: "finite_dec r" "dval r = 0 \<longleftrightarrow> x mod y = 0" by auto
  have va: "dval a = (if s1 then - of_nat x else of_nat x) * 10 powi m"
    using scaled_back [OF le(1), of s1 c1] by (auto simp: ab scaled_def x_def)
  have vb: "dval b = (if s2 then - of_nat y else of_nat y) * 10 powi m"
    using scaled_back [OF le(2), of s2 c2] by (auto simp: ab scaled_def y_def)
  have p: "(10::rat) powi m \<noteq> 0" by simp
  have "x mod y = 0 \<longleftrightarrow> (\<exists>n::int. int x = n * int y)"
    by (metis dvd_def int_dvd_int_iff mod_0_imp_dvd mod_eq_0_iff_dvd mult.commute)
  also have "\<dots> \<longleftrightarrow> (\<exists>n::int. dval a = of_int n * dval b)"
  proof
    assume "\<exists>n::int. int x = n * int y"
    then obtain n where "int x = n * int y" by blast
    then have "(of_int (int x) :: rat) = of_int (n * int y)" by simp
    then have n: "(of_nat x :: rat) = of_int n * of_nat y" by simp
    show "\<exists>n::int. dval a = of_int n * dval b"
      by (rule exI [of _ "if s1 = s2 then n else - n"]) (simp add: va vb n)
  next
    assume "\<exists>n::int. dval a = of_int n * dval b"
    then obtain n :: int where "dval a = of_int n * dval b" by blast
    then have "(if s1 then - of_nat x else of_nat x :: rat) = of_int n * (if s2 then - of_nat y else of_nat y)"
      using p by (simp add: va vb)
    then have "(of_nat x :: rat) = of_int ((if s1 = s2 then n else - n) * int y)"
      by (auto split: if_splits)
    then have "(of_int (int x) :: rat) = of_int ((if s1 = s2 then n else - n) * int y)" by simp
    then have "int x = (if s1 = s2 then n else - n) * int y" by (simp only: of_int_eq_iff)
    then show "\<exists>n::int. int x = n * int y" by blast
  qed
  finally show ?thesis using zero by simp
qed

text \<open>The remainder modulo one of a number that fits its grid always exists.\<close>

lemma dec_mod_one_ok:
  assumes "dgrid k c" and "dfits k (dval c)"
  shows "\<exists>r. dec_mod c (dec_of_int 1) = Inr r"
proof -
  obtain s x e where c: "c = Fin s x e" using assms(1) by (cases c) auto
  have range: "exact_range x e" using dfits_range assms by (simp add: c)
  show ?thesis
  proof (cases "0 \<le> e")
    case True
    have "x * 10 ^ nat e < 10 ^ dec_prec"
    proof -
      have "(of_nat (x * 10 ^ nat e) :: rat) = \<bar>dval c\<bar>"
        using True by (simp add: c dval.simps(1) power_int_def)
      also have "\<dots> \<le> \<bar>dval c\<bar> * 10 ^ k" by (simp add: mult_left_le mult_le_cancel_left1)
      also have "\<dots> < of_nat (10 ^ dec_prec)" using assms(2) by (simp add: dfits_def)
      finally show ?thesis by (simp only: of_nat_less_iff)
    qed
    then have "ndigits (x * 10 ^ nat e) \<le> dec_prec" by (simp add: ndigits_prec)
    moreover have "exact_range 0 0" by (simp add: exact_range_def)
    ultimately show ?thesis using True
      by (simp add: c dec_mod_def nan_result_def dec_of_int_def Let_def dec_fix_exact)
  next
    case False
    have "x div 10 ^ nat (- e) \<le> x" "x mod 10 ^ nat (- e) \<le> x" by simp_all
    note small = this [THEN le_less_trans]
    with range have "ndigits (x div 10 ^ nat (- e)) \<le> dec_prec" "exact_range (x mod 10 ^ nat (- e)) e"
      by (auto simp: exact_range_def intro!: ndigits_prec small)
    with False show ?thesis
      by (simp add: c dec_mod_def nan_result_def dec_of_int_def Let_def dec_fix_exact)
  qed
qed

end
