(* ===== verification/Decimal_Text.thy ===== *)
theory Decimal_Text
  imports Decimals
begin

text \<open>
  The two text conversions of \<open>decimal.Decimal\<close>: the constructor from a string
  (\<open>dec_of_str\<close>; \<open>None\<close> is the \<open>InvalidOperation\<close> of an invalid literal) and \<open>format(d, ''f'')\<close>
  (\<open>dec_format\<close>). Formatting a finite value and reading it back gives the value with its
  exponent, unless the exponent was positive, which formatting writes out as zeros.
\<close>

section \<open>Reading\<close>

text \<open>The optional exponent part \<open>E[+-]digits\<close>, up to the end of the text.\<close>

definition dec_exponent :: "string \<Rightarrow> int option" where
  "dec_exponent s =
     (case s of
        [] \<Rightarrow> Some 0
      | c # r \<Rightarrow>
          (if c = CHR ''e'' \<or> c = CHR ''E'' then
             (let neg = (r \<noteq> [] \<and> hd r = CHR ''-'');
                  b = (if r \<noteq> [] \<and> (hd r = CHR ''-'' \<or> hd r = CHR ''+'') then tl r else r)
              in if b \<noteq> [] \<and> list_all is_digit b
                 then Some (if neg then - int (digits_val b) else int (digits_val b)) else None)
           else None))"

definition lower_char :: "char \<Rightarrow> char" where
  "lower_char c =
     (if 65 \<le> (of_char c :: nat) \<and> (of_char c :: nat) \<le> 90 then char_of ((of_char c :: nat) + 32) else c)"

text \<open>\<open>Inf\<close>, \<open>Infinity\<close>, \<open>NaN\<close>, \<open>sNaN\<close> with optional payload digits, in any case.\<close>

definition dec_special :: "bool \<Rightarrow> string \<Rightarrow> decimal option" where
  "dec_special neg s =
     (let t = map lower_char s
      in if t = ''inf'' \<or> t = ''infinity'' then Some (Inf neg)
         else if take 3 t = ''nan'' \<and> list_all is_digit (drop 3 t)
         then Some (NaN False neg (dropWhile (\<lambda>c. c = CHR ''0'') (drop 3 t)))
         else if take 4 t = ''snan'' \<and> list_all is_digit (drop 4 t)
         then Some (NaN True neg (dropWhile (\<lambda>c. c = CHR ''0'') (drop 4 t)))
         else None)"

definition dec_unsigned :: "bool \<Rightarrow> string \<Rightarrow> decimal option" where
  "dec_unsigned neg s =
     (let ip = takeWhile is_digit s; r = dropWhile is_digit s;
          fp = (if r \<noteq> [] \<and> hd r = CHR ''.'' then takeWhile is_digit (tl r) else []);
          q = (if r \<noteq> [] \<and> hd r = CHR ''.'' then dropWhile is_digit (tl r) else r)
      in if ip = [] \<and> fp = [] then dec_special neg s
         else (case dec_exponent q of
                 None \<Rightarrow> None
               | Some e \<Rightarrow> Some (Fin neg (digits_val (ip @ fp)) (e - int (length fp)))))"

definition dec_of_str :: "string \<Rightarrow> decimal option" where
  "dec_of_str s =
     (let t = remove_char (CHR ''_'') (strip s);
          neg = (t \<noteq> [] \<and> hd t = CHR ''-'');
          body = (if t \<noteq> [] \<and> (hd t = CHR ''-'' \<or> hd t = CHR ''+'') then tl t else t)
      in dec_unsigned neg body)"

text \<open>\<open>Decimal(text)\<close> as an expression that raises.\<close>

definition py_decimal :: "string \<Rightarrow> decimal res" where
  "py_decimal s = of_option InvalidOperation (dec_of_str s)"

section \<open>Formatting\<close>

definition sign_str :: "bool \<Rightarrow> string" where
  "sign_str s = (if s then ''-'' else [])"

definition fixed_digits :: "nat \<Rightarrow> int \<Rightarrow> string" where
  "fixed_digits c e =
     (let ds = nat_str c; dot = e + int (length ds)
      in if 0 \<le> e then (if c = 0 then ''0'' else ds @ replicate (nat e) (CHR ''0''))
         else if dot \<le> 0 then ''0.'' @ replicate (nat (- dot)) (CHR ''0'') @ ds
         else take (nat dot) ds @ ''.'' @ drop (nat dot) ds)"

fun dec_format :: "decimal \<Rightarrow> string" where
  "dec_format (Fin s c e) = sign_str s @ fixed_digits c e"
| "dec_format (Inf s) = sign_str s @ ''Infinity''"
| "dec_format (NaN sig s p) = sign_str s @ (if sig then ''sNaN'' else ''NaN'') @ p"

section \<open>Round trip\<close>

lemma is_digit_basic [simp]:
  "\<not> is_digit (CHR ''.'')" "\<not> is_digit (CHR ''-'')" "\<not> is_digit (CHR ''+'')" "\<not> is_digit (CHR ''_'')"
  "is_digit (CHR ''0'')" "\<not> is_digit (CHR ''e'')" "\<not> is_digit (CHR ''E'')"
  by (simp_all add: is_digit_def)

lemma takeWhile_digits_app:
  "list_all is_digit a \<Longrightarrow> takeWhile is_digit (a @ b) = a @ takeWhile is_digit b"
  "list_all is_digit a \<Longrightarrow> dropWhile is_digit (a @ b) = dropWhile is_digit b"
  by (simp_all add: list_all_iff takeWhile_append2 dropWhile_append2)

lemma takeWhile_digits_all [simp]:
  "list_all is_digit a \<Longrightarrow> takeWhile is_digit a = a"
  "list_all is_digit a \<Longrightarrow> dropWhile is_digit a = []"
  using takeWhile_digits_app [of a "[]"] by auto

lemma dec_unsigned_point:
  assumes "list_all is_digit a" and "list_all is_digit b" and "a \<noteq> [] \<or> b \<noteq> []"
  shows "dec_unsigned neg (a @ ''.'' @ b) = Some (Fin neg (digits_val (a @ b)) (- int (length b)))"
  using assms by (auto simp: dec_unsigned_def takeWhile_digits_app Let_def dec_exponent_def)

lemma dec_unsigned_digits:
  assumes "list_all is_digit a" and "a \<noteq> []"
  shows "dec_unsigned neg a = Some (Fin neg (digits_val a) 0)"
  using assms by (simp add: dec_unsigned_def Let_def dec_exponent_def)

lemma list_all_take_drop: "list_all P xs \<Longrightarrow> list_all P (take n xs) \<and> list_all P (drop n xs)"
  by (auto simp: list_all_iff dest: in_set_takeD in_set_dropD)

text \<open>What reading the formatted text of a finite value gives back.\<close>

lemma dec_unsigned_fixed:
  "dec_unsigned neg (fixed_digits c e) =
     Some (if 0 \<le> e then Fin neg (c * 10 ^ nat e) 0 else Fin neg c e)"
proof -
  let ?ds = "nat_str c"
  let ?dot = "e + int (length ?ds)"
  consider (pos) "0 \<le> e" | (lead) "e < 0" "?dot \<le> 0" | (mid) "e < 0" "0 < ?dot" by linarith
  then show ?thesis
  proof cases
    case pos
    show ?thesis
    proof (cases "c = 0")
      case True
      then show ?thesis using pos dec_unsigned_digits [of "''0''" neg]
        by (simp add: fixed_digits_def Let_def digits_val_def digit_val_def)
    next
      case False
      have "list_all is_digit (?ds @ replicate (nat e) (CHR ''0''))"
        by (auto simp: list_all_iff nat_str_digits)
      then show ?thesis using pos False dec_unsigned_digits [of "?ds @ replicate (nat e) (CHR ''0'')" neg]
        by (simp add: fixed_digits_def Let_def digits_val_append)
    qed
  next
    case lead
    let ?b = "replicate (nat (- ?dot)) (CHR ''0'') @ ?ds"
    have b: "list_all is_digit ?b" by (auto simp: list_all_iff nat_str_digits)
    have eq: "''0'' @ ''.'' @ ?b = fixed_digits c e"
      using lead by (simp add: fixed_digits_def Let_def)
    have val: "digits_val (''0'' @ ?b) = c"
      using digits_val_append [of "''0''" ?b] digits_val_append [of "replicate (nat (- ?dot)) (CHR ''0'')" ?ds]
        digits_val_snoc [of "[]" "CHR ''0''"]
      by (simp add: digit_val_def)
    have "dec_unsigned neg (''0'' @ ''.'' @ ?b) = Some (Fin neg (digits_val (''0'' @ ?b)) (- int (length ?b)))"
      by (rule dec_unsigned_point) (use b in auto)
    also have "- int (length ?b) = e" using lead by simp
    finally show ?thesis using lead eq val by simp
  next
    case mid
    let ?a = "take (nat ?dot) ?ds" and ?b = "drop (nat ?dot) ?ds"
    have ab: "list_all is_digit ?a" "list_all is_digit ?b"
      using list_all_take_drop [OF nat_str_all_digits] by auto
    have ne: "?a \<noteq> []" using mid by simp
    have eq: "?a @ ''.'' @ ?b = fixed_digits c e"
      using mid by (simp add: fixed_digits_def Let_def)
    have "dec_unsigned neg (?a @ ''.'' @ ?b) = Some (Fin neg (digits_val (?a @ ?b)) (- int (length ?b)))"
      by (rule dec_unsigned_point) (use ab ne in auto)
    also have "- int (length ?b) = e" using mid by simp
    finally show ?thesis using mid eq by simp
  qed
qed

lemma fixed_digits_chars: "x \<in> set (fixed_digits c e) \<Longrightarrow> is_digit x \<or> x = CHR ''.''"
  by (auto simp: fixed_digits_def Let_def nat_str_digits
      dest!: in_set_takeD in_set_dropD split: if_splits)

lemma fixed_digits_ne: "fixed_digits c e \<noteq> []"
  by (simp add: fixed_digits_def Let_def)

lemma format_chars: "x \<in> set (dec_format (Fin s c e)) \<Longrightarrow> is_digit x \<or> x = CHR ''.'' \<or> x = CHR ''-''"
  by (auto simp: sign_str_def dest: fixed_digits_chars split: if_splits)

lemma format_strip: "strip (dec_format (Fin s c e)) = dec_format (Fin s c e)"
  by (rule strip_no_space) (auto simp: is_space_def is_digit_def dest: format_chars simp del: dec_format.simps)

lemma format_remove: "remove_char (CHR ''_'') (dec_format (Fin s c e)) = dec_format (Fin s c e)"
  unfolding remove_char_def
  by (rule filter_True) (auto simp: is_digit_def dest: format_chars simp del: dec_format.simps)

theorem dec_of_str_format:
  "dec_of_str (dec_format (Fin s c e)) =
     Some (if 0 \<le> e then Fin s (c * 10 ^ nat e) 0 else Fin s c e)"
proof -
  have hd: "hd (fixed_digits c e) \<noteq> CHR ''-''" "hd (fixed_digits c e) \<noteq> CHR ''+''"
    using fixed_digits_chars [OF hd_in_set [OF fixed_digits_ne], of c e] by (auto simp: is_digit_def)
  show ?thesis
    unfolding dec_of_str_def format_strip format_remove Let_def
    using hd fixed_digits_ne [of c e] dec_unsigned_fixed [of s c e]
    by (cases s) (simp_all add: sign_str_def)
qed

corollary dec_of_str_format_neg: "e \<le> 0 \<Longrightarrow> dec_of_str (dec_format (Fin s c e)) = Some (Fin s c e)"
  by (cases "e = 0") (simp_all add: dec_of_str_format del: dec_format.simps)

corollary py_decimal_format_value:
  "finite_dec d \<Longrightarrow> \<exists>d'. py_decimal (dec_format d) = Inr d' \<and> finite_dec d' \<and> dval d' = dval d"
proof -
  assume "finite_dec d"
  then obtain s c e where d: "d = Fin s c e" by (cases d) auto
  have "0 \<le> e \<Longrightarrow> dval (Fin s (c * 10 ^ nat e) 0) = dval (Fin s c e)"
    by (simp add: dval.simps(1) power_int_def)
  then show ?thesis by (auto simp: py_decimal_def d dec_of_str_format simp del: dec_format.simps)
qed

lemma dec_format_canonical:
  "e \<le> 0 \<Longrightarrow> dec_format (Fin s c e) = dec_format (Fin s' c' e') \<Longrightarrow> e' \<le> 0 \<Longrightarrow> s = s' \<and> c = c' \<and> e = e'"
  using dec_of_str_format_neg [of e s c] dec_of_str_format_neg [of e' s' c'] by simp

lemma nat_str_shift: "0 < c \<Longrightarrow> nat_str (c * 10 ^ k) = nat_str c @ replicate k (CHR ''0'')"
proof (induction k)
  case 0
  then show ?case by simp
next
  case (Suc k)
  have "nat_str (10 * (c * 10 ^ k)) = nat_str (c * 10 ^ k) @ [digit_char 0]"
    using Suc.prems by (subst nat_str.simps) auto
  with Suc show ?case
    by (simp add: ac_simps replicate_append_same digit_char_def)
qed

text \<open>Formatting a value with a positive exponent writes its zeros out.\<close>

lemma dec_format_shift: "0 \<le> e \<Longrightarrow> dec_format (Fin s (c * 10 ^ nat e) 0) = dec_format (Fin s c e)"
  by (cases "c = 0") (auto simp: fixed_digits_def nat_str_shift Let_def)

end
