(* ===== verification/Field_Values.thy ===== *)
theory Field_Values
  imports Json Decimal_Text
begin

text \<open>
  The field readers every stage of the historical pipeline goes through (\<open>pmm_phase7.py\<close>):
  \<open>int_value\<close> and \<open>decimal_string\<close> turn a JSON value into an integer or into the fixed-point text
  of a decimal, refusing what is not one. \<open>unit_price\<close> and the two quantity readers are the ways
  the normalizer calls \<open>decimal_string\<close>.
\<close>

text \<open>\<open>int(value)\<close>: floats truncate, infinities raise \<open>OverflowError\<close>, text is parsed.\<close>

fun py_int :: "json \<Rightarrow> int res" where
  "py_int (JInt i) = Inr i"
| "py_int (JBool b) = Inr (if b then 1 else 0)"
| "py_int (JFloat f) =
     (case float_trunc f of
        Some i \<Rightarrow> Inr i
      | None \<Rightarrow> Inl (case f of FNaN \<Rightarrow> ValueError ''int'' | _ \<Rightarrow> OverflowError))"
| "py_int (JStr s) = of_option (ValueError ''int'') (int_of_str s)"
| "py_int _ = Inl TypeError"

definition int_value :: "json \<Rightarrow> int res" where
  "int_value v =
     (case v of
        JBool _ \<Rightarrow> Inl (ValueError ''must be an integer'')
      | _ \<Rightarrow> reraise (\<lambda>e. e = TypeError \<or> is_value_error e) (ValueError ''must be an integer'') (py_int v))"

text \<open>\<open>Decimal(str(value))\<close>.\<close>

definition decimal_of :: "json \<Rightarrow> decimal res" where
  "decimal_of v = py_decimal (py_str v)"

definition below_min :: "decimal option \<Rightarrow> decimal \<Rightarrow> bool res" where
  "below_min lo d = (case lo of None \<Rightarrow> Inr False | Some m \<Rightarrow> dec_lt d m)"

definition above_max :: "decimal option \<Rightarrow> decimal \<Rightarrow> bool res" where
  "above_max hi d = (case hi of None \<Rightarrow> Inr False | Some m \<Rightarrow> dec_lt m d)"

definition decimal_string ::
  "decimal option \<Rightarrow> decimal option \<Rightarrow> bool \<Rightarrow> json \<Rightarrow> string res" where
  "decimal_string minimum maximum allow_negative v =
     rbind (reraise (\<lambda>e. e = InvalidOperation \<or> is_value_error e) (ValueError ''is not a decimal'')
              (decimal_of v)) (\<lambda>parsed.
     rbind (ensure (finite_dec parsed) (ValueError ''must be finite'')) (\<lambda>_.
     rbind (dec_lt parsed (dec_of_int 0)) (\<lambda>negative.
     rbind (ensure (allow_negative \<or> \<not> negative) (ValueError ''must not be negative'')) (\<lambda>_.
     rbind (below_min minimum parsed) (\<lambda>low.
     rbind (ensure (\<not> low) (ValueError ''is below its valid range'')) (\<lambda>_.
     rbind (above_max maximum parsed) (\<lambda>high.
     rbind (ensure (\<not> high) (ValueError ''is above its valid range'')) (\<lambda>_.
     Inr (dec_format parsed)))))))))"

text \<open>A price of the wire: between zero and one dollar.\<close>

definition unit_price :: "json \<Rightarrow> string res" where
  "unit_price v = decimal_string (Some (dec_of_int 0)) (Some (dec_of_int 1)) False v"

definition quantity_string :: "json \<Rightarrow> string res" where
  "quantity_string v = decimal_string None None False v"

definition signed_quantity_string :: "json \<Rightarrow> string res" where
  "signed_quantity_string v = decimal_string None None True v"

section \<open>What a reader accepts\<close>

lemma int_value_Inr:
  "int_value v = Inr i \<longleftrightarrow> (\<forall>b. v \<noteq> JBool b) \<and> py_int v = Inr i"
  by (cases v) (auto simp: int_value_def)

lemma int_value_JInt [simp]: "int_value (JInt i) = Inr i"
  by (simp add: int_value_def reraise_def)

lemma decimal_of_JStr [simp]: "decimal_of (JStr s) = py_decimal s"
  by (simp add: decimal_of_def)

lemma py_decimal_Inr: "py_decimal s = Inr d \<longleftrightarrow> dec_of_str s = Some d"
  by (simp add: py_decimal_def)

lemma decimal_string_Inr:
  "decimal_string lo hi neg v = Inr s \<longleftrightarrow>
     (\<exists>d. decimal_of v = Inr d \<and> finite_dec d \<and> s = dec_format d \<and> (neg \<or> 0 \<le> dval d) \<and>
          below_min lo d = Inr False \<and> above_max hi d = Inr False)"
  (is "?l \<longleftrightarrow> ?r")
proof
  assume ?l
  then obtain d n where d: "decimal_of v = Inr d" "finite_dec d" "s = dec_format d"
    and n: "dec_lt d (dec_of_int 0) = Inr n" "neg \<or> \<not> n"
    and b: "below_min lo d = Inr False" "above_max hi d = Inr False"
    by (auto simp: decimal_string_def rbind_eq_Inr)
  from n d(2) have "neg \<or> 0 \<le> dval d" by (auto simp: dec_lt_finite)
  with d b show ?r by blast
next
  assume ?r
  then obtain d where d: "decimal_of v = Inr d" "finite_dec d" "s = dec_format d"
    "neg \<or> 0 \<le> dval d" "below_min lo d = Inr False" "above_max hi d = Inr False"
    by blast
  from d(4) have "neg \<or> \<not> dval d < 0" by auto
  then show ?l by (simp add: decimal_string_def reraise_def d dec_lt_finite)
qed

lemma below_min_finite:
  "finite_dec d \<Longrightarrow> \<forall>m. lo = Some m \<longrightarrow> finite_dec m \<Longrightarrow>
   below_min lo d = Inr (case lo of None \<Rightarrow> False | Some m \<Rightarrow> dval d < dval m)"
  by (auto simp: below_min_def dec_lt_finite split: option.splits)

lemma above_max_finite:
  "finite_dec d \<Longrightarrow> \<forall>m. hi = Some m \<longrightarrow> finite_dec m \<Longrightarrow>
   above_max hi d = Inr (case hi of None \<Rightarrow> False | Some m \<Rightarrow> dval m < dval d)"
  by (auto simp: above_max_def dec_lt_finite split: option.splits)

text \<open>
  The text a reader returns is canonical: it denotes the same value as the input, and reading it
  again returns it unchanged.
\<close>

lemma decimal_string_text:
  assumes "decimal_string lo hi neg v = Inr s"
  shows "\<exists>d d'. decimal_of v = Inr d \<and> dec_of_str s = Some d' \<and> finite_dec d' \<and> dval d' = dval d
    \<and> dec_format d' = s"
proof -
  from assms obtain d where d: "decimal_of v = Inr d" "finite_dec d" "s = dec_format d"
    by (auto simp: decimal_string_Inr)
  then obtain g c e where dd: "d = Fin g c e" by (cases d) auto
  show ?thesis
  proof (cases "0 \<le> e")
    case True
    have "dec_of_str s = Some (Fin g (c * 10 ^ nat e) 0)"
      unfolding d(3) dd dec_of_str_format using True by simp
    moreover have "dec_format (Fin g (c * 10 ^ nat e) 0) = s"
      unfolding d(3) dd using True by (rule dec_format_shift)
    moreover have "dval (Fin g (c * 10 ^ nat e) 0) = dval d"
      using True by (simp add: dd dval.simps(1) power_int_def)
    ultimately show ?thesis using d(1) by auto
  next
    case False
    then have "dec_of_str s = Some d"
      unfolding d(3) dd dec_of_str_format by simp
    then show ?thesis using d by auto
  qed
qed

section \<open>Properties\<close>

definition bound_ok :: "decimal option \<Rightarrow> bool" where
  "bound_ok b = (case b of None \<Rightarrow> True | Some d \<Rightarrow> finite_dec d)"

text \<open>C25: \<open>decimal_string\<close> returns canonical text. What it accepts reads back as a finite decimal
  within the bounds (and not negative unless allowed), and feeding its result to it again returns
  the same text, so normalized data is a fixed point of normalization.\<close>

theorem decimal_string_canonical:
  assumes "decimal_string lo hi neg v = Inr s" and "bound_ok lo" and "bound_ok hi"
  shows "(\<exists>d. dec_of_str s = Some d \<and> finite_dec d \<and> (neg \<or> 0 \<le> dval d) \<and>
           (\<forall>m. lo = Some m \<longrightarrow> dval m \<le> dval d) \<and> (\<forall>m. hi = Some m \<longrightarrow> dval d \<le> dval m)) \<and>
         decimal_string lo hi neg (JStr s) = Inr s"
proof -
  have fin: "\<forall>m. lo = Some m \<longrightarrow> finite_dec m" "\<forall>m. hi = Some m \<longrightarrow> finite_dec m"
    using assms(2,3) by (auto simp: bound_ok_def)
  from assms(1) obtain d where d: "decimal_of v = Inr d" "finite_dec d" "neg \<or> 0 \<le> dval d"
    "below_min lo d = Inr False" "above_max hi d = Inr False"
    by (auto simp: decimal_string_Inr)
  from decimal_string_text [OF assms(1)] d(1) obtain d' where
    d': "dec_of_str s = Some d'" "finite_dec d'" "dval d' = dval d" "dec_format d' = s" by auto
  have bounds: "below_min lo d' = Inr False" "above_max hi d' = Inr False"
    using d(2,4,5) d'(2) fin unfolding below_min_finite [OF d(2) fin(1)] below_min_finite [OF d'(2) fin(1)]
      above_max_finite [OF d(2) fin(2)] above_max_finite [OF d'(2) fin(2)] d'(3) by simp_all
  with d d' fin show ?thesis
    by (force simp: decimal_string_Inr py_decimal_Inr below_min_finite above_max_finite)
qed

theorem decimal_string_canonical_witness:
  "decimal_string (Some (dec_of_int 0)) (Some (dec_of_int 1)) False (JStr ''0.50'') = Inr ''0.50''"
proof -
  have "decimal_string (Some (dec_of_int 0)) (Some (dec_of_int 1)) False (JStr '' +5.0e-1 '') = Inr ''0.50''"
    "bound_ok (Some (dec_of_int 0))" "bound_ok (Some (dec_of_int 1))"
    by code_simp+
  from decimal_string_canonical [OF this] show ?thesis by simp
qed

end
