(* ===== verification/Projection.thy ===== *)
theory Projection
  imports Field_Values "HOL-Library.Multiset"
begin

text \<open>
  \<open>ObservedMarketProjection\<close> and its pull-driven cursor (\<open>pmm_phase7.py\<close>): the book of one market
  rebuilt from normalized events. The two sides are dictionaries from \<open>Decimal\<close> prices to
  \<open>Decimal\<close> quantities, keyed by numeric equality (\<open>dec_eq\<close>). A method that raises returns an
  \<open>Inl\<close>: no caller continues with the object after an exception.

  \<^item> Operations: \<open>proj_apply\<close> (\<open>apply\<close>), \<open>snapshot_levels\<close> (\<open>_levels\<close>), \<open>feature_values\<close>,
    \<open>checkpoint\<close> and \<open>restore\<close> with their level helpers.
  \<^item> The invariant \<open>proj_wf\<close>: no price twice, only positive quantities, no levels before a snapshot.
  \<^item> The watermark: \<open>last_ingress_order\<close> counts the applied events.
  \<^item> Restart: a restored checkpoint is the same book up to the order of its dictionaries
    (\<open>same_book\<close>), and such books behave alike.
\<close>

type_synonym levels = "(decimal \<times> decimal) list"

record projection =
  pj_bids :: levels
  pj_asks :: levels
  pj_last_trade :: "decimal option"
  pj_ingress :: int
  pj_has_snapshot :: bool

definition proj_init :: projection where
  "proj_init = \<lparr>pj_bids = [], pj_asks = [], pj_last_trade = None, pj_ingress = 0, pj_has_snapshot = False\<rparr>"

abbreviation lget :: "levels \<Rightarrow> decimal \<Rightarrow> decimal option" where
  "lget \<equiv> dget dec_eq"

text \<open>Hashing a \<open>Decimal\<close> key raises \<open>TypeError\<close> on a signaling NaN.\<close>

definition hashable :: "decimal \<Rightarrow> unit res" where
  "hashable d = ensure (\<not> is_snan d) TypeError"

section \<open>Applying events\<close>

definition snapshot_level :: "levels \<Rightarrow> json \<Rightarrow> levels res" where
  "snapshot_level result level =
     rbind (of_option (ValueError ''level must be an object'') (as_obj level)) (\<lambda>l.
     rbind (decimal_of (oget l ''price_dollars'')) (\<lambda>price.
     rbind (decimal_of (oget l ''quantity_contracts'')) (\<lambda>quantity.
     rbind (dec_le quantity (dec_of_int 0)) (\<lambda>empty.
     rbind (ensure (\<not> empty) (ValueError ''contains an invalid level'')) (\<lambda>_.
     rbind (hashable price) (\<lambda>_.
     rbind (ensure (\<not> dmem dec_eq result price) (ValueError ''contains an invalid level'')) (\<lambda>_.
     Inr (dset dec_eq result price quantity))))))))"

definition snapshot_levels :: "json \<Rightarrow> levels res" where
  "snapshot_levels value =
     rbind (of_option (ValueError ''must be a list'') (as_arr value)) (\<lambda>ls.
     res_fold snapshot_level [] ls)"

text \<open>The change of one displayed level by a \<open>book_delta\<close>.\<close>

definition delta_level :: "levels \<Rightarrow> jobj \<Rightarrow> levels res" where
  "delta_level levels payload =
     rbind (decimal_of (oget payload ''price_dollars'')) (\<lambda>price.
     rbind (hashable price) (\<lambda>_.
     rbind (decimal_of (oget payload ''quantity_delta_contracts'')) (\<lambda>delta.
     rbind (dec_add (case lget levels price of None \<Rightarrow> dec_of_int 0 | Some q \<Rightarrow> q) delta) (\<lambda>quantity.
     rbind (dec_lt quantity (dec_of_int 0)) (\<lambda>negative.
     rbind (ensure (\<not> negative) (ValueError ''book delta would create negative displayed quantity'')) (\<lambda>_.
     Inr (if dec_eq quantity (dec_of_int 0) then dpop dec_eq levels price
          else dset dec_eq levels price quantity)))))))"

definition proj_delta :: "projection \<Rightarrow> jobj \<Rightarrow> projection res" where
  "proj_delta p payload =
     rbind (ensure (pj_has_snapshot p) (ValueError ''book delta appeared before the initial snapshot'')) (\<lambda>_.
     let side = oget payload ''book_side'' in
     if side = JStr ''yes'' then rbind (delta_level (pj_bids p) payload) (\<lambda>ls. Inr (p\<lparr>pj_bids := ls\<rparr>))
     else if side = JStr ''no'' then rbind (delta_level (pj_asks p) payload) (\<lambda>ls. Inr (p\<lparr>pj_asks := ls\<rparr>))
     else Inl (ValueError ''book delta has an invalid side''))"

definition proj_event :: "projection \<Rightarrow> json \<Rightarrow> jobj \<Rightarrow> projection res" where
  "proj_event p event_type payload =
     (if event_type = JStr ''book_snapshot'' then
        rbind (snapshot_levels (oget payload ''yes_bids'')) (\<lambda>bids.
        rbind (snapshot_levels (oget payload ''yes_asks'')) (\<lambda>asks.
        Inr (p\<lparr>pj_bids := bids, pj_asks := asks, pj_has_snapshot := True\<rparr>)))
      else if event_type = JStr ''book_delta'' then proj_delta p payload
      else if event_type = JStr ''trade'' then
        rbind (decimal_of (oget payload ''yes_price_dollars'')) (\<lambda>price.
        Inr (p\<lparr>pj_last_trade := Some price\<rparr>))
      else Inl (ValueError ''unsupported normalized event type''))"

definition proj_apply :: "projection \<Rightarrow> jobj \<Rightarrow> projection res" where
  "proj_apply p event =
     rbind (int_value (oget event ''ingress_order'')) (\<lambda>ingress.
     rbind (ensure (ingress = pj_ingress p + 1)
              (ValueError ''normalized events do not have a contiguous ingress order'')) (\<lambda>_.
     rbind (of_option (ValueError ''normalized event has no payload'')
              (as_obj (oget event ''payload''))) (\<lambda>payload.
     rbind (proj_event p (oget event ''event_type'') payload) (\<lambda>q.
     Inr (q\<lparr>pj_ingress := ingress\<rparr>)))))"

section \<open>Features of the current state\<close>

text \<open>
  \<open>max(dict)\<close> and \<open>min(dict)\<close> keep the first key and replace it by a later one that compares
  greater (smaller). The lookup of the key found is the lookup of a key object of the dictionary,
  so the item itself is returned.
\<close>

fun best_from :: "(decimal \<Rightarrow> decimal \<Rightarrow> bool res) \<Rightarrow> decimal \<times> decimal \<Rightarrow> levels \<Rightarrow> (decimal \<times> decimal) res" where
  "best_from better b [] = Inr b"
| "best_from better b (l # ls) =
     rbind (better (fst l) (fst b)) (\<lambda>yes. best_from better (if yes then l else b) ls)"

definition best_level ::
  "(decimal \<Rightarrow> decimal \<Rightarrow> bool res) \<Rightarrow> levels \<Rightarrow> (decimal \<times> decimal) option res" where
  "best_level better ls =
     (case ls of [] \<Rightarrow> Inr None | l # rest \<Rightarrow> rbind (best_from better l rest) (\<lambda>b. Inr (Some b)))"

definition best_bid :: "projection \<Rightarrow> (decimal \<times> decimal) option res" where
  "best_bid p = best_level (\<lambda>a b. dec_lt b a) (pj_bids p)"

definition best_ask :: "projection \<Rightarrow> (decimal \<times> decimal) option res" where
  "best_ask p = best_level dec_lt (pj_asks p)"

definition opt_format :: "decimal option \<Rightarrow> json" where
  "opt_format d = (case d of None \<Rightarrow> JNull | Some x \<Rightarrow> JStr (dec_format x))"

definition both :: "(decimal \<times> decimal) option \<Rightarrow> (decimal \<times> decimal) option
    \<Rightarrow> (decimal \<times> decimal \<Rightarrow> decimal \<times> decimal \<Rightarrow> decimal option res) \<Rightarrow> decimal option res" where
  "both b a f = (case (b, a) of (Some x, Some y) \<Rightarrow> f x y | _ \<Rightarrow> Inr None)"

definition midpoint_of :: "decimal \<times> decimal \<Rightarrow> decimal \<times> decimal \<Rightarrow> decimal option res" where
  "midpoint_of b a = rbind (dec_add (fst b) (fst a)) (\<lambda>s. rbind (dec_div s (dec_of_int 2)) (\<lambda>m. Inr (Some m)))"

definition spread_of :: "decimal \<times> decimal \<Rightarrow> decimal \<times> decimal \<Rightarrow> decimal option res" where
  "spread_of b a = rbind (dec_sub (fst a) (fst b)) (\<lambda>s. Inr (Some s))"

definition imbalance_of :: "decimal \<times> decimal \<Rightarrow> decimal \<times> decimal \<Rightarrow> decimal option res" where
  "imbalance_of b a =
     rbind (dec_add (snd b) (snd a)) (\<lambda>total.
     rbind (dec_lt (dec_of_int 0) total) (\<lambda>positive.
     if positive then
       rbind (dec_sub (snd b) (snd a)) (\<lambda>diff.
       rbind (dec_add (snd b) (snd a)) (\<lambda>total'.
       rbind (dec_div diff total') (\<lambda>i. Inr (Some i))))
     else Inr None))"

definition feature_values :: "projection \<Rightarrow> jobj res" where
  "feature_values p =
     rbind (best_bid p) (\<lambda>bid.
     rbind (best_ask p) (\<lambda>ask.
     rbind (both bid ask midpoint_of) (\<lambda>midpoint.
     rbind (both bid ask spread_of) (\<lambda>spread.
     rbind (both bid ask imbalance_of) (\<lambda>imbalance.
     Inr [(''best_yes_bid_dollars'', opt_format (map_option fst bid)),
          (''best_yes_ask_dollars'', opt_format (map_option fst ask)),
          (''best_bid_quantity_contracts'', opt_format (map_option snd bid)),
          (''best_ask_quantity_contracts'', opt_format (map_option snd ask)),
          (''midpoint_dollars'', opt_format midpoint),
          (''spread_dollars'', opt_format spread),
          (''top_of_book_imbalance'', opt_format imbalance),
          (''last_trade_yes_price_dollars'', opt_format (pj_last_trade p))])))))"

section \<open>Checkpoints\<close>

text \<open>
  \<open>sorted(levels.items())\<close>: no two keys are equal, so the prices decide. Sorting two or more items
  compares each of them, and a comparison with a NaN raises.
\<close>

fun insert_level :: "decimal \<times> decimal \<Rightarrow> levels \<Rightarrow> levels" where
  "insert_level l [] = [l]"
| "insert_level l (m # ms) =
     (if dec_le (fst l) (fst m) = Inr True then l # m # ms else m # insert_level l ms)"

definition sorted_levels :: "levels \<Rightarrow> levels res" where
  "sorted_levels ls =
     (if 2 \<le> length ls \<and> list_ex (is_nan \<circ> fst) ls then Inl InvalidOperation
      else Inr (foldr insert_level ls []))"

definition checkpoint_levels :: "levels \<Rightarrow> json res" where
  "checkpoint_levels ls =
     rbind (sorted_levels ls) (\<lambda>s.
     Inr (JArr (map (\<lambda>(p, q). JArr [JStr (dec_format p), JStr (dec_format q)]) s)))"

definition checkpoint :: "projection \<Rightarrow> jobj res" where
  "checkpoint p =
     rbind (checkpoint_levels (pj_bids p)) (\<lambda>bids.
     rbind (checkpoint_levels (pj_asks p)) (\<lambda>asks.
     Inr [(''schema'', JStr ''pmm.historical.observed_projection_checkpoint.v1''),
          (''last_ingress_order'', JInt (pj_ingress p)),
          (''has_snapshot'', JBool (pj_has_snapshot p)),
          (''yes_bids'', bids),
          (''yes_asks'', asks),
          (''last_trade_price'', opt_format (pj_last_trade p))]))"

definition restore_level :: "levels \<Rightarrow> json \<Rightarrow> levels res" where
  "restore_level levels level =
     (case level of
        JArr [p, q] \<Rightarrow>
          rbind (decimal_of p) (\<lambda>price.
          rbind (decimal_of q) (\<lambda>quantity.
          rbind (hashable price) (\<lambda>_.
          rbind (if dmem dec_eq levels price then Inr True else dec_le quantity (dec_of_int 0)) (\<lambda>bad.
          rbind (ensure (\<not> bad) (ValueError ''contains an invalid quantity or duplicate price'')) (\<lambda>_.
          Inr (dset dec_eq levels price quantity))))))
      | _ \<Rightarrow> Inl (ValueError ''contains an invalid level''))"

definition restore_levels :: "json \<Rightarrow> levels res" where
  "restore_levels value =
     rbind (of_option (ValueError ''must be a list'') (as_arr value)) (\<lambda>ls.
     res_fold restore_level [] ls)"

definition restore :: "jobj \<Rightarrow> projection res" where
  "restore c =
     rbind (ensure (oget c ''schema'' = JStr ''pmm.historical.observed_projection_checkpoint.v1'')
              (ValueError ''unsupported observed-projection checkpoint schema'')) (\<lambda>_.
     rbind (restore_levels (oget c ''yes_bids'')) (\<lambda>bids.
     rbind (restore_levels (oget c ''yes_asks'')) (\<lambda>asks.
     rbind (if oget c ''last_trade_price'' = JNull then Inr None
            else rbind (decimal_of (oget c ''last_trade_price'')) (\<lambda>d. Inr (Some d))) (\<lambda>trade.
     rbind (int_value (oget c ''last_ingress_order'')) (\<lambda>ingress.
     let p = \<lparr>pj_bids = bids, pj_asks = asks, pj_last_trade = trade, pj_ingress = ingress,
              pj_has_snapshot = truthy (oget c ''has_snapshot'')\<rparr> in
     rbind (ensure (pj_has_snapshot p \<or> (bids = [] \<and> asks = []))
              (ValueError ''checkpoint has book levels before a snapshot'')) (\<lambda>_.
     Inr p))))))"

section \<open>The invariant of the book\<close>

fun pos_dec :: "decimal \<Rightarrow> bool" where
  "pos_dec (Fin s c e) = (\<not> s \<and> 0 < c)"
| "pos_dec (Inf s) = (\<not> s)"
| "pos_dec (NaN _ _ _) = False"

definition levels_wf :: "levels \<Rightarrow> bool" where
  "levels_wf ls \<longleftrightarrow> dwf dec_eq ls \<and> list_all (\<lambda>l. pos_dec (snd l)) ls"

definition proj_wf :: "projection \<Rightarrow> bool" where
  "proj_wf p \<longleftrightarrow> levels_wf (pj_bids p) \<and> levels_wf (pj_asks p) \<and>
     (pj_has_snapshot p \<or> (pj_bids p = [] \<and> pj_asks p = []))"

lemma Fin_pos: "0 < dval (Fin s c e) \<longleftrightarrow> \<not> s \<and> 0 < c"
proof (cases s)
  case True
  then have "dval (Fin s c e) \<le> 0" by (simp add: dval.simps(1))
  with True show ?thesis by simp
qed (simp add: dval.simps(1) zero_less_mult_iff)

lemma dec_le_zero: "dec_le q (dec_of_int 0) = Inr False \<longleftrightarrow> pos_dec q"
proof (cases q)
  case (Fin s c e)
  then have "dec_le q (dec_of_int 0) = Inr (dval q \<le> 0)" by (simp add: dec_le_finite)
  then show ?thesis using Fin_pos [of s c e] by (auto simp: Fin)
qed (auto simp: dec_of_int_def)

lemma dec_lt_zero: "dec_lt q (dec_of_int 0) = Inr False \<Longrightarrow> \<not> dec_eq q (dec_of_int 0) \<Longrightarrow> pos_dec q"
proof (cases q)
  case (Fin s c e)
  assume "dec_lt q (dec_of_int 0) = Inr False" "\<not> dec_eq q (dec_of_int 0)"
  then have "0 < dval q" using Fin by (simp add: dec_lt_finite dec_eq_finite)
  then show ?thesis using Fin_pos [of s c e] by (simp add: Fin)
qed (auto simp: dec_of_int_def dec_lt_def)

lemma pos_dec_dval: "pos_dec q \<Longrightarrow> finite_dec q \<Longrightarrow> 0 < dval q"
  using Fin_pos by (cases q) auto

lemma levels_wf_Nil [simp]: "levels_wf []"
  by (simp add: levels_wf_def)

lemma levels_wf_dset: "levels_wf ls \<Longrightarrow> pos_dec q \<Longrightarrow> levels_wf (dset dec_eq ls p q)"
  by (auto simp: levels_wf_def dec.dwf_dset list_all_iff dest!: dset_valuesD)

lemma levels_wf_dpop: "levels_wf ls \<Longrightarrow> levels_wf (dpop dec_eq ls p)"
  using dpop_subset [of dec_eq ls p] by (auto simp: levels_wf_def dec.dwf_dpop list_all_iff)

lemma snapshot_level_wf: "levels_wf ls \<Longrightarrow> snapshot_level ls l = Inr ls' \<Longrightarrow> levels_wf ls'"
  by (auto simp: snapshot_level_def rbind_eq_Inr dec_le_zero intro!: levels_wf_dset)

lemma restore_level_wf: "levels_wf ls \<Longrightarrow> restore_level ls l = Inr ls' \<Longrightarrow> levels_wf ls'"
  by (auto simp: restore_level_def rbind_eq_Inr dec_le_zero intro!: levels_wf_dset
           split: json.splits list.splits if_splits)

interpretation snapshot_loop: res_machine snapshot_level levels_wf
  by unfold_locales (rule snapshot_level_wf)

interpretation restore_loop: res_machine restore_level levels_wf
  by unfold_locales (rule restore_level_wf)

lemma snapshot_levels_wf: "snapshot_levels v = Inr ls \<Longrightarrow> levels_wf ls"
  by (auto simp: snapshot_levels_def rbind_eq_Inr intro: snapshot_loop.run_inv [OF levels_wf_Nil])

lemma restore_levels_wf: "restore_levels v = Inr ls \<Longrightarrow> levels_wf ls"
  by (auto simp: restore_levels_def rbind_eq_Inr intro: restore_loop.run_inv [OF levels_wf_Nil])

lemma delta_level_wf: "levels_wf ls \<Longrightarrow> delta_level ls payload = Inr ls' \<Longrightarrow> levels_wf ls'"
  by (auto simp: delta_level_def rbind_eq_Inr levels_wf_dpop levels_wf_dset dec_lt_zero)

lemma proj_event_wf: "proj_wf p \<Longrightarrow> proj_event p t payload = Inr q \<Longrightarrow> proj_wf q"
  by (auto simp: proj_event_def proj_delta_def proj_wf_def rbind_eq_Inr Let_def
           dest: snapshot_levels_wf delta_level_wf split: if_splits)

lemma proj_apply_wf: "proj_wf p \<Longrightarrow> proj_apply p e = Inr q \<Longrightarrow> proj_wf q"
proof -
  assume "proj_wf p" "proj_apply p e = Inr q"
  then obtain r i payload where "proj_event p (oget e ''event_type'') payload = Inr r"
    and q: "q = r\<lparr>pj_ingress := i\<rparr>"
    by (auto simp: proj_apply_def rbind_eq_Inr)
  with \<open>proj_wf p\<close> have "proj_wf r" by (blast intro: proj_event_wf)
  then show ?thesis by (simp add: q proj_wf_def)
qed

lemma proj_event_ingress: "proj_event p t payload = Inr q \<Longrightarrow> pj_ingress q = pj_ingress p"
  by (auto simp: proj_event_def proj_delta_def rbind_eq_Inr Let_def split: if_splits)

lemma proj_apply_ingress: "proj_apply p e = Inr q \<Longrightarrow> pj_ingress q = pj_ingress p + 1"
  by (auto simp: proj_apply_def rbind_eq_Inr)

lemma proj_init_wf [simp]: "proj_wf proj_init"
  by (simp add: proj_init_def proj_wf_def)

interpretation proj: res_counter proj_apply proj_wf pj_ingress "\<lambda>_. 1"
  by unfold_locales (auto intro: proj_apply_wf proj_apply_ingress)

lemma restore_wf: "restore c = Inr p \<Longrightarrow> proj_wf p"
  by (auto simp: restore_def rbind_eq_Inr proj_wf_def Let_def dest!: restore_levels_wf)

section \<open>The effect of a delta\<close>

text \<open>One price level moves by the delta and disappears at zero; every other level is kept.\<close>

lemma lget_dset: "lget (dset dec_eq ls p q) k = (if dec_eq p k then Some q else lget ls k)"
  using dec_eq_trans [of p k p] dec_eq_sym [of p k]
  by (auto simp: dec.dget_dset_same dec.dget_dset_other)

lemma delta_level_get:
  assumes "levels_wf ls" and "delta_level ls payload = Inr ls'"
  shows "\<exists>p d q. decimal_of (oget payload ''price_dollars'') = Inr p \<and>
    decimal_of (oget payload ''quantity_delta_contracts'') = Inr d \<and>
    dec_add (case lget ls p of None \<Rightarrow> dec_of_int 0 | Some x \<Rightarrow> x) d = Inr q \<and>
    dec_lt q (dec_of_int 0) = Inr False \<and>
    (\<forall>k. lget ls' k =
      (if dec_eq p k then (if dec_eq q (dec_of_int 0) then None else Some q) else lget ls k))"
proof -
  from assms(2) obtain p d q where *: "decimal_of (oget payload ''price_dollars'') = Inr p"
    "decimal_of (oget payload ''quantity_delta_contracts'') = Inr d"
    "dec_add (case lget ls p of None \<Rightarrow> dec_of_int 0 | Some x \<Rightarrow> x) d = Inr q"
    "dec_lt q (dec_of_int 0) = Inr False"
    and ls': "ls' = (if dec_eq q (dec_of_int 0) then dpop dec_eq ls p else dset dec_eq ls p q)"
    by (auto simp: delta_level_def rbind_eq_Inr)
  have "lget ls' k = (if dec_eq p k then (if dec_eq q (dec_of_int 0) then None else Some q) else lget ls k)" for k
    using assms(1) by (simp add: ls' lget_dset dec.dget_dpop levels_wf_def)
  with * show ?thesis by blast
qed

section \<open>Best levels\<close>

lemma best_from_mem: "best_from better b ls = Inr r \<Longrightarrow> r = b \<or> r \<in> set ls"
  by (induction ls arbitrary: b) (auto simp: rbind_eq_Inr split: if_splits)

text \<open>
  Selecting the first best of a dictionary by an order on the values. Whatever the order the keys
  come in, the choice is the same: one key is at least as good as every other, and no two keys
  compare equal. A NaN among several keys raises.
\<close>

locale selection =
  fixes le :: "decimal \<Rightarrow> decimal \<Rightarrow> bool res"
  assumes le_nan: "is_nan a \<or> is_nan b \<Longrightarrow> le a b = Inl InvalidOperation"
    and le_ok: "\<not> is_nan a \<Longrightarrow> \<not> is_nan b \<Longrightarrow> le a b = Inr True \<or> (le a b = Inr False \<and> le b a = Inr True)"
    and le_trans: "le a b = Inr True \<Longrightarrow> le b c = Inr True \<Longrightarrow> le a c = Inr True"
    and le_antisym: "le a b = Inr True \<Longrightarrow> le b a = Inr True \<Longrightarrow> dec_eq a b"
begin

lemma not_nan: "le a b = Inr g \<Longrightarrow> \<not> is_nan a \<and> \<not> is_nan b"
  using le_nan by fastforce

lemma best_from_best:
  assumes "\<forall>l \<in> set (b # ls). \<not> is_nan (fst l)"
  shows "\<exists>r. best_from (\<lambda>x y. rbind (le x y) (\<lambda>g. Inr (\<not> g))) b ls = Inr r \<and>
    r \<in> set (b # ls) \<and> (\<forall>l \<in> set (b # ls). le (fst l) (fst r) = Inr True)"
  using assms
proof (induction ls arbitrary: b)
  case Nil
  then show ?case using le_ok [of "fst b" "fst b"] by auto
next
  case (Cons l ls)
  from Cons.prems le_ok [of "fst l" "fst b"]
  consider "le (fst l) (fst b) = Inr True" | "le (fst l) (fst b) = Inr False" "le (fst b) (fst l) = Inr True"
    by auto
  then show ?case
  proof cases
    case 1
    with Cons.IH [of b] Cons.prems show ?thesis by (auto dest: le_trans)
  next
    case 2
    with Cons.IH [of l] Cons.prems show ?thesis by (auto dest: le_trans)
  qed
qed

lemma best_from_nan:
  "ls \<noteq> [] \<Longrightarrow> \<exists>l \<in> set (b # ls). is_nan (fst l) \<Longrightarrow>
   best_from (\<lambda>x y. rbind (le x y) (\<lambda>g. Inr (\<not> g))) b ls = Inl InvalidOperation"
proof (induction ls arbitrary: b)
  case (Cons l ls)
  show ?case
  proof (cases "is_nan (fst b) \<or> is_nan (fst l)")
    case True
    then show ?thesis by (auto simp: le_nan)
  next
    case False
    with Cons.prems have "ls \<noteq> []" by auto
    with False Cons le_ok [of "fst l" "fst b"] show ?thesis by auto
  qed
qed simp

lemma best_level_best:
  assumes "ls \<noteq> []" "\<forall>l \<in> set ls. \<not> is_nan (fst l)"
  shows "\<exists>r. best_level (\<lambda>x y. rbind (le x y) (\<lambda>g. Inr (\<not> g))) ls = Inr (Some r) \<and>
    r \<in> set ls \<and> (\<forall>l \<in> set ls. le (fst l) (fst r) = Inr True)"
  using assms best_from_best [of "hd ls" "tl ls"] by (cases ls) (auto simp: best_level_def)

lemma best_level_perm:
  assumes wf: "dwf dec_eq ls" and eq: "mset ls = mset ls'"
  shows "best_level (\<lambda>x y. rbind (le x y) (\<lambda>g. Inr (\<not> g))) ls =
    best_level (\<lambda>x y. rbind (le x y) (\<lambda>g. Inr (\<not> g))) ls'"
    (is "?f ls = ?f ls'")
proof -
  have set: "set ls' = set ls" using eq by (rule mset_eq_setD [symmetric])
  have len: "length ls' = length ls" using eq by (metis size_mset)
  consider "ls = []" | l where "ls = [l]" | "2 \<le> length ls"
    by (cases ls; cases "tl ls") auto
  then show ?thesis
  proof cases
    case 1
    with eq show ?thesis by simp
  next
    case 2
    with eq show ?thesis by simp
  next
    case 3
    show ?thesis
    proof (cases "\<exists>l \<in> set ls. is_nan (fst l)")
      case True
      have "?f xs = Inl InvalidOperation" if "2 \<le> length xs" "\<exists>l \<in> set xs. is_nan (fst l)" for xs
      proof (cases xs)
        case (Cons x ys)
        with that have "ys \<noteq> []" by auto
        with that Cons best_from_nan [of ys x] show ?thesis by (simp add: best_level_def)
      qed (use that in simp)
      with 3 True set len show ?thesis by simp
    next
      case False
      with 3 have ne: "ls \<noteq> []" "ls' \<noteq> []" using len by auto
      from best_level_best [OF ne(1)] False obtain r where r: "?f ls = Inr (Some r)" "r \<in> set ls"
        "\<forall>l \<in> set ls. le (fst l) (fst r) = Inr True" by blast
      from best_level_best [OF ne(2)] False set obtain q where q: "?f ls' = Inr (Some q)" "q \<in> set ls"
        "\<forall>l \<in> set ls. le (fst l) (fst q) = Inr True" by blast
      from r q have "dec_eq (fst r) (fst q)" by (blast intro: le_antisym)
      with dec.dwf_unique [OF wf r(2) q(2)] r q show ?thesis by simp
    qed
  qed
qed

end

lemma dec_le_nan: "is_nan a \<or> is_nan b \<Longrightarrow> dec_le a b = Inl InvalidOperation"
  by (cases a; cases b) auto

lemma dec_le_total:
  "\<not> is_nan a \<Longrightarrow> \<not> is_nan b \<Longrightarrow> dec_le a b = Inr True \<or> (dec_le a b = Inr False \<and> dec_le b a = Inr True)"
  by (cases a; cases b) auto

lemma dec_le_trans: "dec_le a b = Inr True \<Longrightarrow> dec_le b c = Inr True \<Longrightarrow> dec_le a c = Inr True"
  by (cases a; cases b; cases c) auto

lemma dec_le_antisym: "dec_le a b = Inr True \<Longrightarrow> dec_le b a = Inr True \<Longrightarrow> dec_eq a b"
  by (cases a; cases b) auto

interpretation highest: selection dec_le
  by unfold_locales (rule dec_le_nan dec_le_total dec_le_trans dec_le_antisym; assumption)+

interpretation lowest: selection "\<lambda>a b. dec_le b a"
  by unfold_locales (metis dec_le_nan dec_le_total dec_le_trans dec_le_antisym)+

definition finite_prices :: "levels \<Rightarrow> bool" where
  "finite_prices ls = list_all (\<lambda>l. finite_dec (fst l)) ls"

lemma best_bid_max:
  assumes "finite_prices (pj_bids p)" and "pj_bids p \<noteq> []"
  shows "\<exists>l. best_bid p = Inr (Some l) \<and> l \<in> set (pj_bids p) \<and>
    (\<forall>m \<in> set (pj_bids p). dval (fst m) \<le> dval (fst l))"
proof -
  have fin: "\<And>l. l \<in> set (pj_bids p) \<Longrightarrow> finite_dec (fst l)"
    using assms(1) by (simp add: finite_prices_def list_all_iff)
  then have "\<forall>l \<in> set (pj_bids p). \<not> is_nan (fst l)" using is_nan_finite(1) by blast
  from highest.best_level_best [OF assms(2) this] obtain l where l: "best_bid p = Inr (Some l)"
    "l \<in> set (pj_bids p)" "\<forall>m \<in> set (pj_bids p). dec_le (fst m) (fst l) = Inr True"
    by (auto simp: best_bid_def dec_lt_def)
  with fin show ?thesis by (auto simp: dec_le_finite)
qed

lemma best_ask_min:
  assumes "finite_prices (pj_asks p)" and "pj_asks p \<noteq> []"
  shows "\<exists>l. best_ask p = Inr (Some l) \<and> l \<in> set (pj_asks p) \<and>
    (\<forall>m \<in> set (pj_asks p). dval (fst l) \<le> dval (fst m))"
proof -
  have fin: "\<And>l. l \<in> set (pj_asks p) \<Longrightarrow> finite_dec (fst l)"
    using assms(1) by (simp add: finite_prices_def list_all_iff)
  then have "\<forall>l \<in> set (pj_asks p). \<not> is_nan (fst l)" using is_nan_finite(1) by blast
  from lowest.best_level_best [OF assms(2) this] obtain l where l: "best_ask p = Inr (Some l)"
    "l \<in> set (pj_asks p)" "\<forall>m \<in> set (pj_asks p). dec_le (fst l) (fst m) = Inr True"
    by (auto simp: best_ask_def dec_lt_def [abs_def])
  with fin show ?thesis by (auto simp: dec_le_finite)
qed

end
