(* ===== verification/Projection_Restart.thy ===== *)
theory Projection_Restart
  imports Projection
begin

text \<open>
  Restarting from a checkpoint. A checkpoint lists the levels of each side by price, so restoring it
  gives the same book with its dictionaries in another order (\<open>restore_checkpoint\<close>). Books that
  differ in that order only (\<open>same_book\<close>) accept the same events, fail with the same errors and have
  the same features, so nothing downstream of a restart can tell.
\<close>

section \<open>Books up to the order of their dictionaries\<close>

definition same_book :: "projection \<Rightarrow> projection \<Rightarrow> bool" where
  "same_book p q \<longleftrightarrow> mset (pj_bids p) = mset (pj_bids q) \<and> mset (pj_asks p) = mset (pj_asks q) \<and>
     pj_last_trade p = pj_last_trade q \<and> pj_ingress p = pj_ingress q \<and>
     pj_has_snapshot p = pj_has_snapshot q"

lemma same_book_refl [simp]: "same_book p p"
  by (simp add: same_book_def)

lemma delta_level_perm:
  assumes "levels_wf ls" and "mset ls = mset ls'"
  shows "rel_sum (=) (\<lambda>a b. mset a = mset b) (delta_level ls payload) (delta_level ls' payload)"
proof -
  from assms have wf: "dwf dec_eq ls" by (simp add: levels_wf_def)
  have get: "lget ls' k = lget ls k" for k
    using dec.dget_perm [OF wf assms(2)] by simp
  show ?thesis
    unfolding delta_level_def get
    by (auto simp: rbind_def dec.dset_perm [OF wf assms(2)] dec.dpop_perm [OF wf assms(2)]
             split: sum.splits)
qed

lemma rel_sum_bind_same: "(\<And>x. rel_sum (=) R (f x) (g x)) \<Longrightarrow> rel_sum (=) R (rbind m f) (rbind m g)"
  by (cases m) auto

lemma rel_sum_bind_map:
  "rel_sum (=) R m n \<Longrightarrow> (\<And>x y. R x y \<Longrightarrow> S (f x) (g y)) \<Longrightarrow>
   rel_sum (=) S (rbind m (\<lambda>x. Inr (f x))) (rbind n (\<lambda>y. Inr (g y)))"
  by (auto elim!: rel_sum.cases)

lemma proj_delta_same:
  assumes "proj_wf p" and same: "same_book p q"
  shows "rel_sum (=) same_book (proj_delta p payload) (proj_delta q payload)"
proof -
  from assms have "levels_wf (pj_bids p)" "mset (pj_bids p) = mset (pj_bids q)"
    "levels_wf (pj_asks p)" "mset (pj_asks p) = mset (pj_asks q)"
    by (simp_all add: proj_wf_def same_book_def)
  note bids = delta_level_perm [OF this(1,2)] and asks = delta_level_perm [OF this(3,4)]
  have snap: "pj_has_snapshot q = pj_has_snapshot p" using same by (simp add: same_book_def)
  have "rel_sum (=) same_book
      (rbind (delta_level (pj_bids p) payload) (\<lambda>ls. Inr (p\<lparr>pj_bids := ls\<rparr>)))
      (rbind (delta_level (pj_bids q) payload) (\<lambda>ls. Inr (q\<lparr>pj_bids := ls\<rparr>)))"
    by (rule rel_sum_bind_map [OF bids]) (use same in \<open>simp add: same_book_def\<close>)
  moreover have "rel_sum (=) same_book
      (rbind (delta_level (pj_asks p) payload) (\<lambda>ls. Inr (p\<lparr>pj_asks := ls\<rparr>)))
      (rbind (delta_level (pj_asks q) payload) (\<lambda>ls. Inr (q\<lparr>pj_asks := ls\<rparr>)))"
    by (rule rel_sum_bind_map [OF asks]) (use same in \<open>simp add: same_book_def\<close>)
  ultimately show ?thesis
    unfolding proj_delta_def snap Let_def by (intro rel_sum_bind_same) (simp only: if_split rel_sum_simps; simp)
qed

lemma proj_event_same:
  assumes "proj_wf p" and same: "same_book p q"
  shows "rel_sum (=) same_book (proj_event p t payload) (proj_event q t payload)"
proof -
  have snapshot: "same_book (p\<lparr>pj_bids := b, pj_asks := a, pj_has_snapshot := True\<rparr>)
      (q\<lparr>pj_bids := b, pj_asks := a, pj_has_snapshot := True\<rparr>)" for b a
    using same by (simp add: same_book_def)
  have trade: "same_book (p\<lparr>pj_last_trade := d\<rparr>) (q\<lparr>pj_last_trade := d\<rparr>)" for d
    using same by (simp add: same_book_def)
  show ?thesis
    unfolding proj_event_def
    by (simp add: proj_delta_same [OF assms] rel_sum_bind_same snapshot trade del: rbind_eq_Inr)
qed

lemma proj_apply_same:
  assumes "proj_wf p" and same: "same_book p q"
  shows "rel_sum (=) same_book (proj_apply p e) (proj_apply q e)"
proof -
  have ing: "pj_ingress q = pj_ingress p" using same by (simp add: same_book_def)
  have upd: "same_book a b \<Longrightarrow> same_book (a\<lparr>pj_ingress := i\<rparr>) (b\<lparr>pj_ingress := i\<rparr>)" for a b i
    by (simp add: same_book_def)
  have ev: "rel_sum (=) same_book (proj_event p t payload) (proj_event q t payload)" for t payload
    by (rule proj_event_same [OF assms])
  have "rel_sum (=) same_book (rbind (proj_event p t payload) (\<lambda>r. Inr (r\<lparr>pj_ingress := i\<rparr>)))
      (rbind (proj_event q t payload) (\<lambda>r. Inr (r\<lparr>pj_ingress := i\<rparr>)))" for t payload i
    using ev [of t payload] upd by (auto simp: rbind_def elim!: rel_sum.cases)
  then show ?thesis
    unfolding proj_apply_def ing by (intro rel_sum_bind_same)
qed

lemma proj_run_same:
  "proj_wf p \<Longrightarrow> same_book p q \<Longrightarrow>
   rel_sum (=) same_book (res_fold proj_apply p es) (res_fold proj_apply q es)"
proof (induction es arbitrary: p q)
  case Nil
  then show ?case by simp
next
  case (Cons e es)
  from proj_apply_same [OF Cons.prems, of e] show ?case
  proof cases
    case (1 x y)
    then show ?thesis by simp
  next
    case (2 p' q')
    with Cons.prems(1) have "proj_wf p'" by (blast intro: proj_apply_wf)
    from Cons.IH [OF this 2(3)] 2 show ?thesis by simp
  qed
qed

lemma feature_values_same:
  assumes "proj_wf p" and "same_book p q"
  shows "feature_values p = feature_values q"
proof -
  from assms have "best_bid p = best_bid q"
    unfolding best_bid_def dec_lt_def
    by (intro highest.best_level_perm) (auto simp: proj_wf_def levels_wf_def same_book_def)
  moreover from assms have "best_ask p = best_ask q"
    unfolding best_ask_def dec_lt_def [abs_def]
    by (intro lowest.best_level_perm) (auto simp: proj_wf_def levels_wf_def same_book_def)
  moreover from assms have "pj_last_trade p = pj_last_trade q" by (simp add: same_book_def)
  ultimately show ?thesis by (simp add: feature_values_def)
qed

section \<open>A checkpoint restores the book\<close>

text \<open>
  Numbers that \<open>format(d, "f")\<close> writes without loss: finite, not scaled by a positive exponent. All
  numbers of normalized events are of this kind.
\<close>

fun plain_dec :: "decimal \<Rightarrow> bool" where
  "plain_dec (Fin _ _ e) = (e \<le> 0)"
| "plain_dec _ = False"

definition plain_levels :: "levels \<Rightarrow> bool" where
  "plain_levels ls = list_all (\<lambda>l. plain_dec (fst l) \<and> plain_dec (snd l)) ls"

definition plain_book :: "projection \<Rightarrow> bool" where
  "plain_book p \<longleftrightarrow> plain_levels (pj_bids p) \<and> plain_levels (pj_asks p) \<and>
     (case pj_last_trade p of None \<Rightarrow> True | Some d \<Rightarrow> plain_dec d)"

lemma plain_dec_read [simp]: "plain_dec d \<Longrightarrow> py_decimal (dec_format d) = Inr d"
  by (cases d) (simp_all add: py_decimal_def dec_of_str_format_neg del: dec_format.simps)

lemma plain_not_nan: "plain_dec d \<Longrightarrow> \<not> is_nan d" "plain_dec d \<Longrightarrow> \<not> is_snan d"
  by (cases d; simp)+

lemma mset_insert_level [simp]: "mset (insert_level l ls) = add_mset l (mset ls)"
  by (induction ls) auto

lemma mset_sort_levels [simp]: "mset (foldr insert_level ls []) = mset ls"
  by (induction ls) auto

lemma restore_level_new:
  assumes "plain_dec p" "plain_dec q" "pos_dec q" "\<not> dmem dec_eq acc p"
  shows "restore_level acc (JArr [JStr (dec_format p), JStr (dec_format q)]) = Inr (acc @ [(p, q)])"
  using assms dec_le_zero [of q]
  by (simp add: restore_level_def hashable_def plain_not_nan dmem_def dec.dset_new)

lemma restore_levels_fold:
  assumes "dwf dec_eq (acc @ ls)" and "plain_levels ls" and "list_all (\<lambda>l. pos_dec (snd l)) ls"
  shows "res_fold restore_level acc (map (\<lambda>(p, q). JArr [JStr (dec_format p), JStr (dec_format q)]) ls)
    = Inr (acc @ ls)"
  using assms
proof (induction ls arbitrary: acc)
  case Nil
  then show ?case by simp
next
  case (Cons l ls)
  obtain p q where l: "l = (p, q)" by (cases l)
  have "\<not> dmem dec_eq acc p"
    using Cons.prems(1) by (auto simp: dmem_def dget_None l dwf_def sorted_wrt_append)
  with Cons.prems have "restore_level acc (JArr [JStr (dec_format p), JStr (dec_format q)]) = Inr (acc @ [l])"
    unfolding l by (intro restore_level_new) (auto simp: plain_levels_def l)
  moreover have "res_fold restore_level (acc @ [l])
      (map (\<lambda>(p, q). JArr [JStr (dec_format p), JStr (dec_format q)]) ls) = Inr ((acc @ [l]) @ ls)"
    using Cons.prems by (intro Cons.IH) (auto simp: plain_levels_def)
  ultimately show ?case by (simp add: l)
qed

lemma checkpoint_levels_restore:
  assumes "levels_wf ls" and "plain_levels ls"
  shows "\<exists>j s. checkpoint_levels ls = Inr j \<and> restore_levels j = Inr s \<and> mset s = mset ls"
proof -
  define s where "s = foldr insert_level ls []"
  have eq: "mset s = mset ls" by (simp add: s_def)
  have no_nan: "\<not> list_ex (is_nan \<circ> fst) ls"
    using assms(2) plain_not_nan(1) by (fastforce simp: list_ex_iff plain_levels_def list_all_iff)
  have "dwf dec_eq s" using assms(1) unfolding dec.dwf_perm [OF eq] by (simp add: levels_wf_def)
  moreover have "plain_levels s" "list_all (\<lambda>l. pos_dec (snd l)) s"
    using assms mset_eq_setD [OF eq] by (simp_all add: plain_levels_def levels_wf_def list_all_iff)
  ultimately have "restore_levels (JArr (map (\<lambda>(p, q). JArr [JStr (dec_format p), JStr (dec_format q)]) s)) = Inr s"
    using restore_levels_fold [of "[]" s] by (simp add: restore_levels_def)
  with eq no_nan show ?thesis
    by (auto simp: checkpoint_levels_def sorted_levels_def s_def)
qed

lemma restore_checkpoint:
  assumes "proj_wf p" and "plain_book p"
  shows "\<exists>c q. checkpoint p = Inr c \<and> restore c = Inr q \<and> same_book p q"
proof -
  from checkpoint_levels_restore [of "pj_bids p"] assms obtain jb bids where
    b: "checkpoint_levels (pj_bids p) = Inr jb" "restore_levels jb = Inr bids" "mset bids = mset (pj_bids p)"
    by (auto simp: proj_wf_def plain_book_def)
  from checkpoint_levels_restore [of "pj_asks p"] assms obtain ja asks where
    a: "checkpoint_levels (pj_asks p) = Inr ja" "restore_levels ja = Inr asks" "mset asks = mset (pj_asks p)"
    by (auto simp: proj_wf_def plain_book_def)
  have empty: "pj_has_snapshot p \<or> (bids = [] \<and> asks = [])"
    using assms(1) b(3) a(3) by (auto simp: proj_wf_def)
  show ?thesis
  proof (cases "pj_last_trade p")
    case None
    with a b empty show ?thesis
      by (auto simp: checkpoint_def restore_def same_book_def opt_format_def Let_def)
  next
    case (Some d)
    with assms(2) have "plain_dec d" by (simp add: plain_book_def)
    with Some a b empty show ?thesis
      by (auto simp: checkpoint_def restore_def same_book_def opt_format_def Let_def)
  qed
qed

text \<open>
  Interrupting a run after any prefix, saving and restoring, and going on: the outcome is the one of
  the uninterrupted run, error for error, and the features of the final state are the same.
\<close>

lemma restart_run:
  assumes "proj_wf p" and "res_fold proj_apply p xs = Inr t" and "plain_book t"
  shows "\<exists>c u. checkpoint t = Inr c \<and> restore c = Inr u \<and>
    rbind (res_fold proj_apply p (xs @ ys)) feature_values = rbind (res_fold proj_apply u ys) feature_values"
proof -
  from assms have wf: "proj_wf t" by (blast intro: proj.run_inv)
  from restore_checkpoint [OF wf assms(3)] obtain c u where
    c: "checkpoint t = Inr c" "restore c = Inr u" and same: "same_book t u"
    by blast
  have "rbind (res_fold proj_apply t ys) feature_values = rbind (res_fold proj_apply u ys) feature_values"
    using proj_run_same [OF wf same, of ys]
  proof cases
    case (1 x y)
    then show ?thesis by simp
  next
    case (2 x y)
    with wf have "proj_wf x" by (blast intro: proj.run_inv)
    with 2 feature_values_same show ?thesis by simp
  qed
  with c assms(2) show ?thesis by (auto simp: res_fold_append)
qed

section \<open>Properties of the projection\<close>

text \<open>Normalized events of a small run, for the witnesses.\<close>

definition sample_event :: "int \<Rightarrow> string \<Rightarrow> jobj \<Rightarrow> jobj" where
  "sample_event n t d = [(''ingress_order'', JInt n), (''event_type'', JStr t), (''payload'', JObj d)]"

definition sample_level :: "string \<Rightarrow> string \<Rightarrow> json" where
  "sample_level p q = JObj [(''price_dollars'', JStr p), (''quantity_contracts'', JStr q)]"

definition sample_snapshot :: jobj where
  "sample_snapshot = sample_event 1 ''book_snapshot''
     [(''yes_bids'', JArr [sample_level ''0.3'' ''2'', sample_level ''0.4'' ''3'']),
      (''yes_asks'', JArr [sample_level ''0.6'' ''2''])]"

definition sample_delta :: jobj where
  "sample_delta = sample_event 2 ''book_delta''
     [(''book_side'', JStr ''yes''), (''price_dollars'', JStr ''0.40''), (''quantity_delta_contracts'', JStr ''-1'')]"

definition sample_trade :: jobj where
  "sample_trade = sample_event 3 ''trade'' [(''yes_price_dollars'', JStr ''0.5'')]"

definition sample_book :: projection where
  "sample_book = \<lparr>pj_bids = [(Fin False 3 (-1), Fin False 2 0), (Fin False 4 (-1), Fin False 3 0)],
     pj_asks = [(Fin False 6 (-1), Fin False 2 0)], pj_last_trade = None, pj_ingress = 1,
     pj_has_snapshot = True\<rparr>"

definition sample_book2 :: projection where
  "sample_book2 = \<lparr>pj_bids = [(Fin False 3 (-1), Fin False 2 0), (Fin False 4 (-1), Fin False 2 0)],
     pj_asks = [(Fin False 6 (-1), Fin False 2 0)], pj_last_trade = None, pj_ingress = 2,
     pj_has_snapshot = True\<rparr>"

lemma sample_run:
  "res_fold proj_apply proj_init [sample_snapshot] = Inr sample_book"
  "res_fold proj_apply proj_init [sample_snapshot, sample_delta] = Inr sample_book2"
  by code_simp+

text \<open>C16: Book integrity over any replay. After any sequence of events a fresh projection accepts,
  no price occurs twice on a side, every displayed quantity is positive, there are no levels before a
  snapshot, and the watermark is the number of events applied.\<close>

theorem projection_integrity:
  assumes "res_fold proj_apply proj_init es = Inr p"
  shows "dwf dec_eq (pj_bids p) \<and> dwf dec_eq (pj_asks p) \<and>
    (\<forall>l \<in> set (pj_bids p) \<union> set (pj_asks p). dec_le (snd l) (dec_of_int 0) = Inr False) \<and>
    (pj_has_snapshot p \<or> (pj_bids p = [] \<and> pj_asks p = [])) \<and>
    pj_ingress p = int (length es)"
proof -
  have "proj_wf p" by (rule proj.run_inv [OF proj_init_wf assms])
  moreover have "pj_ingress p = int (length es)"
    using proj.run_count [OF proj_init_wf assms] by (simp add: proj_init_def sum_list_triv)
  ultimately show ?thesis
    by (auto simp: proj_wf_def levels_wf_def list_all_iff dec_le_zero)
qed

theorem projection_integrity_witness:
  "pj_ingress sample_book2 = 2 \<and> dwf dec_eq (pj_bids sample_book2)"
  using projection_integrity [OF sample_run(2)] by simp

text \<open>C20: What one delta does. An accepted \<open>book_delta\<close> moves the displayed quantity at its price by
  exactly the delta, removes the level when that leaves nothing, and changes no other price of the
  side, nothing of the other side, and not the last trade.\<close>

theorem projection_delta_effect:
  assumes "proj_wf p" and "proj_apply p event = Inr p'"
    and "oget event ''event_type'' = JStr ''book_delta''" and "oget event ''payload'' = JObj payload"
  shows "\<exists>side other side' price delta quantity.
    (side, other, side') \<in>
      {(pj_bids, pj_asks, ''yes''), (pj_asks, pj_bids, ''no'')} \<and>
    oget payload ''book_side'' = JStr side' \<and>
    decimal_of (oget payload ''price_dollars'') = Inr price \<and>
    decimal_of (oget payload ''quantity_delta_contracts'') = Inr delta \<and>
    dec_add (case lget (side p) price of None \<Rightarrow> dec_of_int 0 | Some q \<Rightarrow> q) delta = Inr quantity \<and>
    dec_lt quantity (dec_of_int 0) = Inr False \<and>
    (\<forall>k. lget (side p') k =
      (if dec_eq price k then (if dec_eq quantity (dec_of_int 0) then None else Some quantity)
       else lget (side p) k)) \<and>
    other p' = other p \<and> pj_last_trade p' = pj_last_trade p"
proof -
  from assms obtain r i where r: "proj_delta p payload = Inr r" and p': "p' = r\<lparr>pj_ingress := i\<rparr>"
    by (auto simp: proj_apply_def proj_event_def rbind_eq_Inr)
  from r consider ls where "oget payload ''book_side'' = JStr ''yes''" "delta_level (pj_bids p) payload = Inr ls"
      "r = p\<lparr>pj_bids := ls\<rparr>"
    | ls where "oget payload ''book_side'' = JStr ''no''" "delta_level (pj_asks p) payload = Inr ls"
      "r = p\<lparr>pj_asks := ls\<rparr>"
    by (auto simp: proj_delta_def rbind_eq_Inr Let_def split: if_splits)
  then show ?thesis
  proof cases
    case (1 ls)
    from assms(1) have "levels_wf (pj_bids p)" by (simp add: proj_wf_def)
    from delta_level_get [OF this 1(2)] 1 show ?thesis
      by (intro exI [of _ pj_bids] exI [of _ pj_asks] exI [of _ "''yes''"]) (auto simp: p')
  next
    case (2 ls)
    from assms(1) have "levels_wf (pj_asks p)" by (simp add: proj_wf_def)
    from delta_level_get [OF this 2(2)] 2 show ?thesis
      by (intro exI [of _ pj_asks] exI [of _ pj_bids] exI [of _ "''no''"]) (auto simp: p')
  qed
qed

theorem projection_delta_effect_witness:
  "lget (pj_bids sample_book2) (Fin False 4 (-1)) = Some (Fin False 2 0) \<and>
   pj_asks sample_book2 = pj_asks sample_book"
proof -
  have wf: "proj_wf sample_book" by (rule proj.run_inv [OF proj_init_wf sample_run(1)])
  have step: "proj_apply sample_book sample_delta = Inr sample_book2" by code_simp
  have ev: "oget sample_delta ''event_type'' = JStr ''book_delta''"
    "oget sample_delta ''payload'' = JObj [(''book_side'', JStr ''yes''), (''price_dollars'', JStr ''0.40''),
       (''quantity_delta_contracts'', JStr ''-1'')]"
    by (simp_all add: sample_delta_def sample_event_def)
  have "lget (pj_bids sample_book2) (Fin False 4 (-1)) = Some (Fin False 2 0)" by code_simp
  with projection_delta_effect [OF wf step ev] show ?thesis by auto
qed



text \<open>C21: The features name the top of the book. When every price of the book is finite, the best bid
  of \<open>feature_values\<close> is the greatest bid price and the best ask the least ask price, each with the
  quantity displayed there, and a side without levels has neither.\<close>

theorem features_top_of_book:
  assumes "proj_wf p" and "finite_prices (pj_bids p)" and "finite_prices (pj_asks p)"
    and "feature_values p = Inr f"
  shows "(if pj_bids p = [] then oget f ''best_yes_bid_dollars'' = JNull \<and> oget f ''best_bid_quantity_contracts'' = JNull
      else \<exists>b q. (b, q) \<in> set (pj_bids p) \<and> (\<forall>l \<in> set (pj_bids p). dval (fst l) \<le> dval b) \<and>
        oget f ''best_yes_bid_dollars'' = JStr (dec_format b) \<and>
        oget f ''best_bid_quantity_contracts'' = JStr (dec_format q)) \<and>
    (if pj_asks p = [] then oget f ''best_yes_ask_dollars'' = JNull \<and> oget f ''best_ask_quantity_contracts'' = JNull
      else \<exists>a q. (a, q) \<in> set (pj_asks p) \<and> (\<forall>l \<in> set (pj_asks p). dval a \<le> dval (fst l)) \<and>
        oget f ''best_yes_ask_dollars'' = JStr (dec_format a) \<and>
        oget f ''best_ask_quantity_contracts'' = JStr (dec_format q))"
proof -
  from assms(4) obtain b a where b: "best_bid p = Inr b" and a: "best_ask p = Inr a"
    and f: "oget f ''best_yes_bid_dollars'' = opt_format (map_option fst b)"
      "oget f ''best_bid_quantity_contracts'' = opt_format (map_option snd b)"
      "oget f ''best_yes_ask_dollars'' = opt_format (map_option fst a)"
      "oget f ''best_ask_quantity_contracts'' = opt_format (map_option snd a)"
    by (auto simp: feature_values_def rbind_eq_Inr)
  show ?thesis
  proof (intro conjI)
    show "if pj_bids p = [] then oget f ''best_yes_bid_dollars'' = JNull \<and> oget f ''best_bid_quantity_contracts'' = JNull
      else \<exists>b q. (b, q) \<in> set (pj_bids p) \<and> (\<forall>l \<in> set (pj_bids p). dval (fst l) \<le> dval b) \<and>
        oget f ''best_yes_bid_dollars'' = JStr (dec_format b) \<and>
        oget f ''best_bid_quantity_contracts'' = JStr (dec_format q)"
    proof (cases "pj_bids p = []")
      case True
      with b f show ?thesis by (simp add: best_bid_def best_level_def opt_format_def)
    next
      case False
      from best_bid_max [OF assms(2) this] b obtain x q where "b = Some (x, q)"
        "(x, q) \<in> set (pj_bids p)" "\<forall>m \<in> set (pj_bids p). dval (fst m) \<le> dval x" by auto
      with f False show ?thesis by (simp add: opt_format_def) blast
    qed
    show "if pj_asks p = [] then oget f ''best_yes_ask_dollars'' = JNull \<and> oget f ''best_ask_quantity_contracts'' = JNull
      else \<exists>a q. (a, q) \<in> set (pj_asks p) \<and> (\<forall>l \<in> set (pj_asks p). dval a \<le> dval (fst l)) \<and>
        oget f ''best_yes_ask_dollars'' = JStr (dec_format a) \<and>
        oget f ''best_ask_quantity_contracts'' = JStr (dec_format q)"
    proof (cases "pj_asks p = []")
      case True
      with a f show ?thesis by (simp add: best_ask_def best_level_def opt_format_def)
    next
      case False
      from best_ask_min [OF assms(3) this] a obtain x q where "a = Some (x, q)"
        "(x, q) \<in> set (pj_asks p)" "\<forall>m \<in> set (pj_asks p). dval x \<le> dval (fst m)" by auto
      with f False show ?thesis by (simp add: opt_format_def) blast
    qed
  qed
qed

theorem features_top_of_book_witness:
  "\<exists>q. oget [(''best_yes_bid_dollars'', JStr ''0.4''), (''best_yes_ask_dollars'', JNull),
     (''best_bid_quantity_contracts'', JStr ''3''), (''best_ask_quantity_contracts'', JNull),
     (''midpoint_dollars'', JNull), (''spread_dollars'', JNull), (''top_of_book_imbalance'', JNull),
     (''last_trade_yes_price_dollars'', JNull)] ''best_bid_quantity_contracts'' = JStr (dec_format q)"
proof -
  let ?p = "sample_book\<lparr>pj_asks := []\<rparr>"
  have "proj_wf sample_book" by (rule proj.run_inv [OF proj_init_wf sample_run(1)])
  then have wf: "proj_wf ?p" by (simp add: proj_wf_def sample_book_def)
  have fin: "finite_prices (pj_bids ?p)" "finite_prices (pj_asks ?p)"
    by (simp_all add: finite_prices_def sample_book_def)
  have "feature_values ?p = Inr
    [(''best_yes_bid_dollars'', JStr ''0.4''), (''best_yes_ask_dollars'', JNull),
     (''best_bid_quantity_contracts'', JStr ''3''), (''best_ask_quantity_contracts'', JNull),
     (''midpoint_dollars'', JNull), (''spread_dollars'', JNull), (''top_of_book_imbalance'', JNull),
     (''last_trade_yes_price_dollars'', JNull)]"
    by code_simp
  from features_top_of_book [OF wf fin this] show ?thesis
    by (auto simp: sample_book_def)
qed



end
