(* ===== verification/Raw_Messages.thy ===== *)
theory Raw_Messages
  imports Field_Values
begin

text \<open>
  What the normalizers do with one captured WebSocket frame (\<open>pmm_phase7.py\<close>): the frame's text is
  decoded and typed (\<open>parse_raw_message\<close>), its levels and amounts become canonical decimal texts
  (\<open>normalize_levels\<close>, \<open>normalized_payload\<close>), and the source sequence numbers of a subscription
  are watched for gaps and regressions (\<open>seq_observe\<close>, the method \<open>SequenceValidation.observe\<close>).
\<close>

definition market_types :: "string list" where
  "market_types = [''orderbook_snapshot'', ''orderbook_delta'', ''trade'']"

section \<open>The frame\<close>

definition parse_raw_message :: "jobj \<Rightarrow> (string \<times> jobj) res" where
  "parse_raw_message record =
     rbind (of_option (ValueError ''raw record has no raw_frame_utf8'')
              (as_str (oget record ''raw_frame_utf8''))) (\<lambda>raw.
     rbind (of_option (ValueError ''raw record has invalid JSON payload'') (json_loads raw)) (\<lambda>value.
     rbind (of_option (ValueError ''raw record has an unsupported WebSocket message'') (as_obj value)) (\<lambda>message.
     rbind (of_option (ValueError ''raw record has an unsupported WebSocket message'')
              (as_obj (oget message ''msg''))) (\<lambda>_.
     rbind (in_names (oget message ''type'') market_types) (\<lambda>known.
     rbind (ensure known (ValueError ''raw record has unsupported message type'')) (\<lambda>_.
     Inr (py_str (oget message ''type''), message)))))))"

section \<open>Levels\<close>

text \<open>
  The loop of \<open>normalize_levels\<close>: the prices seen so far and the levels built so far. Two spellings
  of one price (0.5 and 0.50) are different texts here.
\<close>

definition normalize_level :: "string list \<times> json list \<Rightarrow> json \<Rightarrow> (string list \<times> json list) res" where
  "normalize_level st level =
     (case level of
        JArr [p, q] \<Rightarrow>
          rbind (unit_price p) (\<lambda>price.
          rbind (quantity_string q) (\<lambda>quantity.
          rbind (ensure (price \<notin> set (fst st)) (ValueError ''repeats a price level'')) (\<lambda>_.
          Inr (price # fst st,
               snd st @ [JObj [(''price_dollars'', JStr price), (''quantity_contracts'', JStr quantity)]]))))
      | _ \<Rightarrow> Inl (ValueError ''must be [price, quantity]''))"

definition normalize_levels :: "json \<Rightarrow> json list res" where
  "normalize_levels levels =
     rbind (of_option (ValueError ''must be a list'') (as_arr levels)) (\<lambda>ls.
     rbind (res_fold normalize_level ([], []) ls) (\<lambda>st.
     Inr (snd st)))"

section \<open>The payload\<close>

definition normalized_payload :: "string \<Rightarrow> jobj \<Rightarrow> (string \<times> string option \<times> jobj) res" where
  "normalized_payload message_type message =
     rbind (oindex message ''msg'') (\<lambda>msg.
     rbind (of_option AttributeError (as_obj msg)) (\<lambda>payload.
     let ticker = oget payload ''market_ticker''; market_id = oget payload ''market_id'' in
     rbind (ensure (nonempty_str ticker) (ValueError ''market_ticker is required'')) (\<lambda>_.
     rbind (ensure (market_id = JNull \<or> nonempty_str market_id)
              (ValueError ''market_id must be a non-empty string when present'')) (\<lambda>_.
     let result = (\<lambda>body. (py_str ticker, as_str market_id, body)) in
     if message_type = ''orderbook_snapshot'' then
       rbind (normalize_levels (oget payload ''yes_dollars_fp'')) (\<lambda>bids.
       rbind (normalize_levels (oget payload ''no_dollars_fp'')) (\<lambda>asks.
       Inr (result [(''yes_bids'', JArr bids), (''yes_asks'', JArr asks)])))
     else if message_type = ''orderbook_delta'' then
       rbind (in_names (oget payload ''side'') [''yes'', ''no'']) (\<lambda>known.
       rbind (ensure known (ValueError ''orderbook_delta side must be yes or no'')) (\<lambda>_.
       rbind (unit_price (oget payload ''price_dollars'')) (\<lambda>price.
       rbind (signed_quantity_string (oget payload ''delta_fp'')) (\<lambda>delta.
       Inr (result [(''book_side'', oget payload ''side''), (''price_dollars'', JStr price),
                    (''quantity_delta_contracts'', JStr delta)])))))
     else
       rbind (unit_price (oget payload ''yes_price_dollars'')) (\<lambda>yes.
       rbind (unit_price (oget payload ''no_price_dollars'')) (\<lambda>no.
       rbind (quantity_string (oget payload ''count_fp'')) (\<lambda>count.
       Inr (result [(''trade_id'', JStr (py_str (oget_default payload ''trade_id'' (JStr [])))),
                    (''yes_price_dollars'', JStr yes), (''no_price_dollars'', JStr no),
                    (''quantity_contracts'', JStr count),
                    (''taker_side'', oget payload ''taker_side''),
                    (''taker_book_side'', oget payload ''taker_book_side'')])))))))) "

section \<open>Source sequences\<close>

record seq_validation =
  sv_previous :: "((int \<times> string) \<times> int) list"
  sv_gaps :: "json list"

definition seq_init :: seq_validation where
  "seq_init = \<lparr>sv_previous = [], sv_gaps = []\<rparr>"

definition gap_record :: "int \<Rightarrow> json \<Rightarrow> int \<Rightarrow> int \<Rightarrow> json" where
  "gap_record connection sid expected received =
     JObj [(''connection_id'', JInt connection), (''subscription_id'', JStr (py_str sid)),
           (''expected_sequence'', JInt expected), (''received_sequence'', JInt received)]"

definition seq_observe :: "seq_validation \<Rightarrow> int \<times> json \<times> json \<Rightarrow> seq_validation res" where
  "seq_observe sv obs =
     (case obs of (connection, sid, sequence) \<Rightarrow>
       if sequence = JNull then Inr sv
       else
         rbind (int_value sequence) (\<lambda>current.
         let key = (connection, py_str sid) in
         case sget (sv_previous sv) key of
           None \<Rightarrow> Inr (sv\<lparr>sv_previous := sset (sv_previous sv) key current\<rparr>)
         | Some prior \<Rightarrow>
             let gaps = (if prior + 1 < current
                         then sv_gaps sv @ [gap_record connection sid (prior + 1) current]
                         else sv_gaps sv) in
             rbind (ensure (prior \<le> current) (ValueError ''source sequence moves backwards'')) (\<lambda>_.
             Inr (sv\<lparr>sv_gaps := gaps,
                     sv_previous := sset (sv_previous sv) key (max prior current)\<rparr>))))"

section \<open>Levels: what is accepted\<close>

lemma normalize_level_Inr:
  "normalize_level (seen, out) level = Inr st \<longleftrightarrow>
     (\<exists>p q price quantity. level = JArr [p, q] \<and> unit_price p = Inr price \<and>
        quantity_string q = Inr quantity \<and> price \<notin> set seen \<and>
        st = (price # seen,
              out @ [JObj [(''price_dollars'', JStr price), (''quantity_contracts'', JStr quantity)]]))"
  by (cases level) (auto simp: normalize_level_def rbind_eq_Inr split: list.splits)

definition level_price :: "json \<Rightarrow> string" where
  "level_price j = (case j of JObj d \<Rightarrow> py_str (oget d ''price_dollars'') | _ \<Rightarrow> [])"

definition level_quantity :: "json \<Rightarrow> string" where
  "level_quantity j = (case j of JObj d \<Rightarrow> py_str (oget d ''quantity_contracts'') | _ \<Rightarrow> [])"

definition wire_level :: "json \<Rightarrow> json \<Rightarrow> bool" where
  "wire_level level l \<longleftrightarrow>
     (\<exists>p q price quantity. level = JArr [p, q] \<and> unit_price p = Inr price \<and> quantity_string q = Inr quantity \<and>
        l = JObj [(''price_dollars'', JStr price), (''quantity_contracts'', JStr quantity)])"

lemma normalize_levels_fold:
  assumes "res_fold normalize_level (seen, out) ls = Inr (seen', out')"
  shows "\<exists>new. out' = out @ new \<and> list_all2 wire_level ls new \<and> seen' = rev (map level_price new) @ seen
    \<and> (distinct seen \<longrightarrow> distinct seen')"
  using assms
proof (induction ls arbitrary: seen out)
  case Nil
  then show ?case by simp
next
  case (Cons l ls)
  from Cons.prems obtain st where st: "normalize_level (seen, out) l = Inr st"
    and run: "res_fold normalize_level st ls = Inr (seen', out')"
    by (auto simp: rbind_eq_Inr)
  from st obtain p q price quantity where l: "l = JArr [p, q]" "unit_price p = Inr price"
      "quantity_string q = Inr quantity" "price \<notin> set seen"
    and st: "st = (price # seen,
      out @ [JObj [(''price_dollars'', JStr price), (''quantity_contracts'', JStr quantity)]])"
    by (auto simp: normalize_level_Inr)
  let ?n = "JObj [(''price_dollars'', JStr price), (''quantity_contracts'', JStr quantity)]"
  from Cons.IH [OF run [unfolded st]] obtain new where new: "out' = (out @ [?n]) @ new"
      "list_all2 wire_level ls new" "seen' = rev (map level_price new) @ price # seen"
      "distinct (price # seen) \<longrightarrow> distinct seen'"
    by blast
  have "wire_level l ?n" using l by (auto simp: wire_level_def)
  moreover have "level_price ?n = price" by (simp add: level_price_def)
  ultimately show ?case using new l(4) by (intro exI [of _ "?n # new"]) auto
qed

text \<open>
  Every accepted level is the canonical form of the level at its place, and no price text repeats.
\<close>

lemma normalize_levels_sound:
  assumes "normalize_levels levels = Inr out"
  shows "\<exists>ls. levels = JArr ls \<and> list_all2 wire_level ls out \<and> distinct (map level_price out)"
proof -
  from assms obtain ls seen where "levels = JArr ls" "res_fold normalize_level ([], []) ls = Inr (seen, out)"
    by (auto simp: normalize_levels_def rbind_eq_Inr)
  with normalize_levels_fold [OF this(2)] show ?thesis by (auto dest: distinct_rev [THEN iffD1])
qed

lemma unit_price_range:
  assumes "unit_price v = Inr s"
  shows "\<exists>d. dec_of_str s = Some d \<and> finite_dec d \<and> 0 \<le> dval d \<and> dval d \<le> 1"
proof -
  obtain d where d: "decimal_of v = Inr d" "finite_dec d" "0 \<le> dval d" "\<not> 1 < dval d"
    using assms by (auto simp: unit_price_def decimal_string_Inr below_min_finite above_max_finite)
  from decimal_string_text [OF assms [unfolded unit_price_def]] d show ?thesis by force
qed

lemma quantity_nonneg:
  assumes "quantity_string v = Inr s"
  shows "\<exists>d. dec_of_str s = Some d \<and> finite_dec d \<and> 0 \<le> dval d"
proof -
  obtain d where d: "decimal_of v = Inr d" "finite_dec d" "0 \<le> dval d"
    using assms by (auto simp: quantity_string_def decimal_string_Inr)
  from decimal_string_text [OF assms [unfolded quantity_string_def]] d show ?thesis by force
qed

lemma wire_level_values:
  assumes "wire_level level l"
  shows "\<exists>p q. dec_of_str (level_price l) = Some p \<and> finite_dec p \<and> 0 \<le> dval p \<and> dval p \<le> 1 \<and>
    dec_of_str (level_quantity l) = Some q \<and> finite_dec q \<and> 0 \<le> dval q"
  using assms unit_price_range quantity_nonneg
  by (fastforce simp: wire_level_def level_price_def level_quantity_def)

section \<open>Sequences: what is recorded\<close>

definition seq_key :: "int \<times> json \<times> json \<Rightarrow> int \<times> string" where
  "seq_key obs = (fst obs, py_str (fst (snd obs)))"

definition seq_last :: "seq_validation \<Rightarrow> int \<times> string \<Rightarrow> int option" where
  "seq_last sv k = sget (sv_previous sv) k"

text \<open>
  One observation, described by the last number seen on its subscription: it is refused exactly when
  it goes back, a jump is recorded as a gap, and no other subscription is touched.
\<close>

lemma seq_observe_Inr:
  assumes "seq_observe sv (c, sid, JInt n) = Inr sv'"
  shows "seq_last sv' k = (if k = (c, py_str sid) then Some n else seq_last sv k)"
    and "\<And>p. seq_last sv (c, py_str sid) = Some p \<Longrightarrow> p \<le> n"
    and "sv_gaps sv' = sv_gaps sv @
      (case seq_last sv (c, py_str sid) of
         Some p \<Rightarrow> (if p + 1 < n then [gap_record c sid (p + 1) n] else [])
       | None \<Rightarrow> [])"
  using assms
  by (auto simp: seq_observe_def seq_last_def Let_def rbind_eq_Inr split: option.splits if_splits)

lemma seq_observe_regression:
  "seq_last sv (c, py_str sid) = Some p \<Longrightarrow> n < p \<Longrightarrow>
   seq_observe sv (c, sid, JInt n) = Inl (ValueError ''source sequence moves backwards'')"
  by (simp add: seq_observe_def seq_last_def Let_def)

fun gap_between :: "json \<Rightarrow> bool" where
  "gap_between (JObj d) =
     (case (oget d ''expected_sequence'', oget d ''received_sequence'') of
        (JInt e, JInt r) \<Rightarrow> e < r | _ \<Rightarrow> False)"
| "gap_between _ = False"

definition seq_wf :: "seq_validation \<Rightarrow> bool" where
  "seq_wf sv \<longleftrightarrow> dwf (=) (sv_previous sv) \<and> list_all gap_between (sv_gaps sv)"

lemma seq_observe_wf:
  assumes "seq_wf sv" and "seq_observe sv obs = Inr sv'"
  shows "seq_wf sv'"
proof -
  obtain c sid s where [simp]: "obs = (c, sid, s)" by (cases obs)
  from assms(1) have wf: "dwf (=) (sv_previous sv)" "list_all gap_between (sv_gaps sv)"
    by (auto simp: seq_wf_def)
  have "dwf (=) (sset (sv_previous sv) k v)" for k v
    using wf(1) by (rule plain.dwf_dset)
  with assms(2) wf show ?thesis
    by (auto simp: seq_observe_def seq_wf_def Let_def rbind_eq_Inr gap_record_def
             split: option.splits if_splits)
qed

interpretation seq: res_machine seq_observe seq_wf
  by unfold_locales (rule seq_observe_wf)

section \<open>A run of observations\<close>

text \<open>The sequence numbers a run presents on one subscription, in order.\<close>

definition seq_numbers :: "int \<times> string \<Rightarrow> (int \<times> json \<times> json) list \<Rightarrow> int list" where
  "seq_numbers k obs =
     concat (map (\<lambda>ob. if seq_key ob = k
                       then (case int_value (snd (snd ob)) of Inr n \<Rightarrow> [n] | Inl _ \<Rightarrow> []) else []) obs)"

fun no_jump :: "int list \<Rightarrow> bool" where
  "no_jump (m # n # ns) = (n \<le> m + 1 \<and> no_jump (n # ns))"
| "no_jump _ = True"

lemma seq_numbers_snoc:
  "seq_numbers k (obs @ [ob]) = seq_numbers k obs @
     (if seq_key ob = k then (case int_value (snd (snd ob)) of Inr n \<Rightarrow> [n] | Inl _ \<Rightarrow> []) else [])"
  by (simp add: seq_numbers_def)

lemma no_jump_snoc: "no_jump (ns @ [n]) \<longleftrightarrow> no_jump ns \<and> (ns = [] \<or> n \<le> last ns + 1)"
  by (induction ns rule: no_jump.induct) auto

lemma int_value_JNull [simp]: "int_value JNull = Inl (ValueError ''must be an integer'')"
  by (simp add: int_value_def reraise_def)

lemma seq_observe_JNull [simp]: "seq_observe sv (c, sid, JNull) = Inr sv"
  by (simp add: seq_observe_def)

lemma seq_observe_int:
  "s \<noteq> JNull \<Longrightarrow> int_value s = Inr n \<Longrightarrow> seq_observe sv (c, sid, s) = seq_observe sv (c, sid, JInt n)"
  by (simp add: seq_observe_def)

lemma seq_observe_fails: "s \<noteq> JNull \<Longrightarrow> int_value s = Inl e \<Longrightarrow> seq_observe sv (c, sid, s) = Inl e"
  by (simp add: seq_observe_def)

lemma seq_run_state:
  assumes "res_fold seq_observe seq_init obs = Inr sv"
  shows "(\<forall>k. seq_last sv k = (if seq_numbers k obs = [] then None else Some (last (seq_numbers k obs)))) \<and>
    (\<forall>k. sorted (seq_numbers k obs)) \<and> (sv_gaps sv = [] \<longleftrightarrow> (\<forall>k. no_jump (seq_numbers k obs)))"
  using assms
proof (induction obs arbitrary: sv rule: rev_induct)
  case Nil
  then show ?case by (auto simp: seq_init_def seq_last_def seq_numbers_def)
next
  case (snoc ob obs)
  obtain c sid s where ob: "ob = (c, sid, s)" by (cases ob)
  from snoc.prems obtain t where t: "res_fold seq_observe seq_init obs = Inr t"
    and step: "seq_observe t (c, sid, s) = Inr sv"
    by (auto simp: res_fold_append rbind_eq_Inr ob)
  have IH_last: "seq_last t k = (if seq_numbers k obs = [] then None else Some (last (seq_numbers k obs)))"
    and IH_sorted: "sorted (seq_numbers k obs)" for k
    using snoc.IH [OF t] by blast+
  have IH_gaps: "sv_gaps t = [] \<longleftrightarrow> (\<forall>k. no_jump (seq_numbers k obs))"
    using snoc.IH [OF t] by blast
  show ?case
  proof (cases "s = JNull")
    case True
    then have "sv = t" using step by simp
    moreover have "seq_numbers k (obs @ [ob]) = seq_numbers k obs" for k
      using True by (simp add: seq_numbers_snoc ob)
    ultimately show ?thesis using snoc.IH [OF t] by simp
  next
    case False
    with step obtain n where n: "int_value s = Inr n"
      by (cases "int_value s") (auto simp: seq_observe_fails)
    let ?k = "(c, py_str sid)"
    have nums: "seq_numbers k (obs @ [ob]) = seq_numbers k obs @ (if k = ?k then [n] else [])" for k
      using n by (auto simp: seq_numbers_snoc ob seq_key_def)
    have obs: "seq_observe t (c, sid, JInt n) = Inr sv"
      using step unfolding seq_observe_int [OF False n] .
    note eff = seq_observe_Inr [OF obs]
    have last: "seq_numbers ?k obs = [] \<or> last (seq_numbers ?k obs) \<le> n"
      using eff(2) [unfolded IH_last] by (cases "seq_numbers ?k obs = []") simp_all
    then have srt: "sorted (seq_numbers ?k obs @ [n])"
      using IH_sorted [of ?k] by (cases "seq_numbers ?k obs" rule: rev_cases) (auto simp: sorted_append)
    have gaps: "sv_gaps sv = [] \<longleftrightarrow>
        sv_gaps t = [] \<and> (seq_numbers ?k obs = [] \<or> n \<le> last (seq_numbers ?k obs) + 1)"
      using eff(3) [unfolded IH_last] by (cases "seq_numbers ?k obs = []") auto
    show ?thesis
    proof (intro conjI)
      show "\<forall>k. seq_last sv k =
          (if seq_numbers k (obs @ [ob]) = [] then None else Some (last (seq_numbers k (obs @ [ob]))))"
        by (simp add: nums eff(1) IH_last)
      show "\<forall>k. sorted (seq_numbers k (obs @ [ob]))"
        using srt IH_sorted by (simp add: nums)
      have "no_jump (seq_numbers k (obs @ [ob])) \<longleftrightarrow> no_jump (seq_numbers k obs) \<and>
          (k = ?k \<longrightarrow> seq_numbers ?k obs = [] \<or> n \<le> last (seq_numbers ?k obs) + 1)" for k
        by (cases "k = ?k") (simp_all add: nums no_jump_snoc)
      then have "(\<forall>k. no_jump (seq_numbers k (obs @ [ob]))) \<longleftrightarrow>
          (\<forall>k. no_jump (seq_numbers k obs)) \<and> (seq_numbers ?k obs = [] \<or> n \<le> last (seq_numbers ?k obs) + 1)"
        by blast
      then show "sv_gaps sv = [] \<longleftrightarrow> (\<forall>k. no_jump (seq_numbers k (obs @ [ob])))"
        unfolding gaps IH_gaps by blast
    qed
  qed
qed

section \<open>Properties\<close>

text \<open>C23: What \<open>SequenceValidation\<close> guarantees of a whole capture. When no observation was refused,
  the numbers seen on every (connection, subscription) never decrease, and the list of gaps is empty
  exactly when no subscription ever jumped by more than one.\<close>

theorem sequence_gaps_complete:
  assumes "res_fold seq_observe seq_init obs = Inr sv"
  shows "(\<forall>k. sorted (seq_numbers k obs)) \<and> (sv_gaps sv = [] \<longleftrightarrow> (\<forall>k. no_jump (seq_numbers k obs)))"
  using seq_run_state [OF assms] by blast

theorem sequence_gaps_complete_witness:
  "\<not> (\<forall>k. no_jump (seq_numbers k [(1, JInt 7, JInt 3), (1, JStr ''8'', JInt 9), (1, JInt 7, JInt 5)]))"
proof -
  have "res_fold seq_observe seq_init [(1, JInt 7, JInt 3), (1, JStr ''8'', JInt 9), (1, JInt 7, JInt 5)] =
      Inr \<lparr>sv_previous = [((1, ''7''), 5), ((1, ''8''), 9)], sv_gaps = [gap_record 1 (JInt 7) 4 5]\<rparr>"
    by code_simp
  from sequence_gaps_complete [OF this] show ?thesis by simp
qed

text \<open>C24: \<open>normalize_levels\<close> keeps every level in its place. Its result has one entry per input
  \<open>[price, quantity]\<close>, each the canonical text of that pair, prices between zero and one dollar,
  quantities not negative, and no price text twice.\<close>

theorem normalize_levels_canonical:
  assumes "normalize_levels levels = Inr out"
  shows "(\<exists>ls. levels = JArr ls \<and> list_all2 wire_level ls out) \<and> distinct (map level_price out) \<and>
    (\<forall>l \<in> set out. \<exists>p q. dec_of_str (level_price l) = Some p \<and> finite_dec p \<and> 0 \<le> dval p \<and> dval p \<le> 1 \<and>
       dec_of_str (level_quantity l) = Some q \<and> finite_dec q \<and> 0 \<le> dval q)"
proof -
  from normalize_levels_sound [OF assms] obtain ls where
    ls: "levels = JArr ls" "list_all2 wire_level ls out" "distinct (map level_price out)" by blast
  have "\<exists>x. wire_level x l" if "l \<in> set out" for l
    using ls(2) that by (metis in_set_conv_nth list_all2_conv_all_nth)
  with wire_level_values ls show ?thesis by blast
qed

theorem normalize_levels_canonical_witness:
  "distinct (map level_price [JObj [(''price_dollars'', JStr ''0.4''), (''quantity_contracts'', JStr ''3'')],
                              JObj [(''price_dollars'', JStr ''0.35''), (''quantity_contracts'', JStr ''0.5'')]])"
proof -
  have "normalize_levels (JArr [JArr [JStr ''0.4'', JInt 3], JArr [JStr ''35e-2'', JStr ''0.5'']]) =
      Inr [JObj [(''price_dollars'', JStr ''0.4''), (''quantity_contracts'', JStr ''3'')],
           JObj [(''price_dollars'', JStr ''0.35''), (''quantity_contracts'', JStr ''0.5'')]]"
    by code_simp
  from normalize_levels_canonical [OF this] show ?thesis by blast
qed

end
