(* ===== verification/Json_Roundtrip.thy ===== *)
theory Json_Roundtrip
  imports Json
begin

text \<open>
  Canonical text reads back. Decoding what \<open>canonical_json\<close> prints gives the value with its
  objects sorted by key (\<open>json_sorted\<close>), for every value without floats whose objects have distinct
  keys (\<open>json_plain\<close>). So two such values have the same canonical text, and the same content
  hash input, only if they are the same up to the order of their objects.
\<close>

fun json_plain :: "json \<Rightarrow> bool" where
  "json_plain (JInt i) = (ndigits (nat \<bar>i\<bar>) \<le> 4300)"
| "json_plain (JFloat f) = False"
| "json_plain (JArr xs) = list_all json_plain xs"
| "json_plain (JObj d) = (distinct (map fst d) \<and> list_all (\<lambda>(k, v). json_plain v) d)"
| "json_plain _ = True"

fun json_sorted :: "json \<Rightarrow> json" where
  "json_sorted (JArr xs) = JArr (map json_sorted xs)"
| "json_sorted (JObj d) = JObj (sort_key fst (map (\<lambda>(k, v). (k, json_sorted v)) d))"
| "json_sorted j = j"

section \<open>Strings\<close>

lemma of_digit_char: "d < 10 \<Longrightarrow> (of_char (digit_char d) :: nat) = 48 + d"
  using digit_cases [of d] unfolding upt_ten by (auto simp: digit_char_def)

lemma hex_val_char: "d < 16 \<Longrightarrow> hex_val (hex_char d) = Some d"
proof (cases "d < 10")
  case True
  then show ?thesis by (simp add: hex_val_def hex_char_def of_digit_char Let_def)
next
  case False
  assume "d < 16"
  with False have "(of_char (hex_char d) :: nat) = 87 + d"
    by (simp add: hex_char_def)
  with False \<open>d < 16\<close> show ?thesis by (simp add: hex_val_def Let_def)
qed

lemma hex4_low:
  assumes "n < 256"
  shows "hex4 (CHR ''0'' # CHR ''0'' # hex_char (n div 16) # hex_char (n mod 16) # r) = Some n"
proof -
  have "n div 16 < 16" "n mod 16 < 16" using assms by (simp_all add: less_mult_imp_div_less)
  moreover have "hex_val (CHR ''0'') = Some 0" by code_simp
  ultimately show ?thesis by (simp add: hex4_def hex_val_char)
qed

lemma json_string_char:
  "json_string (json_char c @ t) = map_option (\<lambda>(x, r). (c # x, r)) (json_string t)"
proof -
  let ?n = "of_char c :: nat"
  consider "c = CHR 0x22 \<or> c = CHR 0x5C" | "c = CHR 0x0A" | "c = CHR 0x0D" | "c = CHR 0x09" | "c = CHR 0x0C"
    | "c = CHR 0x08" | "c \<notin> {CHR 0x22, CHR 0x5C, CHR 0x0A, CHR 0x0D, CHR 0x09, CHR 0x0C, CHR 0x08}" "?n < 32"
    | "c \<notin> {CHR 0x22, CHR 0x5C, CHR 0x0A, CHR 0x0D, CHR 0x09, CHR 0x0C, CHR 0x08}" "\<not> ?n < 32"
    by blast
  then show ?thesis
  proof cases
    case 7
    then have jc: "json_char c = [CHR 0x5C, CHR ''u'', CHR ''0'', CHR ''0'', hex_char (?n div 16), hex_char (?n mod 16)]"
      by (simp add: json_char_def Let_def)
    have "unicode_escape (CHR ''0'' # CHR ''0'' # hex_char (?n div 16) # hex_char (?n mod 16) # t) = Some ([c], 4)"
      using 7(2) by (simp add: unicode_escape_def hex4_low utf8_def)
    then show ?thesis unfolding jc by (simp add: map_option_case split: option.splits)
  next
    case 8
    then show ?thesis by (simp add: json_char_def Let_def)
  qed (auto simp: json_char_def simple_escape_def Let_def)
qed

lemma json_string_quoted: "json_string (concat (map json_char s) @ CHR 0x22 # r) = Some (s, r)"
  by (induction s) (simp_all add: json_string_char)

section \<open>Numbers and words\<close>

text \<open>What may follow a value inside a document.\<close>

definition value_end :: "string \<Rightarrow> bool" where
  "value_end r = (r = [] \<or> hd r \<in> {CHR '','', CHR 0x5D, CHR 0x7D, CHR 0x0A})"

lemma value_end_simps [simp]: "value_end []" "value_end (CHR '','' # r)" "value_end (CHR 0x5D # r)"
  "value_end (CHR 0x7D # r)" "value_end (CHR 0x0A # r)"
  by (simp_all add: value_end_def)

lemma nat_str_lead: "0 < n \<Longrightarrow> hd (nat_str n) \<noteq> CHR ''0''"
proof (induction n rule: nat_str.induct)
  case (1 n)
  show ?case
  proof (cases "n < 10")
    case True
    then have "nat_str n = [digit_char n]" by (simp add: nat_str.simps [of n])
    moreover have "digit_char n \<noteq> CHR ''0''"
    proof
      assume "digit_char n = CHR ''0''"
      moreover have "digit_char 0 = CHR ''0''" by (simp add: digit_char_def)
      ultimately have "digit_val (digit_char n) = digit_val (digit_char 0)" by simp
      with True 1 show False by simp
    qed
    ultimately show ?thesis by simp
  next
    case False
    with 1 show ?thesis by (simp add: nat_str.simps [of n])
  qed
qed

lemma nat_str_zero: "nat_str 0 = ''0''"
  by (simp add: nat_str.simps digit_char_def)

lemma takeWhile_number:
  "value_end r \<Longrightarrow> takeWhile is_digit (nat_str n @ r) = nat_str n"
proof -
  assume "value_end r"
  then have "takeWhile is_digit r = []" by (cases r) (auto simp: value_end_def is_digit_def)
  moreover have "takeWhile is_digit (nat_str n @ r) = nat_str n @ takeWhile is_digit r"
    by (rule takeWhile_append2) (rule nat_str_digits)
  ultimately show ?thesis by simp
qed

lemma value_end_not:
  "value_end r \<Longrightarrow> r = [] \<or> (hd r \<noteq> CHR ''.'' \<and> hd r \<noteq> CHR ''e'' \<and> hd r \<noteq> CHR ''E'')"
  by (auto simp: value_end_def)

lemma int_part:
  assumes "value_end r"
  shows "(if nat_str n @ r \<noteq> [] \<and> hd (nat_str n @ r) = CHR ''0'' then [CHR ''0'']
          else takeWhile is_digit (nat_str n @ r)) = nat_str n"
proof (cases "n = 0")
  case True
  then show ?thesis by (simp add: nat_str_zero)
next
  case False
  with nat_str_lead [of n] show ?thesis by (simp add: takeWhile_number assms)
qed

lemma json_number_int:
  assumes "value_end r" and "ndigits (nat \<bar>i\<bar>) \<le> 4300"
  shows "json_number (int_str i @ r) = Some (JInt i, r)"
proof -
  let ?n = "nat \<bar>i\<bar>"
  let ?neg = "i < 0"
  have s: "int_str i @ r = (if ?neg then CHR ''-'' # nat_str ?n @ r else nat_str ?n @ r)"
    by (simp add: int_str_def)
  have minus: "hd (nat_str ?n @ r) \<noteq> CHR ''-''"
    using nat_str_hd [of ?n] by (auto simp: is_digit_def)
  have neg: "(int_str i @ r \<noteq> [] \<and> hd (int_str i @ r) = CHR ''-'') = ?neg"
    unfolding s using minus by (cases ?neg) simp_all
  have u: "(if ?neg then tl (int_str i @ r) else int_str i @ r) = nat_str ?n @ r"
    by (simp add: s)
  have ne: "\<not> (r \<noteq> [] \<and> hd r = CHR ''.'')" "\<not> (r \<noteq> [] \<and> (hd r = CHR ''e'' \<or> hd r = CHR ''E''))"
    using value_end_not [OF assms(1)] by auto
  have len: "\<not> 4300 < length (nat_str ?n)" using assms(2) by simp
  have val: "(if ?neg then - int (digits_val (nat_str ?n)) else int (digits_val (nat_str ?n))) = i"
    by simp
  have dr: "drop (length (nat_str ?n)) (nat_str ?n @ r) = r" by (simp del: length_nat_str)
  have nn: "nat_str ?n \<noteq> []" by simp
  show ?thesis
    unfolding json_number_def Let_def neg u int_part [OF assms(1)] dr if_not_P [OF ne(1)] if_not_P [OF len]
      if_P [OF refl] if_not_P [OF ne(2)] if_not_P [OF nn] val
    by simp
qed

lemma strip_prefix_append [simp]: "strip_prefix p (p @ r) = Some r"
  by (induction p) auto

lemma int_str_hd: "is_digit (hd (int_str i)) \<or> (hd (int_str i) = CHR ''-'' \<and> tl (int_str i) = nat_str (nat \<bar>i\<bar>))"
  using nat_str_hd by (auto simp: int_str_def)

lemma json_word_int:
  assumes "value_end r" and "ndigits (nat \<bar>i\<bar>) \<le> 4300"
  shows "json_word (int_str i @ r) = Some (JInt i, r)"
proof -
  obtain c t where t: "int_str i = c # t" by (cases "int_str i") auto
  have c: "is_digit c \<or> (c = CHR ''-'' \<and> t = nat_str (nat \<bar>i\<bar>))"
    using int_str_hd [of i] by (simp add: t)
  then have word: "strip_prefix (w # ws) (int_str i @ r) = None"
    if "w \<in> {CHR ''n'', CHR ''t'', CHR ''f'', CHR ''N'', CHR ''I''}" for w ws
    using that by (auto simp: t is_digit_def)
  obtain d u where u: "nat_str (nat \<bar>i\<bar>) = d # u" by (cases "nat_str (nat \<bar>i\<bar>)") auto
  have "is_digit d" using nat_str_hd [of "nat \<bar>i\<bar>"] by (simp add: u)
  with c have minus: "strip_prefix ''-Infinity'' (int_str i @ r) = None"
    by (auto simp: t u is_digit_def)
  show ?thesis by (simp add: json_word_def json_number_int [OF assms] word minus)
qed

section \<open>Values\<close>

text \<open>How much fuel a value needs; twice the length of its text is more.\<close>

fun json_fuel :: "json \<Rightarrow> nat" where
  "json_fuel (JArr xs) = Suc (sum_list (map (\<lambda>x. Suc (json_fuel x)) xs))"
| "json_fuel (JObj d) = Suc (sum_list (map (\<lambda>(k, v). Suc (json_fuel v)) d))"
| "json_fuel _ = 1"

definition items_text :: "json list \<Rightarrow> string" where
  "items_text xs = join '','' (map canonical_json xs)"

definition members_text :: "(string \<times> json) list \<Rightarrow> string" where
  "members_text d = join '','' (map (\<lambda>(k, v). json_quote k @ '':'' @ canonical_json v) d)"

text \<open>Sorting the members and printing their values commute.\<close>

lemma sort_key_map_snd:
  "sort_key fst (map (\<lambda>(k, v). (k, f v)) d) = map (\<lambda>(k, v). (k, f v)) (sort_key fst d)"
proof -
  have ins: "insort_key fst (k, f v) (map (\<lambda>(k, v). (k, f v)) d) = map (\<lambda>(k, v). (k, f v)) (insort_key fst (k, v) d)"
    for k v d
    by (induction d) auto
  show ?thesis by (induction d) (auto simp: ins split: prod.splits)
qed

lemma canonical_obj: "canonical_json (JObj d) = CHR 0x7B # members_text (sort_key fst d) @ [CHR 0x7D]"
  unfolding canonical_json.simps sort_key_map_snd members_text_def map_map
  by (simp add: comp_def case_prod_beta')

lemma canonical_arr: "canonical_json (JArr xs) = CHR 0x5B # items_text xs @ [CHR 0x5D]"
  by (simp add: items_text_def)

lemma join_Cons: "xs \<noteq> [] \<Longrightarrow> join sep (x # xs) = x @ sep @ join sep xs"
  by (cases xs) auto

lemma items_text_Cons:
  "items_text (x # xs) = canonical_json x @ (if xs = [] then [] else CHR '','' # items_text xs)"
  by (cases xs) (simp_all add: items_text_def)

lemma members_text_Cons:
  "members_text ((k, v) # d) = json_quote k @ CHR '':'' # canonical_json v @
     (if d = [] then [] else CHR '','' # members_text d)"
  by (cases d) (simp_all add: members_text_def)

lemma canonical_ne: "canonical_json j \<noteq> []"
  by (cases j) (auto simp: json_quote_def json_float_def float_repr_def float_digits_str_def Let_def
      split: pyfloat.splits if_splits)

lemma canonical_first:
  assumes "json_plain j"
  shows "\<not> is_json_space (hd (canonical_json j))"
proof (cases j)
  case (JInt i)
  then show ?thesis using int_str_hd [of i]
    by (auto simp: is_json_space_def is_digit_def)
qed (use assms in \<open>auto simp: is_json_space_def json_quote_def\<close>)

lemma skip_ws_canonical: "json_plain j \<Longrightarrow> skip_ws (canonical_json j @ r) = canonical_json j @ r"
  using canonical_first [of j] canonical_ne [of j]
  by (cases "canonical_json j") (simp_all add: skip_ws_def)

lemma skip_ws_punct [simp]:
  "skip_ws (CHR '','' # r) = CHR '','' # r" "skip_ws (CHR 0x5D # r) = CHR 0x5D # r"
  "skip_ws (CHR 0x7D # r) = CHR 0x7D # r" "skip_ws (CHR '':'' # r) = CHR '':'' # r"
  "skip_ws (CHR 0x22 # r) = CHR 0x22 # r"
  by (simp_all add: skip_ws_def is_json_space_def)

lemma skip_ws_members:
  "skip_ws (members_text ((k, v) # d) @ r) = members_text ((k, v) # d) @ r"
  by (simp add: members_text_Cons json_quote_def)

lemma skip_ws_items:
  "json_plain x \<Longrightarrow> skip_ws (items_text (x # xs) @ r) = items_text (x # xs) @ r"
  using skip_ws_canonical [of x "(if xs = [] then [] else CHR '','' # items_text xs) @ r"]
  by (simp add: items_text_Cons)

definition reads :: "json \<Rightarrow> bool" where
  "reads j \<longleftrightarrow> (\<forall>n r. json_fuel j \<le> n \<longrightarrow> value_end r \<longrightarrow>
     json_value n (canonical_json j @ r) = Some (json_sorted j, r))"

lemma json_items_read:
  assumes "xs \<noteq> []" and "\<forall>x \<in> set xs. json_plain x \<and> reads x"
    and "sum_list (map (\<lambda>x. Suc (json_fuel x)) xs) \<le> n"
  shows "json_items n (items_text xs @ CHR 0x5D # r) = Some (map json_sorted xs, r)"
  using assms
proof (induction xs arbitrary: n)
  case (Cons x xs)
  then obtain m where n: "n = Suc m" by (cases n) auto
  have fuel: "json_fuel x \<le> m" "sum_list (map (\<lambda>x. Suc (json_fuel x)) xs) \<le> m"
    using Cons.prems(3) by (simp_all add: n)
  show ?case
  proof (cases "xs = []")
    case True
    have "json_value m (canonical_json x @ CHR 0x5D # r) = Some (json_sorted x, CHR 0x5D # r)"
      using Cons.prems(2) fuel by (simp add: reads_def)
    then show ?thesis by (simp add: n True items_text_Cons)
  next
    case False
    then obtain y ys where ys: "xs = y # ys" by (cases xs) auto
    have "json_value m (canonical_json x @ CHR '','' # items_text xs @ CHR 0x5D # r) =
        Some (json_sorted x, CHR '','' # items_text xs @ CHR 0x5D # r)"
      using Cons.prems(2) fuel by (simp add: reads_def)
    moreover have "skip_ws (items_text xs @ CHR 0x5D # r) = items_text xs @ CHR 0x5D # r"
      using Cons.prems(2) unfolding ys by (intro skip_ws_items) simp
    ultimately show ?thesis
      using Cons.IH [OF False _ fuel(2)] Cons.prems(2) False by (simp add: n items_text_Cons)
  qed
qed simp

lemma json_members_read:
  assumes "d \<noteq> []" and "\<forall>(k, v) \<in> set d. json_plain v \<and> reads v"
    and "sum_list (map (\<lambda>(k, v). Suc (json_fuel v)) d) \<le> n" and "distinct (map fst (acc @ d))"
  shows "json_members n acc (members_text d @ CHR 0x7D # r) =
    Some (acc @ map (\<lambda>(k, v). (k, json_sorted v)) d, r)"
  using assms
proof (induction d arbitrary: n acc)
  case (Cons p d)
  obtain k v where p: "p = (k, v)" by (cases p)
  from Cons.prems(3) obtain m where n: "n = Suc m" by (cases n) (auto simp: p)
  have fuel: "json_fuel v \<le> m" "sum_list (map (\<lambda>(k, v). Suc (json_fuel v)) d) \<le> m"
    using Cons.prems(3) by (simp_all add: n p)
  have v: "json_plain v" "reads v" using Cons.prems(2) by (auto simp: p)
  have new: "sset acc k w = acc @ [(k, w)]" for w
    using Cons.prems(4) by (intro plain.dset_new) (force simp: dget_None p)
  define tail where "tail = (if d = [] then CHR 0x7D # r else CHR '','' # members_text d @ CHR 0x7D # r)"
  have shape: "members_text (p # d) @ CHR 0x7D # r =
      CHR 0x22 # concat (map json_char k) @ CHR 0x22 # CHR '':'' # canonical_json v @ tail"
    by (simp add: p members_text_Cons json_quote_def tail_def)
  have "value_end tail" by (simp add: tail_def)
  with v fuel have val: "json_value m (skip_ws (canonical_json v @ tail)) = Some (json_sorted v, tail)"
    by (simp add: skip_ws_canonical reads_def)
  show ?case
  proof (cases "d = []")
    case True
    with val show ?thesis
      unfolding shape n by (simp add: json_string_quoted new tail_def p)
  next
    case False
    then obtain k' v' d' where d: "d = (k', v') # d'" by (cases d) auto
    have skip: "skip_ws (members_text d @ CHR 0x7D # r) = members_text d @ CHR 0x7D # r"
      unfolding d by (rule skip_ws_members)
    have "json_members m (acc @ [(k, json_sorted v)]) (members_text d @ CHR 0x7D # r) =
        Some ((acc @ [(k, json_sorted v)]) @ map (\<lambda>(k, v). (k, json_sorted v)) d, r)"
      using Cons.prems(2,4) by (intro Cons.IH False fuel(2)) (auto simp: p)
    with val skip False show ?thesis
      unfolding shape n by (simp add: json_string_quoted new tail_def p)
  qed
qed simp

lemma items_text_first:
  "json_plain x \<Longrightarrow> \<exists>c t. items_text (x # xs) @ r = c # t \<and> c \<noteq> CHR 0x5D"
proof -
  assume x: "json_plain x"
  obtain c t where c: "canonical_json x = c # t" using canonical_ne [of x] by (cases "canonical_json x") auto
  have "c \<noteq> CHR 0x5D"
  proof (cases x)
    case (JInt i)
    then show ?thesis using int_str_hd [of i] c by (auto simp: is_digit_def)
  qed (use x c in \<open>auto simp: json_quote_def split: if_splits\<close>)
  with c show ?thesis by (simp add: items_text_Cons)
qed

lemma json_reads: "json_plain j \<Longrightarrow> reads j"
proof (induction j)
  case (JInt i)
  show ?case
    unfolding reads_def
  proof (intro allI impI)
    fix n r assume "json_fuel (JInt i) \<le> n" and r: "value_end r"
    then obtain m where n: "n = Suc m" by (cases n) auto
    obtain c t where t: "int_str i = c # t" by (cases "int_str i") auto
    then have "c \<noteq> CHR 0x22" "c \<noteq> CHR 0x5B" "c \<noteq> CHR 0x7B"
      using int_str_hd [of i] by (auto simp: is_digit_def)
    moreover have "json_word ((c # t) @ r) = Some (JInt i, r)"
      using json_word_int [OF r, of i] JInt by (simp add: t)
    ultimately show "json_value n (canonical_json (JInt i) @ r) = Some (json_sorted (JInt i), r)"
      by (simp add: n t)
  qed
next
  case (JArr xs)
  then have xs: "\<forall>x \<in> set xs. json_plain x \<and> reads x" by (auto simp: list_all_iff)
  show ?case
    unfolding reads_def
  proof (intro allI impI)
    fix n r assume fuel: "json_fuel (JArr xs) \<le> n" and r: "value_end r"
    then obtain m where n: "n = Suc m" by (cases n) auto
    show "json_value n (canonical_json (JArr xs) @ r) = Some (json_sorted (JArr xs), r)"
    proof (cases xs)
      case Nil
      then show ?thesis by (simp add: n)
    next
      case (Cons x ys)
      have "json_plain x" using xs by (simp add: Cons)
      from items_text_first [OF this, of ys "CHR 0x5D # r"] obtain c t where
        t: "items_text xs @ CHR 0x5D # r = c # t" "c \<noteq> CHR 0x5D" by (auto simp: Cons)
      have skip: "skip_ws (items_text xs @ CHR 0x5D # r) = items_text xs @ CHR 0x5D # r"
        unfolding Cons using xs by (intro skip_ws_items) (simp add: Cons)
      have "json_items m (items_text xs @ CHR 0x5D # r) = Some (map json_sorted xs, r)"
        using xs fuel by (intro json_items_read) (auto simp: n Cons)
      with t skip show ?thesis unfolding canonical_arr by (simp add: n)
    qed
  qed
next
  case (JObj d)
  have plain: "distinct (map fst d)" "\<forall>(k, v) \<in> set d. json_plain v"
    using JObj.prems by (simp_all add: list_all_iff)
  have d: "\<forall>(k, v) \<in> set (sort_key fst d). json_plain v \<and> reads v"
  proof (clarify, unfold set_sort)
    fix k v assume kv: "(k, v) \<in> set d"
    with plain(2) have "json_plain v" by blast
    moreover have "reads v" using JObj.IH [OF kv, of v] \<open>json_plain v\<close> by simp
    ultimately show "json_plain v \<and> reads v" by blast
  qed
  have same: "mset (map g (sort_key fst d)) = mset (map g d)" for g :: "string \<times> json \<Rightarrow> 'x"
    by simp
  have dist: "distinct (map fst (sort_key fst d))"
    using plain(1) mset_eq_imp_distinct_iff [OF same [of fst]] by simp
  have sum: "sum_list (map (\<lambda>(k, v). Suc (json_fuel v)) (sort_key fst d)) =
      sum_list (map (\<lambda>(k, v). Suc (json_fuel v)) d)"
    unfolding sum_mset_sum_list [symmetric] by simp
  show ?case
    unfolding reads_def
  proof (intro allI impI)
    fix n r assume fuel: "json_fuel (JObj d) \<le> n" and r: "value_end r"
    then obtain m where n: "n = Suc m" by (cases n) auto
    show "json_value n (canonical_json (JObj d) @ r) = Some (json_sorted (JObj d), r)"
    proof (cases "sort_key fst d")
      case Nil
      then have "d = []" by (metis length_0_conv length_sort)
      then show ?thesis by (simp add: n)
    next
      case (Cons p ps)
      obtain k v where p: "p = (k, v)" by (cases p)
      have "json_members m [] (members_text (sort_key fst d) @ CHR 0x7D # r) =
          Some ([] @ map (\<lambda>(k, v). (k, json_sorted v)) (sort_key fst d), r)"
        using d dist fuel sum by (intro json_members_read) (auto simp: n Cons)
      moreover have "\<exists>t. members_text (sort_key fst d) @ CHR 0x7D # r = CHR 0x22 # t"
        by (simp add: Cons p members_text_Cons json_quote_def)
      ultimately show ?thesis
        unfolding canonical_obj by (auto simp: n sort_key_map_snd)
    qed
  qed
next
  case JNull
  show ?case unfolding reads_def
  proof (intro allI impI)
    fix n r assume "json_fuel JNull \<le> n"
    then obtain m where "n = Suc m" by (cases n) auto
    then show "json_value n (canonical_json JNull @ r) = Some (json_sorted JNull, r)"
      by (simp add: json_word_def)
  qed
next
  case (JBool b)
  show ?case unfolding reads_def
  proof (intro allI impI)
    fix n r assume "json_fuel (JBool b) \<le> n"
    then obtain m where "n = Suc m" by (cases n) auto
    then show "json_value n (canonical_json (JBool b) @ r) = Some (json_sorted (JBool b), r)"
      by (cases b) (simp_all add: json_word_def)
  qed
next
  case (JStr s)
  show ?case unfolding reads_def
  proof (intro allI impI)
    fix n r assume "json_fuel (JStr s) \<le> n"
    then obtain m where "n = Suc m" by (cases n) auto
    then show "json_value n (canonical_json (JStr s) @ r) = Some (json_sorted (JStr s), r)"
      by (simp add: json_quote_def json_string_quoted)
  qed
qed simp

section \<open>Documents\<close>

lemma items_fuel:
  "\<forall>x \<in> set xs. json_fuel x \<le> 2 * length (canonical_json x) \<Longrightarrow>
   sum_list (map (\<lambda>x. Suc (json_fuel x)) xs) \<le> 2 * length (items_text xs) + 1"
  by (induction xs) (auto simp: items_text_Cons simp del: canonical_json.simps)

lemma members_fuel:
  "\<forall>(k, v) \<in> set d. json_fuel v \<le> 2 * length (canonical_json v) \<Longrightarrow>
   sum_list (map (\<lambda>(k, v). Suc (json_fuel v)) d) \<le> 2 * length (members_text d) + 1"
  by (induction d) (auto simp: members_text_Cons simp del: canonical_json.simps)

lemma json_fuel_text: "json_fuel j \<le> 2 * length (canonical_json j)"
proof (induction j)
  case (JArr xs)
  then have "sum_list (map (\<lambda>x. Suc (json_fuel x)) xs) \<le> 2 * length (items_text xs) + 1"
    by (intro items_fuel) blast
  then show ?case unfolding canonical_arr by simp
next
  case (JObj d)
  have "\<forall>(k, v) \<in> set (sort_key fst d). json_fuel v \<le> 2 * length (canonical_json v)"
    using JObj by fastforce
  then have "sum_list (map (\<lambda>(k, v). Suc (json_fuel v)) (sort_key fst d)) \<le> 2 * length (members_text (sort_key fst d)) + 1"
    by (rule members_fuel)
  moreover have "sum_list (map (\<lambda>(k, v). Suc (json_fuel v)) (sort_key fst d)) =
      sum_list (map (\<lambda>(k, v). Suc (json_fuel v)) d)"
    unfolding sum_mset_sum_list [symmetric] by simp
  ultimately show ?case unfolding canonical_obj by simp
next
  case (JInt i)
  have "canonical_json (JInt i) \<noteq> []" by (rule canonical_ne)
  then show ?case by (cases "canonical_json (JInt i)") (auto simp del: canonical_json.simps)
next
  case (JFloat f)
  have "canonical_json (JFloat f) \<noteq> []" by (rule canonical_ne)
  then show ?case by (cases "canonical_json (JFloat f)") (auto simp del: canonical_json.simps)
qed (auto simp: json_quote_def)

text \<open>Decoding canonical text, with or without the newline that the stored form adds.\<close>

theorem json_loads_canonical:
  assumes "json_plain j"
  shows "json_loads (canonical_json j) = Some (json_sorted j)"
    and "json_loads (canonical_json j @ [CHR 0x0A]) = Some (json_sorted j)"
proof -
  have reads: "json_value n (canonical_json j @ r) = Some (json_sorted j, r)"
    if "json_fuel j \<le> n" "value_end r" for n r
    using json_reads [OF assms] that by (simp add: reads_def)
  have skip: "skip_ws (canonical_json j @ r) = canonical_json j @ r" for r
    by (rule skip_ws_canonical [OF assms])
  show "json_loads (canonical_json j) = Some (json_sorted j)"
    using reads [of "Suc (2 * length (canonical_json j))" "[]"] skip [of "[]"] json_fuel_text [of j]
    by (simp add: json_loads_def skip_ws_def)
  show "json_loads (canonical_json j @ [CHR 0x0A]) = Some (json_sorted j)"
    using reads [of "Suc (2 * length (canonical_json j @ [CHR 0x0A]))" "[CHR 0x0A]"] skip [of "[CHR 0x0A]"]
      json_fuel_text [of j]
    by (simp add: json_loads_def skip_ws_def is_json_space_def)
qed

text \<open>So canonical text determines the value up to the order of its objects.\<close>

corollary canonical_json_inj:
  "json_plain a \<Longrightarrow> json_plain b \<Longrightarrow> canonical_json a = canonical_json b \<Longrightarrow> json_sorted a = json_sorted b"
  using json_loads_canonical(1) [of a] json_loads_canonical(1) [of b] by simp

lemma canonical_sorted: "canonical_json (json_sorted j) = canonical_json j"
proof (induction j)
  case (JArr xs)
  then show ?case by (simp add: comp_def cong: map_cong)
next
  case (JObj d)
  have "map (\<lambda>(k, v). (k, canonical_json (json_sorted v))) d = map (\<lambda>(k, v). (k, canonical_json v)) d"
    using JObj by (auto intro!: map_cong)
  moreover have "sort_key fst (map (\<lambda>(k, v). (k, canonical_json v)) (sort_key fst (map (\<lambda>(k, v). (k, json_sorted v)) d))) =
      sort_key fst (map (\<lambda>(k, v). (k, canonical_json (json_sorted v))) d)"
    unfolding sort_key_map_snd map_map
    by (rule trans [OF sort_key_id_if_sorted]) (simp_all add: comp_def case_prod_beta')
  ultimately show ?case by (simp only: canonical_json.simps json_sorted.simps)
qed auto

section \<open>Properties\<close>

text \<open>C27: Content hashes are taken of the value. Two JSON values without floats and with distinct
  keys have the same canonical text, hence the same input to every content hash of the repository,
  exactly when they differ in the order of their objects only; and decoding the text gives that value
  back.\<close>

theorem canonical_text_faithful:
  assumes "json_plain a" and "json_plain b"
  shows "(canonical_json a = canonical_json b \<longleftrightarrow> json_sorted a = json_sorted b) \<and>
    json_loads (canonical_json a) = Some (json_sorted a)"
  using json_loads_canonical(1) [OF assms(1)] json_loads_canonical(1) [OF assms(2)]
    canonical_sorted [of a] canonical_sorted [of b]
  by (metis option.inject)

theorem canonical_text_faithful_witness:
  "json_loads (canonical_json (JObj [(''b'', JInt (-7)), (''a'', JArr [JNull, JStr [CHR 0x22, CHR 0x0A]])])) =
     Some (JObj [(''a'', JArr [JNull, JStr [CHR 0x22, CHR 0x0A]]), (''b'', JInt (-7))])"
proof -
  let ?j = "JObj [(''b'', JInt (-7)), (''a'', JArr [JNull, JStr [CHR 0x22, CHR 0x0A]])]"
  have "json_plain ?j" by (simp add: ndigits.simps)
  from canonical_text_faithful [OF this this] show ?thesis by (simp del: canonical_json.simps)
qed

end
