(* ===== verification/Utc_Time.thy ===== *)
theory Utc_Time
  imports Json
begin

text \<open>
  Points in time as microseconds since the epoch, the resolution of \<open>datetime\<close>.

  \<^item> \<open>iso_instant\<close>: \<open>datetime.fromisoformat\<close> of \<open>YYYY-MM-DDxHH:MM[:SS[.ffffff]]\<close> (the offset
    is appended by the caller and is always UTC). The interpreter also reads basic, week and
    shortened ISO 8601 spellings; here they are not instants.
  \<^item> \<open>instant_of_ns\<close>: \<open>datetime.fromtimestamp(ns / 1_000_000_000, tz=timezone.utc)\<close>, which goes
    through a binary64 quotient and rounds to microseconds.
\<close>

definition is_leap :: "int \<Rightarrow> bool" where
  "is_leap y = (y mod 4 = 0 \<and> (y mod 100 \<noteq> 0 \<or> y mod 400 = 0))"

definition month_days :: "int \<Rightarrow> int \<Rightarrow> int" where
  "month_days y m =
     (if m = 2 then (if is_leap y then 29 else 28)
      else if m = 4 \<or> m = 6 \<or> m = 9 \<or> m = 11 then 30 else 31)"

text \<open>Days since 1970-01-01 of a date of the proleptic Gregorian calendar.\<close>

definition days_of_civil :: "int \<Rightarrow> int \<Rightarrow> int \<Rightarrow> int" where
  "days_of_civil y m d =
     (let y' = (if m \<le> 2 then y - 1 else y);
          m' = (if m \<le> 2 then m + 9 else m - 3)
      in 365 * y' + y' div 4 - y' div 100 + y' div 400 + (153 * m' + 2) div 5 + d - 1 - 719468)"

definition digits_at :: "nat \<Rightarrow> nat \<Rightarrow> string \<Rightarrow> int option" where
  "digits_at i n s =
     (let t = take n (drop i s)
      in if length t = n \<and> list_all is_digit t then Some (int (digits_val t)) else None)"

definition char_at :: "nat \<Rightarrow> char \<Rightarrow> string \<Rightarrow> bool" where
  "char_at i c s = (take 1 (drop i s) = [c])"

text \<open>The seconds and fraction after \<open>HH:MM\<close>, in microseconds; digits beyond the sixth are cut.\<close>

definition iso_seconds :: "string \<Rightarrow> int option" where
  "iso_seconds s =
     (if s = [] then Some 0
      else if \<not> char_at 0 (CHR '':'') s then None
      else case digits_at 1 2 s of
        None \<Rightarrow> None
      | Some sec \<Rightarrow>
          (let r = drop 3 s; f = drop 1 r
           in if 59 < sec then None
              else if r = [] then Some (sec * 1000000)
              else if (char_at 0 (CHR ''.'') r \<or> char_at 0 (CHR '','') r) \<and> list_all is_digit f
              then Some (sec * 1000000 + int (digits_val (take 6 (f @ replicate 6 (CHR ''0'')))))
              else None))"

definition iso_instant :: "string \<Rightarrow> int option" where
  "iso_instant s =
     (case (digits_at 0 4 s, digits_at 5 2 s, digits_at 8 2 s, digits_at 11 2 s, digits_at 14 2 s) of
        (Some y, Some m, Some d, Some hh, Some mm) \<Rightarrow>
          (case iso_seconds (drop 16 s) of
             Some us \<Rightarrow>
               (if char_at 4 (CHR ''-'') s \<and> char_at 7 (CHR ''-'') s \<and> char_at 13 (CHR '':'') s \<and>
                   1 \<le> y \<and> 1 \<le> m \<and> m \<le> 12 \<and> 1 \<le> d \<and> d \<le> month_days y m \<and> hh \<le> 23 \<and> mm \<le> 59
                then Some (((days_of_civil y m d * 24 + hh) * 60 + mm) * 60000000 + us)
                else None)
           | None \<Rightarrow> None)
      | _ \<Rightarrow> None)"

text \<open>The instants of \<open>datetime.min\<close> and \<open>datetime.max\<close>.\<close>

definition min_instant :: int where "min_instant = -62135596800000000"
definition max_instant :: int where "max_instant = 253402300799999999"

definition instant_of_ns :: "int \<Rightarrow> int res" where
  "instant_of_ns ns =
     (let neg = (ns < 0); q = float_of_ratio neg (nat \<bar>ns\<bar>) 1000000000 in
      case q of
        Flt _ _ _ \<Rightarrow>
          (let num = float_num q; den = float_den q;
               us = float_of_ratio neg ((num mod den) * 1000000) den;
               t = int (num div den) * 1000000 + int (div_half_even (float_num us) (float_den us));
               r = (if neg then - t else t)
           in if min_instant \<le> r \<and> r \<le> max_instant then Inr r else Inl (ValueError ''year is out of range''))
      | _ \<Rightarrow> Inl OverflowError)"

end
