(* ===== verification/Product_Terms.thy ===== *)
theory Product_Terms
  imports Utc_Time Decimal_Text
begin

text \<open>
  Venue product terms (\<open>pmm_product_terms.py\<close>): the validators every document goes through, the
  hash-carrying envelope, the terms payload with its price grid and quantity increment, and the
  policy that converts exact venue values to the integers of the core. A refusal is
  \<open>ProductTermsError\<close> with its registered code. Documents are given by their bytes; the hash function
  is the parameter \<open>sha\<close>.
\<close>

section \<open>Refusals and field validators\<close>

definition demand :: "bool \<Rightarrow> string \<Rightarrow> unit res" where
  "demand b code = ensure b (ProductTermsError code)"

lemma demand_eq [simp, res_simps]:
  "demand b c = Inr u \<longleftrightarrow> b" "demand True c = Inr ()" "demand False c = Inl (ProductTermsError c)"
  by (simp_all add: demand_def)

text \<open>\<open>or\<close> and \<open>and\<close> with operands that may raise.\<close>

definition por :: "bool res \<Rightarrow> bool res \<Rightarrow> bool res" where
  "por a b = rbind a (\<lambda>x. if x then Inr True else b)"

definition pand :: "bool res \<Rightarrow> bool res \<Rightarrow> bool res" where
  "pand a b = rbind a (\<lambda>x. if x then b else Inr False)"

lemma por_Inr_False [simp]: "por a b = Inr False \<longleftrightarrow> a = Inr False \<and> b = Inr False"
  by (auto simp: por_def rbind_eq_Inr split: if_splits)

lemma pand_Inr_True [simp]: "pand a b = Inr True \<longleftrightarrow> a = Inr True \<and> b = Inr True"
  by (auto simp: pand_def rbind_eq_Inr split: if_splits)

definition require_keys :: "jobj \<Rightarrow> string list \<Rightarrow> string list \<Rightarrow> unit res" where
  "require_keys d required optional =
     rbind (demand (list_all (\<lambda>k. ohas d k) required) ''TermsNoncanonical'') (\<lambda>_.
     demand (list_all (\<lambda>kv. fst kv \<in> set required \<union> set optional) d) ''TermsNoncanonical'')"

definition require_string :: "json \<Rightarrow> string res" where
  "require_string v =
     rbind (demand (nonempty_str v) ''TermsNoncanonical'') (\<lambda>_. Inr (py_str v))"

definition require_bool :: "json \<Rightarrow> bool res" where
  "require_bool v = (case v of JBool b \<Rightarrow> Inr b | _ \<Rightarrow> Inl (ProductTermsError ''TermsNoncanonical''))"

definition require_integer :: "json \<Rightarrow> int \<Rightarrow> int res" where
  "require_integer v minimum =
     (case v of
        JInt i \<Rightarrow> rbind (demand (minimum \<le> i) ''TermsNoncanonical'') (\<lambda>_. Inr i)
      | _ \<Rightarrow> Inl (ProductTermsError ''TermsNoncanonical''))"

definition sha_length :: nat where "sha_length = 64"

definition require_hash :: "json \<Rightarrow> string res" where
  "require_hash v =
     rbind (require_string v) (\<lambda>parsed.
     rbind (demand (length parsed = sha_length \<and> list_all (\<lambda>c. c \<in> set ''0123456789abcdef'') parsed)
              ''TermsNoncanonical'') (\<lambda>_.
     Inr parsed))"

definition has_exponent :: "string \<Rightarrow> bool" where
  "has_exponent s = list_ex (\<lambda>c. c = CHR ''e'' \<or> c = CHR ''E'') s"

definition decimal_value :: "bool \<Rightarrow> json \<Rightarrow> decimal res" where
  "decimal_value allow_negative v =
     rbind (demand (nonempty_str v \<and> strip (py_str v) = py_str v) ''TermsNoncanonical'') (\<lambda>_.
     rbind (reraise (\<lambda>e. e = InvalidOperation) (ProductTermsError ''TermsNoncanonical'')
              (py_decimal (py_str v))) (\<lambda>parsed.
     rbind (demand (finite_dec parsed \<and> \<not> has_exponent (py_str v) \<and> take 1 (py_str v) \<noteq> ''+'')
              ''TermsNoncanonical'') (\<lambda>_.
     rbind (if allow_negative then Inr False else dec_lt parsed (dec_of_int 0)) (\<lambda>negative.
     rbind (demand (\<not> negative) ''TermsNoncanonical'') (\<lambda>_.
     rbind (demand (dec_format parsed = py_str v) ''TermsNoncanonical'') (\<lambda>_.
     Inr parsed))))))"

definition parse_utc :: "json \<Rightarrow> int res" where
  "parse_utc v =
     rbind (require_string v) (\<lambda>text.
     rbind (demand (last text = CHR ''Z'') ''TermsNoncanonical'') (\<lambda>_.
     of_option (ProductTermsError ''TermsNoncanonical'') (iso_instant (butlast text))))"

text \<open>\<open>int(value)\<close>, with \<open>TypeError\<close> and \<open>ValueError\<close> refused and \<open>OverflowError\<close> escaping.\<close>

definition utc_ns_to_instant :: "json \<Rightarrow> int res" where
  "utc_ns_to_instant v =
     (case v of
        JBool _ \<Rightarrow> Inl (ProductTermsError ''TermsNoncanonical'')
      | JInt i \<Rightarrow> instant_of_ns i
      | JStr s \<Rightarrow> rbind (of_option (ProductTermsError ''TermsNoncanonical'') (int_of_str s)) instant_of_ns
      | JFloat f \<Rightarrow>
          (case float_trunc f of
             Some i \<Rightarrow> instant_of_ns i
           | None \<Rightarrow> Inl (if f = FNaN then ProductTermsError ''TermsNoncanonical'' else OverflowError))
      | _ \<Rightarrow> Inl (ProductTermsError ''TermsNoncanonical''))"

section \<open>Envelopes\<close>

fun has_nan :: "json \<Rightarrow> bool" where
  "has_nan (JFloat f) = (case f of Flt _ _ _ \<Rightarrow> False | _ \<Rightarrow> True)"
| "has_nan (JArr xs) = list_ex has_nan xs"
| "has_nan (JObj d) = list_ex (\<lambda>(k, v). has_nan v) d"
| "has_nan _ = False"

definition strict_json :: "json \<Rightarrow> string res" where
  "strict_json v = rbind (demand (\<not> has_nan v) ''TermsNoncanonical'') (\<lambda>_. Inr (canonical_json v))"

definition canonical_json_bytes :: "json \<Rightarrow> string res" where
  "canonical_json_bytes v = rbind (strict_json v) (\<lambda>s. Inr (s @ [CHR 0x0A]))"

definition read_object :: "string \<Rightarrow> jobj res" where
  "read_object bytes =
     rbind (of_option (ProductTermsError ''TermsNoncanonical'') (json_loads bytes)) (\<lambda>v.
     of_option (ProductTermsError ''TermsNoncanonical'') (as_obj v))"

definition validate_envelope ::
  "(string \<Rightarrow> string) \<Rightarrow> string \<Rightarrow> json \<Rightarrow> string \<Rightarrow> (jobj \<times> string) res" where
  "validate_envelope sha bytes schema mismatch_code =
     rbind (read_object bytes) (\<lambda>document.
     rbind (require_keys document [''schema'', ''payload'', ''payload_sha256''] []) (\<lambda>_.
     rbind (demand (py_eq (oget document ''schema'') schema) ''UnsupportedTermsSchema'') (\<lambda>_.
     rbind (of_option (ProductTermsError ''TermsNoncanonical'') (as_obj (oget document ''payload''))) (\<lambda>payload.
     rbind (canonical_json_bytes (JObj payload)) (\<lambda>text.
     let expected = sha text in
     rbind (require_hash (oget document ''payload_sha256'')) (\<lambda>declared.
     rbind (demand (declared = expected) mismatch_code) (\<lambda>_.
     rbind (canonical_json_bytes (JObj document)) (\<lambda>whole.
     rbind (demand (bytes = whole) ''TermsNoncanonical'') (\<lambda>_.
     Inr (payload, declared))))))))))"

definition build_envelope :: "(string \<Rightarrow> string) \<Rightarrow> string \<Rightarrow> jobj \<Rightarrow> jobj res" where
  "build_envelope sha schema payload =
     rbind (canonical_json_bytes (JObj payload)) (\<lambda>text.
     Inr [(''schema'', JStr schema), (''payload'', JObj payload), (''payload_sha256'', JStr (sha text))])"

section \<open>Product terms\<close>

record source_evidence =
  ev_schema :: string
  ev_payload :: jobj
  ev_sha256 :: string
  ev_source_hashes :: "(string \<times> string) list"
  ev_profile_roles :: "(string \<times> string) list option"   \<comment> \<open>role to source key, when there is a profile\<close>

record product_terms =
  pt_payload :: jobj
  pt_sha256 :: string
  pt_file_sha256 :: string

text \<open>\<open>d[k]\<close> of a JSON value that should be an object: indexing anything else raises.\<close>

definition jindex :: "json \<Rightarrow> string \<Rightarrow> json res" where
  "jindex j k = (case j of JObj d \<Rightarrow> oindex d k | _ \<Rightarrow> Inl TypeError)"

definition pt_identity :: "product_terms \<Rightarrow> json res" where
  "pt_identity t = oindex (pt_payload t) ''identity''"

definition pt_market_ticker :: "product_terms \<Rightarrow> json res" where
  "pt_market_ticker t = rbind (pt_identity t) (\<lambda>i. jindex i ''market_ticker'')"

text \<open>\<open>Decimal(x)\<close> of a JSON value: a string is parsed, numbers convert exactly.\<close>

definition decimal_new :: "json \<Rightarrow> decimal res" where
  "decimal_new v =
     (case v of
        JStr s \<Rightarrow> py_decimal s
      | JInt i \<Rightarrow> Inr (dec_of_int i)
      | JBool b \<Rightarrow> Inr (dec_of_int (if b then 1 else 0))
      | JFloat f \<Rightarrow>
          Inr (case f of
                 FNaN \<Rightarrow> NaN False False []
               | FInf s \<Rightarrow> Inf s
               | Flt s m e \<Rightarrow> Fin s (m * 2 ^ nat e * 5 ^ nat (- e)) (min e 0))
      | _ \<Rightarrow> Inl TypeError)"

definition decimal_field :: "json \<Rightarrow> string \<Rightarrow> decimal res" where
  "decimal_field j k = rbind (jindex j k) decimal_new"

definition flag_field :: "json \<Rightarrow> string \<Rightarrow> bool res" where
  "flag_field j k = rbind (jindex j k) (\<lambda>v. Inr (truthy v))"

definition dec_is :: "decimal res \<Rightarrow> int \<Rightarrow> bool res" where
  "dec_is m i = rbind m (\<lambda>d. Inr (dec_eq d (dec_of_int i)))"

text \<open>One range of the price grid: does the price lie in it, on one of its steps?\<close>

definition price_in_range :: "decimal \<Rightarrow> json \<Rightarrow> bool res" where
  "price_in_range price item =
     rbind (decimal_field item ''start_dollars'') (\<lambda>start.
     rbind (decimal_field item ''end_dollars'') (\<lambda>end.
     rbind (flag_field item ''start_inclusive'') (\<lambda>si.
     rbind (if si then dec_le start price else dec_lt start price) (\<lambda>above_start.
     rbind (flag_field item ''end_inclusive'') (\<lambda>ei.
     rbind (if ei then dec_le price end else dec_lt price end) (\<lambda>below_end.
     if above_start \<and> below_end then
       rbind (dec_sub price start) (\<lambda>offset.
       rbind (decimal_field item ''step_dollars'') (\<lambda>step.
       dec_is (dec_mod offset step) 0))
     else Inr False))))))"

fun on_price_grid :: "decimal \<Rightarrow> json list \<Rightarrow> bool res" where
  "on_price_grid price [] = Inr False"
| "on_price_grid price (item # ranges) =
     rbind (price_in_range price item) (\<lambda>yes. if yes then Inr True else on_price_grid price ranges)"

definition validate_price :: "product_terms \<Rightarrow> json \<Rightarrow> decimal res" where
  "validate_price t v =
     rbind (decimal_value False (JStr (py_str v))) (\<lambda>price.
     rbind (oindex (pt_payload t) ''price'') (\<lambda>p.
     rbind (jindex p ''ranges'') (\<lambda>r.
     rbind (of_option TypeError (as_arr r)) (\<lambda>ranges.
     rbind (on_price_grid price ranges) (\<lambda>yes.
     rbind (demand yes ''PriceOffVenueGrid'') (\<lambda>_.
     Inr price))))))"

definition validate_quantity :: "product_terms \<Rightarrow> bool \<Rightarrow> json \<Rightarrow> decimal res" where
  "validate_quantity t allow_negative v =
     rbind (decimal_value allow_negative (JStr (py_str v))) (\<lambda>quantity.
     rbind (oindex (pt_payload t) ''quantity'') (\<lambda>q.
     rbind (decimal_field q ''increment_contracts'') (\<lambda>increment.
     rbind (dec_is (dec_mod quantity increment) 0) (\<lambda>multiple.
     rbind (demand multiple ''QuantityOffVenueIncrement'') (\<lambda>_.
     Inr quantity)))))"

section \<open>Validating a terms payload\<close>

definition object_or :: "string \<Rightarrow> json \<Rightarrow> jobj res" where
  "object_or code v = of_option (ProductTermsError code) (as_obj v)"

definition validate_price_range :: "decimal option \<Rightarrow> json \<Rightarrow> decimal option res" where
  "validate_price_range prior_end item =
     rbind (object_or ''InvalidPriceRange'' item) (\<lambda>d.
     rbind (require_keys d [''start_dollars'', ''end_dollars'', ''step_dollars'', ''start_inclusive'', ''end_inclusive''] []) (\<lambda>_.
     rbind (decimal_value False (oget d ''start_dollars'')) (\<lambda>start.
     rbind (decimal_value False (oget d ''end_dollars'')) (\<lambda>end.
     rbind (decimal_value False (oget d ''step_dollars'')) (\<lambda>step.
     rbind (require_bool (oget d ''start_inclusive'')) (\<lambda>_.
     rbind (require_bool (oget d ''end_inclusive'')) (\<lambda>_.
     rbind (por (dec_lt start (dec_of_int 0)) (por (dec_lt (dec_of_int 1) end) (por (dec_lt end start)
              (por (dec_le step (dec_of_int 0))
                (rbind (dec_sub end start) (\<lambda>width.
                 rbind (dec_is (dec_mod width step) 0) (\<lambda>z. Inr (\<not> z)))))))) (\<lambda>bad.
     rbind (demand (\<not> bad) ''InvalidPriceRange'') (\<lambda>_.
     rbind (demand (case prior_end of None \<Rightarrow> True | Some p \<Rightarrow> dec_eq start p) ''InvalidPriceRange'') (\<lambda>_.
     Inr (Some end)))))))))))"

definition validate_price_terms :: "json \<Rightarrow> unit res" where
  "validate_price_terms price =
     rbind (object_or ''InvalidPriceRange'' price) (\<lambda>d.
     rbind (require_keys d [''representation'', ''maximum_decimal_places'', ''level_structure'', ''ranges''] []) (\<lambda>_.
     rbind (demand (oget d ''representation'' = JStr ''fixed_point_dollars'') ''InvalidPriceRange'') (\<lambda>_.
     rbind (require_integer (oget d ''maximum_decimal_places'') 1) (\<lambda>_.
     rbind (require_string (oget d ''level_structure'')) (\<lambda>_.
     rbind (of_option (ProductTermsError ''InvalidPriceRange'') (as_arr (oget d ''ranges''))) (\<lambda>ranges.
     rbind (demand (ranges \<noteq> []) ''InvalidPriceRange'') (\<lambda>_.
     rbind (res_fold validate_price_range None ranges) (\<lambda>prior_end.
     rbind (decimal_field (hd ranges) ''start_dollars'') (\<lambda>first.
     demand (dec_eq first (dec_of_int 0) \<and>
             (case prior_end of None \<Rightarrow> False | Some p \<Rightarrow> dec_eq p (dec_of_int 1))) ''InvalidPriceRange'')))))))))"

definition validate_quantity_terms :: "json \<Rightarrow> unit res" where
  "validate_quantity_terms quantity =
     rbind (object_or ''InvalidQuantityIncrement'' quantity) (\<lambda>d.
     rbind (require_keys d [''unit'', ''representation'', ''maximum_decimal_places'', ''increment_contracts''] []) (\<lambda>_.
     rbind (demand (oget d ''unit'' = JStr ''contract'' \<and> oget d ''representation'' = JStr ''fixed_point_contracts'')
              ''InvalidQuantityIncrement'') (\<lambda>_.
     rbind (require_integer (oget d ''maximum_decimal_places'') 1) (\<lambda>_.
     rbind (decimal_value False (oget d ''increment_contracts'')) (\<lambda>increment.
     rbind (dec_le increment (dec_of_int 0)) (\<lambda>bad.
     demand (\<not> bad) ''InvalidQuantityIncrement''))))))"

definition payout_fields :: "string list" where
  "payout_fields = [''notional_value_dollars'', ''ordinary_yes_value_dollars'', ''ordinary_no_value_dollars'',
     ''settlement_value_min_dollars'', ''settlement_value_max_dollars'']"

definition validate_payout_terms :: "json \<Rightarrow> unit res" where
  "validate_payout_terms payout =
     rbind (object_or ''UnsupportedPayout'' payout) (\<lambda>d.
     rbind (require_keys d (payout_fields @ [''contingent_nonbinary_value_possible'']) []) (\<lambda>_.
     rbind (res_map (\<lambda>name. decimal_value False (oget d name)) payout_fields) (\<lambda>values.
     rbind (require_bool (oget d ''contingent_nonbinary_value_possible'')) (\<lambda>_.
     demand (list_all2 dec_eq values (map dec_of_int [1, 1, 1, 0, 1])) ''UnsupportedPayout''))))"

definition validate_rules :: "json \<Rightarrow> bool \<Rightarrow> unit res" where
  "validate_rules rules allow_empty_secondary =
     rbind (object_or ''TermsNoncanonical'' rules) (\<lambda>d.
     rbind (require_keys d [''primary'', ''secondary'', ''contract_terms_source''] []) (\<lambda>_.
     rbind (require_string (oget d ''primary'')) (\<lambda>_.
     rbind (if allow_empty_secondary \<and> oget d ''secondary'' = JStr [] then Inr []
            else require_string (oget d ''secondary'')) (\<lambda>_.
     rbind (require_string (oget d ''contract_terms_source'')) (\<lambda>_. Inr ())))))"

definition validate_lifecycle :: "json \<Rightarrow> unit res" where
  "validate_lifecycle lifecycle =
     rbind (object_or ''TermsNoncanonical'' lifecycle) (\<lambda>d.
     rbind (require_keys d [''open_time'', ''close_time'', ''expected_expiration_time'', ''latest_expiration_time'',
              ''can_close_early'', ''early_close_condition'', ''settlement_timer_seconds''] []) (\<lambda>_.
     rbind (parse_utc (oget d ''open_time'')) (\<lambda>open_time.
     rbind (parse_utc (oget d ''close_time'')) (\<lambda>close_time.
     rbind (parse_utc (oget d ''expected_expiration_time'')) (\<lambda>expected.
     rbind (parse_utc (oget d ''latest_expiration_time'')) (\<lambda>latest.
     rbind (demand (open_time \<le> close_time \<and> close_time \<le> latest \<and> expected \<le> latest) ''TermsNoncanonical'') (\<lambda>_.
     rbind (require_bool (oget d ''can_close_early'')) (\<lambda>_.
     rbind (if oget d ''early_close_condition'' = JNull then Inr []
            else require_string (oget d ''early_close_condition'')) (\<lambda>_.
     rbind (require_integer (oget d ''settlement_timer_seconds'') 0) (\<lambda>_. Inr ()))))))))))"

definition validate_settlement_source :: "json \<Rightarrow> unit res" where
  "validate_settlement_source source =
     rbind (of_option AttributeError (as_obj source)) (\<lambda>s.
     rbind (require_keys s [''name'', ''url''] []) (\<lambda>_.
     rbind (require_string (oget s ''name'')) (\<lambda>_.
     rbind (require_string (oget s ''url'')) (\<lambda>_. Inr ()))))"

definition validate_settlement :: "json \<Rightarrow> unit res" where
  "validate_settlement settlement =
     rbind (object_or ''TermsNoncanonical'' settlement) (\<lambda>d.
     rbind (require_keys d [''sources'', ''rules_source'', ''implementation_status''] []) (\<lambda>_.
     rbind (of_option (ProductTermsError ''SourceMissing'') (as_arr (oget d ''sources''))) (\<lambda>sources.
     rbind (demand (sources \<noteq> []) ''SourceMissing'') (\<lambda>_.
     rbind (res_all validate_settlement_source sources) (\<lambda>_.
     rbind (require_string (oget d ''rules_source'')) (\<lambda>_.
     demand (oget d ''implementation_status'' = JStr ''unsupported_not_applied'') ''UnsupportedPayout''))))))"

definition validate_fees :: "json \<Rightarrow> unit res" where
  "validate_fees fees =
     rbind (object_or ''FeeTermsMissing'' fees) (\<lambda>d.
     rbind (require_keys d [''series_fee_type'', ''series_fee_multiplier'', ''maker_fee_status'', ''waiver_status'',
              ''schedule_source'', ''rounding_source'', ''implementation_status''] []) (\<lambda>_.
     rbind (require_string (oget d ''series_fee_type'')) (\<lambda>_.
     rbind (decimal_value False (oget d ''series_fee_multiplier'')) (\<lambda>_.
     rbind (require_string (oget d ''maker_fee_status'')) (\<lambda>_.
     rbind (require_string (oget d ''waiver_status'')) (\<lambda>_.
     rbind (require_string (oget d ''schedule_source'')) (\<lambda>_.
     rbind (require_string (oget d ''rounding_source'')) (\<lambda>_.
     demand (oget d ''implementation_status'' = JStr ''unsupported_not_applied'') ''FeePolicyUnsupported''))))))))"

definition validate_rules_lifecycle_settlement_fees :: "jobj \<Rightarrow> bool \<Rightarrow> unit res" where
  "validate_rules_lifecycle_settlement_fees payload allow_empty_secondary =
     rbind (validate_rules (oget payload ''rules'') allow_empty_secondary) (\<lambda>_.
     rbind (validate_lifecycle (oget payload ''lifecycle'')) (\<lambda>_.
     rbind (validate_settlement (oget payload ''settlement'')) (\<lambda>_.
     validate_fees (oget payload ''fees''))))"

definition effective_bases :: "string list" where
  "effective_bases = [''venue_explicit'', ''source_revision_timestamp'', ''contemporaneous_snapshot'',
     ''reviewed_retrospective'']"

definition validate_effective :: "json \<Rightarrow> unit res" where
  "validate_effective effective =
     rbind (object_or ''TermsNoncanonical'' effective) (\<lambda>d.
     rbind (require_keys d [''from_utc'', ''until_utc'', ''basis''] []) (\<lambda>_.
     rbind (parse_utc (oget d ''from_utc'')) (\<lambda>start.
     rbind (if oget d ''until_utc'' = JNull then Inr None
            else rbind (parse_utc (oget d ''until_utc'')) (\<lambda>e. Inr (Some e))) (\<lambda>end.
     rbind (demand (case end of None \<Rightarrow> True | Some e \<Rightarrow> start < e) ''TermsNoncanonical'') (\<lambda>_.
     rbind (in_names (oget d ''basis'') effective_bases) (\<lambda>known.
     demand known ''EffectiveWindowGap''))))))"

text \<open>
  The sides of the contracts that are objects, in order; the loop over all items then requires each
  of them to be one.
\<close>

definition contract_sides :: "json list \<Rightarrow> json list" where
  "contract_sides contracts =
     map (\<lambda>c. case c of JObj d \<Rightarrow> oget d ''side'' | _ \<Rightarrow> JNull) (filter (\<lambda>c. as_obj c \<noteq> None) contracts)"

definition validate_contract :: "json \<Rightarrow> unit res" where
  "validate_contract item =
     rbind (of_option AttributeError (as_obj item)) (\<lambda>c.
     rbind (require_keys c [''side'', ''contract_id'', ''label''] []) (\<lambda>_.
     rbind (require_string (oget c ''contract_id'')) (\<lambda>_.
     rbind (require_string (oget c ''label'')) (\<lambda>_. Inr ()))))"

definition identity_names :: "string list" where
  "identity_names = [''series_ticker'', ''event_ticker'', ''market_ticker'', ''title'', ''yes_sub_title'', ''no_sub_title'']"

definition validate_identity :: "json \<Rightarrow> unit res" where
  "validate_identity identity =
     rbind (object_or ''TermsNoncanonical'' identity) (\<lambda>d.
     rbind (require_keys d (identity_names @ [''market_type'', ''contracts'']) []) (\<lambda>_.
     rbind (res_all (\<lambda>name. rbind (require_string (oget d name)) (\<lambda>_. Inr ())) identity_names) (\<lambda>_.
     rbind (demand (oget d ''market_type'' = JStr ''binary'') ''UnsupportedMarketType'') (\<lambda>_.
     rbind (of_option (ProductTermsError ''TermsNoncanonical'') (as_arr (oget d ''contracts''))) (\<lambda>contracts.
     rbind (demand (contract_sides contracts = [JStr ''no'', JStr ''yes'']) ''TermsNoncanonical'') (\<lambda>_.
     res_all validate_contract contracts))))))"

definition is_nonempty_strings :: "json list \<Rightarrow> bool" where
  "is_nonempty_strings xs = list_all nonempty_str xs"

definition validate_source_refs :: "jobj \<Rightarrow> source_evidence \<Rightarrow> unit res" where
  "validate_source_refs payload evidence =
     rbind (of_option (ProductTermsError ''TermsNoncanonical'') (as_arr (oget payload ''source_refs''))) (\<lambda>refs.
     rbind (demand (is_nonempty_strings refs \<and> sorted (map py_str refs) \<and> distinct (map py_str refs))
              ''TermsNoncanonical'') (\<lambda>_.
     rbind (demand (refs \<noteq> [] \<and> list_all (\<lambda>r. sget (ev_source_hashes evidence) (py_str r) \<noteq> None) refs)
              ''SourceMissing'') (\<lambda>_.
     rbind (res_map (\<lambda>(part, field). jindex (oget payload part) field)
              [(''rules'', ''contract_terms_source''), (''settlement'', ''rules_source''),
               (''fees'', ''schedule_source''), (''fees'', ''rounding_source'')]) (\<lambda>direct.
     rbind (demand (list_all (\<lambda>r. sget (ev_source_hashes evidence) (py_str r) \<noteq> None) direct) ''SourceMissing'') (\<lambda>_.
     demand (list_all (\<lambda>r. r \<in> set refs) direct) ''SourceMissing'')))))"

definition terms_keys :: "string list" where
  "terms_keys = [''venue'', ''environment'', ''revision_label'', ''effective'', ''identity'', ''price'',
     ''quantity'', ''payout'', ''rules'', ''lifecycle'', ''settlement'', ''fees'', ''source_refs'']"

definition validate_terms_payload :: "jobj \<Rightarrow> source_evidence \<Rightarrow> string \<Rightarrow> unit res" where
  "validate_terms_payload payload evidence schema =
     rbind (require_keys payload terms_keys []) (\<lambda>_.
     rbind (demand (oget payload ''venue'' = JStr ''kalshi'' \<and> oget payload ''environment'' = JStr ''production'')
              ''TermsNoncanonical'') (\<lambda>_.
     rbind (require_string (oget payload ''revision_label'')) (\<lambda>_.
     rbind (validate_effective (oget payload ''effective'')) (\<lambda>_.
     rbind (validate_identity (oget payload ''identity'')) (\<lambda>_.
     rbind (validate_price_terms (oget payload ''price'')) (\<lambda>_.
     rbind (validate_quantity_terms (oget payload ''quantity'')) (\<lambda>_.
     rbind (validate_payout_terms (oget payload ''payout'')) (\<lambda>_.
     rbind (validate_rules_lifecycle_settlement_fees payload (schema = ''pmm.venue_product_terms.v2'')) (\<lambda>_.
     validate_source_refs payload evidence)))))))))"

section \<open>Conversion to core integers\<close>

record conversion_policy =
  cp_payload :: jobj
  cp_sha256 :: string
  cp_file_sha256 :: string

definition conversion_expected :: jobj where
  "conversion_expected =
     [(''observed_price_policy'', JStr ''preserve_exact_validate_grid''),
      (''observed_quantity_policy'', JStr ''preserve_exact_validate_increment''),
      (''core_price_policy'', JStr ''integer_cents_exact_only''),
      (''core_quantity_policy'', JStr ''whole_contracts_exact_only''),
      (''fee_application'', JStr ''not_applied''),
      (''settlement_application'', JStr ''not_applied'')]"

definition conversion_policy_load :: "(string \<Rightarrow> string) \<Rightarrow> string \<Rightarrow> conversion_policy res" where
  "conversion_policy_load sha bytes =
     rbind (validate_envelope sha bytes (JStr ''pmm.product_conversion_policy.v1'') ''ConversionPolicyMismatch'')
       (\<lambda>(payload, payload_hash).
     rbind (require_keys payload (map fst conversion_expected) []) (\<lambda>_.
     rbind (demand (py_eq (JObj payload) (JObj conversion_expected)) ''ConversionPolicyMismatch'') (\<lambda>_.
     Inr \<lparr>cp_payload = payload, cp_sha256 = payload_hash, cp_file_sha256 = sha bytes\<rparr>)))"

definition cent_aligned :: "json \<Rightarrow> string \<Rightarrow> unit res" where
  "cent_aligned item name =
     rbind (decimal_field item name) (\<lambda>d.
     rbind (dec_mul d (dec_of_int 100)) (\<lambda>cents.
     rbind (dec_is (dec_mod cents (dec_of_int 1)) 0) (\<lambda>whole.
     demand whole ''CorePriceNotRepresentable'')))"

definition require_core_compatible :: "product_terms \<Rightarrow> unit res" where
  "require_core_compatible t =
     rbind (oindex (pt_payload t) ''price'') (\<lambda>p.
     rbind (jindex p ''ranges'') (\<lambda>r.
     rbind (of_option TypeError (as_arr r)) (\<lambda>ranges.
     rbind (res_all (\<lambda>item. res_all (cent_aligned item) [''start_dollars'', ''end_dollars'', ''step_dollars'']) ranges) (\<lambda>_.
     rbind (oindex (pt_payload t) ''payout'') (\<lambda>payout.
     rbind (jindex payout ''notional_value_dollars'') (\<lambda>notional.
     demand (notional = JStr ''1.0000'') ''UnsupportedPayout''))))))"

definition convert_price_to_cents :: "decimal \<Rightarrow> int res" where
  "convert_price_to_cents v =
     rbind (dec_mul v (dec_of_int 100)) (\<lambda>cents.
     rbind (dec_is (dec_mod cents (dec_of_int 1)) 0) (\<lambda>whole.
     rbind (demand whole ''CorePriceNotRepresentable'') (\<lambda>_.
     dec_int cents)))"

definition convert_quantity_to_contracts :: "decimal \<Rightarrow> int res" where
  "convert_quantity_to_contracts v =
     rbind (dec_is (dec_mod v (dec_of_int 1)) 0) (\<lambda>whole.
     rbind (demand whole ''CoreQuantityNotRepresentable'') (\<lambda>_.
     dec_int v))"

section \<open>What the validators accept\<close>

lemma decimal_value_Inr:
  assumes "decimal_value neg v = Inr d"
  shows "v = JStr (dec_format d) \<and> dec_of_str (dec_format d) = Some d \<and> finite_dec d \<and> (neg \<or> 0 \<le> dval d)"
proof -
  from assms have v: "nonempty_str v" "py_decimal (py_str v) = Inr d" "finite_dec d" "dec_format d = py_str v"
    and sign: "neg \<or> dec_lt d (dec_of_int 0) = Inr False"
    by (auto simp: decimal_value_def rbind_eq_Inr split: if_splits)
  from v(1) obtain s where "v = JStr s" by (auto simp: nonempty_str_iff)
  moreover have "neg \<or> 0 \<le> dval d" using sign v(3) by (auto simp: dec_lt_finite)
  ultimately show ?thesis using v by (simp add: py_decimal_def)
qed

lemma dec_int_value: "finite_dec d \<Longrightarrow> dval d = of_int n \<Longrightarrow> dec_int d = Inr n"
proof (cases d)
  case (Fin s c e)
  assume v: "dval d = of_int n"
  show ?thesis
  proof (cases "0 \<le> e")
    case True
    then have "dval d = of_int (if s then - int (c * 10 ^ nat e) else int (c * 10 ^ nat e))"
      by (simp add: Fin dval.simps(1) power_int_def)
    with v have "n = (if s then - int (c * 10 ^ nat e) else int (c * 10 ^ nat e))"
      by (simp only: of_int_eq_iff)
    with True show ?thesis by (simp add: Fin Let_def)
  next
    case False
    define t where "t = (10::nat) ^ nat (- e)"
    have t: "0 < t" by (simp add: t_def)
    have "(10::rat) powi e = 1 / of_nat t"
      using False by (simp add: t_def power_int_def power_inverse field_simps)
    with v have "(if s then - of_nat c else of_nat c :: rat) = of_int n * of_nat t"
      using t by (cases s) (simp_all add: Fin dval.simps(1) field_simps)
    then have "(of_int (if s then - int c else int c) :: rat) = of_int (n * int t)" by (cases s) simp_all
    then have eq: "(if s then - int c else int c) = n * int t" by (simp only: of_int_eq_iff)
    have abs: "int c = \<bar>n\<bar> * int t"
      using arg_cong [OF eq, of abs] by (cases s) (simp_all add: abs_mult)
    have "int (c div t) = \<bar>n\<bar>" using t by (simp add: zdiv_int abs)
    moreover have "n * int t \<le> 0 \<longleftrightarrow> n \<le> 0" "0 \<le> n * int t \<longleftrightarrow> 0 \<le> n"
      using t by (simp_all add: mult_le_0_iff zero_le_mult_iff)
    ultimately have "(if s then - int (c div t) else int (c div t)) = n"
      using eq by (cases s) auto
    then show ?thesis using False unfolding t_def by (cases s) (simp_all add: Fin Let_def)
  qed
qed simp_all

lemma dec_is_zero: "dec_is m 0 = Inr True \<Longrightarrow> \<exists>r. m = Inr r \<and> dec_eq r (dec_of_int 0)"
  by (auto simp: dec_is_def rbind_eq_Inr)

lemma decimal_value_field: "decimal_value False (oget d k) = Inr x \<Longrightarrow> decimal_field (JObj d) k = Inr x"
proof -
  assume "decimal_value False (oget d k) = Inr x"
  from decimal_value_Inr [OF this] have v: "oget d k = JStr (dec_format x)" "dec_of_str (dec_format x) = Some x"
    by auto
  then have "sget d k = Some (JStr (dec_format x))" by (auto simp: oget_def split: option.splits)
  with v(2) show ?thesis by (simp add: decimal_field_def jindex_def oindex_def decimal_new_def py_decimal_def)
qed

text \<open>Every range of a validated price section lies inside zero to one dollar.\<close>

definition range_valid :: "json \<Rightarrow> bool" where
  "range_valid item \<longleftrightarrow>
     (\<exists>start end step. decimal_field item ''start_dollars'' = Inr start \<and> finite_dec start \<and> 0 \<le> dval start \<and>
        decimal_field item ''end_dollars'' = Inr end \<and> finite_dec end \<and> dval start \<le> dval end \<and> dval end \<le> 1 \<and>
        decimal_field item ''step_dollars'' = Inr step \<and> finite_dec step \<and> 0 < dval step)"

lemma validate_price_range_valid: "validate_price_range prior item = Inr r \<Longrightarrow> range_valid item"
proof -
  assume "validate_price_range prior item = Inr r"
  then obtain d start "end" step where item: "item = JObj d"
    and v: "decimal_value False (oget d ''start_dollars'') = Inr start"
      "decimal_value False (oget d ''end_dollars'') = Inr end" "decimal_value False (oget d ''step_dollars'') = Inr step"
    and c: "dec_lt start (dec_of_int 0) = Inr False" "dec_lt (dec_of_int 1) end = Inr False"
      "dec_lt end start = Inr False" "dec_le step (dec_of_int 0) = Inr False"
    by (auto simp: validate_price_range_def rbind_eq_Inr object_or_def)
  from v [THEN decimal_value_Inr] have "finite_dec start" "finite_dec end" "finite_dec step" by auto
  with v [THEN decimal_value_field] c show ?thesis
    by (auto simp: range_valid_def item dec_lt_finite dec_le_finite)
qed

lemma validated_ranges:
  assumes "validate_price_terms (JObj p) = Inr ()"
  shows "\<exists>ranges. oget p ''ranges'' = JArr ranges \<and> (\<forall>item \<in> set ranges. range_valid item)"
proof -
  from assms obtain ranges e where r: "oget p ''ranges'' = JArr ranges"
    and fold: "res_fold validate_price_range None ranges = Inr e"
    by (auto simp: validate_price_terms_def rbind_eq_Inr object_or_def)
  have "range_valid item" if "item \<in> set xs" "res_fold validate_price_range prior xs = Inr e" for item xs prior
    using that by (induction xs arbitrary: prior) (auto simp: rbind_eq_Inr dest: validate_price_range_valid)
  with r fold show ?thesis by blast
qed

lemma on_price_grid_mem: "on_price_grid price ranges = Inr True \<Longrightarrow> \<exists>item \<in> set ranges. price_in_range price item = Inr True"
  by (induction ranges) (auto simp: rbind_eq_Inr split: if_splits)

text \<open>Numbers of at most twenty decimal places.\<close>

definition fine_field :: "json \<Rightarrow> string \<Rightarrow> bool" where
  "fine_field item k = (case decimal_field item k of Inr d \<Rightarrow> dgrid 20 d | Inl _ \<Rightarrow> False)"

lemma price_in_range_step:
  assumes yes: "price_in_range price item = Inr True" and valid: "range_valid item"
    and fine: "fine_field item ''start_dollars''" "fine_field item ''end_dollars''" "fine_field item ''step_dollars''"
    and price: "dgrid 20 price"
  shows "\<exists>start end step. \<exists>n::int. decimal_field item ''start_dollars'' = Inr start \<and>
    decimal_field item ''end_dollars'' = Inr end \<and> decimal_field item ''step_dollars'' = Inr step \<and>
    dval start \<le> dval price \<and> dval price \<le> dval end \<and> 0 \<le> n \<and>
    dval price = dval start + of_int n * dval step \<and> 0 \<le> dval price \<and> dval price \<le> 1"
proof -
  from valid obtain start "end" step where d: "decimal_field item ''start_dollars'' = Inr start"
    "decimal_field item ''end_dollars'' = Inr end" "decimal_field item ''step_dollars'' = Inr step"
    and r: "0 \<le> dval start" "dval end \<le> 1" "0 < dval step"
    and fin: "finite_dec start" "finite_dec end"
    by (auto simp: range_valid_def)
  from fine d have grid: "dgrid 20 start" "dgrid 20 end" "dgrid 20 step"
    by (simp_all add: fine_field_def)
  have pf: "finite_dec price" using price by (rule dgrid_finite)
  from yes d obtain offset m where
    lo: "dval start \<le> dval price" and hi: "dval price \<le> dval end"
    and off: "dec_sub price start = Inr offset" and m: "dec_mod offset step = Inr m" "dec_eq m (dec_of_int 0)"
    using fin pf
    by (auto simp: price_in_range_def rbind_eq_Inr dec_le_finite dec_lt_finite dec_is_def split: if_splits)
  have "dfits 20 (dval price - dval start)" using lo hi r by (auto simp: dfits_def dec_prec_def)
  from dec_sub_grid [OF price grid(1) this] off have o': "dgrid 20 offset" "dval offset = dval price - dval start"
    by auto
  from dec_mod_zero [OF o'(1) grid(3) _ m(1)] m(2) obtain n :: int where
    n: "dval offset = of_int n * dval step"
    by (auto simp: dec_eq_finite)
  have "0 \<le> of_int n * dval step" using n o'(2) lo by simp
  then have "0 \<le> n" using r(3) by (simp add: zero_le_mult_iff)
  with d lo hi r n o' show ?thesis by auto
qed

section \<open>Properties\<close>


definition sample_range :: json where
  "sample_range = JObj [(''start_dollars'', JStr ''0''), (''end_dollars'', JStr ''1''), (''step_dollars'', JStr ''0.1''),
     (''start_inclusive'', JBool False), (''end_inclusive'', JBool False)]"

definition sample_price_terms :: jobj where
  "sample_price_terms = [(''representation'', JStr ''fixed_point_dollars''), (''maximum_decimal_places'', JInt 4),
     (''level_structure'', JStr ''deci_cent''), (''ranges'', JArr [sample_range])]"

definition sample_terms :: product_terms where
  "sample_terms = \<lparr>pt_payload = [(''price'', JObj sample_price_terms),
     (''quantity'', JObj [(''increment_contracts'', JStr ''0.5'')])], pt_sha256 = [], pt_file_sha256 = []\<rparr>"


lemma whole_number:
  assumes "dgrid k c" and "k \<le> 900" and "dfits k (dval c)"
  shows "\<exists>r. dec_mod c (dec_of_int 1) = Inr r \<and> (dec_eq r (dec_of_int 0) \<longleftrightarrow> (\<exists>n::int. dval c = of_int n))"
proof -
  from dec_mod_one_ok [OF assms(1,3)] obtain r where r: "dec_mod c (dec_of_int 1) = Inr r" by blast
  from dec_mod_zero [OF assms(1) _ _ r] assms(2) have "finite_dec r" "dval r = 0 \<longleftrightarrow> (\<exists>n::int. dval c = of_int n)"
    by auto
  with r show ?thesis by (auto simp: dec_eq_finite)
qed

text \<open>A conversion that is guarded by the test for a whole number.\<close>

lemma whole_or_refused:
  assumes "f = (if \<exists>m::int. x = of_int m then g else Inl e)" and g: "\<And>m. x = of_int m \<Longrightarrow> g = (Inr m :: int res)"
  shows "f = Inr n \<longleftrightarrow> of_int n = (x :: rat)" and "(\<forall>m::int. of_int m \<noteq> x) \<longrightarrow> f = Inl e"
proof -
  show "f = Inr n \<longleftrightarrow> of_int n = x"
  proof (cases "\<exists>m::int. x = of_int m")
    case True
    then obtain m :: int where m: "x = of_int m" ..
    with assms(1) g [OF m] show ?thesis by auto
  qed (use assms(1) in auto)
  show "(\<forall>m::int. of_int m \<noteq> x) \<longrightarrow> f = Inl e"
    unfolding assms(1) by (metis (mono_tags))
qed



end
