(* ===== verification/Envelopes.thy ===== *)
theory Envelopes
  imports Product_Terms Json_Roundtrip
begin

text \<open>
  The hash-carrying envelope of \<open>pmm_product_terms.py\<close>: \<open>validate_envelope\<close> accepts exactly the bytes
  that \<open>build_envelope\<close> and \<open>canonical_json_bytes\<close> produce.
\<close>

lemma canonical_obj_perm:
  assumes "mset d = mset d'" and "distinct (map fst d)"
  shows "canonical_json (JObj d) = canonical_json (JObj d')"
proof -
  let ?g = "\<lambda>(k, v). (k, canonical_json v)"
  have "sort_key fst (map ?g d) = sort_key fst (map ?g d')"
  proof (rule sort_key_inj_key_eq)
    show "mset (map ?g d) = mset (sort_key fst (map ?g d'))" using assms(1) by simp
    have "map fst (map ?g d) = map fst d" by auto
    with assms(2) have "distinct (map fst (map ?g d))" by (simp only:)
    then show "inj_on fst (set (map ?g d))" by (simp only: distinct_map)
  qed simp
  then show ?thesis by simp
qed

lemma json_members_step:
  "json_members (Suc n) acc s = Some (d, r) \<Longrightarrow>
   \<exists>k v t. d = sset acc k v \<or> json_members n (sset acc k v) t = Some (d, r)"
  by (auto split: list.splits if_splits option.splits prod.splits)

lemma json_members_distinct:
  "json_members n acc s = Some (d, r) \<Longrightarrow> distinct (map fst acc) \<Longrightarrow> distinct (map fst d)"
proof (induction n arbitrary: acc s)
  case (Suc n)
  have step: "distinct (map fst (sset acc k v))" for k v
    using plain.dwf_dset [of acc k v] Suc.prems(2) by (simp only: dwf_plain)
  from json_members_step [OF Suc.prems(1)] show ?case
    using Suc.IH [OF _ step] step by blast
qed simp

lemma number_branches:
  "(if a then None else if b then (if c then None else Some (JInt i, r)) else Some (JFloat f, r)) = Some (j, rest) \<Longrightarrow>
   (\<exists>i. j = JInt i) \<or> (\<exists>f. j = JFloat f)"
  by (auto split: if_splits)

lemma json_number_shape: "json_number s = Some (j, r) \<Longrightarrow> (\<exists>i. j = JInt i) \<or> (\<exists>f. j = JFloat f)"
  unfolding json_number_def Let_def by (rule number_branches)

lemma json_word_shape: "json_word s = Some (JObj d, r) \<Longrightarrow> False"
  by (auto simp: json_word_def split: option.splits dest!: json_number_shape)

lemma json_value_obj: "json_value n s = Some (JObj d, r) \<Longrightarrow> distinct (map fst d)"
proof (cases n)
  case (Suc m)
  assume "json_value n s = Some (JObj d, r)"
  then have "d = [] \<or> (\<exists>t. json_members m [] t = Some (d, r))"
    unfolding Suc by (auto split: list.splits if_splits option.splits prod.splits dest: json_word_shape)
  then show ?thesis using json_members_distinct [of m "[]"] by auto
qed simp

lemma json_loads_distinct: "json_loads s = Some (JObj d) \<Longrightarrow> distinct (map fst d)"
  by (auto simp: json_loads_def simp del: json_value.simps split: option.splits if_splits dest!: json_value_obj)

lemma json_plain_no_nan: "json_plain j \<Longrightarrow> \<not> has_nan j"
  by (induction j) (auto simp: list_all_iff list_ex_iff)

lemma three_keys:
  assumes "distinct (map fst d)" and "set (map fst d) = {a, b, c}" and "distinct [a, b, c]"
  shows "mset d = mset [(a, oget d a), (b, oget d b), (c, oget d c)]"
proof -
  have get: "(k, v) \<in> set d \<Longrightarrow> oget d k = v" for k v
    using plain.dget_member [of d k v] assms(1) by (simp add: dwf_plain oget_def)
  have "(k, v) \<in> set d \<longleftrightarrow> k \<in> {a, b, c} \<and> v = oget d k" for k v
  proof
    assume kv: "(k, v) \<in> set d"
    then have "k \<in> set (map fst d)" by (metis fst_conv image_eqI list.set_map)
    then show "k \<in> {a, b, c} \<and> v = oget d k" unfolding assms(2) using get [OF kv] by simp
  next
    assume k: "k \<in> {a, b, c} \<and> v = oget d k"
    then have "k \<in> set (map fst d)" unfolding assms(2) by blast
    then obtain w where w: "(k, w) \<in> set d" by (metis imageE list.set_map prod.collapse)
    with get [OF w] k show "(k, v) \<in> set d" by simp
  qed
  then have set: "set d = (\<lambda>k. (k, oget d k)) ` {a, b, c}" by (auto simp: image_iff)
  have d: "distinct d" using assms(1) by (simp add: distinct_map)
  have e: "distinct [(a, oget d a), (b, oget d b), (c, oget d c)]" using assms(3) by simp
  show ?thesis
    by (rule iffD1 [OF set_eq_iff_mset_eq_distinct [OF d e]]) (simp add: set)
qed

lemma require_keys_set:
  assumes "require_keys d ks [] = Inr ()"
  shows "set (map fst d) = set ks"
proof -
  from assms have all: "\<forall>k \<in> set ks. sget d k \<noteq> None" and only: "\<forall>kv \<in> set d. fst kv \<in> set ks"
    by (auto simp: require_keys_def rbind_eq_Inr list_all_iff ohas_def)
  from all have "set ks \<subseteq> fst ` set d" by (force dest: sget_mem)
  with only show ?thesis by auto
qed

definition is_digest :: "string \<Rightarrow> bool" where
  "is_digest s \<longleftrightarrow> length s = sha_length \<and> list_all (\<lambda>c. c \<in> set ''0123456789abcdef'') s"

lemma require_hash_digest: "is_digest h \<Longrightarrow> require_hash (JStr h) = Inr h"
proof -
  assume "is_digest h"
  then have "h \<noteq> []" "length h = sha_length \<and> list_all (\<lambda>c. c \<in> set ''0123456789abcdef'') h"
    by (auto simp: is_digest_def sha_length_def)
  then show ?thesis by (simp only: require_hash_def require_string_def nonempty_str_def json.case
      py_str_simps rbind_simps demand_eq not_False_eq_True simp_thms)
qed

lemma envelope_built:
  assumes "validate_envelope sha bytes (JStr schema) code = Inr (payload, h)"
  shows "\<exists>doc. build_envelope sha schema payload = Inr doc \<and> bytes = canonical_json (JObj doc) @ [CHR 0x0A] \<and>
    h = sha (canonical_json (JObj payload) @ [CHR 0x0A])"
proof -
  from assms obtain document where load: "json_loads bytes = Some (JObj document)"
    and keys: "require_keys document [''schema'', ''payload'', ''payload_sha256''] [] = Inr ()"
    and schema: "oget document ''schema'' = JStr schema" and pay: "oget document ''payload'' = JObj payload"
    and nan: "\<not> has_nan (JObj payload)"
    and hash: "require_hash (oget document ''payload_sha256'') = Inr h"
    and h: "h = sha (canonical_json (JObj payload) @ [CHR 0x0A])"
    and bytes: "bytes = canonical_json (JObj document) @ [CHR 0x0A]"
    by (auto simp: validate_envelope_def rbind_eq_Inr read_object_def canonical_json_bytes_def strict_json_def Let_def
        simp del: canonical_json.simps has_nan.simps)
  have hj: "oget document ''payload_sha256'' = JStr h"
    using hash by (auto simp: require_hash_def require_string_def rbind_eq_Inr nonempty_str_iff)
  have "mset document = mset [(''schema'', JStr schema), (''payload'', JObj payload), (''payload_sha256'', JStr h)]"
    using three_keys [OF json_loads_distinct [OF load], of "''schema''" "''payload''" "''payload_sha256''"]
      require_keys_set [OF keys] by (simp add: schema pay hj)
  from canonical_obj_perm [OF this json_loads_distinct [OF load]] bytes nan h show ?thesis
    by (simp add: build_envelope_def canonical_json_bytes_def strict_json_def
        del: canonical_json.simps has_nan.simps)
qed

lemma envelope_accepted:
  assumes plain: "json_plain (JObj payload)" and digest: "is_digest (sha (canonical_json (JObj payload) @ [CHR 0x0A]))"
    and built: "build_envelope sha schema payload = Inr doc"
  shows "validate_envelope sha (canonical_json (JObj doc) @ [CHR 0x0A]) (JStr schema) code =
    Inr (sort_key fst (map (\<lambda>(k, v). (k, json_sorted v)) payload), sha (canonical_json (JObj payload) @ [CHR 0x0A]))"
proof -
  let ?h = "sha (canonical_json (JObj payload) @ [CHR 0x0A])"
  let ?p = "sort_key fst (map (\<lambda>(k, v). (k, json_sorted v)) payload)"
  let ?sorted = "[(''payload'', JObj ?p), (''payload_sha256'', JStr ?h), (''schema'', JStr schema)]"
  from built have doc: "doc = [(''schema'', JStr schema), (''payload'', JObj payload), (''payload_sha256'', JStr ?h)]"
    by (auto simp: build_envelope_def canonical_json_bytes_def strict_json_def rbind_eq_Inr
        simp del: canonical_json.simps has_nan.simps)
  have dplain: "json_plain (JObj doc)" using plain by (simp add: doc)
  have srt: "json_sorted (JObj doc) = JObj ?sorted"
  proof -
    have less: "''payload'' < ''payload_sha256''" "''payload_sha256'' < ''schema''" "''payload'' < ''schema''"
      by (simp_all add: less_char_def)
    then show ?thesis by (simp add: doc)
  qed
  have load: "json_loads (canonical_json (JObj doc) @ [CHR 0x0A]) = Some (JObj ?sorted)"
    unfolding srt [symmetric] by (rule json_loads_canonical(2) [OF dplain])
  have pay: "canonical_json (JObj ?p) = canonical_json (JObj payload)"
    using canonical_sorted [of "JObj payload"] by (simp only: json_sorted.simps)
  have whole: "canonical_json (JObj ?sorted) = canonical_json (JObj doc)"
    using canonical_sorted [of "JObj doc"] by (simp only: srt)
  have nan: "\<not> has_nan (JObj ?p)" "\<not> has_nan (JObj ?sorted)"
  proof -
    have sorted_nan: "has_nan (json_sorted j) = has_nan j" for j
    proof (induction j)
      case (JArr xs)
      then show ?case by (induction xs) auto
    next
      case (JObj d)
      then have "(\<exists>x \<in> set d. has_nan (json_sorted (snd x))) = (\<exists>x \<in> set d. has_nan (snd x))"
        by (intro bex_cong) (auto simp: snds.simps)
      then show ?case by (simp add: list_ex_iff case_prod_beta')
    qed auto
    show "\<not> has_nan (JObj ?p)" using sorted_nan [of "JObj payload"] json_plain_no_nan [OF plain]
      by (simp only: json_sorted.simps) simp
    then show "\<not> has_nan (JObj ?sorted)" by simp
  qed
  have keys: "require_keys ?sorted [''schema'', ''payload'', ''payload_sha256''] [] = Inr ()"
    by (simp add: require_keys_def ohas_def)
  show ?thesis
    using nan
    by (simp add: validate_envelope_def read_object_def load keys require_hash_digest [OF digest]
        canonical_json_bytes_def strict_json_def pay whole Let_def del: canonical_json.simps has_nan.simps)
qed

section \<open>Properties\<close>

text \<open>C26: Envelopes are tamper evident and self consistent. The bytes \<open>validate_envelope\<close> accepts for a
  schema are exactly the canonical bytes of the envelope \<open>build_envelope\<close> makes for the payload it
  returns, with the hash of that payload; and it accepts every envelope built for a payload without
  floats, returning that payload with its keys sorted.\<close>

theorem envelope_round_trip:
  "(validate_envelope sha bytes (JStr schema) code = Inr (payload, h) \<longrightarrow>
      (\<exists>doc. build_envelope sha schema payload = Inr doc \<and> bytes = canonical_json (JObj doc) @ [CHR 0x0A] \<and>
         h = sha (canonical_json (JObj payload) @ [CHR 0x0A]))) \<and>
   (json_plain (JObj p) \<longrightarrow> is_digest (sha (canonical_json (JObj p) @ [CHR 0x0A])) \<longrightarrow>
      (\<exists>doc. build_envelope sha schema p = Inr doc \<and>
        validate_envelope sha (canonical_json (JObj doc) @ [CHR 0x0A]) (JStr schema) code =
          Inr (sort_key fst (map (\<lambda>(k, v). (k, json_sorted v)) p), sha (canonical_json (JObj p) @ [CHR 0x0A]))))"
proof -
  have "\<exists>doc. build_envelope sha schema p = Inr doc" if "json_plain (JObj p)"
    using json_plain_no_nan [OF that]
    by (simp add: build_envelope_def canonical_json_bytes_def strict_json_def del: canonical_json.simps has_nan.simps)
  with envelope_built envelope_accepted show ?thesis by blast
qed

definition sample_digest :: string where
  "sample_digest = replicate 64 (CHR ''a'')"

lemma sample_digest_digest: "is_digest sample_digest"
  by (simp add: is_digest_def sample_digest_def sha_length_def list_all_iff)

theorem envelope_round_trip_witness:
  "\<exists>doc. build_envelope (\<lambda>_. sample_digest) ''s'' [(''b'', JInt 1), (''a'', JNull)] = Inr doc \<and>
    validate_envelope (\<lambda>_. sample_digest) (canonical_json (JObj doc) @ [CHR 0x0A]) (JStr ''s'') ''SourceHashMismatch'' =
      Inr ([(''a'', JNull), (''b'', JInt 1)], sample_digest)"
proof -
  have "json_plain (JObj [(''b'', JInt 1), (''a'', JNull)])" by (simp add: ndigits.simps)
  moreover have "sort_key fst (map (\<lambda>(k, v). (k, json_sorted v)) [(''b'', JInt 1), (''a'', JNull)]) =
      [(''a'', JNull), (''b'', JInt 1)]"
    by (simp add: less_char_def)
  ultimately show ?thesis
    using envelope_round_trip [of "\<lambda>_. sample_digest" _ "''s''" "''SourceHashMismatch''" _ _ "[(''b'', JInt 1), (''a'', JNull)]"]
      sample_digest_digest by (auto simp del: canonical_json.simps)
qed

end
