(* ===== verification/Product_Catalog.thy ===== *)
theory Product_Catalog
  imports Envelopes
begin

text \<open>
  Reviewed packages and the catalog that selects one for a capture (\<open>pmm_product_terms.py\<close>):
  \<open>ProductReview.covers\<close>, \<open>ProductPackage.verify_capture\<close>, \<open>ProductCatalog.load\<close>, \<open>verify\<close>,
  \<open>_package_for\<close>, \<open>resolve\<close>, and \<open>compatibility_report\<close>. The loading of one package from its
  directory is the argument \<open>load\<close> (package path to package or refusal); the symbolic-link checks on
  the way to the directory are not modelled.
\<close>

section \<open>Packages\<close>

record product_review =
  rv_payload :: jobj
  rv_sha256 :: string

record product_package =
  pk_evidence :: source_evidence
  pk_terms :: product_terms
  pk_review :: product_review

definition review_covers :: "product_review \<Rightarrow> int \<Rightarrow> int \<Rightarrow> bool res" where
  "review_covers review started ended =
     rbind (oindex (rv_payload review) ''effective_from_utc'') (\<lambda>f.
     rbind (parse_utc f) (\<lambda>start.
     rbind (oindex (rv_payload review) ''effective_until_utc'') (\<lambda>end_value.
     rbind (if end_value = JNull then Inr None else rbind (parse_utc end_value) (\<lambda>e. Inr (Some e))) (\<lambda>end.
     Inr (start \<le> started \<and> (case end of None \<Rightarrow> True | Some e \<Rightarrow> ended < e))))))"

definition package_verify_capture :: "product_package \<Rightarrow> jobj \<Rightarrow> unit res" where
  "package_verify_capture package metadata =
     rbind (pt_market_ticker (pk_terms package)) (\<lambda>market.
     rbind (demand (py_eq (oget metadata ''ticker'') market) ''MarketTickerMismatch'') (\<lambda>_.
     rbind (utc_ns_to_instant (oget metadata ''capture_started_at_utc_ns'')) (\<lambda>started.
     rbind (utc_ns_to_instant (oget metadata ''capture_ended_at_utc_ns'')) (\<lambda>ended.
     rbind (if ended < started then Inr False else review_covers (pk_review package) started ended) (\<lambda>covered.
     demand covered ''CaptureOutsideEffectiveWindow'')))))"

section \<open>The catalog\<close>

record product_catalog =
  ct_payload :: jobj
  ct_sha256 :: string
  ct_entries :: "jobj list"

definition entry_keys :: "string list" where
  "entry_keys = [''venue'', ''environment'', ''series_ticker'', ''event_ticker'', ''market_ticker'',
     ''effective_from_utc'', ''effective_until_utc'', ''package'', ''product_terms_sha256'',
     ''source_manifest_sha256'', ''review_sha256'']"

definition opt_utc :: "json \<Rightarrow> int option res" where
  "opt_utc v = (if v = JNull then Inr None else rbind (parse_utc v) (\<lambda>e. Inr (Some e)))"

definition validate_catalog_entry :: "json \<Rightarrow> jobj res" where
  "validate_catalog_entry item =
     rbind (object_or ''TermsNoncanonical'' item) (\<lambda>entry.
     rbind (require_keys entry entry_keys []) (\<lambda>_.
     rbind (demand (oget entry ''venue'' = JStr ''kalshi'' \<and> oget entry ''environment'' = JStr ''production'')
              ''TermsNoncanonical'') (\<lambda>_.
     rbind (res_all (\<lambda>name. rbind (require_string (oget entry name)) (\<lambda>_. Inr ()))
              [''series_ticker'', ''event_ticker'', ''market_ticker'', ''package'']) (\<lambda>_.
     rbind (parse_utc (oget entry ''effective_from_utc'')) (\<lambda>start.
     rbind (opt_utc (oget entry ''effective_until_utc'')) (\<lambda>end.
     rbind (demand (case end of None \<Rightarrow> True | Some e \<Rightarrow> start < e) ''EffectiveWindowGap'') (\<lambda>_.
     rbind (res_all (\<lambda>name. rbind (require_hash (oget entry name)) (\<lambda>_. Inr ()))
              [''product_terms_sha256'', ''source_manifest_sha256'', ''review_sha256'']) (\<lambda>_.
     Inr entry))))))))"

definition entry_key :: "jobj \<Rightarrow> string \<times> string" where
  "entry_key entry = (py_str (oget entry ''market_ticker''), py_str (oget entry ''effective_from_utc''))"

definition key_less :: "string \<times> string \<Rightarrow> string \<times> string \<Rightarrow> bool" where
  "key_less a b = (fst a < fst b \<or> (fst a = fst b \<and> snd a < snd b))"

text \<open>The components of a POSIX path, without empty and \<open>.\<close> ones.\<close>

fun split_on :: "char \<Rightarrow> string \<Rightarrow> string list" where
  "split_on c [] = [[]]"
| "split_on c (x # xs) =
     (if x = c then [] # split_on c xs
      else (case split_on c xs of [] \<Rightarrow> [[x]] | p # ps \<Rightarrow> (x # p) # ps))"

definition path_parts :: "string \<Rightarrow> string list" where
  "path_parts s = filter (\<lambda>p. p \<noteq> [] \<and> p \<noteq> ''.'') (split_on (CHR ''/'') s)"

definition unsafe_path :: "string \<Rightarrow> bool" where
  "unsafe_path s = (take 1 s = ''/'' \<or> ''..'' \<in> set (path_parts s) \<or> CHR 0x5C \<in> set s)"

definition ticker_mismatch_code :: "string \<Rightarrow> string" where
  "ticker_mismatch_code name =
     (if name = ''series_ticker'' then ''SeriesTickerMismatch''
      else if name = ''event_ticker'' then ''EventTickerMismatch'' else ''MarketTickerMismatch'')"

definition package_for :: "(string \<Rightarrow> product_package res) \<Rightarrow> jobj \<Rightarrow> product_package res" where
  "package_for load entry =
     rbind (demand (\<not> unsafe_path (py_str (oget entry ''package''))) ''SourceMissing'') (\<lambda>_.
     rbind (load (join ''/'' (path_parts (py_str (oget entry ''package''))))) (\<lambda>package.
     rbind (demand (JStr (pt_sha256 (pk_terms package)) = oget entry ''product_terms_sha256'' \<and>
                    JStr (ev_sha256 (pk_evidence package)) = oget entry ''source_manifest_sha256'' \<and>
                    JStr (rv_sha256 (pk_review package)) = oget entry ''review_sha256'')
              ''CatalogHashMismatch'') (\<lambda>_.
     rbind (pt_identity (pk_terms package)) (\<lambda>identity.
     rbind (res_all (\<lambda>name. rbind (jindex identity name) (\<lambda>v.
                demand (py_eq v (oget entry name)) (ticker_mismatch_code name)))
              [''series_ticker'', ''event_ticker'', ''market_ticker'']) (\<lambda>_.
     rbind (oindex (pt_payload (pk_terms package)) ''effective'') (\<lambda>effective.
     rbind (jindex effective ''from_utc'') (\<lambda>terms_from.
     rbind (jindex effective ''until_utc'') (\<lambda>terms_until.
     rbind (oindex (rv_payload (pk_review package)) ''effective_from_utc'') (\<lambda>review_from.
     rbind (oindex (rv_payload (pk_review package)) ''effective_until_utc'') (\<lambda>review_until.
     let start = oget entry ''effective_from_utc''; end = oget entry ''effective_until_utc'' in
     rbind (demand (py_eq start terms_from \<and> py_eq end terms_until \<and> py_eq start review_from \<and> py_eq end review_until)
              ''EffectiveWindowMismatch'') (\<lambda>_.
     Inr package)))))))))))"

type_synonym windows = "(string \<times> (int \<times> int option) list) list"

definition verify_entry :: "(string \<Rightarrow> product_package res) \<Rightarrow> windows \<Rightarrow> jobj \<Rightarrow> windows res" where
  "verify_entry load by_market entry =
     rbind (package_for load entry) (\<lambda>_.
     rbind (parse_utc (oget entry ''effective_from_utc'')) (\<lambda>start.
     rbind (opt_utc (oget entry ''effective_until_utc'')) (\<lambda>end.
     let market = py_str (oget entry ''market_ticker'');
         intervals = (case sget by_market market of None \<Rightarrow> [] | Some xs \<Rightarrow> xs) in
     rbind (demand (intervals = [] \<or>
                    (case snd (last intervals) of None \<Rightarrow> False | Some e \<Rightarrow> e \<le> start))
              ''EffectiveWindowOverlap'') (\<lambda>_.
     Inr (sset by_market market (intervals @ [(start, end)]))))))"

definition catalog_verify :: "(string \<Rightarrow> product_package res) \<Rightarrow> jobj list \<Rightarrow> windows res" where
  "catalog_verify load entries = res_fold (verify_entry load) [] entries"

definition catalog_load ::
  "(string \<Rightarrow> string) \<Rightarrow> (string \<Rightarrow> product_package res) \<Rightarrow> string \<Rightarrow> product_catalog res" where
  "catalog_load sha load bytes =
     rbind (validate_envelope sha bytes (JStr ''pmm.product_catalog.v1'') ''CatalogHashMismatch'')
       (\<lambda>(payload, payload_hash).
     rbind (require_keys payload [''entries''] []) (\<lambda>_.
     rbind (of_option (ProductTermsError ''TermsNoncanonical'') (as_arr (oget payload ''entries''))) (\<lambda>items.
     rbind (demand (items \<noteq> []) ''TermsNoncanonical'') (\<lambda>_.
     rbind (res_map validate_catalog_entry items) (\<lambda>entries.
     rbind (demand (sorted_wrt key_less (map entry_key entries)) ''CatalogAmbiguous'') (\<lambda>_.
     rbind (catalog_verify load entries) (\<lambda>_.
     Inr \<lparr>ct_payload = payload, ct_sha256 = payload_hash, ct_entries = entries\<rparr>)))))))"

definition resolve_entry ::
  "(string \<Rightarrow> product_package res) \<Rightarrow> json \<Rightarrow> int \<Rightarrow> int \<Rightarrow> product_package list \<Rightarrow> jobj \<Rightarrow> product_package list res" where
  "resolve_entry load ticker started ended matches entry =
     (if \<not> py_eq (oget entry ''market_ticker'') ticker then Inr matches
      else
        rbind (parse_utc (oget entry ''effective_from_utc'')) (\<lambda>start.
        rbind (opt_utc (oget entry ''effective_until_utc'')) (\<lambda>end.
        if start \<le> started \<and> (case end of None \<Rightarrow> True | Some e \<Rightarrow> ended < e)
        then rbind (package_for load entry) (\<lambda>package. Inr (matches @ [package]))
        else Inr matches)))"

definition catalog_resolve ::
  "(string \<Rightarrow> product_package res) \<Rightarrow> product_catalog \<Rightarrow> jobj \<Rightarrow> product_package res" where
  "catalog_resolve load catalog metadata =
     (let ticker = oget metadata ''ticker'' in
      rbind (utc_ns_to_instant (oget metadata ''capture_started_at_utc_ns'')) (\<lambda>started.
      rbind (utc_ns_to_instant (oget metadata ''capture_ended_at_utc_ns'')) (\<lambda>ended.
      rbind (demand (started \<le> ended) ''CaptureOutsideEffectiveWindow'') (\<lambda>_.
      rbind (res_fold (resolve_entry load ticker started ended) [] (ct_entries catalog)) (\<lambda>matches.
      rbind (demand (matches \<noteq> []) ''EffectiveWindowGap'') (\<lambda>_.
      rbind (demand (length matches = 1) ''CatalogAmbiguous'') (\<lambda>_.
      rbind (package_verify_capture (hd matches) metadata) (\<lambda>_.
      Inr (hd matches)))))))))"

section \<open>Compatibility\<close>

definition compatibility_comparisons ::
  "product_package \<Rightarrow> product_package \<Rightarrow> conversion_policy \<Rightarrow> conversion_policy \<Rightarrow> (string \<times> json \<times> json) list res" where
  "compatibility_comparisons left right left_policy right_policy =
     rbind (pt_market_ticker (pk_terms left)) (\<lambda>lm.
     rbind (pt_market_ticker (pk_terms right)) (\<lambda>rm.
     Inr [(''MarketTickerMismatch'', lm, rm),
          (''TermsHashMismatch'', JStr (pt_sha256 (pk_terms left)), JStr (pt_sha256 (pk_terms right))),
          (''SourceHashMismatch'', JStr (ev_sha256 (pk_evidence left)), JStr (ev_sha256 (pk_evidence right))),
          (''ReviewHashMismatch'', JStr (rv_sha256 (pk_review left)), JStr (rv_sha256 (pk_review right))),
          (''ConversionPolicyMismatch'', JStr (cp_sha256 left_policy), JStr (cp_sha256 right_policy))]))"

definition compatibility_report ::
  "product_package \<Rightarrow> product_package \<Rightarrow> conversion_policy \<Rightarrow> conversion_policy \<Rightarrow> jobj res" where
  "compatibility_report left right left_policy right_policy =
     rbind (compatibility_comparisons left right left_policy right_policy) (\<lambda>comparisons.
     let reasons = map (\<lambda>(code, l, r). JObj [(''code'', JStr code), (''left'', l), (''right'', r)])
                     (filter (\<lambda>(code, l, r). \<not> py_eq l r) comparisons) in
     Inr [(''schema'', JStr ''pmm.product_compatibility_report.v1''), (''compatible'', JBool (reasons = [])),
          (''reasons'', JArr reasons)])"

section \<open>Verified catalogs never overlap\<close>

definition entry_window :: "jobj \<Rightarrow> (int \<times> int option) option" where
  "entry_window entry =
     (case (parse_utc (oget entry ''effective_from_utc''), opt_utc (oget entry ''effective_until_utc'')) of
        (Inr s, Inr e) \<Rightarrow> Some (s, e) | _ \<Rightarrow> None)"

definition entry_covers :: "json \<Rightarrow> int \<Rightarrow> int \<Rightarrow> jobj \<Rightarrow> bool" where
  "entry_covers ticker started ended entry \<longleftrightarrow>
     py_eq (oget entry ''market_ticker'') ticker \<and>
     (case entry_window entry of
        Some (s, e) \<Rightarrow> s \<le> started \<and> (case e of None \<Rightarrow> True | Some u \<Rightarrow> ended < u)
      | None \<Rightarrow> False)"

definition window_ok :: "int \<times> int option \<Rightarrow> bool" where
  "window_ok w \<longleftrightarrow> (case snd w of None \<Rightarrow> True | Some e \<Rightarrow> fst w < e)"

definition before :: "int \<times> int option \<Rightarrow> int \<times> int option \<Rightarrow> bool" where
  "before v w \<longleftrightarrow> (case snd v of None \<Rightarrow> False | Some e \<Rightarrow> e \<le> fst w)"

text \<open>The windows recorded per market are in time order and disjoint.\<close>

definition windows_wf :: "windows \<Rightarrow> bool" where
  "windows_wf by_market \<longleftrightarrow>
     (\<forall>m ws. sget by_market m = Some ws \<longrightarrow> sorted_wrt before ws \<and> list_all window_ok ws)"

lemma before_trans: "before u v \<Longrightarrow> window_ok v \<Longrightarrow> before v w \<Longrightarrow> before u w"
  by (auto simp: before_def window_ok_def split: option.splits)

lemma before_last:
  "sorted_wrt before ws \<Longrightarrow> list_all window_ok ws \<Longrightarrow> ws \<noteq> [] \<Longrightarrow> before (last ws) w \<Longrightarrow> v \<in> set ws \<Longrightarrow> before v w"
proof (induction ws)
  case (Cons x ws)
  show ?case
  proof (cases "ws = []")
    case True
    with Cons.prems show ?thesis by simp
  next
    case False
    then have "last ws \<in> set ws" by simp
    with Cons.prems have "before x (last ws)" "window_ok (last ws)" by (auto simp: list_all_iff)
    with Cons False show ?thesis by (auto intro: before_trans)
  qed
qed simp

lemma windows_snoc:
  assumes "sorted_wrt before ws" "list_all window_ok ws" "window_ok w" "ws = [] \<or> before (last ws) w"
  shows "sorted_wrt before (ws @ [w]) \<and> list_all window_ok (ws @ [w])"
proof (cases "ws = []")
  case False
  with assms have "before (last ws) w" by simp
  with before_last [OF assms(1,2) False] have "\<forall>v \<in> set ws. before v w" by blast
  with assms show ?thesis by (simp add: sorted_wrt_append)
qed (use assms in simp)

definition market_windows :: "windows \<Rightarrow> string \<Rightarrow> (int \<times> int option) list" where
  "market_windows bm m = (case sget bm m of None \<Rightarrow> [] | Some ws \<Rightarrow> ws)"

definition entry_market :: "jobj \<Rightarrow> string" where
  "entry_market entry = py_str (oget entry ''market_ticker'')"

lemma verify_entry_Inr:
  assumes "verify_entry load bm entry = Inr bm'"
  shows "\<exists>p w. package_for load entry = Inr p \<and> entry_window entry = Some w \<and>
    (market_windows bm (entry_market entry) = [] \<or> before (last (market_windows bm (entry_market entry))) w) \<and>
    bm' = sset bm (entry_market entry) (market_windows bm (entry_market entry) @ [w])"
proof -
  from assms obtain p s e where p: "package_for load entry = Inr p"
    and s: "parse_utc (oget entry ''effective_from_utc'') = Inr s"
    and e: "opt_utc (oget entry ''effective_until_utc'') = Inr e"
    and ok: "market_windows bm (entry_market entry) = [] \<or>
      (case snd (last (market_windows bm (entry_market entry))) of None \<Rightarrow> False | Some e \<Rightarrow> e \<le> s)"
    and bm': "bm' = sset bm (entry_market entry) (market_windows bm (entry_market entry) @ [(s, e)])"
    unfolding verify_entry_def Let_def rbind_eq_Inr market_windows_def [symmetric] entry_market_def [symmetric]
    by (auto simp del: sget_sset)
  from ok have "market_windows bm (entry_market entry) = [] \<or> before (last (market_windows bm (entry_market entry))) (s, e)"
    by (auto simp: before_def split: option.splits)
  with p s e bm' show ?thesis by (auto simp: entry_window_def)
qed

text \<open>After verifying a list of entries, the windows of each market are those of its entries, in order.\<close>

lemma catalog_verify_windows:
  assumes "catalog_verify load es = Inr bm"
    and "\<forall>e \<in> set es. \<forall>w. entry_window e = Some w \<longrightarrow> window_ok w"
  shows "(\<forall>e \<in> set es. is_ok (package_for load e) \<and> entry_window e \<noteq> None) \<and>
    (\<forall>m. market_windows bm m = map (the \<circ> entry_window) (filter (\<lambda>e. entry_market e = m) es) \<and>
         sorted_wrt before (market_windows bm m) \<and> list_all window_ok (market_windows bm m))"
  using assms
proof (induction es arbitrary: bm rule: rev_induct)
  case Nil
  then show ?case by (simp add: catalog_verify_def market_windows_def)
next
  case (snoc x es)
  from snoc.prems(1) obtain t where t: "catalog_verify load es = Inr t" and step: "verify_entry load t x = Inr bm"
    by (auto simp: catalog_verify_def res_fold_append rbind_eq_Inr)
  have prem: "\<forall>e \<in> set es. \<forall>w. entry_window e = Some w \<longrightarrow> window_ok w"
    using snoc.prems(2) by simp
  have IH_all: "is_ok (package_for load e) \<and> entry_window e \<noteq> None" if "e \<in> set es" for e
    using snoc.IH [OF t prem] that by blast
  have IH_eq: "market_windows t m = map (the \<circ> entry_window) (filter (\<lambda>e. entry_market e = m) es)"
    and IH_sorted: "sorted_wrt before (market_windows t m)"
    and IH_ok: "list_all window_ok (market_windows t m)" for m
    using snoc.IH [OF t prem] by blast+
  from verify_entry_Inr [OF step] obtain p w where p: "package_for load x = Inr p" and w: "entry_window x = Some w"
    and last: "market_windows t (entry_market x) = [] \<or> before (last (market_windows t (entry_market x))) w"
    and bm: "bm = sset t (entry_market x) (market_windows t (entry_market x) @ [w])"
    by blast
  have ok: "window_ok w" using snoc.prems(2) w by (cases w) simp
  have mw: "market_windows bm m = (if m = entry_market x then market_windows t m @ [w] else market_windows t m)" for m
    by (auto simp: bm market_windows_def)
  note new = windows_snoc [OF IH_sorted IH_ok ok last]
  show ?case
    using IH_all p w new IH_sorted IH_ok IH_eq by (auto simp: mw)
qed

lemma filter_exclusive:
  "sorted_wrt P xs \<Longrightarrow> \<forall>x y. P x y \<longrightarrow> Q x \<longrightarrow> Q y \<longrightarrow> False \<Longrightarrow> length (filter Q xs) \<le> 1"
proof (induction xs)
  case (Cons x xs)
  have none: "filter Q xs = []" if "Q x"
    using Cons.prems that by (auto simp: filter_empty_conv)
  have "length (filter Q xs) \<le> 1" using Cons by simp
  with none show ?case by (cases "Q x") simp_all
qed simp

definition window_covers :: "int \<Rightarrow> int \<Rightarrow> int \<times> int option \<Rightarrow> bool" where
  "window_covers started ended w \<longleftrightarrow>
     fst w \<le> started \<and> (case snd w of None \<Rightarrow> True | Some u \<Rightarrow> ended < u)"

lemma covers_exclusive:
  "before v w \<Longrightarrow> started \<le> ended \<Longrightarrow> window_covers started ended v \<Longrightarrow> window_covers started ended w \<Longrightarrow> False"
  by (auto simp: before_def window_covers_def split: option.splits)

lemma catalog_covers_once:
  assumes verified: "catalog_verify load es = Inr bm"
    and ok: "\<forall>e \<in> set es. \<forall>w. entry_window e = Some w \<longrightarrow> window_ok w"
    and strings: "\<And>e. e \<in> set es \<Longrightarrow> oget e ''market_ticker'' = JStr (entry_market e)"
    and time: "started \<le> ended"
  shows "length (filter (entry_covers ticker started ended) es) \<le> 1"
proof (cases ticker)
  case (JStr m)
  have all: "\<forall>e \<in> set es. is_ok (package_for load e) \<and> entry_window e \<noteq> None"
    and ver: "\<forall>m. market_windows bm m = map (the \<circ> entry_window) (filter (\<lambda>e. entry_market e = m) es) \<and>
      sorted_wrt before (market_windows bm m) \<and> list_all window_ok (market_windows bm m)"
    using catalog_verify_windows [OF verified ok] by blast+
  have "filter (entry_covers ticker started ended) es =
      filter (\<lambda>e. window_covers started ended (the (entry_window e))) (filter (\<lambda>e. entry_market e = m) es)"
    unfolding filter_filter
    by (rule filter_cong [OF refl])
      (use all strings JStr in \<open>auto simp: entry_covers_def window_covers_def split: option.splits\<close>)
  also have "length \<dots> = length (filter (window_covers started ended) (market_windows bm m))"
    using ver by (simp add: filter_map comp_def)
  also have "\<dots> \<le> 1"
  proof (rule filter_exclusive)
    show "sorted_wrt before (market_windows bm m)" using ver by blast
    show "\<forall>x y. before x y \<longrightarrow> window_covers started ended x \<longrightarrow> window_covers started ended y \<longrightarrow> False"
      using covers_exclusive [OF _ time] by blast
  qed
  finally show ?thesis .
next
  case JNull
  with strings show ?thesis by (auto simp: entry_covers_def filter_empty_conv intro!: le_SucI)
qed (use strings in \<open>auto simp: entry_covers_def filter_empty_conv num_of_def\<close>)

lemma validate_catalog_entry_Inr:
  assumes "validate_catalog_entry item = Inr e"
  shows "oget e ''market_ticker'' = JStr (entry_market e) \<and> (\<forall>w. entry_window e = Some w \<longrightarrow> window_ok w)"
proof -
  from assms obtain s u where m: "nonempty_str (oget e ''market_ticker'')"
    and s: "parse_utc (oget e ''effective_from_utc'') = Inr s"
    and u: "opt_utc (oget e ''effective_until_utc'') = Inr u"
    and ok: "case u of None \<Rightarrow> True | Some x \<Rightarrow> s < x"
    by (auto simp: validate_catalog_entry_def rbind_eq_Inr require_string_def)
  from m have "oget e ''market_ticker'' = JStr (entry_market e)"
    by (auto simp: nonempty_str_iff entry_market_def)
  moreover have "window_ok (s, u)" using ok by (cases u) (simp_all add: window_ok_def)
  ultimately show ?thesis using s u by (auto simp: entry_window_def)
qed

lemma catalog_load_entries:
  assumes "catalog_load sha load bytes = Inr catalog"
  shows "(\<exists>bm. catalog_verify load (ct_entries catalog) = Inr bm) \<and>
    (\<forall>e \<in> set (ct_entries catalog). oget e ''market_ticker'' = JStr (entry_market e) \<and>
       (\<forall>w. entry_window e = Some w \<longrightarrow> window_ok w))"
proof -
  from assms obtain items bm where items: "res_map validate_catalog_entry items = Inr (ct_entries catalog)"
    and bm: "catalog_verify load (ct_entries catalog) = Inr bm"
    by (auto simp: catalog_load_def rbind_eq_Inr)
  have "\<exists>i. validate_catalog_entry i = Inr e" if "e \<in> set (ct_entries catalog)" for e
    using items that by (auto simp: res_map_Inr_conv list_all2_conv_all_nth in_set_conv_nth)
  with validate_catalog_entry_Inr bm show ?thesis by blast
qed

lemma resolve_entry_covers:
  assumes "entry_window e = Some w"
  shows "resolve_entry load ticker started ended ms e =
    (if entry_covers ticker started ended e then rbind (package_for load e) (\<lambda>p. Inr (ms @ [p])) else Inr ms)"
  using assms
  by (auto simp: resolve_entry_def entry_covers_def entry_window_def split: sum.splits)

lemma resolve_fold:
  assumes "\<forall>e \<in> set es. is_ok (package_for load e) \<and> entry_window e \<noteq> None"
  shows "\<exists>new. res_fold (resolve_entry load ticker started ended) ms es = Inr (ms @ new) \<and>
    list_all2 (\<lambda>e p. package_for load e = Inr p) (filter (entry_covers ticker started ended) es) new"
  using assms
proof (induction es arbitrary: ms)
  case (Cons e es)
  then obtain w p where w: "entry_window e = Some w" and p: "package_for load e = Inr p"
    by (cases "package_for load e") auto
  show ?case
  proof (cases "entry_covers ticker started ended e")
    case True
    from Cons.IH [of "ms @ [p]"] Cons.prems obtain new where
      "res_fold (resolve_entry load ticker started ended) (ms @ [p]) es = Inr ((ms @ [p]) @ new)"
      "list_all2 (\<lambda>e p. package_for load e = Inr p) (filter (entry_covers ticker started ended) es) new" by auto
    with True p show ?thesis
      by (intro exI [of _ "p # new"]) (simp add: resolve_entry_covers [OF w])
  next
    case False
    with Cons show ?thesis by (simp add: resolve_entry_covers [OF w])
  qed
qed simp

lemma demand_Inl: "demand b c = Inl e \<longleftrightarrow> \<not> b \<and> e = ProductTermsError c"
  by (auto simp: demand_def)

section \<open>Properties\<close>

text \<open>C15: A verified catalog resolves unambiguously. Of the entries of a catalog that \<open>load\<close>
  accepted, at most one covers a given ticker and capture interval, so \<open>resolve\<close> returns a package
  exactly when one entry covers the interval and its package accepts the capture; it fails with
  \<open>EffectiveWindowGap\<close> when none does and never has two matches to choose from.\<close>

theorem catalog_resolution_unique:
  assumes "catalog_load sha load bytes = Inr catalog"
    and "utc_ns_to_instant (oget metadata ''capture_started_at_utc_ns'') = Inr started"
    and "utc_ns_to_instant (oget metadata ''capture_ended_at_utc_ns'') = Inr ended"
    and "started \<le> ended"
  shows "catalog_resolve load catalog metadata =
    (case filter (entry_covers (oget metadata ''ticker'') started ended) (ct_entries catalog) of
       [] \<Rightarrow> Inl (ProductTermsError ''EffectiveWindowGap'')
     | e # _ \<Rightarrow> rbind (package_for load e) (\<lambda>p. rbind (package_verify_capture p metadata) (\<lambda>_. Inr p))) \<and>
    length (filter (entry_covers (oget metadata ''ticker'') started ended) (ct_entries catalog)) \<le> 1"
proof -
  let ?cov = "filter (entry_covers (oget metadata ''ticker'') started ended) (ct_entries catalog)"
  from catalog_load_entries [OF assms(1)] obtain bm where bm: "catalog_verify load (ct_entries catalog) = Inr bm"
    and ok: "\<forall>e \<in> set (ct_entries catalog). \<forall>w. entry_window e = Some w \<longrightarrow> window_ok w"
    and str: "\<And>e. e \<in> set (ct_entries catalog) \<Longrightarrow> oget e ''market_ticker'' = JStr (entry_market e)"
    by blast
  from catalog_verify_windows [OF bm ok]
  have "\<forall>e \<in> set (ct_entries catalog). is_ok (package_for load e) \<and> entry_window e \<noteq> None" by blast
  from resolve_fold [OF this, of "oget metadata ''ticker''" started ended "[]"] obtain new where
    new: "res_fold (resolve_entry load (oget metadata ''ticker'') started ended) [] (ct_entries catalog) = Inr new"
      "list_all2 (\<lambda>e p. package_for load e = Inr p) ?cov new"
    by auto
  have one: "length ?cov \<le> 1"
    using catalog_covers_once [OF bm ok str assms(4)] .
  have "catalog_resolve load catalog metadata =
      rbind (demand (new \<noteq> []) ''EffectiveWindowGap'') (\<lambda>_.
      rbind (demand (length new = 1) ''CatalogAmbiguous'') (\<lambda>_.
      rbind (package_verify_capture (hd new) metadata) (\<lambda>_. Inr (hd new))))"
    by (simp add: catalog_resolve_def assms(2,3,4) new(1) Let_def)
  moreover have "length new \<le> 1" using new(2) one by (simp add: list_all2_lengthD)
  ultimately have "catalog_resolve load catalog metadata =
      (case ?cov of [] \<Rightarrow> Inl (ProductTermsError ''EffectiveWindowGap'')
       | e # _ \<Rightarrow> rbind (package_for load e) (\<lambda>p. rbind (package_verify_capture p metadata) (\<lambda>_. Inr p)))"
    using new(2) by (cases ?cov; cases new; cases "tl new") (auto simp: list_all2_Cons1)
  with one show ?thesis by blast
qed

definition sample_entry :: jobj where
  "sample_entry = [(''effective_from_utc'', JStr ''1960-01-01T00:00:00Z''), (''effective_until_utc'', JNull),
     (''environment'', JStr ''production''), (''event_ticker'', JStr ''E''), (''market_ticker'', JStr ''M''),
     (''package'', JStr ''p''), (''product_terms_sha256'', JStr sample_digest), (''review_sha256'', JStr sample_digest),
     (''series_ticker'', JStr ''S''), (''source_manifest_sha256'', JStr sample_digest), (''venue'', JStr ''kalshi'')]"

definition sample_package :: product_package where
  "sample_package =
     \<lparr>pk_evidence = \<lparr>ev_schema = [], ev_payload = [], ev_sha256 = sample_digest, ev_source_hashes = [],
        ev_profile_roles = None\<rparr>,
      pk_terms = \<lparr>pt_payload =
          [(''identity'', JObj [(''series_ticker'', JStr ''S''), (''event_ticker'', JStr ''E''), (''market_ticker'', JStr ''M'')]),
           (''effective'', JObj [(''from_utc'', JStr ''1960-01-01T00:00:00Z''), (''until_utc'', JNull)])],
        pt_sha256 = sample_digest, pt_file_sha256 = []\<rparr>,
      pk_review = \<lparr>rv_payload = [(''effective_from_utc'', JStr ''1960-01-01T00:00:00Z''), (''effective_until_utc'', JNull)],
        rv_sha256 = sample_digest\<rparr>\<rparr>"

definition sample_capture :: jobj where
  "sample_capture = [(''ticker'', JStr ''M''), (''capture_started_at_utc_ns'', JInt 0), (''capture_ended_at_utc_ns'', JInt 0)]"

lemma instant_of_ns_zero: "instant_of_ns 0 = Inr 0"
proof -
  have "float_of_ratio neg 0 d = Flt neg 0 0" for neg d by (simp add: float_of_ratio_def)
  then show ?thesis by (simp add: instant_of_ns_def div_half_even_def min_instant_def max_instant_def)
qed

definition sample_loader :: "string \<Rightarrow> product_package res" where
  "sample_loader path = Inr sample_package"

definition sample_catalog :: product_catalog where
  "sample_catalog = \<lparr>ct_payload = [(''entries'', JArr [JObj sample_entry])], ct_sha256 = sample_digest,
     ct_entries = [sample_entry]\<rparr>"

lemma package_for_load:
  "package_for load entry = Inr p \<Longrightarrow> load (join ''/'' (path_parts (py_str (oget entry ''package'')))) = Inr p"
  by (auto simp: package_for_def rbind_eq_Inr Let_def)

lemma sample_catalog_loads:
  "\<exists>bytes. catalog_load (\<lambda>_. sample_digest) sample_loader bytes = Inr sample_catalog"
proof -
  let ?p = "[(''entries'', JArr [JObj sample_entry])]"
  have plain: "json_plain (JObj ?p)" by (simp add: sample_entry_def)
  have digest: "is_digest ((\<lambda>_. sample_digest) (canonical_json (JObj ?p) @ [CHR 0x0A]))"
    by (rule sample_digest_digest)
  obtain doc where built: "build_envelope (\<lambda>_. sample_digest) ''pmm.product_catalog.v1'' ?p = Inr doc"
    using envelope_round_trip [of "\<lambda>_. sample_digest"] plain digest by blast
  have sorted: "sort_key fst (map (\<lambda>(k, v). (k, json_sorted v)) ?p) = ?p"
    by code_simp
  note env = envelope_accepted [OF plain digest built, of "''CatalogHashMismatch''", unfolded sorted]
  have entries: "res_map validate_catalog_entry [JObj sample_entry] = Inr [sample_entry]" by code_simp
  have "is_ok (catalog_verify sample_loader [sample_entry])" by code_simp
  then obtain bm where ver: "catalog_verify sample_loader [sample_entry] = Inr bm"
    by (cases "catalog_verify sample_loader [sample_entry]") simp_all
  have "require_keys ?p [''entries''] [] = Inr ()" by code_simp
  then have "catalog_load (\<lambda>_. sample_digest) sample_loader (canonical_json (JObj doc) @ [CHR 0x0A]) = Inr sample_catalog"
    unfolding catalog_load_def env using entries ver
    by (simp add: sample_catalog_def del: res_map.simps)
  then show ?thesis by blast
qed

theorem catalog_resolution_unique_witness:
  "\<exists>bytes. catalog_load (\<lambda>_. sample_digest) sample_loader bytes = Inr sample_catalog \<and>
     catalog_resolve sample_loader sample_catalog sample_capture = Inr sample_package"
proof -
  from sample_catalog_loads obtain bytes where
    bytes: "catalog_load (\<lambda>_. sample_digest) sample_loader bytes = Inr sample_catalog" by blast
  have times: "utc_ns_to_instant (oget sample_capture ''capture_started_at_utc_ns'') = Inr 0"
    "utc_ns_to_instant (oget sample_capture ''capture_ended_at_utc_ns'') = Inr 0"
    by (simp_all add: sample_capture_def utc_ns_to_instant_def instant_of_ns_zero)
  have covers: "entry_covers (oget sample_capture ''ticker'') 0 0 sample_entry" by code_simp
  have "is_ok (package_for sample_loader sample_entry)" by code_simp
  then have package: "package_for sample_loader sample_entry = Inr sample_package"
    by (cases "package_for sample_loader sample_entry") (auto dest: package_for_load simp: sample_loader_def)
  have "review_covers (pk_review sample_package) 0 0 = Inr True" by code_simp
  moreover have "pt_market_ticker (pk_terms sample_package) = Inr (JStr ''M'')" by code_simp
  ultimately have accept: "package_verify_capture sample_package sample_capture = Inr ()"
    unfolding package_verify_capture_def times by (simp add: sample_capture_def)
  from catalog_resolution_unique [OF bytes times]
  have "catalog_resolve sample_loader sample_catalog sample_capture = Inr sample_package"
    using covers package accept by (simp add: sample_catalog_def)
  with bytes show ?thesis by blast
qed

end
