(* ===== verification/Normalize_V1.thy ===== *)
theory Normalize_V1
  imports Raw_Messages Product_Catalog
begin

text \<open>
  \<open>normalize_capture\<close> (\<open>pmm_phase7.py\<close>): the single-market normalizer. A capture is its metadata
  document and the lines of \<open>frames.jsonl\<close>; the result is the list of events written to
  \<open>events.jsonl\<close>, the product map and the manifest. The loop over the lines is \<open>norm_line\<close> over the
  state \<open>norm_state\<close>. The catalog's package (if any) has been resolved by \<open>catalog_resolve\<close>.

  Left out: the temporary directory and its renaming, the copy of the package directory.
\<close>

section \<open>Product validation of a payload\<close>

definition payload_field :: "jobj \<Rightarrow> string \<Rightarrow> json res" where
  "payload_field payload k = oindex payload k"

definition validate_level :: "product_terms \<Rightarrow> json \<Rightarrow> unit res" where
  "validate_level t level =
     rbind (jindex level ''price_dollars'') (\<lambda>p.
     rbind (validate_price t p) (\<lambda>_.
     rbind (jindex level ''quantity_contracts'') (\<lambda>q.
     rbind (validate_quantity t False q) (\<lambda>_. Inr ()))))"

definition validate_side :: "product_terms \<Rightarrow> jobj \<Rightarrow> string \<Rightarrow> unit res" where
  "validate_side t payload side =
     rbind (payload_field payload side) (\<lambda>levels.
     rbind (of_option TypeError (as_arr levels)) (\<lambda>ls.
     res_all (validate_level t) ls))"

definition validate_product_payload :: "product_package \<Rightarrow> jobj \<Rightarrow> string \<Rightarrow> unit res" where
  "validate_product_payload package payload event_type =
     (let t = pk_terms package in
      if event_type = ''orderbook_snapshot'' then
        rbind (validate_side t payload ''yes_bids'') (\<lambda>_. validate_side t payload ''yes_asks'')
      else if event_type = ''orderbook_delta'' then
        rbind (payload_field payload ''price_dollars'') (\<lambda>p.
        rbind (validate_price t p) (\<lambda>_.
        rbind (payload_field payload ''quantity_delta_contracts'') (\<lambda>q.
        rbind (validate_quantity t True q) (\<lambda>_. Inr ()))))
      else
        rbind (payload_field payload ''yes_price_dollars'') (\<lambda>y.
        rbind (validate_price t y) (\<lambda>yes_price.
        rbind (payload_field payload ''no_price_dollars'') (\<lambda>n.
        rbind (validate_price t n) (\<lambda>no_price.
        rbind (dec_add yes_price no_price) (\<lambda>sum.
        rbind (demand (dec_eq sum (dec_of_int 1)) ''ComplementaryPriceMismatch'') (\<lambda>_.
        rbind (payload_field payload ''quantity_contracts'') (\<lambda>q.
        rbind (validate_quantity t False q) (\<lambda>_. Inr ())))))))))"

section \<open>The loop over the raw lines\<close>

record norm_state =
  ns_counts :: "(string \<times> int) list"
  ns_seq :: seq_validation
  ns_duplicates :: int
  ns_identities :: "((int \<times> string \<times> int) \<times> string) list"
  ns_market :: "string option"
  ns_last_time :: int
  ns_late :: int
  ns_ingress :: int
  ns_product :: "jobj option"
  ns_events :: "jobj list"

definition norm_init :: norm_state where
  "norm_init = \<lparr>ns_counts = [], ns_seq = seq_init, ns_duplicates = 0, ns_identities = [], ns_market = None,
     ns_last_time = -1, ns_late = 0, ns_ingress = 0, ns_product = None, ns_events = []\<rparr>"

record norm_config =
  nc_ticker :: string
  nc_allow_gaps :: bool
  nc_package :: "(product_package \<times> conversion_policy) option"
  nc_sha :: "string \<Rightarrow> string"

definition product_map :: "norm_config \<Rightarrow> string \<Rightarrow> string \<Rightarrow> jobj res" where
  "product_map cfg ticker market =
     (case nc_package cfg of
        None \<Rightarrow>
          Inr [(''schema'', JStr ''pmm.historical.product_map.v1''), (''venue'', JStr ''kalshi''),
               (''venue_market_id'', JStr market), (''ticker'', JStr ticker),
               (''price_unit'', JStr ''yes_probability_dollars_fixed_point''),
               (''quantity_unit'', JStr ''contracts_fixed_point''), (''timezone'', JStr ''UTC''),
               (''contract_metadata_status'', JStr ''not_present_in_websocket_capture''),
               (''source_fidelity'', JStr ''level_2'')]
      | Some (package, policy) \<Rightarrow>
          rbind (pt_identity (pk_terms package)) (\<lambda>identity.
          rbind (jindex identity ''series_ticker'') (\<lambda>series.
          rbind (jindex identity ''event_ticker'') (\<lambda>event.
          rbind (jindex identity ''market_ticker'') (\<lambda>market_ticker.
          rbind (jindex identity ''contracts'') (\<lambda>contracts.
          Inr [(''schema'', JStr ''pmm.historical.product_map.v2''), (''venue'', JStr ''kalshi''),
               (''environment'', JStr ''production''),
               (''capture_identity'', JObj [(''ticker'', JStr ticker), (''venue_market_id'', JStr market),
                  (''venue_market_id_authority'', JStr ''capture_only_not_in_terms_source'')]),
               (''authoritative_identity'', JObj [(''series_ticker'', series), (''event_ticker'', event),
                  (''market_ticker'', market_ticker), (''contracts'', contracts)]),
               (''binding'', JObj [(''market_ticker_match'', JBool True),
                  (''venue_market_id_consistent_within_capture'', JBool True)]),
               (''product_terms_sha256'', JStr (pt_sha256 (pk_terms package))),
               (''source_manifest_sha256'', JStr (ev_sha256 (pk_evidence package))),
               (''review_sha256'', JStr (rv_sha256 (pk_review package))),
               (''conversion_policy_sha256'', JStr (cp_sha256 policy)),
               (''source_fidelity'', JStr ''level_2'')]))))))"

definition event_type_of :: "string \<Rightarrow> string" where
  "event_type_of t =
     (if t = ''orderbook_snapshot'' then ''book_snapshot''
      else if t = ''orderbook_delta'' then ''book_delta'' else ''trade'')"

text \<open>Binding the market identity: the first message that has one fixes it.\<close>

definition bind_market :: "norm_config \<Rightarrow> norm_state \<Rightarrow> string \<Rightarrow> string option \<Rightarrow> norm_state res" where
  "bind_market cfg st ticker parsed =
     (case ns_market st of
        None \<Rightarrow>
          (case parsed of
             None \<Rightarrow> Inl (ValueError ''has no market_id before identity is established'')
           | Some m \<Rightarrow>
               rbind (product_map cfg ticker m) (\<lambda>product.
               Inr (st\<lparr>ns_market := Some m, ns_product := Some product\<rparr>)))
      | Some m \<Rightarrow>
          rbind (ensure (parsed = None \<or> parsed = Some m) (ValueError ''market_id changes within a capture'')) (\<lambda>_.
          Inr st))"

text \<open>
  The duplicate check: \<open>Inr (True, _)\<close> is the \<open>continue\<close> on an identical duplicate.
\<close>

definition check_duplicate ::
  "norm_config \<Rightarrow> norm_state \<Rightarrow> int \<Rightarrow> json \<Rightarrow> json \<Rightarrow> jobj \<Rightarrow> (bool \<times> norm_state) res" where
  "check_duplicate cfg st connection sid sequence message =
     (if sequence = JNull then Inr (False, st)
      else
        rbind (int_value sequence) (\<lambda>n.
        let key = (connection, py_str sid, n); hash = nc_sha cfg (canonical_json (JObj message)) in
        case sget (ns_identities st) key of
          Some prior \<Rightarrow>
            rbind (ensure (prior = hash) (ValueError ''conflicting duplicate source event'')) (\<lambda>_.
            Inr (True, st\<lparr>ns_duplicates := ns_duplicates st + 1\<rparr>))
        | None \<Rightarrow> Inr (False, st\<lparr>ns_identities := sset (ns_identities st) key hash\<rparr>)))"

definition event_record ::
  "norm_state \<Rightarrow> nat \<Rightarrow> string \<Rightarrow> string \<Rightarrow> json \<Rightarrow> jobj \<Rightarrow> int \<Rightarrow> int \<Rightarrow> int option \<Rightarrow> bool \<Rightarrow> int \<Rightarrow> json \<Rightarrow> json \<Rightarrow> int
    \<Rightarrow> bool \<Rightarrow> jobj" where
  "event_record st line_number ticker parsed_type market payload ingress received source_time late logical_time
      sequence sid connection market_in_message =
     [(''schema'', JStr ''pmm.historical.normalized_event.v1''),
      (''normalizer_version'', JStr ''kalshi-l2-normalizer.v1''),
      (''event_id'', JStr (ticker @ '':'' @ int_str ingress)),
      (''ingress_order'', JInt ingress),
      (''logical_time_utc_ns'', JInt logical_time),
      (''event_time_utc_ns'', JInt (case source_time of Some t \<Rightarrow> t | None \<Rightarrow> received)),
      (''event_time_basis'', JStr (if source_time \<noteq> None then ''source_ts_ms'' else ''local_receive_time'')),
      (''source_time_late'', JBool late),
      (''local_received_at_utc_ns'', JInt received),
      (''source_sequence'', sequence),
      (''subscription_id'', sid),
      (''connection_id'', JInt connection),
      (''raw_line_number'', JInt (int line_number)),
      (''venue'', JStr ''kalshi''),
      (''ticker'', JStr ticker),
      (''venue_market_id'', market),
      (''venue_market_id_provenance'', JStr (if market_in_message then ''source_message'' else ''capture_bound'')),
      (''event_type'', JStr (event_type_of parsed_type)),
      (''truth_category'', JStr ''Observed''),
      (''source_fidelity'', JStr ''level_2''),
      (''payload'', JObj payload)]"

text \<open>Emitting the event of an accepted message.\<close>

definition emit_event ::
  "norm_state \<Rightarrow> nat \<Rightarrow> jobj \<Rightarrow> string \<Rightarrow> jobj \<Rightarrow> string \<Rightarrow> bool \<Rightarrow> jobj \<Rightarrow> int \<Rightarrow> json \<Rightarrow> json \<Rightarrow> norm_state res" where
  "emit_event st line_number record parsed_type message ticker market_in_message payload connection sid sequence =
     rbind (int_value (oget record ''received_at_utc_ns'')) (\<lambda>received.
     rbind (oindex message ''msg'') (\<lambda>msg.
     rbind (of_option AttributeError (as_obj msg)) (\<lambda>m.
     rbind (if oget m ''ts_ms'' = JNull then Inr None
            else rbind (int_value (oget m ''ts_ms'')) (\<lambda>t. Inr (Some (t * 1000000)))) (\<lambda>source_time.
     let event_time = (case source_time of Some t \<Rightarrow> t | None \<Rightarrow> received);
         late = (case source_time of Some t \<Rightarrow> t < ns_last_time st | None \<Rightarrow> False);
         logical_time = max (ns_last_time st) event_time;
         ingress = ns_ingress st + 1;
         event = event_record st line_number ticker parsed_type
                   (case ns_market st of Some x \<Rightarrow> JStr x | None \<Rightarrow> JNull)
                   payload ingress received source_time late logical_time sequence sid connection market_in_message
     in Inr (st\<lparr>ns_late := ns_late st + (if late then 1 else 0), ns_last_time := logical_time,
                ns_ingress := ingress, ns_events := ns_events st @ [event],
                ns_counts := counter_add (ns_counts st) (event_type_of parsed_type) 1\<rparr>)))))"

definition norm_message :: "norm_config \<Rightarrow> norm_state \<Rightarrow> nat \<Rightarrow> jobj \<Rightarrow> norm_state res" where
  "norm_message cfg st line_number record =
     rbind (parse_raw_message record) (\<lambda>(parsed_type, message).
     rbind (ensure (JStr parsed_type = oget record ''message_type'') (ValueError ''message-type mismatch'')) (\<lambda>_.
     rbind (normalized_payload parsed_type message) (\<lambda>(ticker, parsed_market, payload).
     rbind (case nc_package cfg of None \<Rightarrow> Inr ()
            | Some (package, _) \<Rightarrow> validate_product_payload package payload parsed_type) (\<lambda>_.
     rbind (ensure (ticker = nc_ticker cfg) (ValueError ''ticker conflicts with capture metadata'')) (\<lambda>_.
     rbind (bind_market cfg st ticker parsed_market) (\<lambda>st1.
     rbind (int_value (oget record ''connection_id'')) (\<lambda>connection.
     let sid = oget_default record ''subscription_id'' (oget message ''sid'');
         sequence = oget_default record ''source_sequence'' (oget message ''seq'') in
     rbind (seq_observe (ns_seq st1) (connection, sid, sequence)) (\<lambda>sq.
     rbind (check_duplicate cfg (st1\<lparr>ns_seq := sq\<rparr>) connection sid sequence message) (\<lambda>(duplicate, st2).
     if duplicate then Inr st2
     else emit_event st2 line_number record parsed_type message ticker (parsed_market \<noteq> None) payload connection
            sid sequence)))))))))"

text \<open>One line of the file; its number counts from one.\<close>

definition norm_line :: "norm_config \<Rightarrow> norm_state \<Rightarrow> nat \<times> string \<Rightarrow> norm_state res" where
  "norm_line cfg st numbered =
     rbind (of_option (ValueError ''raw JSONL line is corrupt'') (json_loads (snd numbered))) (\<lambda>value.
     case value of
       JObj record \<Rightarrow>
         (if oget record ''kind'' \<noteq> JStr ''inbound_frame'' then Inr st
          else
            rbind (in_names (oget record ''message_type'') market_types) (\<lambda>known.
            if known then norm_message cfg st (fst numbered) record else Inr st))
     | _ \<Rightarrow> Inr st)"

definition numbered :: "string list \<Rightarrow> (nat \<times> string) list" where
  "numbered ls = zip [1..<Suc (length ls)] ls"

section \<open>The result\<close>

definition jsonl :: "jobj list \<Rightarrow> string" where
  "jsonl ds = concat (map (\<lambda>d. canonical_json (JObj d) @ [CHR 0x0A]) ds)"

text \<open>\<open>dict(sorted(counter.items()))\<close>.\<close>

definition sorted_counts :: "(string \<times> int) list \<Rightarrow> json" where
  "sorted_counts c = JObj (map (\<lambda>(k, n). (k, JInt n)) (sort_key fst c))"

record norm_input =
  ni_directory :: string
  ni_metadata :: jobj
  ni_metadata_bytes :: string
  ni_frames :: "string list"
  ni_frames_bytes :: string
  ni_terms_file :: string       \<comment> \<open>bytes of the copied \<open>product_terms.json\<close>\<close>
  ni_policy_file :: string      \<comment> \<open>bytes of the copied conversion policy\<close>
  ni_catalog_sha256 :: string

record norm_output =
  no_events :: "jobj list"
  no_product :: jobj
  no_manifest :: jobj

definition norm_manifest :: "norm_config \<Rightarrow> norm_input \<Rightarrow> norm_state \<Rightarrow> jobj \<Rightarrow> jobj res" where
  "norm_manifest cfg inp st product =
     (let sha = nc_sha cfg;
          base =
           [(''schema'', JStr (if nc_package cfg \<noteq> None then ''pmm.historical.normalization_manifest.v2''
                               else ''pmm.historical.normalization_manifest.v1'')),
            (''normalizer_version'', JStr ''kalshi-l2-normalizer.v1''),
            (''input_capture_directory'', JStr (ni_directory inp)),
            (''input_frames_sha256'', JStr (sha (ni_frames_bytes inp))),
            (''input_capture_metadata_sha256'', JStr (sha (ni_metadata_bytes inp))),
            (''output_events_sha256'', JStr (sha (jsonl (ns_events st)))),
            (''ticker'', JStr (nc_ticker cfg)),
            (''venue_market_id'', case ns_market st of Some m \<Rightarrow> JStr m | None \<Rightarrow> JNull),
            (''ordering_policy'', JStr ''source_sequence within connection/subscription; raw ingress breaks ties; logical time is monotonic source time or receive time''),
            (''sequence_gap_policy'', JStr (if nc_allow_gaps cfg then ''recorded'' else ''rejected'')),
            (''sequence_gaps'', JArr (sv_gaps (ns_seq st))),
            (''late_source_events'', JInt (ns_late st)),
            (''identical_duplicates_skipped'', JInt (ns_duplicates st)),
            (''event_counts'', sorted_counts (ns_counts st)),
            (''truth_category'', JStr ''Observed''),
            (''source_fidelity'', JStr ''level_2''),
            (''limitations'', JArr
              [JStr ''Level-2 data has no individual order identity or queue position.'',
               JStr ''Snapshot source time was absent and uses local receive time.'',
               JStr ''Contract metadata was not present in the captured WebSocket messages.''])]
      in case nc_package cfg of
           None \<Rightarrow> Inr base
         | Some (package, policy) \<Rightarrow>
             rbind (oindex (rv_payload (pk_review package)) ''effective_time_basis'') (\<lambda>basis.
             rbind (oindex (rv_payload (pk_review package)) ''limitations'') (\<lambda>limitations.
             Inr (base @
              [(''output_product_sha256'', JStr (sha (json_file product))),
               (''product_terms_file_sha256'', JStr (sha (ni_terms_file inp))),
               (''product_terms_sha256'', JStr (pt_sha256 (pk_terms package))),
               (''source_manifest_sha256'', JStr (ev_sha256 (pk_evidence package))),
               (''review_sha256'', JStr (rv_sha256 (pk_review package))),
               (''conversion_policy_file_sha256'', JStr (sha (ni_policy_file inp))),
               (''conversion_policy_sha256'', JStr (cp_sha256 policy)),
               (''product_catalog_sha256'', JStr (ni_catalog_sha256 inp)),
               (''product_terms_effective_time_basis'', basis),
               (''product_terms_review_limitations'', limitations)]))))"

text \<open>The capture's ticker and package, before the loop.\<close>

definition norm_prepare ::
  "(string \<Rightarrow> string) \<Rightarrow> bool \<Rightarrow> (string \<Rightarrow> product_package res) \<Rightarrow> product_catalog option \<Rightarrow> conversion_policy option
    \<Rightarrow> jobj \<Rightarrow> norm_config res" where
  "norm_prepare sha allow load catalog policy metadata =
     rbind (ensure (nonempty_str (oget metadata ''ticker'')) (ValueError ''capture metadata does not identify a ticker'')) (\<lambda>_.
     rbind (ensure ((catalog = None) = (policy = None))
              (ValueError ''product catalog and conversion policy must be provided together'')) (\<lambda>_.
     rbind (case (catalog, policy) of
              (Some c, Some q) \<Rightarrow>
                rbind (catalog_resolve load c metadata) (\<lambda>package.
                rbind (package_verify_capture package metadata) (\<lambda>_. Inr (Some (package, q))))
            | _ \<Rightarrow> Inr None) (\<lambda>package.
     Inr \<lparr>nc_ticker = py_str (oget metadata ''ticker''), nc_allow_gaps = allow, nc_package = package, nc_sha = sha\<rparr>)))"

definition norm_run :: "norm_config \<Rightarrow> norm_input \<Rightarrow> norm_output res" where
  "norm_run cfg inp =
     rbind (res_fold (norm_line cfg) norm_init (numbered (ni_frames inp))) (\<lambda>st.
     rbind (ensure (sv_gaps (ns_seq st) = [] \<or> nc_allow_gaps cfg)
              (ValueError ''source sequence gaps found; normalization refuses incomplete input by default'')) (\<lambda>_.
     rbind (of_option (ValueError ''capture contains no supported market-data events'')
              (if ns_ingress st = 0 then None else ns_product st)) (\<lambda>product.
     rbind (norm_manifest cfg inp st product) (\<lambda>manifest.
     Inr \<lparr>no_events = ns_events st, no_product = product, no_manifest = manifest\<rparr>))))"

definition normalize_capture ::
  "(string \<Rightarrow> string) \<Rightarrow> bool \<Rightarrow> (string \<Rightarrow> product_package res) \<Rightarrow> product_catalog option \<Rightarrow> conversion_policy option
    \<Rightarrow> norm_input \<Rightarrow> norm_output res" where
  "normalize_capture sha allow load catalog policy inp =
     rbind (norm_prepare sha allow load catalog policy (ni_metadata inp)) (\<lambda>cfg. norm_run cfg inp)"

section \<open>The invariant of the loop\<close>

definition ev_int :: "string \<Rightarrow> jobj \<Rightarrow> int" where
  "ev_int k e = (case oget e k of JInt i \<Rightarrow> i | _ \<Rightarrow> 0)"

definition ev_true :: "string \<Rightarrow> jobj \<Rightarrow> bool" where
  "ev_true k e = (oget e k = JBool True)"

definition emitted_of_type :: "string \<Rightarrow> jobj list \<Rightarrow> nat" where
  "emitted_of_type t es = length (filter (\<lambda>e. oget e ''event_type'' = JStr t) es)"

definition late_events :: "jobj list \<Rightarrow> nat" where
  "late_events es = length (filter (ev_true ''source_time_late'') es)"

definition norm_wf :: "norm_config \<Rightarrow> norm_state \<Rightarrow> bool" where
  "norm_wf cfg st \<longleftrightarrow>
     ns_ingress st = int (length (ns_events st)) \<and>
     (\<forall>i < length (ns_events st). oget (ns_events st ! i) ''ingress_order'' = JInt (int i + 1)) \<and>
     sorted (map (ev_int ''logical_time_utc_ns'') (ns_events st)) \<and>
     (\<forall>e \<in> set (ns_events st). ev_int ''logical_time_utc_ns'' e \<le> ns_last_time st) \<and>
     (\<forall>e \<in> set (ns_events st). oget e ''ticker'' = JStr (nc_ticker cfg) \<and>
        (\<exists>m. ns_market st = Some m \<and> oget e ''venue_market_id'' = JStr m)) \<and>
     ns_late st = int (late_events (ns_events st)) \<and>
     (\<forall>t. counter_get (ns_counts st) t = int (emitted_of_type t (ns_events st))) \<and>
     seq_wf (ns_seq st)"

text \<open>A step that emits nothing: everything the invariant counts is unchanged.\<close>

definition quiet :: "norm_state \<Rightarrow> norm_state \<Rightarrow> bool" where
  "quiet st st' \<longleftrightarrow> ns_events st' = ns_events st \<and> ns_ingress st' = ns_ingress st \<and>
     ns_last_time st' = ns_last_time st \<and> ns_late st' = ns_late st \<and> ns_counts st' = ns_counts st \<and>
     (ns_market st = None \<or> ns_market st' = ns_market st) \<and>
     (seq_wf (ns_seq st) \<longrightarrow> seq_wf (ns_seq st'))"

lemma quiet_refl [simp]: "quiet st st"
  by (simp add: quiet_def)

lemma quiet_wf: "norm_wf cfg st \<Longrightarrow> quiet st st' \<Longrightarrow> norm_wf cfg st'"
  by (auto simp: norm_wf_def quiet_def)

lemma quiet_trans: "quiet a b \<Longrightarrow> quiet b c \<Longrightarrow> (ns_market a = None \<or> ns_market b \<noteq> None) \<Longrightarrow> quiet a c"
  by (auto simp: quiet_def)

lemma bind_market_Inr:
  "bind_market cfg st ticker p = Inr st' \<Longrightarrow>
   ns_events st' = ns_events st \<and> ns_ingress st' = ns_ingress st \<and> ns_last_time st' = ns_last_time st \<and>
   ns_late st' = ns_late st \<and> ns_counts st' = ns_counts st \<and> ns_seq st' = ns_seq st \<and>
   ns_identities st' = ns_identities st \<and> ns_duplicates st' = ns_duplicates st \<and>
   ns_market st' \<noteq> None \<and> (ns_market st \<noteq> None \<longrightarrow> st' = st)"
  by (auto simp: bind_market_def rbind_eq_Inr split: option.splits)

lemma check_duplicate_Inr:
  "check_duplicate cfg st c sid s m = Inr (d, st') \<Longrightarrow>
   ns_events st' = ns_events st \<and> ns_ingress st' = ns_ingress st \<and> ns_last_time st' = ns_last_time st \<and>
   ns_late st' = ns_late st \<and> ns_counts st' = ns_counts st \<and> ns_seq st' = ns_seq st \<and> ns_market st' = ns_market st"
  by (auto simp: check_duplicate_def rbind_eq_Inr Let_def split: if_splits option.splits)

lemma emit_event_Inr:
  assumes "emit_event st n record parsed_type message ticker b payload connection sid sequence = Inr st'"
    and "ns_market st = Some m"
  shows "\<exists>e. ns_events st' = ns_events st @ [e] \<and> ns_ingress st' = ns_ingress st + 1 \<and>
    oget e ''ingress_order'' = JInt (ns_ingress st + 1) \<and> oget e ''ticker'' = JStr ticker \<and>
    oget e ''venue_market_id'' = JStr m \<and> oget e ''event_type'' = JStr (event_type_of parsed_type) \<and>
    oget e ''payload'' = JObj payload \<and>
    ev_int ''logical_time_utc_ns'' e = ns_last_time st' \<and> ns_last_time st \<le> ns_last_time st' \<and>
    ns_late st' = ns_late st + (if ev_true ''source_time_late'' e then 1 else 0) \<and>
    ns_counts st' = counter_add (ns_counts st) (event_type_of parsed_type) 1 \<and>
    ns_market st' = ns_market st \<and> ns_seq st' = ns_seq st"
  using assms
  by (auto simp: emit_event_def rbind_eq_Inr Let_def event_record_def ev_int_def ev_true_def)

lemma emit_event_wf:
  assumes wf: "norm_wf cfg st" and m: "ns_market st = Some m"
    and emit: "emit_event st n record parsed_type message (nc_ticker cfg) b payload connection sid sequence = Inr st'"
  shows "norm_wf cfg st'"
proof -
  from emit_event_Inr [OF emit m] obtain e where
    e: "ns_events st' = ns_events st @ [e]" "ns_ingress st' = ns_ingress st + 1"
      "oget e ''ingress_order'' = JInt (ns_ingress st + 1)" "oget e ''ticker'' = JStr (nc_ticker cfg)"
      "oget e ''venue_market_id'' = JStr m" "oget e ''event_type'' = JStr (event_type_of parsed_type)"
      "ev_int ''logical_time_utc_ns'' e = ns_last_time st'" "ns_last_time st \<le> ns_last_time st'"
      "ns_late st' = ns_late st + (if ev_true ''source_time_late'' e then 1 else 0)"
      "ns_counts st' = counter_add (ns_counts st) (event_type_of parsed_type) 1"
      "ns_market st' = ns_market st" "ns_seq st' = ns_seq st"
    by blast
  show ?thesis
    unfolding norm_wf_def
  proof (intro conjI)
    show "ns_ingress st' = int (length (ns_events st'))"
      using wf e(1,2) by (simp add: norm_wf_def)
    show "\<forall>i < length (ns_events st'). oget (ns_events st' ! i) ''ingress_order'' = JInt (int i + 1)"
      using wf e(1,3) by (auto simp: norm_wf_def nth_append less_Suc_eq)
    show "sorted (map (ev_int ''logical_time_utc_ns'') (ns_events st'))"
      using wf e(1,7,8) by (fastforce simp: norm_wf_def sorted_append)
    show "\<forall>x \<in> set (ns_events st'). ev_int ''logical_time_utc_ns'' x \<le> ns_last_time st'"
      using wf e(1,7,8) by (fastforce simp: norm_wf_def)
    show "\<forall>x \<in> set (ns_events st'). oget x ''ticker'' = JStr (nc_ticker cfg) \<and>
        (\<exists>m. ns_market st' = Some m \<and> oget x ''venue_market_id'' = JStr m)"
      using wf e(1,4,5,11) m by (auto simp: norm_wf_def)
    show "ns_late st' = int (late_events (ns_events st'))"
      using wf e(1,9) by (simp add: norm_wf_def late_events_def)
    show "\<forall>t. counter_get (ns_counts st') t = int (emitted_of_type t (ns_events st'))"
      using wf e(1,6,10) by (simp add: norm_wf_def emitted_of_type_def)
    show "seq_wf (ns_seq st')" using wf e(12) by (simp add: norm_wf_def)
  qed
qed

lemma norm_message_wf:
  assumes wf: "norm_wf cfg st" and run: "norm_message cfg st n record = Inr st'"
  shows "norm_wf cfg st'"
proof -
  from run obtain parsed_type message ticker pm payload st1 connection sid sequence sq d st2
    where ticker: "ticker = nc_ticker cfg" and b: "bind_market cfg st ticker pm = Inr st1"
      and sq: "seq_observe (ns_seq st1) (connection, sid, sequence) = Inr sq"
      and dup: "check_duplicate cfg (st1\<lparr>ns_seq := sq\<rparr>) connection sid sequence message = Inr (d, st2)"
      and out: "(if d then Inr st2 else emit_event st2 n record parsed_type message ticker (pm \<noteq> None) payload
        connection sid sequence) = Inr st'"
    by (auto simp: norm_message_def rbind_eq_Inr Let_def split: prod.splits)
  note B = bind_market_Inr [OF b] and D = check_duplicate_Inr [OF dup]
  have "quiet st st2"
    using B D seq_observe_wf [of "ns_seq st1" "(connection, sid, sequence)" sq] sq
    by (auto simp: quiet_def)
  then have wf2: "norm_wf cfg st2" by (rule quiet_wf [OF wf])
  show ?thesis
  proof (cases d)
    case True
    with out wf2 show ?thesis by simp
  next
    case False
    from B D obtain m where "ns_market st2 = Some m" by auto
    with wf2 out False show ?thesis by (auto simp: ticker intro: emit_event_wf)
  qed
qed

lemma norm_line_wf: "norm_wf cfg st \<Longrightarrow> norm_line cfg st l = Inr st' \<Longrightarrow> norm_wf cfg st'"
proof -
  assume wf: "norm_wf cfg st" and "norm_line cfg st l = Inr st'"
  then obtain v where out: "(case v of
       JObj record \<Rightarrow>
         (if oget record ''kind'' \<noteq> JStr ''inbound_frame'' then Inr st
          else rbind (in_names (oget record ''message_type'') market_types)
            (\<lambda>known. if known then norm_message cfg st (fst l) record else Inr st))
     | _ \<Rightarrow> Inr st) = Inr st'"
    unfolding norm_line_def rbind_eq_Inr by blast
  show "norm_wf cfg st'"
  proof (cases "\<exists>r. v = JObj r")
    case True
    then obtain r where v: "v = JObj r" ..
    from out have "st' = st \<or> norm_message cfg st (fst l) r = Inr st'"
      by (auto simp: v rbind_eq_Inr split: if_splits)
    with wf show ?thesis by (auto intro: norm_message_wf)
  next
    case False
    with out have "st' = st" by (cases v) simp_all
    with wf show ?thesis by simp
  qed
qed

lemma norm_init_wf: "norm_wf cfg norm_init"
  by (simp add: norm_wf_def norm_init_def late_events_def emitted_of_type_def seq_wf_def seq_init_def)

interpretation norm: res_machine "norm_line cfg" "norm_wf cfg" for cfg
  by unfold_locales (rule norm_line_wf)

end
