(* ===== verification/Normalized_Runs.thy ===== *)
theory Normalized_Runs
  imports Normalize_V1 Projection
begin

text \<open>
  What a finished run of the single-market normalizer guarantees: the order, identity and time of
  its events, the account its manifest gives of the capture's frames, the completeness of the source
  sequences, and that the projection can consume the events.

  A capture is described by its market frames (\<open>market_frames\<close>), the lines the loop does not skip,
  and by the observation each of them makes on its subscription (\<open>frame_observation\<close>).
\<close>

section \<open>The market frames of a capture\<close>

definition market_record :: "string \<Rightarrow> jobj option" where
  "market_record line =
     (case json_loads line of
        Some (JObj r) \<Rightarrow>
          (if oget r ''kind'' = JStr ''inbound_frame'' \<and> in_names (oget r ''message_type'') market_types = Inr True
           then Some r else None)
      | _ \<Rightarrow> None)"

definition market_frames :: "string list \<Rightarrow> jobj list" where
  "market_frames lines = List.map_filter market_record lines"

definition frame_message :: "jobj \<Rightarrow> jobj" where
  "frame_message r = (case parse_raw_message r of Inr (_, m) \<Rightarrow> m | Inl _ \<Rightarrow> [])"

definition frame_observation :: "jobj \<Rightarrow> int \<times> json \<times> json" where
  "frame_observation r =
     (case int_value (oget r ''connection_id'') of Inr c \<Rightarrow> c | Inl _ \<Rightarrow> 0,
      oget_default r ''subscription_id'' (oget (frame_message r) ''sid''),
      oget_default r ''source_sequence'' (oget (frame_message r) ''seq''))"

lemma norm_line_record:
  assumes "norm_line cfg st l = Inr st'"
  shows "case market_record (snd l) of None \<Rightarrow> st' = st | Some r \<Rightarrow> norm_message cfg st (fst l) r = Inr st'"
proof -
  from assms obtain v where v: "json_loads (snd l) = Some v" and out: "(case v of
       JObj r \<Rightarrow>
         (if oget r ''kind'' \<noteq> JStr ''inbound_frame'' then Inr st
          else rbind (in_names (oget r ''message_type'') market_types)
            (\<lambda>known. if known then norm_message cfg st (fst l) r else Inr st))
     | _ \<Rightarrow> Inr st) = Inr st'"
    unfolding norm_line_def by (auto simp: rbind_eq_Inr)
  show ?thesis
  proof (cases "\<exists>r. v = JObj r")
    case True
    then obtain r where r: "v = JObj r" ..
    show ?thesis
      using out by (auto simp: market_record_def v r rbind_eq_Inr split: if_splits)
  next
    case False
    with out show ?thesis by (cases v) (simp_all add: market_record_def v)
  qed
qed

section \<open>One message\<close>

text \<open>The identity under which an event was emitted, as \<open>check_duplicate\<close> computes it.\<close>

definition source_identity :: "jobj \<Rightarrow> (int \<times> string \<times> int) list" where
  "source_identity e =
     (case int_value (oget e ''source_sequence'') of
        Inr n \<Rightarrow> [(ev_int ''connection_id'' e, py_str (oget e ''subscription_id''), n)]
      | Inl _ \<Rightarrow> [])"

text \<open>The payload of an event, given its type, is one \<open>normalized_payload\<close> returned.\<close>

definition normal_event :: "jobj \<Rightarrow> bool" where
  "normal_event e \<longleftrightarrow>
     (\<exists>t m ticker market payload. t \<in> set market_types \<and> normalized_payload t m = Inr (ticker, market, payload) \<and>
        oget e ''event_type'' = JStr (event_type_of t) \<and> oget e ''payload'' = JObj payload)"

text \<open>What a message does: it makes its observation, and is either skipped as an identical
  duplicate or emits one event with a new identity.\<close>

definition skipped :: "norm_state \<Rightarrow> norm_state \<Rightarrow> bool" where
  "skipped st st' \<longleftrightarrow> ns_events st' = ns_events st \<and> ns_duplicates st' = ns_duplicates st + 1 \<and>
     ns_identities st' = ns_identities st"

definition emitted :: "norm_state \<Rightarrow> norm_state \<Rightarrow> bool" where
  "emitted st st' \<longleftrightarrow> ns_duplicates st' = ns_duplicates st \<and>
     (\<exists>e. ns_events st' = ns_events st @ [e] \<and> normal_event e \<and>
        (\<forall>k \<in> set (source_identity e). sget (ns_identities st) k = None \<and> sget (ns_identities st') k \<noteq> None) \<and>
        (\<forall>k. sget (ns_identities st) k \<noteq> None \<longrightarrow> sget (ns_identities st') k \<noteq> None))"

lemma check_duplicate_effect:
  assumes "check_duplicate cfg st c sid s m = Inr (d, st')"
  shows "(d \<longrightarrow> ns_duplicates st' = ns_duplicates st + 1 \<and> ns_identities st' = ns_identities st) \<and>
    (\<not> d \<longrightarrow> ns_duplicates st' = ns_duplicates st \<and>
       (\<forall>n. int_value s = Inr n \<longrightarrow> sget (ns_identities st) (c, py_str sid, n) = None \<and>
          sget (ns_identities st') (c, py_str sid, n) \<noteq> None) \<and>
       (\<forall>k. sget (ns_identities st) k \<noteq> None \<longrightarrow> sget (ns_identities st') k \<noteq> None))"
  using assms
  by (auto simp: check_duplicate_def rbind_eq_Inr Let_def split: if_splits option.splits)

lemma emit_event_fields:
  assumes "emit_event st n record parsed_type message ticker b payload connection sid sequence = Inr st'"
  shows "ns_identities st' = ns_identities st \<and> ns_duplicates st' = ns_duplicates st \<and>
    (\<exists>e. ns_events st' = ns_events st @ [e] \<and> oget e ''event_type'' = JStr (event_type_of parsed_type) \<and>
       oget e ''payload'' = JObj payload \<and> oget e ''source_sequence'' = sequence \<and>
       oget e ''subscription_id'' = sid \<and> ev_int ''connection_id'' e = connection)"
  using assms by (auto simp: emit_event_def rbind_eq_Inr Let_def event_record_def ev_int_def)

lemma parse_raw_message_type:
  "parse_raw_message r = Inr (t, m) \<Longrightarrow> t \<in> set market_types"
  by (auto simp: parse_raw_message_def rbind_eq_Inr market_types_def elim!: in_names.elims)

lemma norm_message_effect:
  assumes "norm_message cfg st n r = Inr st'"
  shows "seq_observe (ns_seq st) (frame_observation r) = Inr (ns_seq st') \<and> (skipped st st' \<or> emitted st st')"
proof -
  from assms obtain parsed_type message ticker pm payload st1 connection sq d st2
    where p: "parse_raw_message r = Inr (parsed_type, message)"
      and pay: "normalized_payload parsed_type message = Inr (ticker, pm, payload)"
      and b: "bind_market cfg st ticker pm = Inr st1"
      and c: "int_value (oget r ''connection_id'') = Inr connection"
      and sq: "seq_observe (ns_seq st1) (connection, oget_default r ''subscription_id'' (oget message ''sid''),
        oget_default r ''source_sequence'' (oget message ''seq'')) = Inr sq"
      and dup: "check_duplicate cfg (st1\<lparr>ns_seq := sq\<rparr>) connection
        (oget_default r ''subscription_id'' (oget message ''sid''))
        (oget_default r ''source_sequence'' (oget message ''seq'')) message = Inr (d, st2)"
      and out: "(if d then Inr st2 else emit_event st2 n r parsed_type message ticker (pm \<noteq> None) payload
        connection (oget_default r ''subscription_id'' (oget message ''sid''))
        (oget_default r ''source_sequence'' (oget message ''seq''))) = Inr st'"
    by (auto simp: norm_message_def rbind_eq_Inr Let_def split: prod.splits)
  note B = bind_market_Inr [OF b] and D = check_duplicate_Inr [OF dup] and E = check_duplicate_effect [OF dup]
  have fm: "frame_message r = message" by (simp add: frame_message_def p)
  have obs: "seq_observe (ns_seq st) (frame_observation r) = Inr (ns_seq st2)"
    using sq B D by (simp add: frame_observation_def fm c)
  show ?thesis
  proof (cases d)
    case True
    with out B D E obs show ?thesis by (simp add: skipped_def)
  next
    case False
    from B D obtain m where m: "ns_market st2 = Some m" by auto
    from out False have em: "emit_event st2 n r parsed_type message ticker (pm \<noteq> None) payload connection
        (oget_default r ''subscription_id'' (oget message ''sid''))
        (oget_default r ''source_sequence'' (oget message ''seq'')) = Inr st'" by simp
    from emit_event_fields [OF em] obtain e where e: "ns_events st' = ns_events st2 @ [e]"
        "oget e ''event_type'' = JStr (event_type_of parsed_type)" "oget e ''payload'' = JObj payload"
        "oget e ''source_sequence'' = oget_default r ''source_sequence'' (oget message ''seq'')"
        "oget e ''subscription_id'' = oget_default r ''subscription_id'' (oget message ''sid'')"
        "ev_int ''connection_id'' e = connection"
        "ns_identities st' = ns_identities st2" "ns_duplicates st' = ns_duplicates st2"
      by blast
    have "normal_event e"
      using p pay e(2,3) parse_raw_message_type unfolding normal_event_def by blast
    moreover have "\<forall>k \<in> set (source_identity e). sget (ns_identities st) k = None \<and> sget (ns_identities st') k \<noteq> None"
      using E False B e(4,5,6,7) by (auto simp: source_identity_def split: sum.splits)
    ultimately have "emitted st st'"
      using e B D E False by (simp add: emitted_def)
    moreover from emit_event_Inr [OF em m] have "ns_seq st' = ns_seq st2" by blast
    ultimately show ?thesis using obs by simp
  qed
qed

section \<open>The whole run\<close>

definition identities_wf :: "norm_state \<Rightarrow> bool" where
  "identities_wf st \<longleftrightarrow> distinct (concat (map source_identity (ns_events st))) \<and>
     (\<forall>k \<in> set (concat (map source_identity (ns_events st))). sget (ns_identities st) k \<noteq> None) \<and>
     (\<forall>e \<in> set (ns_events st). normal_event e)"

lemma source_identity_distinct: "distinct (source_identity e)"
  by (simp add: source_identity_def split: sum.splits)

lemma emitted_identities: "identities_wf st \<Longrightarrow> emitted st st' \<Longrightarrow> identities_wf st'"
  by (fastforce simp: identities_wf_def emitted_def source_identity_distinct)

lemma skipped_identities: "identities_wf st \<Longrightarrow> skipped st st' \<Longrightarrow> identities_wf st'"
  by (simp add: identities_wf_def skipped_def)

lemma norm_line_identities:
  assumes "identities_wf st" and "norm_line cfg st l = Inr st'"
  shows "identities_wf st'"
proof (cases "market_record (snd l)")
  case None
  with norm_line_record [OF assms(2)] assms(1) show ?thesis by simp
next
  case (Some r)
  with norm_line_record [OF assms(2)] have "norm_message cfg st (fst l) r = Inr st'" by simp
  from norm_message_effect [OF this] assms(1) show ?thesis
    by (auto intro: emitted_identities skipped_identities)
qed

lemma norm_line_count:
  assumes "norm_line cfg st l = Inr st'"
  shows "int (length (ns_events st')) + ns_duplicates st' =
    int (length (ns_events st)) + ns_duplicates st + int (length (market_frames [snd l]))"
proof (cases "market_record (snd l)")
  case None
  with norm_line_record [OF assms] show ?thesis by (simp add: market_frames_def List.map_filter_simps)
next
  case (Some r)
  with norm_line_record [OF assms] have "norm_message cfg st (fst l) r = Inr st'" by simp
  from norm_message_effect [OF this] show ?thesis
    by (auto simp: Some market_frames_def List.map_filter_simps skipped_def emitted_def)
qed

interpretation norm_account: res_counter "norm_line cfg" identities_wf
  "\<lambda>st. int (length (ns_events st)) + ns_duplicates st" "\<lambda>l. int (length (market_frames [snd l]))" for cfg
  by unfold_locales (auto intro: norm_line_identities norm_line_count)

lemma market_frames_Cons: "market_frames (l # ls) = market_frames [l] @ market_frames ls"
  by (simp add: market_frames_def List.map_filter_simps split: option.splits)

lemma market_frames_sum:
  "sum_list (map (\<lambda>l. int (length (market_frames [snd l]))) ls) = int (length (market_frames (map snd ls)))"
proof (induction ls)
  case Nil
  then show ?case by (simp add: market_frames_def List.map_filter_simps)
next
  case (Cons l ls)
  then show ?case by (simp add: market_frames_Cons [of "snd l" "map snd ls"])
qed

lemma norm_run_observes:
  assumes "res_fold (norm_line cfg) st ls = Inr st'"
  shows "res_fold seq_observe (ns_seq st) (map frame_observation (market_frames (map snd ls))) = Inr (ns_seq st')"
  using assms
proof (induction ls arbitrary: st)
  case Nil
  then show ?case by (simp add: market_frames_def List.map_filter_simps)
next
  case (Cons l ls)
  from Cons.prems obtain t where t: "norm_line cfg st l = Inr t" and run: "res_fold (norm_line cfg) t ls = Inr st'"
    by (auto simp: rbind_eq_Inr)
  have step: "res_fold seq_observe (ns_seq st) (map frame_observation (market_frames [snd l])) = Inr (ns_seq t)"
  proof (cases "market_record (snd l)")
    case None
    with norm_line_record [OF t] show ?thesis by (simp add: market_frames_def List.map_filter_simps)
  next
    case (Some r)
    with norm_line_record [OF t] have "norm_message cfg st (fst l) r = Inr t" by simp
    from norm_message_effect [OF this] show ?thesis by (simp add: Some market_frames_def List.map_filter_simps)
  qed
  show ?case
    by (simp add: market_frames_Cons [of "snd l" "map snd ls"] res_fold_append step Cons.IH [OF run])
qed

lemma numbered_lines [simp]: "map snd (numbered ls) = ls"
  by (simp add: numbered_def del: upt_Suc)

lemma normalize_capture_run:
  assumes "normalize_capture sha allow load catalog policy inp = Inr out"
  shows "\<exists>cfg st. nc_ticker cfg = py_str (oget (ni_metadata inp) ''ticker'') \<and> nc_sha cfg = sha \<and>
    nc_allow_gaps cfg = allow \<and> res_fold (norm_line cfg) norm_init (numbered (ni_frames inp)) = Inr st \<and>
    no_events out = ns_events st \<and> (sv_gaps (ns_seq st) = [] \<or> allow) \<and> ns_ingress st \<noteq> 0 \<and>
    norm_manifest cfg inp st (no_product out) = Inr (no_manifest out)"
proof -
  from assms obtain cfg where cfg: "norm_prepare sha allow load catalog policy (ni_metadata inp) = Inr cfg"
    and run: "norm_run cfg inp = Inr out"
    by (auto simp: normalize_capture_def rbind_eq_Inr)
  from cfg have "nc_ticker cfg = py_str (oget (ni_metadata inp) ''ticker'')" "nc_sha cfg = sha" "nc_allow_gaps cfg = allow"
    by (auto simp: norm_prepare_def rbind_eq_Inr)
  with run show ?thesis
    by (auto simp: norm_run_def rbind_eq_Inr split: if_splits)
qed

lemma norm_run_wf:
  assumes "res_fold (norm_line cfg) norm_init ls = Inr st"
  shows "norm_wf cfg st" and "identities_wf st"
    and "int (length (ns_events st)) + ns_duplicates st = int (length (market_frames (map snd ls)))"
proof -
  have init: "identities_wf norm_init" by (simp add: identities_wf_def norm_init_def)
  show "norm_wf cfg st" by (rule norm.run_inv [OF norm_init_wf assms])
  show "identities_wf st" by (rule norm_account.run_inv [OF init assms])
  show "int (length (ns_events st)) + ns_duplicates st = int (length (market_frames (map snd ls)))"
    using norm_account.run_count [OF init assms] unfolding market_frames_sum by (simp add: norm_init_def)
qed

lemma manifest_fields:
  assumes "norm_manifest cfg inp st product = Inr man"
  shows "oget man ''late_source_events'' = JInt (ns_late st) \<and>
    oget man ''identical_duplicates_skipped'' = JInt (ns_duplicates st) \<and>
    oget man ''event_counts'' = sorted_counts (ns_counts st) \<and>
    oget man ''sequence_gaps'' = JArr (sv_gaps (ns_seq st)) \<and>
    oget man ''output_events_sha256'' = JStr (nc_sha cfg (jsonl (ns_events st))) \<and>
    oget man ''input_frames_sha256'' = JStr (nc_sha cfg (ni_frames_bytes inp))"
proof (cases "nc_package cfg")
  case None
  with assms have "man = fst (man, ())" and m: "norm_manifest cfg inp st product = Inr man" by simp_all
  show ?thesis
    using m unfolding norm_manifest_def Let_def None option.case sum.inject
    by (hypsubst) (simp add: oget_def)
next
  case (Some pq)
  obtain package policy where pq: "pq = (package, policy)" by (cases pq)
  show ?thesis
    using assms unfolding norm_manifest_def Let_def Some pq option.case prod.case rbind_eq_Inr sum.inject
    by (elim exE conjE, hypsubst) (simp add: oget_def)
qed

section \<open>A small capture\<close>

definition sample_frame :: "string \<Rightarrow> int \<Rightarrow> jobj \<Rightarrow> string" where
  "sample_frame t n msg = canonical_json (JObj
     [(''connection_id'', JInt 1), (''kind'', JStr ''inbound_frame''), (''message_type'', JStr t),
      (''raw_frame_utf8'', JStr (canonical_json (JObj [(''type'', JStr t), (''sid'', JInt 7), (''seq'', JInt n),
         (''msg'', JObj ((''market_ticker'', JStr ''T'') # (''market_id'', JStr ''m'') # msg))]))),
      (''received_at_utc_ns'', JInt 5)])"

definition sample_change :: string where
  "sample_change = sample_frame ''orderbook_delta'' 2 [(''side'', JStr ''yes''),
     (''price_dollars'', JStr ''0.4''), (''delta_fp'', JStr ''-1''), (''ts_ms'', JInt 0)]"

definition sample_input :: norm_input where
  "sample_input = \<lparr>ni_directory = ''c'', ni_metadata = [(''ticker'', JStr ''T'')], ni_metadata_bytes = [],
     ni_frames = [sample_change, sample_change],
     ni_frames_bytes = [], ni_terms_file = [], ni_policy_file = [], ni_catalog_sha256 = []\<rparr>"

definition sample_normalized :: norm_output where
  "sample_normalized = projr (normalize_capture (\<lambda>_. ''h'') False (\<lambda>_. Inl KeyError) None None sample_input)"

lemma sample_normalizes:
  "normalize_capture (\<lambda>_. ''h'') False (\<lambda>_. Inl KeyError) None None sample_input = Inr sample_normalized"
proof -
  have "is_ok (normalize_capture (\<lambda>_. ''h'') False (\<lambda>_. Inl KeyError) None None sample_input)" by code_simp
  then show ?thesis
    unfolding sample_normalized_def by (auto simp: is_ok_def split: sum.splits)
qed

section \<open>Properties\<close>

text \<open>C12: The events a normalization writes are one ordered history of one market. They are numbered
  1, 2, 3, ... in ingress order, their logical times never decrease although source times may arrive
  late, all of them carry the ticker of the capture's metadata and one and the same market id, and
  there is at least one.\<close>

theorem normalized_history_ordered:
  assumes "normalize_capture sha allow load catalog policy inp = Inr out"
  shows "no_events out \<noteq> [] \<and>
    (\<forall>i < length (no_events out). oget (no_events out ! i) ''ingress_order'' = JInt (int i + 1)) \<and>
    sorted (map (ev_int ''logical_time_utc_ns'') (no_events out)) \<and>
    (\<exists>m. \<forall>e \<in> set (no_events out). oget e ''ticker'' = oget (ni_metadata inp) ''ticker'' \<and>
       oget e ''venue_market_id'' = JStr m)"
proof -
  from normalize_capture_run [OF assms] obtain cfg st where
    ticker: "nc_ticker cfg = py_str (oget (ni_metadata inp) ''ticker'')"
    and run: "res_fold (norm_line cfg) norm_init (numbered (ni_frames inp)) = Inr st"
    and out: "no_events out = ns_events st" "ns_ingress st \<noteq> 0"
    by blast
  have "nonempty_str (oget (ni_metadata inp) ''ticker'')"
    using assms by (auto simp: normalize_capture_def norm_prepare_def rbind_eq_Inr)
  with ticker have t: "oget (ni_metadata inp) ''ticker'' = JStr (nc_ticker cfg)"
    by (cases "oget (ni_metadata inp) ''ticker''") (simp_all add: nonempty_str_def)
  note wf = norm_run_wf(1) [OF run, unfolded norm_wf_def]
  from wf out(2) have "ns_events st \<noteq> []" by auto
  moreover from wf have "\<forall>i < length (ns_events st). oget (ns_events st ! i) ''ingress_order'' = JInt (int i + 1)"
    by blast
  moreover from wf have "sorted (map (ev_int ''logical_time_utc_ns'') (ns_events st))" by blast
  moreover from wf have "\<forall>e \<in> set (ns_events st). oget e ''ticker'' = JStr (nc_ticker cfg) \<and>
      oget e ''venue_market_id'' = JStr (the (ns_market st))" by auto
  ultimately show ?thesis unfolding out(1) t by blast
qed

theorem normalized_history_ordered_witness:
  "sorted (map (ev_int ''logical_time_utc_ns'') (no_events sample_normalized)) \<and> no_events sample_normalized \<noteq> []"
  using normalized_history_ordered [OF sample_normalizes] by blast

text \<open>C18: Every market frame of the capture is accounted for. The events written and the duplicates
  skipped are together exactly the frames the loop does not pass over; the manifest's late and
  duplicate counters, its event counts and its hash describe the events written; and unless gaps are
  allowed a normalization that finishes has seen, on every subscription, source sequences that never
  jump.\<close>

theorem normalization_accounts:
  assumes "normalize_capture sha allow load catalog policy inp = Inr out"
  shows "(\<exists>n. oget (no_manifest out) ''identical_duplicates_skipped'' = JInt n \<and>
       int (length (no_events out)) + n = int (length (market_frames (ni_frames inp)))) \<and>
    oget (no_manifest out) ''late_source_events'' = JInt (int (late_events (no_events out))) \<and>
    (\<exists>c. oget (no_manifest out) ''event_counts'' = sorted_counts c \<and>
       (\<forall>t. counter_get c t = int (emitted_of_type t (no_events out)))) \<and>
    oget (no_manifest out) ''output_events_sha256'' = JStr (sha (jsonl (no_events out))) \<and>
    (\<not> allow \<longrightarrow> (\<forall>k. no_jump (seq_numbers k (map frame_observation (market_frames (ni_frames inp))))))"
proof -
  from normalize_capture_run [OF assms] obtain cfg st where
    cfg: "nc_sha cfg = sha"
    and run: "res_fold (norm_line cfg) norm_init (numbered (ni_frames inp)) = Inr st"
    and out: "no_events out = ns_events st" and gaps: "sv_gaps (ns_seq st) = [] \<or> allow"
    and man: "norm_manifest cfg inp st (no_product out) = Inr (no_manifest out)"
    by blast
  note M = manifest_fields [OF man] and W = norm_run_wf [OF run]
  have wf: "ns_late st = int (late_events (ns_events st))"
    "\<forall>t. counter_get (ns_counts st) t = int (emitted_of_type t (ns_events st))"
    using W(1) unfolding norm_wf_def by blast+
  have "res_fold seq_observe seq_init (map frame_observation (market_frames (ni_frames inp))) = Inr (ns_seq st)"
    using norm_run_observes [OF run] by (simp add: norm_init_def)
  from seq_run_state [OF this] gaps
  have "\<not> allow \<longrightarrow> (\<forall>k. no_jump (seq_numbers k (map frame_observation (market_frames (ni_frames inp)))))"
    by blast
  with M W(3) wf show ?thesis unfolding out cfg by fastforce
qed

theorem normalization_accounts_witness:
  "oget (no_manifest sample_normalized) ''late_source_events'' = JInt (int (late_events (no_events sample_normalized)))"
  using normalization_accounts [OF sample_normalizes] by blast

text \<open>C17: No source event is written twice. The (connection, subscription, sequence) identities of the
  events that carry a source sequence are pairwise distinct.\<close>

theorem no_event_written_twice:
  assumes "normalize_capture sha allow load catalog policy inp = Inr out"
  shows "distinct (concat (map source_identity (no_events out)))"
proof -
  from normalize_capture_run [OF assms] obtain cfg st where
    run: "res_fold (norm_line cfg) norm_init (numbered (ni_frames inp)) = Inr st"
    and out: "no_events out = ns_events st"
    by blast
  show ?thesis using norm_run_wf(2) [OF run] unfolding out identities_wf_def by blast
qed

theorem no_event_written_twice_witness:
  "distinct (concat (map source_identity (no_events sample_normalized)))"
  by (rule no_event_written_twice [OF sample_normalizes])

end
