(* ===== verification/Normalized_Projection.thy ===== *)
theory Normalized_Projection
  imports Normalized_Runs
begin

text \<open>
  The composition of the normalizer with the projection: what the events of a finished normalization
  can still make the projection refuse. Nothing about their form, their order or their amounts is
  left; only the contents of the book are (\<open>book_fault\<close>).
\<close>

text \<open>The refusals that depend on the book: a level without quantity or with a price already given
  (in another spelling), a change before the first snapshot, a change below zero, and a quantity
  beyond the range of \<open>Decimal\<close>.\<close>

definition book_fault :: "exn \<Rightarrow> bool" where
  "book_fault e \<longleftrightarrow> e \<in> {ValueError ''contains an invalid level'',
     ValueError ''book delta appeared before the initial snapshot'',
     ValueError ''book delta would create negative displayed quantity'', DecimalOverflow}"

definition finite_quantities :: "levels \<Rightarrow> bool" where
  "finite_quantities ls = list_all (\<lambda>l. finite_dec (snd l)) ls"

definition finite_book :: "projection \<Rightarrow> bool" where
  "finite_book p \<longleftrightarrow> finite_quantities (pj_bids p) \<and> finite_quantities (pj_asks p)"

section \<open>Arithmetic on finite decimals\<close>

lemma dec_fix_finite:
  assumes "finite_dec d"
  shows "dec_fix d = Inl DecimalOverflow \<or> (\<exists>r. dec_fix d = Inr r \<and> finite_dec r)"
  using assms by (cases d) (auto simp: dec_fix.simps(1) Let_def)

lemma dec_add_finite:
  assumes "finite_dec a" and "finite_dec b"
  shows "dec_add a b = Inl DecimalOverflow \<or> (\<exists>r. dec_add a b = Inr r \<and> finite_dec r)"
  using assms dec_fix_finite by (cases a; cases b) (auto simp: dec_add_def nan_result_def Let_def)

lemma finite_quantities_dset:
  "finite_quantities ls \<Longrightarrow> finite_dec q \<Longrightarrow> finite_quantities (dset dec_eq ls p q)"
  by (auto simp: finite_quantities_def list_all_iff dest!: dset_valuesD)

lemma finite_quantities_dpop: "finite_quantities ls \<Longrightarrow> finite_quantities (dpop dec_eq ls p)"
  using dpop_subset [of dec_eq ls p] by (auto simp: finite_quantities_def list_all_iff)

lemma finite_quantities_get: "finite_quantities ls \<Longrightarrow> lget ls p = Some q \<Longrightarrow> finite_dec q"
  by (auto simp: finite_quantities_def list_all_iff dest!: dget_SomeD)

section \<open>One event\<close>

text \<open>A step either succeeds in a good state or fails for a reason of the book.\<close>

definition good_step :: "('s \<Rightarrow> bool) \<Rightarrow> 's res \<Rightarrow> bool" where
  "good_step P r = (case r of Inl e \<Rightarrow> book_fault e | Inr s \<Rightarrow> P s)"

lemma good_step_simps [simp]:
  "good_step P (Inl e) = book_fault e" "good_step P (Inr s) = P s"
  by (simp_all add: good_step_def)

lemma good_step_ensure:
  "(\<not> b \<Longrightarrow> book_fault e) \<Longrightarrow> (b \<Longrightarrow> good_step P r) \<Longrightarrow> good_step P (rbind (ensure b e) (\<lambda>_. r))"
  by (cases b) simp_all

lemma good_step_bind:
  "good_step P m \<Longrightarrow> (\<And>x. P x \<Longrightarrow> good_step Q (f x)) \<Longrightarrow> good_step Q (rbind m f)"
  by (cases m) simp_all

lemma good_step_fold:
  "P s \<Longrightarrow> (\<And>s x. P s \<Longrightarrow> x \<in> set xs \<Longrightarrow> good_step P (f s x)) \<Longrightarrow> good_step P (res_fold f s xs)"
proof (induction xs arbitrary: s)
  case Nil
  then show ?case by simp
next
  case (Cons x xs)
  have "good_step P (res_fold f t xs)" if "P t" for t
    using that Cons.prems(2) by (intro Cons.IH) auto
  with Cons.prems show ?case by (auto intro: good_step_bind [of P "f s x"])
qed

lemma read_text:
  "dec_of_str s = Some d \<Longrightarrow> decimal_of (JStr s) = Inr d"
  by (simp add: py_decimal_def)

lemma unit_price_reads: "unit_price v = Inr s \<Longrightarrow> \<exists>d. decimal_of (JStr s) = Inr d \<and> finite_dec d"
  using unit_price_range by (blast intro: read_text)

lemma quantity_reads: "quantity_string v = Inr s \<Longrightarrow> \<exists>d. decimal_of (JStr s) = Inr d \<and> finite_dec d"
  using quantity_nonneg by (blast intro: read_text)

lemma signed_quantity_reads:
  assumes "signed_quantity_string v = Inr s"
  shows "\<exists>d. decimal_of (JStr s) = Inr d \<and> finite_dec d"
  using decimal_string_text [OF assms [unfolded signed_quantity_string_def]] by (blast intro: read_text)

lemma snapshot_level_good:
  assumes "finite_quantities ls" and "wire_level w l"
  shows "good_step finite_quantities (snapshot_level ls l)"
proof -
  from assms(2) obtain p q price quantity where pq: "unit_price p = Inr price" "quantity_string q = Inr quantity"
    and l: "l = JObj [(''price_dollars'', JStr price), (''quantity_contracts'', JStr quantity)]"
    by (auto simp: wire_level_def)
  from unit_price_reads [OF pq(1)] quantity_reads [OF pq(2)] obtain a b where
    ab: "decimal_of (JStr price) = Inr a" "finite_dec a" "decimal_of (JStr quantity) = Inr b" "finite_dec b"
    by blast
  have get: "oget [(''price_dollars'', JStr price), (''quantity_contracts'', JStr quantity)] ''price_dollars'' = JStr price"
    "oget [(''price_dollars'', JStr price), (''quantity_contracts'', JStr quantity)] ''quantity_contracts'' = JStr quantity"
    by (simp_all add: oget_def)
  show ?thesis
    unfolding snapshot_level_def l as_obj.simps of_option_simps rbind_simps get ab dec_le_finite [OF ab(4) finite_of_int]
      hashable_def
    using assms(1) ab is_nan_finite
    by (intro good_step_ensure) (auto simp: book_fault_def finite_quantities_dset)
qed

lemma snapshot_levels_good:
  assumes "normalize_levels v = Inr ls"
  shows "good_step finite_quantities (snapshot_levels (JArr ls))"
proof -
  from normalize_levels_sound [OF assms] obtain ws where ws: "list_all2 wire_level ws ls" by blast
  have "\<exists>w. wire_level w l" if "l \<in> set ls" for l
    using ws that by (metis in_set_conv_nth list_all2_conv_all_nth)
  then show ?thesis
    unfolding snapshot_levels_def as_arr.simps of_option_simps rbind_simps
    by (intro good_step_fold) (auto simp: finite_quantities_def [of "[]"] intro: snapshot_level_good)
qed

lemma delta_level_good:
  assumes "finite_quantities ls"
    and price: "oget payload ''price_dollars'' = JStr price" "unit_price v = Inr price"
    and delta: "oget payload ''quantity_delta_contracts'' = JStr delta" "signed_quantity_string w = Inr delta"
  shows "good_step finite_quantities (delta_level ls payload)"
proof -
  from unit_price_reads [OF price(2)] signed_quantity_reads [OF delta(2)] obtain a b where
    ab: "decimal_of (JStr price) = Inr a" "finite_dec a" "decimal_of (JStr delta) = Inr b" "finite_dec b"
    by blast
  let ?q = "case lget ls a of None \<Rightarrow> dec_of_int 0 | Some q \<Rightarrow> q"
  have q: "finite_dec ?q" using assms(1) by (auto intro: finite_quantities_get split: option.splits)
  have add: "good_step finite_dec (dec_add ?q b)"
    using dec_add_finite [OF q ab(4)] by (auto simp: book_fault_def)
  have hash: "hashable a = Inr ()" using ab(2) by (cases a) (simp_all add: hashable_def)
  show ?thesis
    unfolding delta_level_def price delta ab rbind_simps hash
  proof (rule good_step_bind [OF add])
    fix r assume r: "finite_dec r"
    show "good_step finite_quantities (rbind (dec_lt r (dec_of_int 0)) (\<lambda>negative.
       rbind (ensure (\<not> negative) (ValueError ''book delta would create negative displayed quantity'')) (\<lambda>_.
       Inr (if dec_eq r (dec_of_int 0) then dpop dec_eq ls a else dset dec_eq ls a r))))"
      unfolding dec_lt_finite [OF r finite_of_int] rbind_simps
      using assms(1) r by (intro good_step_ensure)
        (auto simp: book_fault_def finite_quantities_dset finite_quantities_dpop)
  qed
qed

text \<open>The three payloads \<open>normalized_payload\<close> builds.\<close>

lemma normalized_payload_cases:
  assumes "normalized_payload t m = Inr (ticker, market, payload)" and "t \<in> set market_types"
  obtains (snapshot) v w bids asks where "t = ''orderbook_snapshot''" "normalize_levels v = Inr bids"
      "normalize_levels w = Inr asks" "payload = [(''yes_bids'', JArr bids), (''yes_asks'', JArr asks)]"
  | (delta) side price delta v w where "t = ''orderbook_delta''" "side \<in> {JStr ''yes'', JStr ''no''}"
      "unit_price v = Inr price" "signed_quantity_string w = Inr delta"
      "payload = [(''book_side'', side), (''price_dollars'', JStr price), (''quantity_delta_contracts'', JStr delta)]"
  | (trade) v yes rest i where "t = ''trade''" "unit_price v = Inr yes"
      "payload = (''trade_id'', i) # (''yes_price_dollars'', JStr yes) # rest"
proof -
  consider "t = ''orderbook_snapshot''" | "t = ''orderbook_delta''" | "t = ''trade''"
    using assms(2) by (auto simp: market_types_def)
  then show thesis
  proof cases
    case 1
    with assms(1) show ?thesis
      by (auto simp: normalized_payload_def rbind_eq_Inr Let_def intro: snapshot)
  next
    case 2
    have side: "in_names v [''yes'', ''no''] = Inr True \<Longrightarrow> v \<in> {JStr ''yes'', JStr ''no''}" for v
      by (cases v) auto
    from 2 assms(1) show ?thesis
      by (auto simp: normalized_payload_def rbind_eq_Inr Let_def dest!: side intro: delta)
  next
    case 3
    with assms(1) show ?thesis
      by (auto simp: normalized_payload_def rbind_eq_Inr Let_def intro: trade)
  qed
qed

lemma proj_event_good:
  assumes p: "finite_book p" and e: "normal_event e" and payload: "oget e ''payload'' = JObj payload"
  shows "good_step finite_book (proj_event p (oget e ''event_type'') payload)"
proof -
  from e payload obtain t m ticker market where t: "t \<in> set market_types"
      "normalized_payload t m = Inr (ticker, market, payload)" "oget e ''event_type'' = JStr (event_type_of t)"
    by (auto simp: normal_event_def)
  from t(2,1) show ?thesis
  proof (cases rule: normalized_payload_cases)
    case (snapshot v w bids asks)
    have ty: "oget e ''event_type'' = JStr ''book_snapshot''" using t(3) by (simp add: snapshot event_type_of_def)
    have get: "oget payload ''yes_bids'' = JArr bids" "oget payload ''yes_asks'' = JArr asks"
      by (simp_all add: snapshot(4) oget_def)
    show ?thesis
      unfolding proj_event_def ty get using snapshot_levels_good [OF snapshot(2)] snapshot_levels_good [OF snapshot(3)]
      by (auto simp: finite_book_def intro!: good_step_bind [of finite_quantities])
  next
    case (delta side price delta v w)
    have ty: "oget e ''event_type'' = JStr ''book_delta''" using t(3) by (simp add: delta(1) event_type_of_def)
    have get: "oget payload ''book_side'' = side" "oget payload ''price_dollars'' = JStr price"
      "oget payload ''quantity_delta_contracts'' = JStr delta"
      by (simp_all add: delta(5) oget_def)
    note level = delta_level_good [OF _ get(2) delta(3) get(3) delta(4)]
    have "good_step finite_book (proj_delta p payload)"
      unfolding proj_delta_def get(1) Let_def
    proof (rule good_step_ensure)
      show "good_step finite_book
        (if side = JStr ''yes'' then rbind (delta_level (pj_bids p) payload) (\<lambda>ls. Inr (p\<lparr>pj_bids := ls\<rparr>))
         else if side = JStr ''no'' then rbind (delta_level (pj_asks p) payload) (\<lambda>ls. Inr (p\<lparr>pj_asks := ls\<rparr>))
         else Inl (ValueError ''book delta has an invalid side''))"
        using delta(2) p by (auto simp: finite_book_def intro!: good_step_bind [OF level])
    qed (simp add: book_fault_def)
    then show ?thesis by (simp add: proj_event_def ty)
  next
    case (trade v yes rest i)
    have ty: "oget e ''event_type'' = JStr ''trade''" using t(3) by (simp add: trade(1) event_type_of_def)
    have get: "oget payload ''yes_price_dollars'' = JStr yes" by (simp add: trade(3) oget_def)
    from unit_price_reads [OF trade(2)] obtain d where "decimal_of (JStr yes) = Inr d" by blast
    then show ?thesis using p by (simp add: proj_event_def ty get finite_book_def)
  qed
qed

lemma proj_apply_good:
  assumes "finite_book p" and "normal_event e" and "oget e ''ingress_order'' = JInt (pj_ingress p + 1)"
  shows "good_step finite_book (proj_apply p e)"
proof -
  from assms(2) obtain payload where payload: "oget e ''payload'' = JObj payload"
    by (auto simp: normal_event_def)
  show ?thesis
    unfolding proj_apply_def assms(3) payload int_value_JInt rbind_simps ensure_bool as_obj.simps of_option_simps
    using proj_event_good [OF assms(1,2) payload]
    by (auto intro: good_step_bind simp: finite_book_def)
qed

text \<open>A run over events numbered on from the watermark.\<close>

lemma proj_run_good:
  assumes "finite_book p" and "\<forall>e \<in> set es. normal_event e"
    and "\<forall>i < length es. oget (es ! i) ''ingress_order'' = JInt (pj_ingress p + int i + 1)"
  shows "good_step finite_book (res_fold proj_apply p es)"
  using assms
proof (induction es arbitrary: p)
  case Nil
  then show ?case by simp
next
  case (Cons e es)
  have first: "oget e ''ingress_order'' = JInt (pj_ingress p + 1)" using Cons.prems(3) by force
  have good: "good_step finite_book (proj_apply p e)"
    using Cons.prems(1,2) first by (intro proj_apply_good) auto
  show ?case
  proof (cases "proj_apply p e")
    case (Inl x)
    with good show ?thesis by simp
  next
    case (Inr q)
    have "oget (es ! i) ''ingress_order'' = JInt (pj_ingress q + int i + 1)" if "i < length es" for i
      using Cons.prems(3) [rule_format, of "Suc i"] that proj_apply_ingress [OF Inr] by (simp add: algebra_simps)
    then have "good_step finite_book (res_fold proj_apply q es)"
      using Cons.prems(2) good Inr by (intro Cons.IH) auto
    with Inr show ?thesis by simp
  qed
qed

section \<open>Properties\<close>

text \<open>C30: The events of a finished normalization are well-formed input of the projection. Replaying
  them from the empty book never fails on their order, type, fields or amounts: the only refusals
  left are the four that depend on the contents of the book.\<close>

theorem normalized_events_projectable:
  assumes "normalize_capture sha allow load catalog policy inp = Inr out"
    and "res_fold proj_apply proj_init (no_events out) = Inl e"
  shows "book_fault e"
proof -
  from normalize_capture_run [OF assms(1)] obtain cfg st where
    run: "res_fold (norm_line cfg) norm_init (numbered (ni_frames inp)) = Inr st"
    and out: "no_events out = ns_events st"
    by blast
  have "good_step finite_book (res_fold proj_apply proj_init (ns_events st))"
  proof (rule proj_run_good)
    show "finite_book proj_init" by (simp add: finite_book_def finite_quantities_def proj_init_def)
    show "\<forall>e \<in> set (ns_events st). normal_event e"
      using norm_run_wf(2) [OF run] by (simp add: identities_wf_def)
    show "\<forall>i < length (ns_events st). oget (ns_events st ! i) ''ingress_order'' = JInt (pj_ingress proj_init + int i + 1)"
      using norm_run_wf(1) [OF run] unfolding norm_wf_def by (simp add: proj_init_def)
  qed
  with assms(2) show ?thesis by (simp add: out)
qed

text \<open>A capture whose only frame changes a level before any snapshot.\<close>

definition sample_early :: norm_input where
  "sample_early = sample_input\<lparr>ni_frames := [sample_change]\<rparr>"

theorem normalized_events_projectable_witness:
  "book_fault (projl (res_fold proj_apply proj_init (no_events (projr
     (normalize_capture (\<lambda>_. ''h'') False (\<lambda>_. Inl KeyError) None None sample_early)))))"
proof -
  have "case normalize_capture (\<lambda>_. ''h'') False (\<lambda>_. Inl KeyError) None None sample_early of
      Inl _ \<Rightarrow> False | Inr out \<Rightarrow> \<not> is_ok (res_fold proj_apply proj_init (no_events out))"
    by code_simp
  then obtain out e where
    "normalize_capture (\<lambda>_. ''h'') False (\<lambda>_. Inl KeyError) None None sample_early = Inr out"
    "res_fold proj_apply proj_init (no_events out) = Inl e"
    by (auto simp: is_ok_def split: sum.splits)
  with normalized_events_projectable [OF this] show ?thesis by simp
qed

end
