(* ===== verification/Documents.thy ===== *)
theory Documents
  imports Json
begin

text \<open>
  The helpers the documents of the historical pipeline are read with (\<open>pmm_phase7.py\<close>): coded
  refusals (\<open>HistoricalDataError\<close>), the decoder of a line of a JSONL file, schema validation.

  JSON Schema is a third-party library: a validator is a parameter \<open>valid\<close>, from the name of a
  schema file and a document to whether the schema accepts it.
\<close>

type_synonym validator = "string \<Rightarrow> json \<Rightarrow> bool"

text \<open>\<open>if not b: raise HistoricalDataError(code, ...)\<close>.\<close>

definition require :: "string \<Rightarrow> bool \<Rightarrow> unit res" where
  "require code b = ensure b (HistoricalDataError code)"

lemma require_eq [simp, res_simps]:
  "require c b = Inr u \<longleftrightarrow> b"
  "require c b = Inl e \<longleftrightarrow> \<not> b \<and> e = HistoricalDataError c"
  by (simp_all add: require_def)

lemma require_bool [simp]: "require c True = Inr ()" "require c False = Inl (HistoricalDataError c)"
  by (simp_all add: require_def)

definition validate_historical_schema :: "validator \<Rightarrow> json \<Rightarrow> string \<Rightarrow> string \<Rightarrow> unit res" where
  "validate_historical_schema valid document filename code = require code (valid filename document)"

text \<open>One line of \<open>iter_jsonl\<close>.\<close>

definition jsonl_object :: "string \<Rightarrow> jobj res" where
  "jsonl_object line =
     rbind (of_option (ValueError ''is not valid JSON'') (json_loads line)) (\<lambda>value.
     of_option (ValueError ''is not an object'') (as_obj value))"

text \<open>\<open>read_json\<close>; a text that is no JSON raises \<open>JSONDecodeError\<close>, a \<open>ValueError\<close>.\<close>

definition read_json :: "string \<Rightarrow> jobj res" where
  "read_json text =
     rbind (of_option (ValueError ''JSONDecodeError'') (json_loads text)) (\<lambda>value.
     of_option (ValueError ''must contain a JSON object'') (as_obj value))"

text \<open>\<open>for x in value\<close>: the keys of a dict, the characters of a string.\<close>

definition iter_value :: "json \<Rightarrow> json list res" where
  "iter_value v =
     (case v of
        JArr xs \<Rightarrow> Inr xs
      | JObj d \<Rightarrow> Inr (map (\<lambda>(k, _). JStr k) d)
      | JStr s \<Rightarrow> Inr (map (\<lambda>c. JStr [c]) s)
      | _ \<Rightarrow> Inl TypeError)"

text \<open>\<open>all(a.get(k) == b.get(k) for k in ks)\<close>.\<close>

definition same_fields :: "string list \<Rightarrow> jobj \<Rightarrow> jobj \<Rightarrow> bool" where
  "same_fields ks a b = list_all (\<lambda>k. py_eq (oget a k) (oget b k)) ks"

text \<open>\<open>sorted(set(strings))\<close>.\<close>

definition sorted_set :: "string list \<Rightarrow> string list" where
  "sorted_set ss = sort (remdups ss)"

lemma sorted_set [simp]: "sorted (sorted_set ss)" "distinct (sorted_set ss)" "set (sorted_set ss) = set ss"
  by (simp_all add: sorted_set_def)

text \<open>\<open>d.get(k)\<close> on a value that may not be a dict.\<close>

definition jget :: "json \<Rightarrow> string \<Rightarrow> json res" where
  "jget v k = rbind (of_option AttributeError (as_obj v)) (\<lambda>d. Inr (oget d k))"

text \<open>\<open>v.get(k, default)\<close> on any value.\<close>

definition jget_default :: "json \<Rightarrow> string \<Rightarrow> json \<Rightarrow> json res" where
  "jget_default v k w = rbind (of_option AttributeError (as_obj v)) (\<lambda>d. Inr (oget_default d k w))"

text \<open>The lines of a text file, with universal newlines.\<close>

function text_lines_from :: "string \<Rightarrow> string \<Rightarrow> string list" where
  "text_lines_from acc [] = (if acc = [] then [] else [rev acc])"
| "text_lines_from acc (c # s) =
     (if c = CHR 0x0A then rev (CHR 0x0A # acc) # text_lines_from [] s
      else if c = CHR 0x0D then
        rev (CHR 0x0A # acc) # text_lines_from [] (if s \<noteq> [] \<and> hd s = CHR 0x0A then tl s else s)
      else text_lines_from (c # acc) s)"
  by pat_completeness auto

termination by (relation "measure (\<lambda>(_, s). length s)") auto

definition text_lines :: "string \<Rightarrow> string list" where
  "text_lines s = text_lines_from [] s"

text \<open>\<open>{str(item.get("ticker")): item for item in items if isinstance(item, dict)}\<close>.\<close>

definition by_ticker :: "json list \<Rightarrow> (string \<times> jobj) list" where
  "by_ticker items =
     fold (\<lambda>item d. case item of JObj o' \<Rightarrow> sset d (py_str (oget o' ''ticker'')) o' | _ \<Rightarrow> d) items []"

end
