(* ===== verification/Features.thy ===== *)
theory Features
  imports Documents Projection Product_Catalog
begin

text \<open>
  \<open>materialize_features\<close> (\<open>pmm_phase7.py\<close>): one feature row per normalized event, from the first
  snapshot on. The input is the files of a normalized directory, the package and the policy being
  the results of their loaders; the output is the rows of \<open>features.jsonl\<close> and the manifest.

  What is shown is causality: a row depends on the events up to its watermark and on nothing later.
\<close>

record features_input =
  fi_manifest :: string
  fi_events :: string
  fi_product :: string

definition package_lineage :: "product_package \<Rightarrow> conversion_policy \<Rightarrow> (string \<times> string) list" where
  "package_lineage package policy =
     [(''product_terms_sha256'', pt_sha256 (pk_terms package)),
      (''source_manifest_sha256'', ev_sha256 (pk_evidence package)),
      (''review_sha256'', rv_sha256 (pk_review package)),
      (''conversion_policy_sha256'', cp_sha256 policy)]"

definition upstream_lineage ::
  "(string \<Rightarrow> string) \<Rightarrow> product_package res \<Rightarrow> conversion_policy res \<Rightarrow> features_input \<Rightarrow> jobj \<Rightarrow> jobj option res" where
  "upstream_lineage sha load_package load_policy inp normalized =
     (if oget normalized ''schema'' = JStr ''pmm.historical.normalization_manifest.v2'' then
        rbind load_package (\<lambda>package.
        rbind load_policy (\<lambda>policy.
        let expected = map (\<lambda>(k, v). (k, JStr v)) (package_lineage package policy) in
        rbind (demand (list_all (\<lambda>(k, v). oget normalized k = v) expected) ''UpstreamManifestMismatch'') (\<lambda>_.
        rbind (demand (oget normalized ''output_events_sha256'' = JStr (sha (fi_events inp)))
                 ''UpstreamManifestMismatch'') (\<lambda>_.
        rbind (demand (oget normalized ''output_product_sha256'' = JStr (sha (fi_product inp)))
                 ''UpstreamManifestMismatch'') (\<lambda>_.
        Inr (Some expected))))))
      else
        rbind (ensure (oget normalized ''schema'' = JStr ''pmm.historical.normalization_manifest.v1'')
                 (ValueError ''unsupported normalization manifest schema'')) (\<lambda>_.
        Inr None))"

definition feature_row :: "jobj \<Rightarrow> projection \<Rightarrow> jobj res" where
  "feature_row event p =
     rbind (oindex event ''ticker'') (\<lambda>ticker.
     rbind (oindex event ''ingress_order'') (\<lambda>watermark.
     rbind (oindex event ''logical_time_utc_ns'') (\<lambda>time.
     rbind (oindex event ''event_type'') (\<lambda>event_type.
     rbind (feature_values p) (\<lambda>values.
     Inr [(''schema'', JStr ''pmm.historical.feature_row.v1''),
          (''feature_version'', JStr ''observed-l2-top-of-book.v1''),
          (''truth_category'', JStr ''DerivedFromObserved''),
          (''source_fidelity'', JStr ''level_2''),
          (''ticker'', ticker),
          (''as_of_watermark'', watermark),
          (''as_of_logical_time_utc_ns'', time),
          (''as_of_event_type'', event_type),
          (''causal_inputs'', JStr ''events up to and including as_of_watermark''),
          (''values'', JObj values)])))))"

text \<open>One line of \<open>events.jsonl\<close>: the cursor advances; before the first snapshot nothing is written.\<close>

definition feature_line :: "projection \<times> jobj list \<Rightarrow> string \<Rightarrow> (projection \<times> jobj list) res" where
  "feature_line st line =
     rbind (jsonl_object line) (\<lambda>event.
     rbind (proj_apply (fst st) event) (\<lambda>p.
     if \<not> pj_has_snapshot p then Inr (p, snd st)
     else rbind (feature_row event p) (\<lambda>row. Inr (p, snd st @ [row]))))"

definition feature_rows :: "string list \<Rightarrow> jobj list res" where
  "feature_rows lines = rbind (res_fold feature_line (proj_init, []) lines) (\<lambda>st. Inr (snd st))"

definition rows_text :: "jobj list \<Rightarrow> string" where
  "rows_text rows = concat (map (\<lambda>r. canonical_json (JObj r) @ [CHR 0x0A]) rows)"

definition feature_manifest :: "(string \<Rightarrow> string) \<Rightarrow> features_input \<Rightarrow> jobj option \<Rightarrow> jobj list \<Rightarrow> jobj" where
  "feature_manifest sha inp lineage rows =
     [(''schema'', JStr (if lineage \<noteq> None then ''pmm.historical.feature_manifest.v2''
                         else ''pmm.historical.feature_manifest.v1'')),
      (''feature_version'', JStr ''observed-l2-top-of-book.v1''),
      (''input_events_sha256'', JStr (sha (fi_events inp))),
      (''output_features_sha256'', JStr (sha (rows_text rows))),
      (''feature_count'', JInt (int (length rows))),
      (''causal_availability'', JStr ''Each row contains only state applied through as_of_watermark.''),
      (''leakage_prevention'', JStr ''No future returns, future book state, or post-watermark data are features.''),
      (''truth_category'', JStr ''DerivedFromObserved''),
      (''source_fidelity'', JStr ''level_2'')] @
     (case lineage of
        None \<Rightarrow> []
      | Some l \<Rightarrow> l @ [(''input_normalization_manifest_sha256'', JStr (sha (fi_manifest inp))),
                      (''input_product_sha256'', JStr (sha (fi_product inp)))])"

definition materialize_features ::
  "(string \<Rightarrow> string) \<Rightarrow> product_package res \<Rightarrow> conversion_policy res \<Rightarrow> features_input \<Rightarrow> (jobj list \<times> jobj) res" where
  "materialize_features sha load_package load_policy inp =
     rbind (read_json (fi_manifest inp)) (\<lambda>normalized.
     rbind (require ''DownstreamContinuityRequired''
              (oget normalized ''schema'' \<noteq> JStr ''pmm.historical.normalization_manifest.v3'')) (\<lambda>_.
     rbind (ensure (\<not> truthy (oget normalized ''sequence_gaps''))
              (ValueError ''cannot materialize complete features from normalized data with sequence gaps'')) (\<lambda>_.
     rbind (upstream_lineage sha load_package load_policy inp normalized) (\<lambda>lineage.
     rbind (feature_rows (text_lines (fi_events inp))) (\<lambda>rows.
     Inr (rows, feature_manifest sha inp lineage rows))))))"

section \<open>Causality\<close>

lemma feature_line_fst:
  "feature_line st l = Inr st' \<Longrightarrow>
   \<exists>e rows. jsonl_object l = Inr e \<and> proj_apply (fst st) e = Inr (fst st') \<and> snd st' = snd st @ rows \<and>
     (rows = [] \<or> (\<exists>row values. rows = [row] \<and> pj_has_snapshot (fst st') \<and> feature_values (fst st') = Inr values \<and>
        oget row ''values'' = JObj values \<and> oget row ''as_of_watermark'' = oget e ''ingress_order'')) \<and>
     (rows = [] \<longrightarrow> \<not> pj_has_snapshot (fst st'))"
  by (auto simp: feature_line_def feature_row_def rbind_eq_Inr oindex_def oget_def split: if_splits)

text \<open>The book after some lines.\<close>

definition book_after :: "string list \<Rightarrow> projection res" where
  "book_after lines = rbind (res_map jsonl_object lines) (res_fold proj_apply proj_init)"

lemma res_map_append: "res_map f (xs @ ys) = rbind (res_map f xs) (\<lambda>a. rbind (res_map f ys) (\<lambda>b. Inr (a @ b)))"
  by (induction xs) (simp_all add: rbind_assoc)

lemma book_after_snoc:
  assumes "book_after ls = Inr p" and "jsonl_object l = Inr e" and "proj_apply p e = Inr q"
  shows "book_after (ls @ [l]) = Inr q"
  using assms by (auto simp: book_after_def res_map_append rbind_eq_Inr res_fold_append)

lemma feature_run_book:
  assumes "res_fold feature_line (proj_init, []) ls = Inr st"
  shows "book_after ls = Inr (fst st) \<and> pj_ingress (fst st) = int (length ls) \<and>
    (\<forall>row \<in> set (snd st). \<exists>k p values. k \<le> length ls \<and> int_value (oget row ''as_of_watermark'') = Inr (int k) \<and>
       book_after (take k ls) = Inr p \<and> feature_values p = Inr values \<and> oget row ''values'' = JObj values)"
  using assms
proof (induction ls arbitrary: st rule: rev_induct)
  case Nil
  then show ?case by (auto simp: book_after_def proj_init_def)
next
  case (snoc l ls)
  from snoc.prems obtain t where t: "res_fold feature_line (proj_init, []) ls = Inr t"
    and step: "feature_line t l = Inr st"
    by (auto simp: res_fold_append rbind_eq_Inr)
  from feature_line_fst [OF step] obtain e rows where e: "jsonl_object l = Inr e" "proj_apply (fst t) e = Inr (fst st)"
    and rows: "snd st = snd t @ rows"
      "rows = [] \<or> (\<exists>row values. rows = [row] \<and> pj_has_snapshot (fst st) \<and> feature_values (fst st) = Inr values \<and>
        oget row ''values'' = JObj values \<and> oget row ''as_of_watermark'' = oget e ''ingress_order'')"
    by blast
  note IH = snoc.IH [OF t]
  have book: "book_after (ls @ [l]) = Inr (fst st)" using IH e by (blast intro: book_after_snoc)
  have ingress: "pj_ingress (fst st) = int (length (ls @ [l]))"
    using IH proj_apply_ingress [OF e(2)] by simp
  have order: "int_value (oget e ''ingress_order'') = Inr (int (length (ls @ [l])))"
    using e(2) IH by (auto simp: proj_apply_def rbind_eq_Inr)
  have old: "\<exists>k p values. k \<le> length (ls @ [l]) \<and> int_value (oget row ''as_of_watermark'') = Inr (int k) \<and>
       book_after (take k (ls @ [l])) = Inr p \<and> feature_values p = Inr values \<and> oget row ''values'' = JObj values"
    if "row \<in> set (snd t)" for row
  proof -
    from IH that obtain k p vs where k: "k \<le> length ls" "int_value (oget row ''as_of_watermark'') = Inr (int k)"
       "book_after (take k ls) = Inr p" "feature_values p = Inr vs" "oget row ''values'' = JObj vs"
      by blast
    then show ?thesis by (intro exI [of _ k] exI [of _ p] exI [of _ vs]) simp
  qed
  have new: "\<exists>k p values. k \<le> length (ls @ [l]) \<and> int_value (oget row ''as_of_watermark'') = Inr (int k) \<and>
       book_after (take k (ls @ [l])) = Inr p \<and> feature_values p = Inr values \<and> oget row ''values'' = JObj values"
    if "row \<in> set rows" for row
    using rows(2) that order book by (intro exI [of _ "length (ls @ [l])"] exI [of _ "fst st"]) auto
  show ?case using book ingress old new rows(1) by auto
qed

lemma feature_rows_prefix:
  assumes "feature_rows (xs @ ys) = Inr rows"
  shows "\<exists>rows1 rows2. feature_rows xs = Inr rows1 \<and> rows = rows1 @ rows2"
proof -
  have ext: "\<exists>new. snd st' = snd st @ new" if "res_fold feature_line st zs = Inr st'" for st st' zs
    using that
  proof (induction zs arbitrary: st)
    case (Cons z zs)
    then obtain t where t: "feature_line st z = Inr t" and run: "res_fold feature_line t zs = Inr st'"
      by (auto simp: rbind_eq_Inr)
    from feature_line_fst [OF t] obtain a where a: "snd t = snd st @ a" by blast
    from Cons.IH [OF run] obtain b where "snd st' = snd t @ b" ..
    with a show ?case by simp
  qed simp
  from assms obtain st t where "res_fold feature_line (proj_init, []) xs = Inr st"
      "res_fold feature_line st ys = Inr t" "rows = snd t"
    by (auto simp: feature_rows_def rbind_eq_Inr res_fold_append)
  moreover from ext [OF this(2)] obtain new where "snd t = snd st @ new" ..
  ultimately show ?thesis by (simp add: feature_rows_def)
qed

section \<open>Properties\<close>

text \<open>C13: The features have no look-ahead. Every row written is the feature values of the book after
  exactly the first k events, k being the row's own watermark, and the rows over any prefix of the
  events are a prefix of the rows over all of them: later events change nothing already written.\<close>

theorem features_causal:
  assumes "materialize_features sha load_package load_policy inp = Inr (rows, manifest)"
  shows "(\<forall>row \<in> set rows. \<exists>k p values. k \<le> length (text_lines (fi_events inp)) \<and>
       int_value (oget row ''as_of_watermark'') = Inr (int k) \<and> book_after (take k (text_lines (fi_events inp))) = Inr p \<and>
       feature_values p = Inr values \<and> oget row ''values'' = JObj values) \<and>
    (\<forall>k. \<exists>rows1 rows2. feature_rows (take k (text_lines (fi_events inp))) = Inr rows1 \<and> rows = rows1 @ rows2) \<and>
    oget manifest ''feature_count'' = JInt (int (length rows))"
proof -
  let ?ls = "text_lines (fi_events inp)"
  from assms obtain l where rows: "feature_rows ?ls = Inr rows" and man: "manifest = feature_manifest sha inp l rows"
    by (auto simp: materialize_features_def rbind_eq_Inr)
  from rows obtain st where run: "res_fold feature_line (proj_init, []) ?ls = Inr st" and "rows = snd st"
    by (auto simp: feature_rows_def rbind_eq_Inr)
  with feature_run_book [OF run] have "\<forall>row \<in> set rows. \<exists>k p values. k \<le> length ?ls \<and>
      int_value (oget row ''as_of_watermark'') = Inr (int k) \<and> book_after (take k ?ls) = Inr p \<and>
      feature_values p = Inr values \<and> oget row ''values'' = JObj values"
    by simp
  moreover have "\<exists>rows1 rows2. feature_rows (take k ?ls) = Inr rows1 \<and> rows = rows1 @ rows2" for k
    using feature_rows_prefix [of "take k ?ls" "drop k ?ls" rows] rows by simp
  moreover have "oget manifest ''feature_count'' = JInt (int (length rows))"
    by (simp add: man feature_manifest_def oget_def)
  ultimately show ?thesis by blast
qed

definition sample_events_text :: string where
  "sample_events_text = concat (map (\<lambda>e. canonical_json (JObj e) @ [CHR 0x0A])
     [[(''event_type'', JStr ''trade''), (''ingress_order'', JInt 1), (''payload'', JObj [(''yes_price_dollars'', JStr ''0.4'')])],
      [(''event_type'', JStr ''book_snapshot''), (''ingress_order'', JInt 2), (''logical_time_utc_ns'', JInt 5),
       (''payload'', JObj [(''yes_asks'', JArr []), (''yes_bids'', JArr [])]), (''ticker'', JStr ''T'')]])"

definition sample_features_input :: features_input where
  "sample_features_input =
     \<lparr>fi_manifest = canonical_json (JObj [(''schema'', JStr ''pmm.historical.normalization_manifest.v1'')]),
      fi_events = sample_events_text, fi_product = []\<rparr>"

theorem features_causal_witness:
  "\<exists>rows manifest. oget manifest ''feature_count'' = JInt (int (length rows)) \<and>
     materialize_features (\<lambda>_. ''h'') (Inl KeyError) (Inl KeyError) sample_features_input = Inr (rows, manifest)"
proof -
  have "is_ok (materialize_features (\<lambda>_. ''h'') (Inl KeyError) (Inl KeyError) sample_features_input)" by code_simp
  then obtain rows manifest where
    m: "materialize_features (\<lambda>_. ''h'') (Inl KeyError) (Inl KeyError) sample_features_input = Inr (rows, manifest)"
    by (auto simp: is_ok_def split: sum.splits)
  from features_causal [OF m] m show ?thesis by blast
qed

end
