(* ===== verification/Segment_Cursor.thy ===== *)
theory Segment_Cursor
  imports Documents Projection
begin

text \<open>
  \<open>SegmentAwareProductCursor\<close> (\<open>pmm_phase7.py\<close>): the projection of one product over the segments of
  a multi-market capture. A segment opens with a boundary record followed by its snapshot; a
  discontinuity throws the book away. \<open>start_segment\<close>, \<open>invalidate\<close> and \<open>apply_market_event\<close> are
  the three methods; \<open>cursor_step\<close> is one of them.

  What is shown: whatever the history, the book is exactly what replaying the market events of the
  current segment gives (\<open>segment_events\<close>), it is empty without a segment, and no segment id is ever
  opened twice.
\<close>

record causal_watermark =
  cw_raw :: int
  cw_normalization :: int

definition watermark_document :: "causal_watermark \<Rightarrow> json" where
  "watermark_document w =
     JObj [(''raw_ingress_ordinal'', JInt (cw_raw w)), (''normalization_ordinal'', JInt (cw_normalization w))]"

datatype cursor_state = Awaiting_Initial_Snapshot | Valid | Invalid_Awaiting_Recovery

record segment_cursor =
  sc_ticker :: string
  sc_market_id :: string
  sc_state :: cursor_state
  sc_segment :: "string option"
  sc_evidence :: "string option"
  sc_projection :: projection
  sc_applied :: "causal_watermark option"
  sc_seed :: "causal_watermark option"
  sc_valid_from :: "causal_watermark option"
  sc_invalidated :: "causal_watermark option"
  sc_pending :: "jobj option"
  sc_seen :: "string list"

definition cursor_init :: "string \<Rightarrow> string \<Rightarrow> segment_cursor" where
  "cursor_init ticker market_id =
     \<lparr>sc_ticker = ticker, sc_market_id = market_id, sc_state = Awaiting_Initial_Snapshot, sc_segment = None,
      sc_evidence = None, sc_projection = proj_init, sc_applied = None, sc_seed = None, sc_valid_from = None,
      sc_invalidated = None, sc_pending = None, sc_seen = []\<rparr>"

section \<open>The methods\<close>

definition watermark_of :: "jobj \<Rightarrow> causal_watermark res" where
  "watermark_of r =
     rbind (int_value (oget r ''raw_ingress_ordinal'')) (\<lambda>raw.
     rbind (int_value (oget r ''normalization_ordinal'')) (\<lambda>norm.
     Inr \<lparr>cw_raw = raw, cw_normalization = norm\<rparr>))"

definition start_segment :: "segment_cursor \<Rightarrow> jobj \<Rightarrow> segment_cursor res" where
  "start_segment c r =
     rbind (require ''FeatureSegmentInvalid'' (sc_pending c = None)) (\<lambda>_.
     let segment_id = oget r ''book_segment_id'';
         evidence = oget r ''start_evidence'';
         expected = (if sc_state c = Awaiting_Initial_Snapshot then ''initial_snapshot'' else ''recovery_snapshot'')
     in
     rbind (require ''FeatureSegmentInvalid''
              (nonempty_str segment_id \<and> py_str segment_id \<notin> set (sc_seen c) \<and>
               oget r ''ticker'' = JStr (sc_ticker c) \<and> evidence = JStr expected \<and>
               oget r ''continuity_claim'' = JStr ''valid_from_observed_snapshot_only'')) (\<lambda>_.
     rbind (watermark_of r) (\<lambda>w.
     Inr (c\<lparr>sc_pending := Some r, sc_applied := Some w\<rparr>))))"

definition invalidate :: "segment_cursor \<Rightarrow> jobj \<Rightarrow> segment_cursor res" where
  "invalidate c r =
     rbind (watermark_of r) (\<lambda>w.
     Inr (c\<lparr>sc_applied := Some w, sc_invalidated := Some w,
            sc_state := (if sc_segment c \<noteq> None \<or> sc_state c = Valid then Invalid_Awaiting_Recovery
                         else Awaiting_Initial_Snapshot),
            sc_segment := None, sc_evidence := None, sc_seed := None, sc_valid_from := None, sc_pending := None,
            sc_projection := proj_init\<rparr>))"

definition with_order :: "jobj \<Rightarrow> int \<Rightarrow> jobj" where
  "with_order r n = sset r ''ingress_order'' (JInt n)"

definition apply_snapshot :: "segment_cursor \<Rightarrow> jobj \<Rightarrow> causal_watermark \<Rightarrow> segment_cursor res" where
  "apply_snapshot c r w =
     rbind (of_option (HistoricalDataError ''FeatureSegmentInvalid'') (sc_pending c)) (\<lambda>boundary.
     rbind (require ''FeatureSegmentInvalid''
              (same_fields [''ticker'', ''book_segment_id'', ''source_scope_id'', ''raw_ingress_ordinal''] r boundary \<and>
               oget r ''book_state_valid'' = JBool True)) (\<lambda>_.
     rbind (proj_apply proj_init (with_order r 1)) (\<lambda>p.
     rbind (oindex r ''book_segment_id'') (\<lambda>segment.
     rbind (oindex boundary ''start_evidence'') (\<lambda>evidence.
     rbind (watermark_of boundary) (\<lambda>seed.
     Inr (c\<lparr>sc_projection := p, sc_segment := Some (py_str segment), sc_evidence := Some (py_str evidence),
            sc_seen := py_str segment # sc_seen c, sc_seed := Some seed, sc_valid_from := Some w,
            sc_applied := Some w, sc_pending := None, sc_state := Valid\<rparr>)))))))"

text \<open>\<open>Inr (c, b)\<close>: the cursor after the event, and whether the event changed the book.\<close>

definition apply_market_event :: "segment_cursor \<Rightarrow> jobj \<Rightarrow> (segment_cursor \<times> bool) res" where
  "apply_market_event c r =
     rbind (require ''FeatureProductIdentityMismatch''
              (oget r ''ticker'' = JStr (sc_ticker c) \<and> oget r ''venue_market_id'' = JStr (sc_market_id c))) (\<lambda>_.
     rbind (watermark_of r) (\<lambda>w.
     if oget r ''event_type'' = JStr ''book_snapshot'' then
       rbind (apply_snapshot c r w) (\<lambda>c'. Inr (c', True))
     else
       rbind (require ''FeatureSegmentInvalid'' (sc_pending c = None)) (\<lambda>_.
       if oget r ''event_type'' = JStr ''trade'' \<and> sc_state c \<noteq> Valid then Inr (c\<lparr>sc_applied := Some w\<rparr>, False)
       else
         rbind (require ''FeatureBookStateInvalid''
                  (sc_state c = Valid \<and> oget r ''book_state_valid'' = JBool True \<and>
                   oget r ''book_segment_id'' = (case sc_segment c of None \<Rightarrow> JNull | Some s \<Rightarrow> JStr s))) (\<lambda>_.
         rbind (reraise is_value_error (HistoricalDataError ''FeatureProjectionInvalid'')
                  (proj_apply (sc_projection c) (with_order r (pj_ingress (sc_projection c) + 1)))) (\<lambda>p.
         Inr (c\<lparr>sc_projection := p, sc_applied := Some w\<rparr>, True))))))"

datatype cursor_op = Start_Segment jobj | Invalidate jobj | Market_Event jobj

fun cursor_step :: "segment_cursor \<Rightarrow> cursor_op \<Rightarrow> segment_cursor res" where
  "cursor_step c (Start_Segment r) = start_segment c r"
| "cursor_step c (Invalidate r) = invalidate c r"
| "cursor_step c (Market_Event r) = rbind (apply_market_event c r) (\<lambda>(c', _). Inr c')"

section \<open>The abstract history\<close>

text \<open>
  The market events of the current segment: a snapshot opens it, an invalidation closes it, and
  events outside a segment do not count. This says nothing of books or watermarks.
\<close>

fun segment_after :: "jobj list \<Rightarrow> cursor_op \<Rightarrow> jobj list" where
  "segment_after es (Start_Segment r) = es"
| "segment_after es (Invalidate r) = []"
| "segment_after es (Market_Event r) =
     (if oget r ''event_type'' = JStr ''book_snapshot'' then [r]
      else if es = [] then [] else es @ [r])"

definition segment_events :: "cursor_op list \<Rightarrow> jobj list" where
  "segment_events ops = foldl segment_after [] ops"

text \<open>Renumbered from one, as the cursor passes them to the projection.\<close>

fun renumber_from :: "int \<Rightarrow> jobj list \<Rightarrow> jobj list" where
  "renumber_from n [] = []"
| "renumber_from n (e # es) = with_order e n # renumber_from (n + 1) es"

abbreviation renumbered :: "jobj list \<Rightarrow> jobj list" where
  "renumbered es \<equiv> renumber_from 1 es"

lemma renumber_append: "renumber_from n (es @ fs) = renumber_from n es @ renumber_from (n + int (length es)) fs"
  by (induction es arbitrary: n) (simp_all add: add.assoc)

lemma length_renumber [simp]: "length (renumber_from n es) = length es"
  by (induction es arbitrary: n) simp_all

definition replays :: "jobj list \<Rightarrow> segment_cursor \<Rightarrow> bool" where
  "replays es c \<longleftrightarrow> res_fold proj_apply proj_init (renumbered es) = Inr (sc_projection c) \<and>
     pj_ingress (sc_projection c) = int (length es) \<and>
     (es \<noteq> [] \<longleftrightarrow> sc_state c = Valid) \<and> (sc_state c = Valid \<longleftrightarrow> sc_segment c \<noteq> None)"

lemma replays_init: "replays [] (cursor_init t m)"
  by (simp add: replays_def cursor_init_def proj_init_def)

lemma replays_start: "replays es c \<Longrightarrow> start_segment c r = Inr c' \<Longrightarrow> replays es c'"
  by (auto simp: start_segment_def rbind_eq_Inr Let_def replays_def)

lemma replays_invalidate: "invalidate c r = Inr c' \<Longrightarrow> replays [] c'"
  by (auto simp: invalidate_def rbind_eq_Inr replays_def proj_init_def split: if_splits)

lemma proj_apply_first: "proj_apply proj_init e = Inr p \<Longrightarrow> pj_ingress p = 1"
  using proj_apply_ingress [of proj_init e p] by (simp add: proj_init_def)

lemma replays_snapshot:
  assumes "apply_snapshot c r w = Inr c'"
  shows "replays [r] c'"
proof -
  from assms obtain p where p: "proj_apply proj_init (with_order r 1) = Inr p"
    and c': "sc_projection c' = p" "sc_state c' = Valid" "sc_segment c' \<noteq> None"
    by (auto simp: apply_snapshot_def rbind_eq_Inr)
  then show ?thesis by (simp add: replays_def proj_apply_first [OF p])
qed

lemma apply_market_event_other:
  assumes "apply_market_event c r = Inr (c', b)" and "oget r ''event_type'' \<noteq> JStr ''book_snapshot''"
  shows "(\<not> b \<and> sc_state c \<noteq> Valid \<and> c' = c\<lparr>sc_applied := sc_applied c'\<rparr>) \<or>
    (b \<and> sc_state c = Valid \<and> (\<exists>p. proj_apply (sc_projection c) (with_order r (pj_ingress (sc_projection c) + 1)) = Inr p
       \<and> c' = c\<lparr>sc_projection := p, sc_applied := sc_applied c'\<rparr>))"
  using assms by (auto simp: apply_market_event_def rbind_eq_Inr split: if_splits)

lemma replays_market:
  assumes "replays es c" and step: "apply_market_event c r = Inr (c', b)"
  shows "replays (segment_after es (Market_Event r)) c'"
proof (cases "oget r ''event_type'' = JStr ''book_snapshot''")
  case True
  with step obtain w where "apply_snapshot c r w = Inr c'"
    by (auto simp: apply_market_event_def rbind_eq_Inr)
  with True show ?thesis by (simp add: replays_snapshot)
next
  case False
  from apply_market_event_other [OF step False] show ?thesis
  proof (elim disjE conjE exE)
    assume "sc_state c \<noteq> Valid" "c' = c\<lparr>sc_applied := sc_applied c'\<rparr>"
    with assms(1) False show ?thesis
      by (cases c, cases c') (auto simp: replays_def)
  next
    fix p assume v: "sc_state c = Valid"
      and p: "proj_apply (sc_projection c) (with_order r (pj_ingress (sc_projection c) + 1)) = Inr p"
      and c': "c' = c\<lparr>sc_projection := p, sc_applied := sc_applied c'\<rparr>"
    from v assms(1) have es: "es \<noteq> []" "pj_ingress (sc_projection c) = int (length es)"
        "res_fold proj_apply proj_init (renumbered es) = Inr (sc_projection c)" "sc_segment c \<noteq> None"
      by (auto simp: replays_def)
    have run: "res_fold proj_apply proj_init (renumbered (es @ [r])) = Inr p"
      using es(3) p by (simp add: renumber_append res_fold_append es(2) add.commute)
    from c' have "sc_projection c' = p" "sc_state c' = Valid" "sc_segment c' \<noteq> None"
      using v es(4) by (metis segment_cursor.simps(6,16) segment_cursor.select_convs segment_cursor.surjective
        segment_cursor.update_convs)+
    with run proj_apply_ingress [OF p] es(1,2) False show ?thesis
      by (simp add: replays_def)
  qed
qed

lemma replays_step: "replays es c \<Longrightarrow> cursor_step c op = Inr c' \<Longrightarrow> replays (segment_after es op) c'"
  by (cases op) (auto simp: rbind_eq_Inr simp del: segment_after.simps(3)
    intro: replays_start replays_invalidate replays_market)

lemma replays_run:
  "replays es c \<Longrightarrow> res_fold cursor_step c ops = Inr c' \<Longrightarrow> replays (foldl segment_after es ops) c'"
  by (induction ops arbitrary: es c) (auto simp: rbind_eq_Inr intro: replays_step)

section \<open>Segments are opened once\<close>

definition cursor_wf :: "segment_cursor \<Rightarrow> bool" where
  "cursor_wf c \<longleftrightarrow> distinct (sc_seen c) \<and>
     (\<forall>s. sc_segment c = Some s \<longrightarrow> s \<in> set (sc_seen c)) \<and>
     (\<forall>b. sc_pending c = Some b \<longrightarrow> nonempty_str (oget b ''book_segment_id'') \<and>
        py_str (oget b ''book_segment_id'') \<notin> set (sc_seen c) \<and> oget b ''ticker'' = JStr (sc_ticker c)) \<and>
     (sc_state c = Valid \<longleftrightarrow> sc_segment c \<noteq> None) \<and> (sc_state c = Valid \<longleftrightarrow> sc_valid_from c \<noteq> None) \<and>
     proj_wf (sc_projection c)"

lemma cursor_init_wf [simp]: "cursor_wf (cursor_init t m)"
  by (simp add: cursor_wf_def cursor_init_def)

lemma start_segment_wf: "cursor_wf c \<Longrightarrow> start_segment c r = Inr c' \<Longrightarrow> cursor_wf c'"
  by (auto simp: start_segment_def rbind_eq_Inr Let_def cursor_wf_def)

lemma invalidate_wf: "cursor_wf c \<Longrightarrow> invalidate c r = Inr c' \<Longrightarrow> cursor_wf c'"
  by (auto simp: invalidate_def rbind_eq_Inr cursor_wf_def split: if_splits)

lemma same_segment:
  assumes "same_fields [''ticker'', ''book_segment_id'', ''source_scope_id'', ''raw_ingress_ordinal''] r b"
    and "nonempty_str (oget b ''book_segment_id'')" and "oindex r ''book_segment_id'' = Inr s"
  shows "s = oget b ''book_segment_id''"
proof -
  obtain t where t: "oget b ''book_segment_id'' = JStr t"
    using assms(2) by (cases "oget b ''book_segment_id''") (simp_all add: nonempty_str_def)
  have "oget r ''book_segment_id'' = s" using assms(3) by (simp add: oindex_def oget_def)
  with assms(1) t show ?thesis by (simp add: same_fields_def)
qed

lemma apply_snapshot_wf:
  assumes "cursor_wf c" and "apply_snapshot c r w = Inr c'"
  shows "cursor_wf c'"
proof -
  from assms(2) obtain b p s e seed where b: "sc_pending c = Some b"
    and same: "same_fields [''ticker'', ''book_segment_id'', ''source_scope_id'', ''raw_ingress_ordinal''] r b"
    and p: "proj_apply proj_init (with_order r 1) = Inr p" and s: "oindex r ''book_segment_id'' = Inr s"
    and c': "c' = c\<lparr>sc_projection := p, sc_segment := Some (py_str s), sc_evidence := Some (py_str e),
       sc_seen := py_str s # sc_seen c, sc_seed := Some seed, sc_valid_from := Some w,
       sc_applied := Some w, sc_pending := None, sc_state := Valid\<rparr>"
    by (auto simp: apply_snapshot_def rbind_eq_Inr)
  from assms(1) b have n: "nonempty_str (oget b ''book_segment_id'')"
    "py_str (oget b ''book_segment_id'') \<notin> set (sc_seen c)" by (auto simp: cursor_wf_def)
  from same_segment [OF same n(1) s] n(2) assms(1) proj_apply_wf [OF proj_init_wf p] show ?thesis
    by (auto simp: c' cursor_wf_def)
qed

lemma apply_market_event_wf:
  assumes "cursor_wf c" and step: "apply_market_event c r = Inr (c', b)"
  shows "cursor_wf c'"
proof (cases "oget r ''event_type'' = JStr ''book_snapshot''")
  case True
  with step obtain w where "apply_snapshot c r w = Inr c'"
    by (auto simp: apply_market_event_def rbind_eq_Inr)
  with assms(1) show ?thesis by (rule apply_snapshot_wf)
next
  case False
  from step False assms(1) show ?thesis
    by (auto simp: apply_market_event_def rbind_eq_Inr cursor_wf_def intro: proj_apply_wf split: if_splits)
qed

lemma cursor_step_wf: "cursor_wf c \<Longrightarrow> cursor_step c op = Inr c' \<Longrightarrow> cursor_wf c'"
  by (cases op) (auto simp: rbind_eq_Inr intro: start_segment_wf invalidate_wf apply_market_event_wf)

interpretation cursor: res_machine cursor_step cursor_wf
  by unfold_locales (rule cursor_step_wf)

section \<open>Properties\<close>

definition sample_boundary :: "int \<Rightarrow> string \<Rightarrow> string \<Rightarrow> jobj" where
  "sample_boundary n segment evidence =
     [(''ticker'', JStr ''T''), (''book_segment_id'', JStr segment), (''start_evidence'', JStr evidence),
      (''continuity_claim'', JStr ''valid_from_observed_snapshot_only''),
      (''raw_ingress_ordinal'', JInt n), (''normalization_ordinal'', JInt n)]"

definition sample_record :: "int \<Rightarrow> string \<Rightarrow> string \<Rightarrow> jobj \<Rightarrow> jobj" where
  "sample_record n segment event_type payload =
     [(''ticker'', JStr ''T''), (''venue_market_id'', JStr ''m''), (''book_segment_id'', JStr segment),
      (''book_state_valid'', JBool True), (''event_type'', JStr event_type), (''payload'', JObj payload),
      (''raw_ingress_ordinal'', JInt n), (''normalization_ordinal'', JInt n)]"

definition sample_bids :: "string \<Rightarrow> jobj" where
  "sample_bids quantity =
     [(''yes_bids'', JArr [JObj [(''price_dollars'', JStr ''0.4''), (''quantity_contracts'', JStr quantity)]]),
      (''yes_asks'', JArr [])]"

definition sample_ops :: "cursor_op list" where
  "sample_ops =
     [Start_Segment (sample_boundary 1 ''s1'' ''initial_snapshot''),
      Market_Event (sample_record 1 ''s1'' ''book_snapshot'' (sample_bids ''3'')),
      Invalidate (sample_boundary 2 ''x'' ''x''),
      Start_Segment (sample_boundary 3 ''s2'' ''recovery_snapshot''),
      Market_Event (sample_record 3 ''s2'' ''book_snapshot'' (sample_bids ''5'')),
      Market_Event (sample_record 4 ''s2'' ''trade'' [(''yes_price_dollars'', JStr ''0.4'')])]"

definition sample_cursor :: segment_cursor where
  "sample_cursor = projr (res_fold cursor_step (cursor_init ''T'' ''m'') sample_ops)"

lemma sample_cursor_run: "res_fold cursor_step (cursor_init ''T'' ''m'') sample_ops = Inr sample_cursor"
proof -
  have "is_ok (res_fold cursor_step (cursor_init ''T'' ''m'') sample_ops)" by code_simp
  then show ?thesis
    unfolding sample_cursor_def by (auto simp: is_ok_def split: sum.splits)
qed

text \<open>C6: The book of a product never crosses a segment. Whatever boundaries, invalidations and events
  the cursor has accepted, its projection is exactly the one that replaying the market events of the
  current segment, renumbered from one, gives from the empty book; it counts those events; and the
  cursor is valid exactly when there is such a segment.\<close>

theorem segment_book_is_replay:
  assumes "res_fold cursor_step (cursor_init ticker market_id) ops = Inr c"
  shows "res_fold proj_apply proj_init (renumbered (segment_events ops)) = Inr (sc_projection c) \<and>
    pj_ingress (sc_projection c) = int (length (segment_events ops)) \<and>
    (sc_state c = Valid \<longleftrightarrow> segment_events ops \<noteq> [])"
  using replays_run [OF replays_init assms] by (auto simp: replays_def segment_events_def)

theorem segment_book_is_replay_witness:
  "sc_state sample_cursor = Valid \<and> pj_ingress (sc_projection sample_cursor) = 2"
proof -
  have "length (segment_events sample_ops) = 2" by code_simp
  with segment_book_is_replay [OF sample_cursor_run] show ?thesis by force
qed

text \<open>C31: Segments are opened once and watermarked. In every reachable state the segments opened so far
  have distinct ids, an open boundary names a new one of the cursor's own product, a cursor is valid
  exactly when it has a segment and the watermark it is valid from, and its book is well formed.\<close>

theorem segment_cursor_integrity:
  assumes "res_fold cursor_step (cursor_init ticker market_id) ops = Inr c"
  shows "distinct (sc_seen c) \<and>
    (\<forall>b. sc_pending c = Some b \<longrightarrow> py_str (oget b ''book_segment_id'') \<notin> set (sc_seen c)) \<and>
    (\<forall>s. sc_segment c = Some s \<longrightarrow> s \<in> set (sc_seen c)) \<and>
    (sc_state c = Valid \<longleftrightarrow> sc_segment c \<noteq> None) \<and> (sc_state c = Valid \<longleftrightarrow> sc_valid_from c \<noteq> None) \<and>
    proj_wf (sc_projection c)"
  using cursor.run_inv [OF cursor_init_wf assms] unfolding cursor_wf_def by blast

theorem segment_cursor_integrity_witness: "distinct (sc_seen sample_cursor)"
  using segment_cursor_integrity [OF sample_cursor_run] by blast

end
