(* ===== verification/Jsonl.thy ===== *)
theory Jsonl
  imports Json_Roundtrip Documents
begin

text \<open>
  Files of canonical JSON lines. What one stage writes line by line (\<open>canonical_json\<close> and a newline)
  the next stage reads back record by record (\<open>iter_jsonl\<close>), each with its members in canonical
  order: canonical text has no line break inside.
\<close>

definition one_line :: "string \<Rightarrow> bool" where
  "one_line s = list_all (\<lambda>c. c \<noteq> CHR 0x0A \<and> c \<noteq> CHR 0x0D) s"

definition jsonl_text :: "jobj list \<Rightarrow> string" where
  "jsonl_text ds = concat (map (\<lambda>d. canonical_json (JObj d) @ [CHR 0x0A]) ds)"

definition sorted_obj :: "jobj \<Rightarrow> jobj" where
  "sorted_obj d = sort_key fst (map (\<lambda>(k, v). (k, json_sorted v)) d)"

section \<open>Canonical text is one line\<close>

lemma one_line_simps [simp]:
  "one_line []" "one_line (c # s) \<longleftrightarrow> c \<noteq> CHR 0x0A \<and> c \<noteq> CHR 0x0D \<and> one_line s"
  "one_line (s @ t) \<longleftrightarrow> one_line s \<and> one_line t"
  by (auto simp: one_line_def)

lemma one_line_concat: "(\<And>s. s \<in> set ss \<Longrightarrow> one_line s) \<Longrightarrow> one_line (concat ss)"
  by (induction ss) auto

lemma one_line_digits: "list_all is_digit s \<Longrightarrow> one_line s"
proof -
  have "\<not> is_digit (CHR 0x0A)" "\<not> is_digit (CHR 0x0D)" by code_simp+
  then show "list_all is_digit s \<Longrightarrow> one_line s" by (induction s) auto
qed

lemma one_line_int: "one_line (int_str i)"
  using one_line_digits [OF nat_str_all_digits] by (simp add: int_str_def)

lemma hex_char_line: "d < 16 \<Longrightarrow> hex_char d \<noteq> CHR 0x0A \<and> hex_char d \<noteq> CHR 0x0D"
proof -
  have "hex_val (CHR 0x0A) = None" "hex_val (CHR 0x0D) = None" by code_simp+
  moreover assume "d < 16"
  ultimately show ?thesis using hex_val_char [OF \<open>d < 16\<close>] by auto
qed

lemma json_char_line: "one_line (json_char c)"
proof -
  let ?n = "of_char c :: nat"
  consider "c \<in> {CHR 0x22, CHR 0x5C, CHR 0x0A, CHR 0x0D, CHR 0x09, CHR 0x0C, CHR 0x08}"
    | "c \<notin> {CHR 0x22, CHR 0x5C, CHR 0x0A, CHR 0x0D, CHR 0x09, CHR 0x0C, CHR 0x08}" "?n < 32"
    | "c \<notin> {CHR 0x22, CHR 0x5C, CHR 0x0A, CHR 0x0D, CHR 0x09, CHR 0x0C, CHR 0x08}" "\<not> ?n < 32"
    by blast
  then show ?thesis
  proof cases
    case 2
    then have jc: "json_char c = [CHR 0x5C, CHR ''u'', CHR ''0'', CHR ''0'', hex_char (?n div 16), hex_char (?n mod 16)]"
      by (simp add: json_char_def Let_def)
    have "?n div 16 < 16" "?n mod 16 < 16" using 2(2) by (simp_all add: less_mult_imp_div_less)
    then show ?thesis unfolding jc by (simp add: hex_char_line)
  next
    case 3
    then show ?thesis by (simp add: json_char_def Let_def)
  qed (auto simp: json_char_def Let_def)
qed

lemma json_quote_line: "one_line (json_quote s)"
  unfolding json_quote_def by (auto intro!: one_line_concat simp: json_char_line)

lemma members_line:
  "(\<And>k v. (k, v) \<in> set d \<Longrightarrow> one_line (canonical_json v)) \<Longrightarrow> one_line (members_text d)"
proof (induction d)
  case Nil
  then show ?case by (simp add: members_text_def)
next
  case (Cons p d)
  obtain k v where p: "p = (k, v)" by (cases p)
  from Cons show ?case by (auto simp: p members_text_Cons json_quote_line)
qed

lemma items_line: "(\<And>x. x \<in> set xs \<Longrightarrow> one_line (canonical_json x)) \<Longrightarrow> one_line (items_text xs)"
proof (induction xs)
  case Nil
  then show ?case by (simp add: items_text_def)
next
  case (Cons x xs)
  then show ?case by (auto simp: items_text_Cons)
qed

lemma canonical_line: "json_plain j \<Longrightarrow> one_line (canonical_json j)"
proof (induction j)
  case (JArr xs)
  then have "one_line (items_text xs)" by (intro items_line) (auto simp: list_all_iff)
  then show ?case unfolding canonical_arr by simp
next
  case (JObj d)
  have "one_line (members_text (sort_key fst d))"
  proof (rule members_line)
    fix k v assume "(k, v) \<in> set (sort_key fst d)"
    with JObj show "one_line (canonical_json v)" by (fastforce simp: list_all_iff)
  qed
  then show ?case unfolding canonical_obj by simp
qed (simp_all add: one_line_int json_quote_line)

section \<open>Reading back\<close>

lemma text_lines_one: "one_line s \<Longrightarrow>
  text_lines_from acc (s @ CHR 0x0A # r) = (rev acc @ s @ [CHR 0x0A]) # text_lines_from [] r"
  by (induction s arbitrary: acc) simp_all

lemma text_lines_jsonl:
  assumes "\<forall>d \<in> set ds. json_plain (JObj d)"
  shows "text_lines (jsonl_text ds @ r) = map (\<lambda>d. canonical_json (JObj d) @ [CHR 0x0A]) ds @ text_lines r"
  using assms
proof (induction ds)
  case Nil
  then show ?case by (simp add: jsonl_text_def)
next
  case (Cons d ds)
  have "one_line (canonical_json (JObj d))" using Cons.prems by (intro canonical_line) simp
  from text_lines_one [OF this, of "[]"] Cons show ?case
    by (simp add: jsonl_text_def text_lines_def)
qed

lemma jsonl_object_canonical:
  "json_plain (JObj d) \<Longrightarrow> jsonl_object (canonical_json (JObj d) @ [CHR 0x0A]) = Inr (sorted_obj d)"
  using json_loads_canonical(2) [of "JObj d"] by (simp add: jsonl_object_def sorted_obj_def)

lemma read_json_canonical: "json_plain (JObj d) \<Longrightarrow> read_json (canonical_json (JObj d)) = Inr (sorted_obj d)"
  using json_loads_canonical(1) [of "JObj d"] by (simp add: read_json_def sorted_obj_def)

text \<open>A loop that decodes each line and then works on the record.\<close>

lemma res_fold_jsonl_lines:
  assumes "\<And>s d. json_plain (JObj d) \<Longrightarrow> f s (canonical_json (JObj d) @ [CHR 0x0A]) = g s (sorted_obj d)"
    and "\<forall>d \<in> set ds. json_plain (JObj d)"
  shows "res_fold f s (text_lines (jsonl_text ds)) = res_fold g s (map sorted_obj ds)"
proof -
  have "res_fold f s (map (\<lambda>d. canonical_json (JObj d) @ [CHR 0x0A]) ds) = res_fold g s (map sorted_obj ds)" for s
    using assms(2) by (induction ds arbitrary: s) (simp_all add: assms(1) del: canonical_json.simps json_plain.simps)
  with text_lines_jsonl [OF assms(2), of "[]"] show ?thesis
    by (simp add: text_lines_def)
qed

lemma res_fold_jsonl:
  assumes "\<And>s l. f s l = rbind (jsonl_object l) (g s)" and "\<forall>d \<in> set ds. json_plain (JObj d)"
  shows "res_fold f s (text_lines (jsonl_text ds)) = res_fold g s (map sorted_obj ds)"
  by (rule res_fold_jsonl_lines [OF _ assms(2)]) (simp only: assms(1) jsonl_object_canonical rbind_simps)

end
