(* ===== verification/Features_V3.thy ===== *)
theory Features_V3
  imports Segment_Cursor Jsonl
begin

text \<open>
  \<open>materialize_features_v3\<close> (\<open>pmm_phase7.py\<close>): feature rows of several products from normalized
  records V2. One segment cursor per product; a row is written for every market event that changed
  its product's book. The input is the text of the four files of a V3 normalization; JSON Schema
  validation is the parameter \<open>valid\<close>, SHA-256 the parameter \<open>sha\<close>.
\<close>

record v3_input =
  vi_manifest :: string
  vi_records :: string
  vi_scopes :: string
  vi_product :: string

section \<open>Constant parts\<close>

definition feature_v3_definitions :: json where
  "feature_v3_definitions =
     JArr (map (\<lambda>(name, unit, formula, lookback).
        JObj [(''name'', JStr name), (''unit'', JStr unit), (''formula'', JStr formula), (''lookback'', JStr lookback),
              (''warmup'', JStr ''observed_snapshot_required''), (''nullable'', JBool True)])
       [(''best_yes_bid_dollars'', ''dollars'', ''maximum displayed YES bid'', ''current_projected_segment_state''),
        (''best_yes_ask_dollars'', ''dollars'', ''minimum displayed YES ask'', ''current_projected_segment_state''),
        (''best_bid_quantity_contracts'', ''contracts'', ''displayed quantity at best YES bid'', ''current_projected_segment_state''),
        (''best_ask_quantity_contracts'', ''contracts'', ''displayed quantity at best YES ask'', ''current_projected_segment_state''),
        (''midpoint_dollars'', ''dollars'', ''(best_yes_bid + best_yes_ask) / 2'', ''current_projected_segment_state''),
        (''spread_dollars'', ''dollars'', ''best_yes_ask - best_yes_bid'', ''current_projected_segment_state''),
        (''top_of_book_imbalance'', ''ratio'', ''(bid_quantity - ask_quantity) / (bid_quantity + ask_quantity)'', ''current_projected_segment_state''),
        (''last_trade_yes_price_dollars'', ''dollars'', ''last observed YES trade price in current segment'', ''last_observed_trade_in_current_segment'')])"

definition feature_v3_limitations :: "json \<Rightarrow> string list" where
  "feature_v3_limitations given =
     sorted_set ((case given of JArr xs \<Rightarrow> map py_str xs | _ \<Rightarrow> []) @
       [''Level-2 state does not identify queue position, individual orders, cancellations, or hidden liquidity.'',
        ''A segment is valid only from its observed snapshot; a later segment never recovers a missing interval.'',
        ''Feature rows contain one product only and make no cross-market causality claim.''])"

definition derived_truth :: "jobj \<Rightarrow> json" where
  "derived_truth normalized =
     JStr (if oget normalized ''truth_category'' = JStr ''Synthetic'' then ''Synthetic'' else ''Reconstructed'')"

section \<open>Reading the input\<close>

record v3_config =
  vc_normalized :: jobj
  vc_product_map :: jobj
  vc_products :: "(string \<times> jobj) list"
  vc_tickers :: "string list"
  vc_lineage :: "(string \<times> jobj) list"
  vc_conversion :: json
  vc_limitations :: json

definition lineage_consistent :: "(string \<times> jobj) list \<Rightarrow> json \<Rightarrow> string \<times> jobj \<Rightarrow> unit res" where
  "lineage_consistent products conversion item =
     require ''FeatureProductLineageMismatch''
       (case sget products (fst item) of
          None \<Rightarrow> False
        | Some entry \<Rightarrow> conversion \<noteq> JNull \<and>
            same_fields [''product_terms_sha256'', ''source_manifest_sha256'', ''review_sha256''] entry (snd item) \<and>
            py_eq (oget entry ''conversion_policy_sha256'') conversion)"

definition v3_prepare :: "(string \<Rightarrow> string) \<Rightarrow> validator \<Rightarrow> v3_input \<Rightarrow> v3_config res" where
  "v3_prepare sha valid inp =
     rbind (read_json (vi_manifest inp)) (\<lambda>normalized.
     rbind (require ''FeatureInputSchemaMismatch''
              (oget normalized ''schema'' = JStr ''pmm.historical.normalization_manifest.v3'')) (\<lambda>_.
     rbind (validate_historical_schema valid (JObj normalized) ''normalization-manifest-v3.schema.json''
              ''FeatureInputSchemaMismatch'') (\<lambda>_.
     rbind (require ''FeatureInputContinuityRequired''
              (oget normalized ''completeness'' = JStr ''complete_observed_interval'')) (\<lambda>_.
     rbind (require ''FeatureInputHashMismatch''
              (oget normalized ''output_records_sha256'' = JStr (sha (vi_records inp)) \<and>
               oget normalized ''output_source_scopes_sha256'' = JStr (sha (vi_scopes inp)) \<and>
               oget normalized ''output_product_sha256'' = JStr (sha (vi_product inp)))) (\<lambda>_.
     rbind (read_json (vi_scopes inp)) (\<lambda>scopes.
     rbind (read_json (vi_product inp)) (\<lambda>product_map.
     rbind (validate_historical_schema valid (JObj scopes) ''source-scope-map-v1.schema.json''
              ''FeatureInputSchemaMismatch'') (\<lambda>_.
     rbind (validate_historical_schema valid (JObj product_map) ''product-map-v3.schema.json''
              ''FeatureInputSchemaMismatch'') (\<lambda>_.
     rbind (of_option (HistoricalDataError ''FeatureProductIdentityMismatch'')
              (as_arr (oget product_map ''products''))) (\<lambda>items.
     let products = by_ticker items in
     rbind (require ''FeatureProductIdentityMismatch''
              (oget normalized ''market_tickers'' = JArr (map (\<lambda>(k, _). JStr k) products))) (\<lambda>_.
     rbind (iter_value (oget_default normalized ''product_lineage'' (JArr []))) (\<lambda>reviewed.
     let lineage = by_ticker reviewed; conversion = oget normalized ''conversion_policy_sha256'' in
     rbind (res_all (lineage_consistent products conversion) lineage) (\<lambda>_.
     Inr \<lparr>vc_normalized = normalized, vc_product_map = product_map, vc_products = products,
          vc_tickers = map fst products, vc_lineage = lineage, vc_conversion = conversion,
          vc_limitations = JArr (map JStr (feature_v3_limitations (oget normalized ''limitations'')))\<rparr>)))))))))))))"

section \<open>The loop over the records\<close>

type_synonym cursors = "(string \<times> segment_cursor) list"

record v3_state =
  vs_cursors :: cursors
  vs_rows :: "jobj list"
  vs_counts :: "(string \<times> int) list"
  vs_segments :: "(string \<times> string list) list"
  vs_first :: "(string \<times> json) list"
  vs_last :: "(string \<times> json) list"
  vs_normalization :: int
  vs_raw :: int

definition v3_init :: "v3_config \<Rightarrow> v3_state" where
  "v3_init cfg =
     \<lparr>vs_cursors = map (\<lambda>(t, p). (t, cursor_init t (py_str (oget p ''venue_market_id'')))) (vc_products cfg),
      vs_rows = [], vs_counts = [], vs_segments = map (\<lambda>t. (t, [])) (vc_tickers cfg), vs_first = [], vs_last = [],
      vs_normalization = 0, vs_raw = 0\<rparr>"

definition pending_cursors :: "cursors \<Rightarrow> segment_cursor list" where
  "pending_cursors cs = filter (\<lambda>c. sc_pending c \<noteq> None) (map snd cs)"

text \<open>A boundary must be followed at once by its snapshot.\<close>

definition check_pending :: "cursors \<Rightarrow> jobj \<Rightarrow> int \<Rightarrow> unit res" where
  "check_pending cs r raw =
     (case pending_cursors cs of
        [] \<Rightarrow> Inr ()
      | [c] \<Rightarrow>
          (case sc_pending c of
             None \<Rightarrow> Inr ()
           | Some boundary \<Rightarrow>
               require ''FeatureSegmentInvalid''
                 (oget r ''kind'' = JStr ''market_event'' \<and> oget r ''event_type'' = JStr ''book_snapshot'' \<and>
                  same_fields [''ticker'', ''book_segment_id'', ''source_scope_id''] r boundary \<and>
                  py_eq (JInt raw) (oget boundary ''raw_ingress_ordinal'')))
      | _ \<Rightarrow> Inl (HistoricalDataError ''FeatureSegmentInvalid''))"

fun known_tickers :: "cursors \<Rightarrow> json list \<Rightarrow> bool res" where
  "known_tickers cs [] = Inr True"
| "known_tickers cs (t # ts) =
     rbind (in_names t (map fst cs)) (\<lambda>known. if known then known_tickers cs ts else Inr False)"

definition cursor_at :: "cursors \<Rightarrow> string \<Rightarrow> segment_cursor res" where
  "cursor_at cs t = of_option (HistoricalDataError ''FeatureProductIdentityMismatch'') (sget cs t)"

text \<open>A discontinuity refuses the input, after the affected cursors have been invalidated.\<close>

definition refuse_discontinuity :: "cursors \<Rightarrow> jobj \<Rightarrow> exn" where
  "refuse_discontinuity cs r =
     (case rbind (if oget r ''control_type'' = JStr ''sequence_gap''
                  then jget (oget_default r ''details'' (JObj [])) ''affected_market_tickers''
                  else Inr (JArr [oget r ''ticker''])) (\<lambda>affected.
           rbind (of_option (HistoricalDataError ''FeatureDiscontinuityInvalid'') (as_arr affected)) (\<lambda>ts.
           rbind (known_tickers cs ts) (\<lambda>known.
           rbind (require ''FeatureDiscontinuityInvalid'' known) (\<lambda>_.
           res_fold (\<lambda>cs t. rbind (cursor_at cs (py_str t)) (\<lambda>c.
              rbind (invalidate c r) (\<lambda>c'. Inr (sset cs (py_str t) c')))) cs ts)))) of
        Inl e \<Rightarrow> e
      | Inr _ \<Rightarrow> HistoricalDataError ''FeatureInputContinuityRequired'')"

definition opt_str :: "string option \<Rightarrow> json" where
  "opt_str s = (case s of None \<Rightarrow> JNull | Some x \<Rightarrow> JStr x)"

definition opt_mark :: "causal_watermark option \<Rightarrow> json" where
  "opt_mark w = (case w of None \<Rightarrow> JNull | Some x \<Rightarrow> watermark_document x)"

definition row_lineage :: "(string \<Rightarrow> string) \<Rightarrow> v3_config \<Rightarrow> v3_input \<Rightarrow> string \<Rightarrow> string \<Rightarrow> jobj" where
  "row_lineage sha cfg inp entry_hash ticker =
     [(''input_normalization_manifest_sha256'', JStr (sha (vi_manifest inp))),
      (''input_records_sha256'', JStr (sha (vi_records inp))),
      (''input_source_scopes_sha256'', JStr (sha (vi_scopes inp))),
      (''input_product_map_sha256'', JStr (sha (vi_product inp))),
      (''input_product_entry_sha256'', JStr entry_hash)] @
     (case sget (vc_lineage cfg) ticker of
        None \<Rightarrow> []
      | Some reviewed \<Rightarrow>
          [(''product_terms_sha256'', oget reviewed ''product_terms_sha256''),
           (''source_manifest_sha256'', oget reviewed ''source_manifest_sha256''),
           (''review_sha256'', oget reviewed ''review_sha256''),
           (''conversion_policy_sha256'', vc_conversion cfg)])"

definition v3_row ::
  "(string \<Rightarrow> string) \<Rightarrow> v3_config \<Rightarrow> v3_input \<Rightarrow> segment_cursor \<Rightarrow> jobj \<Rightarrow> string \<Rightarrow> jobj \<Rightarrow> int \<Rightarrow> int \<Rightarrow> jobj res" where
  "v3_row sha cfg inp c entry ticker r raw nord =
     (let entry_hash = sha (canonical_json (JObj entry)) in
      rbind (int_value (oget r ''logical_time_utc_ns'')) (\<lambda>time.
      rbind (feature_values (sc_projection c)) (\<lambda>features.
      Inr [(''schema'', JStr ''pmm.historical.feature_row.v2''),
           (''feature_version'', JStr ''observed-l2-per-market-segment.v2''),
           (''product_identity'', JObj
              [(''venue'', oget (vc_product_map cfg) ''venue''),
               (''environment'', oget (vc_product_map cfg) ''environment''),
               (''ticker'', JStr ticker),
               (''venue_market_id'', oget entry ''venue_market_id''),
               (''venue_market_id_authority'', oget entry ''venue_market_id_authority''),
               (''input_product_entry_sha256'', JStr entry_hash)]),
           (''segment_identity'', JObj
              [(''book_segment_id'', opt_str (sc_segment c)),
               (''start_evidence'', opt_str (sc_evidence c)),
               (''continuity_claim'', JStr ''valid_from_observed_snapshot_only''),
               (''snapshot_seed_watermark'', opt_mark (sc_seed c)),
               (''valid_from_watermark'', opt_mark (sc_valid_from c))]),
           (''as_of'', JObj
              [(''logical_time_utc_ns'', JInt time),
               (''capture_raw_ingress_watermark'', JInt raw),
               (''normalization_watermark'', JInt nord),
               (''product_applied_watermark'', opt_mark (sc_applied c))]),
           (''trigger'', JObj [(''kind'', JStr ''market_event''), (''event_type'', oget r ''event_type'')]),
           (''truth'', JObj
              [(''truth_category'', derived_truth (vc_normalized cfg)),
               (''input_truth_category'', oget (vc_normalized cfg) ''truth_category''),
               (''source_fidelity'', JStr ''level_2''),
               (''derivation'', JStr ''deterministic_from_normalized_market_events'')]),
           (''completeness'', JObj
              [(''input'', JStr ''complete_observed_interval''),
               (''segment'', JStr ''valid_from_observed_snapshot_only'')]),
           (''limitations'', vc_limitations cfg),
           (''lineage'', JObj (row_lineage sha cfg inp entry_hash ticker)),
           (''values'', JObj features)])))"

text \<open>Writing the row of an event that changed the book.\<close>

definition v3_emit ::
  "(string \<Rightarrow> string) \<Rightarrow> validator \<Rightarrow> v3_config \<Rightarrow> v3_input \<Rightarrow> v3_state \<Rightarrow> segment_cursor \<Rightarrow> string \<Rightarrow> jobj \<Rightarrow> int \<Rightarrow> int
    \<Rightarrow> v3_state res" where
  "v3_emit sha valid cfg inp st c ticker r raw nord =
     rbind (ensure (sc_segment c \<noteq> None \<and> sc_applied c \<noteq> None \<and> sc_seed c \<noteq> None \<and> sc_valid_from c \<noteq> None)
              AssertionError) (\<lambda>_.
     rbind (of_option KeyError (sget (vc_products cfg) ticker)) (\<lambda>entry.
     let segment = (case sc_segment c of None \<Rightarrow> [] | Some s \<Rightarrow> s);
         known = (case sget (vs_segments st) ticker of None \<Rightarrow> [] | Some ss \<Rightarrow> ss) in
     rbind (v3_row sha cfg inp c entry ticker r raw nord) (\<lambda>row.
     rbind (validate_historical_schema valid (JObj row) ''feature-row-v2.schema.json'' ''FeatureRowSchemaMismatch'') (\<lambda>_.
     Inr (st\<lparr>vs_segments := (if segment \<in> set known then vs_segments st
                             else sset (vs_segments st) ticker (known @ [segment])),
            vs_rows := vs_rows st @ [row],
            vs_counts := counter_add (vs_counts st) ticker 1,
            vs_first := (case sget (vs_first st) ticker of
                           None \<Rightarrow> sset (vs_first st) ticker (opt_mark (sc_applied c)) | Some _ \<Rightarrow> vs_first st),
            vs_last := sset (vs_last st) ticker (opt_mark (sc_applied c))\<rparr>)))))"

definition v3_dispatch ::
  "(string \<Rightarrow> string) \<Rightarrow> validator \<Rightarrow> v3_config \<Rightarrow> v3_input \<Rightarrow> v3_state \<Rightarrow> jobj \<Rightarrow> int \<Rightarrow> int \<Rightarrow> v3_state res" where
  "v3_dispatch sha valid cfg inp st r raw nord =
     (let cs = vs_cursors st; ticker = py_str (oget r ''ticker'') in
      if oget r ''kind'' = JStr ''segment_boundary'' then
        rbind (cursor_at cs ticker) (\<lambda>c.
        rbind (start_segment c r) (\<lambda>c'.
        Inr (st\<lparr>vs_cursors := sset cs ticker c'\<rparr>)))
      else if oget r ''kind'' = JStr ''discontinuity'' then Inl (refuse_discontinuity cs r)
      else
        rbind (cursor_at cs ticker) (\<lambda>c.
        rbind (apply_market_event c r) (\<lambda>(c', changed).
        let st' = st\<lparr>vs_cursors := sset cs ticker c'\<rparr> in
        if changed then v3_emit sha valid cfg inp st' c' ticker r raw nord else Inr st')))"

definition v3_record ::
  "(string \<Rightarrow> string) \<Rightarrow> validator \<Rightarrow> v3_config \<Rightarrow> v3_input \<Rightarrow> v3_state \<Rightarrow> jobj \<Rightarrow> v3_state res" where
  "v3_record sha valid cfg inp st r =
     rbind (require ''FeatureRecordSchemaMismatch'' (oget r ''schema'' = JStr ''pmm.historical.normalized_record.v2'')) (\<lambda>_.
     rbind (validate_historical_schema valid (JObj r) ''normalized-record-v2.schema.json'' ''FeatureRecordSchemaMismatch'') (\<lambda>_.
     rbind (int_value (oget r ''normalization_ordinal'')) (\<lambda>nord.
     rbind (int_value (oget r ''raw_ingress_ordinal'')) (\<lambda>raw.
     rbind (require ''FeatureOrderingInvalid'' (nord = vs_normalization st + 1 \<and> vs_raw st \<le> raw)) (\<lambda>_.
     rbind (check_pending (vs_cursors st) r raw) (\<lambda>_.
     v3_dispatch sha valid cfg inp (st\<lparr>vs_normalization := nord, vs_raw := raw\<rparr>) r raw nord))))))"

definition v3_line ::
  "(string \<Rightarrow> string) \<Rightarrow> validator \<Rightarrow> v3_config \<Rightarrow> v3_input \<Rightarrow> v3_state \<Rightarrow> string \<Rightarrow> v3_state res" where
  "v3_line sha valid cfg inp st line = rbind (jsonl_object line) (v3_record sha valid cfg inp st)"

section \<open>The result\<close>

definition v3_product_item :: "(string \<Rightarrow> string) \<Rightarrow> v3_config \<Rightarrow> v3_state \<Rightarrow> string \<times> jobj \<Rightarrow> json" where
  "v3_product_item sha cfg st p =
     (case p of (ticker, entry) \<Rightarrow>
        JObj ([(''product_identity'', JObj entry),
          (''input_product_entry_sha256'', JStr (sha (canonical_json (JObj entry)))),
          (''segments'', JArr (map JStr (case sget (vs_segments st) ticker of None \<Rightarrow> [] | Some ss \<Rightarrow> ss))),
          (''row_count'', JInt (counter_get (vs_counts st) ticker)),
          (''first_product_applied_watermark'', oget (vs_first st) ticker),
          (''last_product_applied_watermark'', oget (vs_last st) ticker)] @
         (case sget (vc_lineage cfg) ticker of
            None \<Rightarrow> []
          | Some reviewed \<Rightarrow>
              [(''reviewed_lineage'', JObj (sset reviewed ''conversion_policy_sha256'' (vc_conversion cfg)))])))"

definition v3_rows_text :: "jobj list \<Rightarrow> string" where
  "v3_rows_text rows = concat (map (\<lambda>r. canonical_json (JObj r) @ [CHR 0x0A]) rows)"

definition v3_manifest :: "(string \<Rightarrow> string) \<Rightarrow> v3_config \<Rightarrow> v3_input \<Rightarrow> v3_state \<Rightarrow> jobj" where
  "v3_manifest sha cfg inp st =
     (let normalized = vc_normalized cfg in
      [(''schema'', JStr ''pmm.historical.feature_manifest.v3''),
       (''feature_version'', JStr ''observed-l2-per-market-segment.v2''),
       (''input'', JObj
          ([(''normalization_schema'', JStr ''pmm.historical.normalization_manifest.v3''),
            (''normalization_manifest_sha256'', JStr (sha (vi_manifest inp))),
            (''records_sha256'', JStr (sha (vi_records inp))),
            (''source_scopes_sha256'', JStr (sha (vi_scopes inp))),
            (''product_map_sha256'', JStr (sha (vi_product inp))),
            (''capture_identity'', JObj
               [(''frames_sha256'', oget normalized ''input_frames_sha256''),
                (''metadata_sha256'', oget normalized ''input_capture_metadata_sha256'')]),
            (''completeness'', JStr ''complete_observed_interval''),
            (''market_tickers'', JArr (map JStr (vc_tickers cfg)))] @
           (if oget normalized ''product_catalog_sha256'' \<noteq> JNull then
              [(''product_catalog_sha256'', oget normalized ''product_catalog_sha256''),
               (''conversion_policy_sha256'', vc_conversion cfg)] else []))),
       (''ordering'', JObj [(''input'', JStr ''normalization_ordinal_ascending''),
          (''output'', JArr [JStr ''normalization_ordinal'', JStr ''ticker''])]),
       (''truth'', JObj [(''truth_category'', derived_truth normalized),
          (''input_truth_category'', oget normalized ''truth_category''),
          (''source_fidelity'', JStr ''level_2'')]),
       (''completeness'', JStr ''complete_observed_interval''),
       (''limitations'', vc_limitations cfg),
       (''feature_definitions'', feature_v3_definitions),
       (''products'', JArr (map (v3_product_item sha cfg st) (vc_products cfg))),
       (''output'', JObj
          [(''feature_rows_sha256'', JStr (sha (v3_rows_text (vs_rows st)))),
           (''feature_row_count'', JInt (int (length (vs_rows st))))])])"

definition materialize_features_v3 ::
  "(string \<Rightarrow> string) \<Rightarrow> validator \<Rightarrow> v3_input \<Rightarrow> (jobj list \<times> jobj) res" where
  "materialize_features_v3 sha valid inp =
     rbind (v3_prepare sha valid inp) (\<lambda>cfg.
     rbind (res_fold (v3_line sha valid cfg inp) (v3_init cfg) (text_lines (vi_records inp))) (\<lambda>st.
     rbind (require ''FeatureSegmentInvalid'' (pending_cursors (vs_cursors st) = [])) (\<lambda>_.
     let manifest = v3_manifest sha cfg inp st in
     rbind (validate_historical_schema valid (JObj manifest) ''feature-manifest-v3.schema.json''
              ''FeatureManifestSchemaMismatch'') (\<lambda>_.
     Inr (vs_rows st, manifest)))))"

section \<open>The rows and the history they come from\<close>

definition record_op :: "jobj \<Rightarrow> cursor_op" where
  "record_op r = (if oget r ''kind'' = JStr ''segment_boundary'' then Start_Segment r else Market_Event r)"

text \<open>What a product's cursor sees of the records.\<close>

definition product_ops :: "string \<Rightarrow> jobj list \<Rightarrow> cursor_op list" where
  "product_ops t rs = map record_op (filter (\<lambda>r. py_str (oget r ''ticker'') = t) rs)"

lemma product_ops_snoc:
  "product_ops t (rs @ [r]) = product_ops t rs @ (if py_str (oget r ''ticker'') = t then [record_op r] else [])"
  by (simp add: product_ops_def)

definition ev_mark :: "jobj \<Rightarrow> int" where
  "ev_mark d = (case oget d ''normalization_watermark'' of JInt n \<Rightarrow> n | _ \<Rightarrow> 0)"

definition row_mark :: "jobj \<Rightarrow> int" where
  "row_mark row = (case oget row ''as_of'' of JObj d \<Rightarrow> ev_mark d | _ \<Rightarrow> 0)"

definition row_ticker :: "jobj \<Rightarrow> string" where
  "row_ticker row = (case oget row ''product_identity'' of JObj d \<Rightarrow> py_str (oget d ''ticker'') | _ \<Rightarrow> [])"

text \<open>A row shows the book that the product's segment had after the first \<open>k\<close> records.\<close>

definition row_of :: "jobj list \<Rightarrow> nat \<Rightarrow> jobj \<Rightarrow> bool" where
  "row_of rs k row \<longleftrightarrow> row_mark row = int k \<and>
     (\<exists>p vs. res_fold proj_apply proj_init (renumbered (segment_events (product_ops (row_ticker row) (take k rs)))) = Inr p \<and>
        feature_values p = Inr vs \<and> oget row ''values'' = JObj vs)"

definition cursors_follow :: "jobj list \<Rightarrow> cursors \<Rightarrow> bool" where
  "cursors_follow rs cs \<longleftrightarrow>
     (\<forall>t c. sget cs t = Some c \<longrightarrow> (\<exists>m. res_fold cursor_step (cursor_init t m) (product_ops t rs) = Inr c))"

definition v3_inv :: "jobj list \<Rightarrow> v3_state \<Rightarrow> bool" where
  "v3_inv rs st \<longleftrightarrow> cursors_follow rs (vs_cursors st) \<and> vs_normalization st = int (length rs) \<and>
     (\<forall>row \<in> set (vs_rows st). \<exists>k \<le> length rs. row_of rs k row) \<and>
     sorted_wrt (<) (map row_mark (vs_rows st)) \<and>
     (\<forall>t. counter_get (vs_counts st) t = int (length (filter (\<lambda>row. row_ticker row = t) (vs_rows st))))"

lemma sget_init: "sget (map (\<lambda>(t, p). (t, cursor_init t (f p))) ps) t = Some c \<Longrightarrow> \<exists>m. c = cursor_init t m"
  by (induction ps) (auto split: if_splits)

lemma v3_init_inv: "v3_inv [] (v3_init cfg)"
  by (auto simp: v3_inv_def v3_init_def cursors_follow_def product_ops_def dest!: sget_init)

lemma cursors_follow_step:
  assumes "cursors_follow rs cs" and "sget cs t = Some c" and "t = py_str (oget r ''ticker'')"
    and step: "cursor_step c (record_op r) = Inr c'"
  shows "cursors_follow (rs @ [r]) (sset cs t c')"
  unfolding cursors_follow_def
proof (intro allI impI)
  fix u d assume u: "sget (sset cs t c') u = Some d"
  show "\<exists>m. res_fold cursor_step (cursor_init u m) (product_ops u (rs @ [r])) = Inr d"
  proof (cases "t = u")
    case True
    from assms(1,2) obtain m where "res_fold cursor_step (cursor_init t m) (product_ops t rs) = Inr c"
      by (auto simp: cursors_follow_def)
    with True u assms(3) step show ?thesis
      by (intro exI [of _ m]) (simp add: product_ops_snoc res_fold_append)
  next
    case False
    with u assms(1,3) show ?thesis by (auto simp: cursors_follow_def product_ops_snoc)
  qed
qed

lemma cursors_follow_replay:
  assumes "cursors_follow rs cs" and "sget cs t = Some c"
  shows "res_fold proj_apply proj_init (renumbered (segment_events (product_ops t rs))) = Inr (sc_projection c)"
proof -
  from assms obtain m where "res_fold cursor_step (cursor_init t m) (product_ops t rs) = Inr c"
    by (auto simp: cursors_follow_def)
  from replays_run [OF replays_init this] show ?thesis by (simp add: replays_def segment_events_def)
qed

lemma row_of_more: "k \<le> length rs \<Longrightarrow> row_of rs k row \<Longrightarrow> row_of (rs @ [r]) k row"
  by (simp add: row_of_def)

lemma v3_emit_row:
  assumes "v3_emit sha valid cfg inp st c ticker r raw nord = Inr st'"
  shows "vs_cursors st' = vs_cursors st \<and> vs_normalization st' = vs_normalization st \<and>
    vs_counts st' = counter_add (vs_counts st) ticker 1 \<and>
    (\<exists>row vs. vs_rows st' = vs_rows st @ [row] \<and> row_mark row = nord \<and> row_ticker row = ticker \<and>
       feature_values (sc_projection c) = Inr vs \<and> oget row ''values'' = JObj vs)"
  using assms
  by (auto simp: v3_emit_def v3_row_def rbind_eq_Inr Let_def row_mark_def row_ticker_def oget_def ev_mark_def)

lemma v3_inv_quiet:
  assumes "v3_inv rs st" and "cursors_follow (rs @ [r]) (vs_cursors st')" and "vs_normalization st' = int (length rs) + 1"
    and "vs_rows st' = vs_rows st" and "vs_counts st' = vs_counts st"
  shows "v3_inv (rs @ [r]) st'"
proof -
  have "\<exists>k \<le> length (rs @ [r]). row_of (rs @ [r]) k x" if "x \<in> set (vs_rows st)" for x
  proof -
    from assms(1) that obtain k where "k \<le> length rs" "row_of rs k x" by (auto simp: v3_inv_def)
    then show ?thesis by (intro exI [of _ k]) (simp add: row_of_more)
  qed
  with assms show ?thesis by (simp add: v3_inv_def)
qed

lemma v3_inv_emit:
  assumes inv: "v3_inv rs st" and follow: "cursors_follow (rs @ [r]) (vs_cursors st')"
    and nord: "vs_normalization st' = int (length rs) + 1" and "sget (vs_cursors st') t = Some c"
    and rows: "vs_rows st' = vs_rows st @ [row]" and counts: "vs_counts st' = counter_add (vs_counts st) t 1"
    and row: "row_mark row = int (length rs) + 1" "row_ticker row = t" "feature_values (sc_projection c) = Inr vs"
      "oget row ''values'' = JObj vs"
  shows "v3_inv (rs @ [r]) st'"
proof -
  have new: "row_of (rs @ [r]) (length (rs @ [r])) row"
    using cursors_follow_replay [OF follow assms(4)] row by (simp add: row_of_def)
  have old: "\<exists>k \<le> length (rs @ [r]). row_of (rs @ [r]) k x" if "x \<in> set (vs_rows st)" for x
  proof -
    from inv that obtain k where "k \<le> length rs" "row_of rs k x" by (auto simp: v3_inv_def)
    then show ?thesis by (intro exI [of _ k]) (simp add: row_of_more)
  qed
  have less: "row_mark x < row_mark row" if "x \<in> set (vs_rows st)" for x
  proof -
    from inv that obtain k where "k \<le> length rs" "row_of rs k x" by (auto simp: v3_inv_def)
    with row(1) show ?thesis by (simp add: row_of_def)
  qed
  show ?thesis
    unfolding v3_inv_def
  proof (intro conjI ballI)
    show "cursors_follow (rs @ [r]) (vs_cursors st')" by (rule follow)
    show "vs_normalization st' = int (length (rs @ [r]))" using nord by simp
    show "\<exists>k \<le> length (rs @ [r]). row_of (rs @ [r]) k x" if "x \<in> set (vs_rows st')" for x
      using that old [of x] new unfolding rows by auto
    show "sorted_wrt (<) (map row_mark (vs_rows st'))"
      using inv less by (auto simp: rows v3_inv_def sorted_wrt_append)
    show "\<forall>u. counter_get (vs_counts st') u = int (length (filter (\<lambda>row. row_ticker row = u) (vs_rows st')))"
      using inv row(2) by (simp add: rows counts v3_inv_def)
  qed
qed

lemma v3_dispatch_Inr:
  assumes "v3_dispatch sha valid cfg inp st r raw nord = Inr st'"
  shows "(\<exists>c c'. oget r ''kind'' = JStr ''segment_boundary'' \<and> sget (vs_cursors st) (py_str (oget r ''ticker'')) = Some c \<and>
      start_segment c r = Inr c' \<and> st' = st\<lparr>vs_cursors := sset (vs_cursors st) (py_str (oget r ''ticker'')) c'\<rparr>) \<or>
    (\<exists>c c' changed. oget r ''kind'' \<noteq> JStr ''segment_boundary'' \<and>
      sget (vs_cursors st) (py_str (oget r ''ticker'')) = Some c \<and> apply_market_event c r = Inr (c', changed) \<and>
      (if changed
       then v3_emit sha valid cfg inp (st\<lparr>vs_cursors := sset (vs_cursors st) (py_str (oget r ''ticker'')) c'\<rparr>) c'
              (py_str (oget r ''ticker'')) r raw nord
       else Inr (st\<lparr>vs_cursors := sset (vs_cursors st) (py_str (oget r ''ticker'')) c'\<rparr>)) = Inr st')"
proof (cases "oget r ''kind'' = JStr ''segment_boundary''")
  case True
  with assms show ?thesis
    by (auto simp: v3_dispatch_def cursor_at_def rbind_eq_Inr Let_def)
next
  case False
  moreover have "oget r ''kind'' \<noteq> JStr ''discontinuity''"
    using assms by (auto simp: v3_dispatch_def)
  ultimately have "rbind (cursor_at (vs_cursors st) (py_str (oget r ''ticker''))) (\<lambda>c.
      rbind (apply_market_event c r) (\<lambda>(c', changed).
        if changed
        then v3_emit sha valid cfg inp (st\<lparr>vs_cursors := sset (vs_cursors st) (py_str (oget r ''ticker'')) c'\<rparr>) c'
               (py_str (oget r ''ticker'')) r raw nord
        else Inr (st\<lparr>vs_cursors := sset (vs_cursors st) (py_str (oget r ''ticker'')) c'\<rparr>))) = Inr st'"
    using assms by (simp add: v3_dispatch_def Let_def)
  then obtain c c' changed where "cursor_at (vs_cursors st) (py_str (oget r ''ticker'')) = Inr c"
      "apply_market_event c r = Inr (c', changed)"
      "(if changed
        then v3_emit sha valid cfg inp (st\<lparr>vs_cursors := sset (vs_cursors st) (py_str (oget r ''ticker'')) c'\<rparr>) c'
               (py_str (oget r ''ticker'')) r raw nord
        else Inr (st\<lparr>vs_cursors := sset (vs_cursors st) (py_str (oget r ''ticker'')) c'\<rparr>)) = Inr st'"
    unfolding rbind_eq_Inr by force
  with False show ?thesis by (auto simp: cursor_at_def)
qed

lemma v3_line_inv:
  assumes inv: "v3_inv rs st" and step: "v3_line sha valid cfg inp st l = Inr st'"
  shows "\<exists>r. jsonl_object l = Inr r \<and> v3_inv (rs @ [r]) st'"
proof -
  from step obtain r nord raw where r: "jsonl_object l = Inr r" and nord: "nord = vs_normalization st + 1"
    and run: "v3_dispatch sha valid cfg inp (st\<lparr>vs_normalization := nord, vs_raw := raw\<rparr>) r raw nord = Inr st'"
    by (auto simp: v3_line_def v3_record_def rbind_eq_Inr)
  let ?t = "py_str (oget r ''ticker'')" and ?st = "st\<lparr>vs_normalization := nord, vs_raw := raw\<rparr>"
  have follow: "cursors_follow rs (vs_cursors st)" and n: "nord = int (length rs) + 1"
    using inv nord by (auto simp: v3_inv_def)
  note run = v3_dispatch_Inr [OF run]
  from run have "v3_inv (rs @ [r]) st'"
  proof (elim disjE exE conjE)
    fix c c' assume boundary: "oget r ''kind'' = JStr ''segment_boundary''" "sget (vs_cursors ?st) ?t = Some c"
      "start_segment c r = Inr c'" "st' = ?st\<lparr>vs_cursors := sset (vs_cursors ?st) ?t c'\<rparr>"
    have get: "sget (vs_cursors st) ?t = Some c" using boundary(2) by simp
    have "cursors_follow (rs @ [r]) (sset (vs_cursors st) ?t c')"
      by (rule cursors_follow_step [OF follow get]) (simp_all add: record_op_def boundary(1,3))
    with boundary(4) n show ?thesis by (intro v3_inv_quiet [OF inv]) simp_all
  next
    fix c c' changed assume event: "oget r ''kind'' \<noteq> JStr ''segment_boundary''" "sget (vs_cursors ?st) ?t = Some c"
      "apply_market_event c r = Inr (c', changed)"
      "(if changed then v3_emit sha valid cfg inp (?st\<lparr>vs_cursors := sset (vs_cursors ?st) ?t c'\<rparr>) c' ?t r raw nord
        else Inr (?st\<lparr>vs_cursors := sset (vs_cursors ?st) ?t c'\<rparr>)) = Inr st'"
    have get: "sget (vs_cursors st) ?t = Some c" using event(2) by simp
    have f: "cursors_follow (rs @ [r]) (sset (vs_cursors st) ?t c')"
      by (rule cursors_follow_step [OF follow get]) (simp_all add: record_op_def event(1,3))
    show ?thesis
    proof (cases changed)
      case False
      with event(4) f n show ?thesis by (intro v3_inv_quiet [OF inv]) auto
    next
      case True
      with event(4) have emit: "v3_emit sha valid cfg inp (?st\<lparr>vs_cursors := sset (vs_cursors st) ?t c'\<rparr>) c' ?t r raw nord
        = Inr st'" by simp
      from v3_emit_row [OF this] obtain row vs where
        e: "vs_cursors st' = sset (vs_cursors st) ?t c'" "vs_normalization st' = nord"
           "vs_counts st' = counter_add (vs_counts st) ?t 1" "vs_rows st' = vs_rows st @ [row]"
           "row_mark row = nord" "row_ticker row = ?t" "feature_values (sc_projection c') = Inr vs"
           "oget row ''values'' = JObj vs"
        by auto
      show ?thesis
        by (rule v3_inv_emit [OF inv _ _ _ e(4,3) _ e(6,7,8)]) (simp_all add: e(1,2,5) f n)
    qed
  qed
  with r show ?thesis by blast
qed

lemma v3_run_inv:
  "v3_inv rs st \<Longrightarrow> res_fold (v3_line sha valid cfg inp) st ls = Inr st' \<Longrightarrow>
   \<exists>more. res_map jsonl_object ls = Inr more \<and> v3_inv (rs @ more) st'"
proof (induction ls arbitrary: rs st)
  case Nil
  then show ?case by simp
next
  case (Cons l ls)
  from Cons.prems(2) obtain t where t: "v3_line sha valid cfg inp st l = Inr t"
    and run: "res_fold (v3_line sha valid cfg inp) t ls = Inr st'"
    by (auto simp: rbind_eq_Inr)
  from v3_line_inv [OF Cons.prems(1) t] obtain r where r: "jsonl_object l = Inr r" "v3_inv (rs @ [r]) t" by blast
  from Cons.IH [OF r(2) run] r(1) show ?case by auto
qed

section \<open>Properties\<close>

text \<open>C7: A V3 feature row shows one segment of one product and nothing later. Each row written is the
  feature values of the book that replaying the product's current segment up to the row's own
  normalization watermark gives, in whatever way the products' records are interleaved; and the
  watermarks of the rows strictly increase.\<close>

theorem features_v3_causal:
  assumes "materialize_features_v3 sha valid inp = Inr (rows, manifest)"
  shows "\<exists>rs. res_map jsonl_object (text_lines (vi_records inp)) = Inr rs \<and>
    (\<forall>row \<in> set rows. \<exists>k \<le> length rs. row_of rs k row) \<and> sorted_wrt (<) (map row_mark rows)"
proof -
  from assms obtain cfg st where
    run: "res_fold (v3_line sha valid cfg inp) (v3_init cfg) (text_lines (vi_records inp)) = Inr st"
    and rows: "rows = vs_rows st"
    by (auto simp: materialize_features_v3_def rbind_eq_Inr Let_def)
  from v3_run_inv [OF v3_init_inv run] obtain rs where
    "res_map jsonl_object (text_lines (vi_records inp)) = Inr rs" "v3_inv rs st" by auto
  then show ?thesis unfolding rows v3_inv_def by blast
qed

definition sample_v3_manifest :: jobj where
  "sample_v3_manifest =
     [(''completeness'', JStr ''complete_observed_interval''), (''market_tickers'', JArr [JStr ''T'']),
      (''output_product_sha256'', JStr []), (''output_records_sha256'', JStr []),
      (''output_source_scopes_sha256'', JStr []), (''schema'', JStr ''pmm.historical.normalization_manifest.v3'')]"

definition sample_v3_product :: jobj where
  "sample_v3_product = [(''products'', JArr [JObj [(''ticker'', JStr ''T''), (''venue_market_id'', JStr ''m'')]])]"

definition sample_v3_records :: "jobj list" where
  "sample_v3_records =
     [[(''book_segment_id'', JStr ''s''), (''continuity_claim'', JStr ''valid_from_observed_snapshot_only''),
       (''kind'', JStr ''segment_boundary''), (''normalization_ordinal'', JInt 1), (''raw_ingress_ordinal'', JInt 1),
       (''schema'', JStr ''pmm.historical.normalized_record.v2''), (''start_evidence'', JStr ''initial_snapshot''),
       (''ticker'', JStr ''T'')],
      [(''book_segment_id'', JStr ''s''), (''book_state_valid'', JBool True), (''event_type'', JStr ''book_snapshot''),
       (''kind'', JStr ''market_event''), (''logical_time_utc_ns'', JInt 7), (''normalization_ordinal'', JInt 2),
       (''payload'', JObj [(''yes_asks'', JArr []), (''yes_bids'', JArr [])]), (''raw_ingress_ordinal'', JInt 1),
       (''schema'', JStr ''pmm.historical.normalized_record.v2''), (''ticker'', JStr ''T''), (''venue_market_id'', JStr ''m'')]]"

definition sample_v3_input :: v3_input where
  "sample_v3_input =
     \<lparr>vi_manifest = canonical_json (JObj sample_v3_manifest), vi_records = jsonl_text sample_v3_records,
      vi_scopes = canonical_json (JObj []), vi_product = canonical_json (JObj sample_v3_product)\<rparr>"

definition sample_v3_config :: v3_config where
  "sample_v3_config =
     \<lparr>vc_normalized = sample_v3_manifest, vc_product_map = sample_v3_product,
      vc_products = [(''T'', [(''ticker'', JStr ''T''), (''venue_market_id'', JStr ''m'')])], vc_tickers = [''T''],
      vc_lineage = [], vc_conversion = JNull, vc_limitations = JArr (map JStr (feature_v3_limitations JNull))\<rparr>"

lemma sample_v3_prepares: "v3_prepare (\<lambda>_. []) (\<lambda>_ _. True) sample_v3_input = Inr sample_v3_config"
proof -
  have "json_plain (JObj sample_v3_manifest)" "sorted_obj sample_v3_manifest = sample_v3_manifest"
    "json_plain (JObj [])" "sorted_obj [] = []"
    "json_plain (JObj sample_v3_product)" "sorted_obj sample_v3_product = sample_v3_product"
    by code_simp+
  note reads = read_json_canonical [OF this(1)] read_json_canonical [OF this(3)] read_json_canonical [OF this(5)]
    this(2,4,6)
  have items: "by_ticker [JObj [(''ticker'', JStr ''T''), (''venue_market_id'', JStr ''m'')]] =
      [(''T'', [(''ticker'', JStr ''T''), (''venue_market_id'', JStr ''m'')])]" "by_ticker [] = []"
    by code_simp+
  show ?thesis
    by (simp add: v3_prepare_def sample_v3_input_def reads validate_historical_schema_def del: canonical_json.simps)
      (simp add: sample_v3_manifest_def sample_v3_product_def sample_v3_config_def items iter_value_def)
qed

lemma sample_v3_run:
  "\<exists>st. res_fold (v3_line (\<lambda>_. []) (\<lambda>_ _. True) sample_v3_config sample_v3_input) (v3_init sample_v3_config)
      (text_lines (vi_records sample_v3_input)) = Inr st \<and> pending_cursors (vs_cursors st) = []"
proof -
  have plain: "\<forall>d \<in> set sample_v3_records. json_plain (JObj d)" "map sorted_obj sample_v3_records = sample_v3_records"
    by code_simp+
  have "case res_fold (v3_record (\<lambda>_. []) (\<lambda>_ _. True) sample_v3_config sample_v3_input) (v3_init sample_v3_config)
      sample_v3_records of Inl _ \<Rightarrow> False | Inr st \<Rightarrow> pending_cursors (vs_cursors st) = []"
    by code_simp
  moreover have "res_fold (v3_line (\<lambda>_. []) (\<lambda>_ _. True) sample_v3_config sample_v3_input) (v3_init sample_v3_config)
      (text_lines (vi_records sample_v3_input)) =
    res_fold (v3_record (\<lambda>_. []) (\<lambda>_ _. True) sample_v3_config sample_v3_input) (v3_init sample_v3_config) sample_v3_records"
    using res_fold_jsonl [OF v3_line_def plain(1)] plain(2) by (simp add: sample_v3_input_def)
  ultimately show ?thesis by (auto split: sum.splits)
qed

theorem features_v3_causal_witness:
  "\<exists>rows manifest. materialize_features_v3 (\<lambda>_. []) (\<lambda>_ _. True) sample_v3_input = Inr (rows, manifest) \<and>
     sorted_wrt (<) (map row_mark rows)"
proof -
  from sample_v3_run obtain st where
    "materialize_features_v3 (\<lambda>_. []) (\<lambda>_ _. True) sample_v3_input =
       Inr (vs_rows st, v3_manifest (\<lambda>_. []) sample_v3_config sample_v3_input st)"
    by (auto simp: materialize_features_v3_def sample_v3_prepares validate_historical_schema_def Let_def)
  with features_v3_causal [OF this] show ?thesis by blast
qed

end
