(* ===== verification/Normalize_V3.thy ===== *)
theory Normalize_V3
  imports Normalize_V1 Documents
begin

text \<open>
  \<open>normalize_capture_v3\<close> (\<open>pmm_phase7.py\<close>): the multi-market normalizer over captures V2. Every raw
  record is handled by \<open>nv_record\<close>: subscription requests and acknowledgements bind source scopes,
  connection and sequence gaps invalidate books, a snapshot opens a segment, and every market frame
  becomes a record of \<open>records.jsonl\<close>. \<open>nv_finish\<close> judges the completeness of the capture.

  Every raise of the code is an \<open>Inl\<close>; \<open>market_state\<close> is the dictionary the code keeps per ticker.
  JSON Schema (\<open>nv_valid\<close>) and SHA-256 (\<open>nv_sha\<close>) are parameters; the files are their texts. Left
  out: output directories and their renaming, the copies of package files.
\<close>

section \<open>State\<close>

record market_state =
  ms_segment :: nat
  ms_valid :: bool
  ms_awaiting :: "string option"
  ms_ever_valid :: bool

definition market_start :: market_state where
  "market_start = \<lparr>ms_segment = 0, ms_valid = False, ms_awaiting = Some ''initial_snapshot'', ms_ever_valid = False\<rparr>"

record nv_request =
  rq_logical_id :: string
  rq_wire_id :: int

record source_scope =
  so_id :: string
  so_connection :: int
  so_request :: string
  so_wire_id :: int
  so_channel :: string
  so_sid :: string

record nv_state =
  nv_ordinal :: int
  nv_raw :: int
  nv_time :: int
  nv_scope_time :: "(string \<times> int) list"
  nv_requests :: "(int \<times> nv_request) list"
  nv_scopes :: "((int \<times> string) \<times> source_scope) list"
  nv_acks :: "((int \<times> string) \<times> string) list"
  nv_logical_ids :: "string list"
  nv_previous :: "(string \<times> int) list"
  nv_payloads :: "((string \<times> int) \<times> string) list"
  nv_market_ids :: "(string \<times> string) list"
  nv_markets :: "(string \<times> market_state) list"
  nv_snapshots :: "((int \<times> string) \<times> int) list"
  nv_event_counts :: "(string \<times> int) list"
  nv_gap_counts :: "(string \<times> int) list"
  nv_duplicates :: int
  nv_late :: int
  nv_discontinuous :: bool
  nv_reasons :: "jobj list"
  nv_records :: "jobj list"
  nv_processed :: int
  nv_peak :: int
  nv_samples :: "jobj list"

record nv_config =
  nv_tickers :: "string list"
  nv_domain :: jobj
  nv_topology :: string
  nv_truth :: string
  nv_refuse :: bool
  nv_packages :: "(string \<times> product_package) list"
  nv_sha :: "string \<Rightarrow> string"
  nv_valid :: validator

definition nv_init :: "nv_config \<Rightarrow> nv_state" where
  "nv_init cfg =
     \<lparr>nv_ordinal = 1, nv_raw = 0, nv_time = -1, nv_scope_time = [], nv_requests = [], nv_scopes = [], nv_acks = [],
      nv_logical_ids = [], nv_previous = [], nv_payloads = [], nv_market_ids = [],
      nv_markets = map (\<lambda>t. (t, market_start)) (nv_tickers cfg), nv_snapshots = [], nv_event_counts = [],
      nv_gap_counts = [], nv_duplicates = 0, nv_late = 0, nv_discontinuous = False, nv_reasons = [], nv_records = [],
      nv_processed = 0, nv_peak = 0, nv_samples = []\<rparr>"

definition market_at :: "nv_state \<Rightarrow> string \<Rightarrow> market_state res" where
  "market_at st t = of_option KeyError (sget (nv_markets st) t)"

definition add_reason :: "nv_state \<Rightarrow> jobj \<Rightarrow> nv_state" where
  "add_reason st r = st\<lparr>nv_reasons := nv_reasons st @ [r]\<rparr>"

definition names_json :: "string list \<Rightarrow> json" where
  "names_json ss = JArr (map JStr ss)"

section \<open>Writing records\<close>

definition write_record :: "nv_config \<Rightarrow> nv_state \<Rightarrow> jobj \<Rightarrow> nv_state res" where
  "write_record cfg st r =
     (let r' = sset (sset r ''schema'' (JStr ''pmm.historical.normalized_record.v2''))
                 ''normalization_ordinal'' (JInt (nv_ordinal st)) in
      rbind (validate_historical_schema (nv_valid cfg) (JObj r') ''normalized-record-v2.schema.json''
               ''NormalizedRecordSchemaMismatch'') (\<lambda>_.
      Inr (st\<lparr>nv_ordinal := nv_ordinal st + 1, nv_records := nv_records st @ [r']\<rparr>)))"

definition control_record ::
  "nv_config \<Rightarrow> nv_state \<Rightarrow> int \<Rightarrow> int \<Rightarrow> string \<Rightarrow> json \<Rightarrow> json \<Rightarrow> jobj \<Rightarrow> nv_state res" where
  "control_record cfg st raw received control_type ticker scope_id details =
     (let time = max (nv_time st) received;
          st' = st\<lparr>nv_time := time, nv_gap_counts := counter_add (nv_gap_counts st) control_type 1,
                   nv_discontinuous := True\<rparr>
      in write_record cfg st'
           [(''kind'', JStr ''discontinuity''), (''control_type'', JStr control_type),
            (''raw_ingress_ordinal'', JInt raw), (''logical_time_utc_ns'', JInt time),
            (''local_received_at_utc_ns'', JInt received), (''ticker'', ticker), (''source_scope_id'', scope_id),
            (''truth_category'', JStr (if nv_truth cfg = ''Synthetic'' then ''Synthetic'' else ''Reconstructed'')),
            (''source_fidelity'', JStr ''level_2''), (''details'', JObj details)])"

section \<open>Subscriptions\<close>

definition subscription_sent :: "nv_config \<Rightarrow> nv_state \<Rightarrow> jobj \<Rightarrow> nv_state res" where
  "subscription_sent cfg st r =
     rbind (int_value (oget r ''connection_segment_id'')) (\<lambda>connection.
     rbind (require ''SubscriptionRequestInvalid'' (sget (nv_requests st) connection = None)) (\<lambda>_.
     rbind (of_option (HistoricalDataError ''SubscriptionRequestInvalid'') (as_obj (oget r ''subscription''))) (\<lambda>subscription.
     rbind (int_value (oget subscription ''id'')) (\<lambda>wire_id.
     rbind (int_value (oget r ''wire_request_id'')) (\<lambda>top_wire_id.
     let logical_id = oget r ''subscription_request_id''; expected = ''c'' @ int_str connection @ '':r1'' in
     rbind (require ''SubscriptionRequestInvalid''
              (wire_id = top_wire_id \<and> wire_id = connection \<and> logical_id = JStr expected \<and>
               expected \<notin> set (nv_logical_ids st) \<and> oget subscription ''cmd'' = JStr ''subscribe'')) (\<lambda>_.
     rbind (require ''SubscriptionRequestInvalid''
              (case oget subscription ''params'' of
                 JObj params \<Rightarrow>
                   py_eq (oget params ''market_tickers'') (names_json (nv_tickers cfg)) \<and>
                   py_eq (oget params ''channels'') (names_json [''orderbook_delta'', ''trade'']) \<and>
                   oget params ''use_yes_price'' = JBool True
               | _ \<Rightarrow> False)) (\<lambda>_.
     Inr (st\<lparr>nv_logical_ids := expected # nv_logical_ids st,
            nv_requests := sset (nv_requests st) connection \<lparr>rq_logical_id = expected, rq_wire_id = wire_id\<rparr>\<rparr>))))))))"

definition scope_document :: "nv_config \<Rightarrow> source_scope \<Rightarrow> jobj" where
  "scope_document cfg scope =
     [(''source_scope_id'', JStr (so_id scope)),
      (''connection_segment_id'', JInt (so_connection scope)),
      (''subscription_request_id'', JStr (so_request scope)),
      (''wire_request_id'', JInt (so_wire_id scope)),
      (''channel'', JStr (so_channel scope)),
      (''venue_subscription_id'', JStr (so_sid scope)),
      (''requested_market_tickers'', names_json (nv_tickers cfg)),
      (''membership_claim'', JStr ''request_bound_not_echoed_by_acknowledgement''),
      (''sequence_domain_status'', oget (nv_domain cfg) ''status''),
      (''sequence_domain_components'', oget_default (nv_domain cfg) ''components'' (JArr [])),
      (''sequence_domain_topology'', JStr (nv_topology cfg))]"

definition subscription_acknowledged :: "nv_config \<Rightarrow> nv_state \<Rightarrow> jobj \<Rightarrow> nv_state res" where
  "subscription_acknowledged cfg st r =
     rbind (int_value (oget r ''connection_segment_id'')) (\<lambda>connection.
     rbind (int_value (oget r ''wire_request_id'')) (\<lambda>wire_id.
     rbind (of_option (HistoricalDataError ''SubscriptionAckMismatch'') (sget (nv_requests st) connection)) (\<lambda>request.
     rbind (require ''SubscriptionAckMismatch'' (wire_id = rq_wire_id request)) (\<lambda>_.
     let sid = oget r ''venue_subscription_id'' in
     rbind (in_names (oget r ''channel'') [''orderbook_delta'', ''trade'']) (\<lambda>known.
     let channel = py_str (oget r ''channel'') in
     rbind (require ''SubscriptionAckMismatch''
              (known \<and> sid \<noteq> JNull \<and> py_str sid \<noteq> [] \<and>
               oget r ''subscription_request_id'' = JStr (rq_logical_id request) \<and>
               py_eq (oget r ''requested_market_tickers'') (names_json (nv_tickers cfg)) \<and>
               oget r ''membership_claim'' = JStr ''request_bound_not_echoed_by_acknowledgement'')) (\<lambda>_.
     let key = (connection, py_str sid) in
     rbind (require ''SubscriptionAckMismatch''
              (sget (nv_acks st) (connection, channel) = None \<and> sget (nv_scopes st) key = None)) (\<lambda>_.
     Inr (st\<lparr>nv_acks := sset (nv_acks st) (connection, channel) (py_str sid),
            nv_scopes := sset (nv_scopes st) key
              \<lparr>so_id = ''c'' @ int_str connection @ '':sid'' @ py_str sid, so_connection = connection,
               so_request = rq_logical_id request, so_wire_id = wire_id, so_channel = channel, so_sid = py_str sid\<rparr>\<rparr>))))))))"

section \<open>Gaps\<close>

definition awaiting_after :: "market_state \<Rightarrow> string" where
  "awaiting_after m = (if ms_ever_valid m then ''recovery_snapshot'' else ''initial_snapshot'')"

definition market_lost :: "market_state \<Rightarrow> market_state" where
  "market_lost m = m\<lparr>ms_valid := False, ms_awaiting := Some (awaiting_after m)\<rparr>"

definition lose_connection :: "nv_config \<Rightarrow> jobj \<Rightarrow> int \<Rightarrow> int \<Rightarrow> int \<Rightarrow> nv_state \<Rightarrow> string \<Rightarrow> nv_state res" where
  "lose_connection cfg r connection raw received st ticker =
     rbind (market_at st ticker) (\<lambda>m.
     let st1 = (if ms_ever_valid m then st
                else add_reason st [(''code'', JStr ''IncompletePrefix''), (''ticker'', JStr ticker),
                                    (''raw_ingress_ordinal'', JInt raw)]);
         st2 = st1\<lparr>nv_markets := sset (nv_markets st1) ticker (market_lost m)\<rparr>
     in control_record cfg st2 raw received ''connection_gap'' (JStr ticker) JNull
          [(''connection_segment_id'', JInt connection),
           (''failure_phase'', oget r ''failure_phase''),
           (''error_code'', oget r ''error_code''),
           (''prior_book_state'', JStr (if ms_ever_valid m then ''invalidated'' else ''not_yet_established''))])"

definition connection_gap :: "nv_config \<Rightarrow> nv_state \<Rightarrow> jobj \<Rightarrow> int \<Rightarrow> int \<Rightarrow> nv_state res" where
  "connection_gap cfg st r raw received =
     rbind (int_value (oget r ''connection_segment_id'')) (\<lambda>connection.
     res_fold (lose_connection cfg r connection raw received) st (nv_tickers cfg))"

definition lose_market :: "nv_state \<Rightarrow> string \<Rightarrow> nv_state res" where
  "lose_market st ticker =
     rbind (market_at st ticker) (\<lambda>m. Inr (st\<lparr>nv_markets := sset (nv_markets st) ticker (market_lost m)\<rparr>))"

definition sequence_gap ::
  "nv_config \<Rightarrow> nv_state \<Rightarrow> source_scope \<Rightarrow> string \<Rightarrow> int \<Rightarrow> int \<Rightarrow> int \<Rightarrow> int \<Rightarrow> nv_state res" where
  "sequence_gap cfg st scope ticker raw received previous current =
     (let affected = (if nv_topology cfg = ''independent'' then [ticker] else nv_tickers cfg) in
      rbind (control_record cfg st raw received ''sequence_gap'' JNull (JStr (so_id scope))
               [(''expected_sequence'', JInt (previous + 1)), (''received_sequence'', JInt current),
                (''scope_status'', oget (nv_domain cfg) ''status''), (''scope_topology'', JStr (nv_topology cfg)),
                (''observed_post_gap_ticker'', JStr ticker), (''affected_market_tickers'', names_json affected)]) (\<lambda>st'.
      if so_channel scope = ''orderbook_delta'' then res_fold lose_market st' affected else Inr st'))"

section \<open>Market frames\<close>

text \<open>Binding the market id of a ticker.\<close>

definition nv_bind_market :: "nv_state \<Rightarrow> string \<Rightarrow> string option \<Rightarrow> (string \<times> nv_state) res" where
  "nv_bind_market st ticker parsed =
     (case sget (nv_market_ids st) ticker of
        None \<Rightarrow>
          rbind (of_option (HistoricalDataError ''MarketIdentityMissing'') parsed) (\<lambda>m.
          Inr (m, st\<lparr>nv_market_ids := sset (nv_market_ids st) ticker m\<rparr>))
      | Some m \<Rightarrow>
          rbind (require ''MarketIdentityConflict'' (parsed = None \<or> parsed = Some m)) (\<lambda>_. Inr (m, st)))"

unbundle bit_operations_syntax

text \<open>\<open>n & (n - 1) == 0\<close>: when the telemetry takes a sample.\<close>

definition sampled_size :: "nat \<Rightarrow> bool" where
  "sampled_size n = (int n AND (int n - 1) = 0)"

text \<open>
  The source sequence of a frame: \<open>Inr (True, _)\<close> is the \<open>continue\<close> on an identical duplicate.
\<close>

definition check_sequence ::
  "nv_config \<Rightarrow> nv_state \<Rightarrow> source_scope \<Rightarrow> string \<Rightarrow> string \<Rightarrow> jobj \<Rightarrow> int \<Rightarrow> int \<Rightarrow> int \<Rightarrow> (bool \<times> nv_state) res" where
  "check_sequence cfg st scope scope_key ticker message raw received current =
     (let key = (scope_key, current); hash = nv_sha cfg (canonical_json (JObj message)) in
      case sget (nv_payloads st) key of
        Some prior \<Rightarrow>
          rbind (require ''ConflictingDuplicate'' (prior = hash)) (\<lambda>_.
          Inr (True, st\<lparr>nv_duplicates := nv_duplicates st + 1\<rparr>))
      | None \<Rightarrow>
          let previous = sget (nv_previous st) scope_key in
          rbind (require ''SourceSequenceRegression'' (case previous of None \<Rightarrow> True | Some p \<Rightarrow> p \<le> current)) (\<lambda>_.
          rbind (case previous of
                   None \<Rightarrow> Inr st
                 | Some p \<Rightarrow> (if p + 1 < current then sequence_gap cfg st scope ticker raw received p current
                             else Inr st)) (\<lambda>st1.
          let payloads = sset (nv_payloads st1) key hash;
              n = length payloads;
              sample = [(''raw_ingress_ordinal'', JInt raw), (''sequenced_unique_identities'', JInt (int n))] in
          Inr (False, st1\<lparr>nv_previous := sset (nv_previous st1) scope_key current, nv_payloads := payloads,
                         nv_peak := max (nv_peak st1) (int n),
                         nv_samples := (if sampled_size n then nv_samples st1 @ [sample]
                                        else nv_samples st1)\<rparr>))))"

definition segment_name :: "string \<Rightarrow> nat \<Rightarrow> string" where
  "segment_name ticker n = ticker @ '':segment:'' @ nat_str n"

text \<open>A snapshot opens a segment; a delta without one makes the capture incomplete.\<close>

definition boundary_record ::
  "nv_config \<Rightarrow> source_scope \<Rightarrow> string \<Rightarrow> int \<Rightarrow> int \<Rightarrow> int \<Rightarrow> string option \<Rightarrow> nat \<Rightarrow> jobj" where
  "boundary_record cfg scope ticker raw received time awaiting n =
     [(''kind'', JStr ''segment_boundary''), (''boundary_type'', JStr ''segment_started''),
      (''raw_ingress_ordinal'', JInt raw), (''logical_time_utc_ns'', JInt time),
      (''local_received_at_utc_ns'', JInt received), (''ticker'', JStr ticker),
      (''source_scope_id'', JStr (so_id scope)),
      (''book_segment_id'', JStr (segment_name ticker n)),
      (''start_evidence'', case awaiting of None \<Rightarrow> JNull | Some a \<Rightarrow> JStr a),
      (''continuity_claim'', JStr ''valid_from_observed_snapshot_only''),
      (''truth_category'', JStr (nv_truth cfg)), (''source_fidelity'', JStr ''level_2'')]"

definition market_opened :: "market_state \<Rightarrow> market_state" where
  "market_opened m = m\<lparr>ms_segment := ms_segment m + 1, ms_valid := True, ms_ever_valid := True, ms_awaiting := None\<rparr>"

definition open_segment ::
  "nv_config \<Rightarrow> nv_state \<Rightarrow> source_scope \<Rightarrow> int \<Rightarrow> string \<Rightarrow> int \<Rightarrow> int \<Rightarrow> nv_state res" where
  "open_segment cfg st scope connection ticker raw received =
     rbind (market_at st ticker) (\<lambda>m.
     rbind (require ''RecoverySnapshotDuplicate'' (\<not> ms_valid m)) (\<lambda>_.
     write_record cfg
       (st\<lparr>nv_markets := sset (nv_markets st) ticker (market_opened m),
          nv_snapshots := counter_add (nv_snapshots st) (connection, ticker) 1\<rparr>)
       (boundary_record cfg scope ticker raw received (max (nv_time st) received) (ms_awaiting m)
          (ms_segment (market_opened m)))))"

definition check_delta :: "nv_config \<Rightarrow> nv_state \<Rightarrow> string \<Rightarrow> int \<Rightarrow> nv_state res" where
  "check_delta cfg st ticker raw =
     rbind (market_at st ticker) (\<lambda>m.
     if ms_valid m then Inr st
     else
       rbind (require ''DeltaBeforeRecovery'' (\<not> nv_refuse cfg)) (\<lambda>_.
       Inr (add_reason st [(''code'', JStr ''DeltaBeforeRecovery''), (''ticker'', JStr ticker),
                           (''raw_ingress_ordinal'', JInt raw)])))"

record event_times =
  et_received :: int
  et_source :: "int option"
  et_late :: bool
  et_scope_late :: bool
  et_logical :: int

definition event_time_of :: "event_times \<Rightarrow> int" where
  "event_time_of t = (case et_source t of Some s \<Rightarrow> s | None \<Rightarrow> et_received t)"

definition v2_event ::
  "nv_config \<Rightarrow> jobj \<Rightarrow> source_scope \<Rightarrow> string \<Rightarrow> string \<Rightarrow> string \<Rightarrow> bool \<Rightarrow> jobj \<Rightarrow> int \<Rightarrow> json \<Rightarrow> int \<Rightarrow> market_state
    \<Rightarrow> event_times \<Rightarrow> jobj" where
  "v2_event cfg r scope parsed_type ticker market in_message payload connection sequence raw m t =
     [(''kind'', JStr ''market_event''),
      (''event_id'', JStr (ticker @ '':'' @ int_str raw)),
      (''raw_ingress_ordinal'', JInt raw),
      (''logical_time_utc_ns'', JInt (et_logical t)),
      (''event_time_utc_ns'', JInt (event_time_of t)),
      (''event_time_basis'', JStr (if et_source t \<noteq> None then ''source_ts_ms'' else ''local_receive_time'')),
      (''source_time_late'', JBool (et_late t)),
      (''source_scope_time_late'', JBool (et_scope_late t)),
      (''local_received_at_utc_ns'', JInt (et_received t)),
      (''source_sequence'', sequence),
      (''source_scope_id'', JStr (so_id scope)),
      (''sequence_domain_status'', oget (nv_domain cfg) ''status''),
      (''connection_segment_id'', JInt connection),
      (''subscription_id'', JStr (py_str (oget r ''subscription_id''))),
      (''ticker'', JStr ticker),
      (''venue_market_id'', JStr market),
      (''venue_market_id_provenance'', JStr (if in_message then ''source_message'' else ''capture_bound'')),
      (''book_segment_id'', if ms_segment m = 0 then JNull else JStr (segment_name ticker (ms_segment m))),
      (''book_state_valid'', JBool (ms_valid m)),
      (''event_type'', JStr (event_type_of parsed_type)),
      (''truth_category'', JStr (nv_truth cfg)),
      (''source_fidelity'', JStr ''level_2''),
      (''payload'', JObj payload)]"

definition times_of :: "nv_state \<Rightarrow> string \<Rightarrow> jobj \<Rightarrow> jobj \<Rightarrow> event_times res" where
  "times_of st scope_id r message =
     rbind (int_value (oget r ''received_at_utc_ns'')) (\<lambda>received.
     rbind (oindex message ''msg'') (\<lambda>msg.
     rbind (of_option AttributeError (as_obj msg)) (\<lambda>body.
     rbind (if oget body ''ts_ms'' = JNull then Inr None
            else rbind (int_value (oget body ''ts_ms'')) (\<lambda>t. Inr (Some (t * 1000000)))) (\<lambda>source_time.
     Inr \<lparr>et_received = received, et_source = source_time,
          et_late = (case source_time of Some t \<Rightarrow> t < nv_time st | None \<Rightarrow> False),
          et_scope_late = (case (source_time, sget (nv_scope_time st) scope_id) of
                             (Some t, Some p) \<Rightarrow> t < p | _ \<Rightarrow> False),
          et_logical = max (nv_time st) (case source_time of Some t \<Rightarrow> t | None \<Rightarrow> received)\<rparr>))))"

definition event_clock :: "nv_state \<Rightarrow> string \<Rightarrow> string \<Rightarrow> event_times \<Rightarrow> nv_state" where
  "event_clock st scope_id parsed_type t =
     st\<lparr>nv_late := nv_late st + (if et_late t then 1 else 0),
        nv_scope_time := sset (nv_scope_time st) scope_id
          (max (case sget (nv_scope_time st) scope_id of Some p \<Rightarrow> p | None \<Rightarrow> event_time_of t) (event_time_of t)),
        nv_time := et_logical t,
        nv_event_counts := counter_add (nv_event_counts st) (event_type_of parsed_type) 1\<rparr>"

definition market_event ::
  "nv_config \<Rightarrow> nv_state \<Rightarrow> jobj \<Rightarrow> source_scope \<Rightarrow> string \<Rightarrow> jobj \<Rightarrow> string \<Rightarrow> string \<Rightarrow> bool \<Rightarrow> jobj \<Rightarrow> int \<Rightarrow> json \<Rightarrow> int
    \<Rightarrow> nv_state res" where
  "market_event cfg st r scope parsed_type message ticker market in_message payload connection sequence raw =
     (let scope_id = so_id scope in
      rbind (times_of st scope_id r message) (\<lambda>t.
      rbind (market_at st ticker) (\<lambda>m.
      write_record cfg (event_clock st scope_id parsed_type t)
        (v2_event cfg r scope parsed_type ticker market in_message payload connection sequence raw m t))))"

text \<open>From the bound market to the written event.\<close>

definition nv_sequenced ::
  "nv_config \<Rightarrow> nv_state \<Rightarrow> jobj \<Rightarrow> source_scope \<Rightarrow> string \<Rightarrow> jobj \<Rightarrow> string \<Rightarrow> int \<Rightarrow> int \<Rightarrow> json \<Rightarrow> (bool \<times> nv_state) res" where
  "nv_sequenced cfg st r scope parsed_type message ticker raw received sequence =
     (let scope_id = so_id scope;
          scope_key = (if nv_topology cfg = ''independent'' then scope_id @ '':ticker:'' @ ticker else scope_id) in
      if sequence = JNull then
        (if parsed_type = ''orderbook_snapshot'' \<or> parsed_type = ''orderbook_delta'' then
           rbind (require ''RequiredSourceSequenceMissing'' (\<not> nv_refuse cfg)) (\<lambda>_.
           Inr (False, add_reason st [(''code'', JStr ''RequiredSourceSequenceMissing''), (''ticker'', JStr ticker),
             (''message_type'', JStr parsed_type), (''raw_ingress_ordinal'', JInt raw)]))
         else Inr (False, st))
      else
        rbind (int_value sequence) (\<lambda>current.
        check_sequence cfg st scope scope_key ticker message raw received current))"

definition book_step :: "nv_config \<Rightarrow> nv_state \<Rightarrow> source_scope \<Rightarrow> int \<Rightarrow> string \<Rightarrow> string \<Rightarrow> int \<Rightarrow> int \<Rightarrow> nv_state res" where
  "book_step cfg st scope connection parsed_type ticker raw received =
     (if parsed_type = ''orderbook_snapshot'' then open_segment cfg st scope connection ticker raw received
      else if parsed_type = ''orderbook_delta'' then check_delta cfg st ticker raw
      else Inr st)"

text \<open>The frame of a requested market, once decoded.\<close>

definition nv_market ::
  "nv_config \<Rightarrow> nv_state \<Rightarrow> jobj \<Rightarrow> source_scope \<Rightarrow> int \<Rightarrow> string \<Rightarrow> jobj \<Rightarrow> string \<Rightarrow> string option \<Rightarrow> jobj \<Rightarrow> int \<Rightarrow> int
    \<Rightarrow> nv_state res" where
  "nv_market cfg st r scope connection parsed_type message ticker parsed_market payload raw received =
     (let sequence = oget_default r ''source_sequence'' (oget message ''seq'') in
      rbind (nv_bind_market st ticker parsed_market) (\<lambda>(market, st1).
      rbind (nv_sequenced cfg st1 r scope parsed_type message ticker raw received sequence) (\<lambda>(duplicate, st2).
      if duplicate then Inr st2
      else
        rbind (book_step cfg st2 scope connection parsed_type ticker raw received) (\<lambda>st3.
        market_event cfg st3 r scope parsed_type message ticker market (parsed_market \<noteq> None) payload connection
          sequence raw))))"

definition nv_frame :: "nv_config \<Rightarrow> nv_state \<Rightarrow> jobj \<Rightarrow> int \<Rightarrow> int \<Rightarrow> nv_state res" where
  "nv_frame cfg st r raw received =
     rbind (int_value (oget r ''connection_segment_id'')) (\<lambda>connection.
     rbind (of_option (HistoricalDataError ''UnboundSourceScope'')
              (sget (nv_scopes st) (connection, py_str (oget r ''subscription_id'')))) (\<lambda>scope.
     rbind (require ''SourceScopeConflict''
              (so_channel scope =
               (if oget r ''message_type'' = JStr ''trade'' then ''trade'' else ''orderbook_delta''))) (\<lambda>_.
     rbind (parse_raw_message r) (\<lambda>(parsed_type, message).
     rbind (require ''MessageTypeMismatch'' (JStr parsed_type = oget r ''message_type'')) (\<lambda>_.
     rbind (normalized_payload parsed_type message) (\<lambda>(ticker, parsed_market, payload).
     rbind (require ''MarketMembershipMismatch'' (ticker \<in> set (nv_tickers cfg))) (\<lambda>_.
     rbind (case sget (nv_packages cfg) ticker of None \<Rightarrow> Inr ()
            | Some package \<Rightarrow> validate_product_payload package payload parsed_type) (\<lambda>_.
     nv_market cfg st r scope connection parsed_type message ticker parsed_market payload raw received))))))))"

section \<open>One raw record\<close>

definition nv_dispatch :: "nv_config \<Rightarrow> nv_state \<Rightarrow> jobj \<Rightarrow> int \<Rightarrow> int \<Rightarrow> nv_state res" where
  "nv_dispatch cfg st r raw received =
     (let kind = oget r ''kind'' in
      if kind = JStr ''subscription_sent'' then subscription_sent cfg st r
      else if kind = JStr ''subscription_acknowledged'' then subscription_acknowledged cfg st r
      else if kind = JStr ''connection_gap'' then connection_gap cfg st r raw received
      else
        rbind (in_names kind [''connection_attempt'', ''connection_opened'', ''connection_closed'', ''binary_frame_rejected'']) (\<lambda>passive.
        if passive then
          Inr (if kind = JStr ''binary_frame_rejected''
               then add_reason st [(''code'', JStr ''UnsupportedBinaryFrame''), (''raw_ingress_ordinal'', JInt raw)]
               else st)
        else if kind \<noteq> JStr ''inbound_frame'' then Inr st
        else
          rbind (in_names (oget r ''message_type'') market_types) (\<lambda>known.
          if known then nv_frame cfg st r raw received else Inr st)))"

definition nv_record :: "nv_config \<Rightarrow> nv_state \<Rightarrow> jobj \<Rightarrow> nv_state res" where
  "nv_record cfg st r =
     rbind (require ''CaptureRecordSchemaMismatch'' (oget r ''schema'' = JStr ''pmm.kalshi.raw_capture_record.v2'')) (\<lambda>_.
     rbind (validate_historical_schema (nv_valid cfg) (JObj r) ''raw-capture-record-v2.schema.json''
              ''CaptureRecordSchemaMismatch'') (\<lambda>_.
     rbind (int_value (oget r ''raw_ingress_ordinal'')) (\<lambda>raw.
     rbind (require ''IngressOrdinalMismatch'' (raw = nv_raw st + 1)) (\<lambda>_.
     rbind (int_value (oget r ''received_at_utc_ns'')) (\<lambda>received.
     nv_dispatch cfg (st\<lparr>nv_processed := nv_processed st + 1, nv_raw := raw\<rparr>) r raw received)))))"

definition nv_line :: "nv_config \<Rightarrow> nv_state \<Rightarrow> string \<Rightarrow> nv_state res" where
  "nv_line cfg st line =
     rbind (of_option (HistoricalDataError ''MalformedCaptureRecord'') (json_loads line)) (\<lambda>value.
     rbind (of_option (HistoricalDataError ''CaptureRecordSchemaMismatch'') (as_obj value)) (\<lambda>r.
     nv_record cfg st r))"

section \<open>Judging the capture\<close>

definition channel_acknowledged :: "nv_state \<Rightarrow> int \<Rightarrow> string \<Rightarrow> bool" where
  "channel_acknowledged st connection channel = (sget (nv_acks st) (connection, channel) \<noteq> None)"

definition request_reasons :: "nv_config \<Rightarrow> nv_state \<Rightarrow> int \<times> nv_request \<Rightarrow> jobj list" where
  "request_reasons cfg st request =
     (let connection = fst request in
      (if channel_acknowledged st connection ''orderbook_delta'' \<and> channel_acknowledged st connection ''trade'' then []
       else [[(''code'', JStr ''SubscriptionAckMissing''), (''connection_segment_id'', JInt connection)]]) @
      concat (map (\<lambda>ticker.
        let n = counter_get (nv_snapshots st) (connection, ticker) in
        if n \<noteq> 1 then [[(''code'', JStr ''SnapshotCardinalityMismatch''), (''connection_segment_id'', JInt connection),
                       (''ticker'', JStr ticker), (''count'', JInt n)]] else []) (nv_tickers cfg)))"

definition final_reasons :: "nv_config \<Rightarrow> nv_state \<Rightarrow> jobj list" where
  "final_reasons cfg st =
     nv_reasons st @ concat (map (request_reasons cfg st) (nv_requests st)) @
     (if nv_requests st = [] then [[(''code'', JStr ''SubscriptionRequestMissing'')]] else []) @
     concat (map (\<lambda>(ticker, m). if ms_valid m then []
        else [[(''code'', JStr ''RecoverySnapshotMissing''), (''ticker'', JStr ticker)]]) (nv_markets st))"

definition completeness_of :: "jobj list \<Rightarrow> bool \<Rightarrow> string" where
  "completeness_of reasons discontinuous =
     (if reasons \<noteq> [] then ''incomplete''
      else if discontinuous then ''observed_discontinuous'' else ''complete_observed_interval'')"

definition first_code :: "jobj list \<Rightarrow> string" where
  "first_code reasons = (case reasons of [] \<Rightarrow> ''DiscontinuousInput'' | r # _ \<Rightarrow> py_str (oget r ''code''))"

section \<open>The output documents\<close>

definition scope_map :: "nv_config \<Rightarrow> nv_state \<Rightarrow> jobj" where
  "scope_map cfg st =
     [(''schema'', JStr ''pmm.historical.source_scope_map.v1''),
      (''sequence_domain'', JObj (nv_domain cfg)),
      (''scopes'', JArr (map JObj (map (scope_document cfg) (sort_key so_id (map snd (nv_scopes st))))))]"

definition product_entry :: "nv_config \<Rightarrow> conversion_policy option \<Rightarrow> nv_state \<Rightarrow> string \<Rightarrow> jobj res" where
  "product_entry cfg policy st ticker =
     (let base =
        [(''ticker'', JStr ticker),
         (''venue_market_id'', case sget (nv_market_ids st) ticker of Some m \<Rightarrow> JStr m | None \<Rightarrow> JNull),
         (''venue_market_id_authority'', JStr ''capture_only_not_in_terms_source''),
         (''source_fidelity'', JStr ''level_2'')]
      in case sget (nv_packages cfg) ticker of
           None \<Rightarrow> Inr base
         | Some package \<Rightarrow>
             rbind (of_option AssertionError policy) (\<lambda>q.
             rbind (pt_identity (pk_terms package)) (\<lambda>identity.
             Inr (base @
              [(''authoritative_identity'', identity),
               (''product_terms_sha256'', JStr (pt_sha256 (pk_terms package))),
               (''source_manifest_sha256'', JStr (ev_sha256 (pk_evidence package))),
               (''review_sha256'', JStr (rv_sha256 (pk_review package))),
               (''conversion_policy_sha256'', JStr (cp_sha256 q))]))))"

definition product_document :: "nv_config \<Rightarrow> conversion_policy option \<Rightarrow> nv_state \<Rightarrow> jobj res" where
  "product_document cfg policy st =
     rbind (res_map (product_entry cfg policy st) (nv_tickers cfg)) (\<lambda>entries.
     Inr [(''schema'', JStr ''pmm.historical.product_map.v3''), (''venue'', JStr ''kalshi''),
          (''environment'', JStr ''production''), (''products'', JArr (map JObj entries))])"

record nv_input =
  nu_directory :: string
  nu_frames :: string
  nu_metadata :: string
  nu_catalog_sha256 :: string
  nu_instrument :: bool

record nv_output =
  nr_records :: "jobj list"
  nr_scopes :: jobj
  nr_products :: jobj
  nr_manifest :: jobj
  nr_telemetry :: "jobj option"

definition package_lineage_entry :: "string \<times> product_package \<Rightarrow> json" where
  "package_lineage_entry p =
     JObj [(''ticker'', JStr (fst p)),
           (''product_terms_sha256'', JStr (pt_sha256 (pk_terms (snd p)))),
           (''source_manifest_sha256'', JStr (ev_sha256 (pk_evidence (snd p)))),
           (''review_sha256'', JStr (rv_sha256 (pk_review (snd p))))]"

definition nv_manifest ::
  "nv_config \<Rightarrow> conversion_policy option \<Rightarrow> nv_input \<Rightarrow> nv_state \<Rightarrow> jobj \<Rightarrow> jobj \<Rightarrow> string \<Rightarrow> jobj list \<Rightarrow> jobj" where
  "nv_manifest cfg policy inp st scopes products completeness reasons =
     (let sha = nv_sha cfg in
      [(''schema'', JStr ''pmm.historical.normalization_manifest.v3''),
       (''normalizer_version'', JStr ''kalshi-multi-scope-normalizer.v2''),
       (''input_capture_directory'', JStr (nu_directory inp)),
       (''input_frames_sha256'', JStr (sha (nu_frames inp))),
       (''input_capture_metadata_sha256'', JStr (sha (nu_metadata inp))),
       (''output_records_sha256'', JStr (sha (jsonl (nv_records st)))),
       (''output_source_scopes_sha256'', JStr (sha (json_file scopes))),
       (''output_product_sha256'', JStr (sha (json_file products))),
       (''market_tickers'', names_json (nv_tickers cfg)),
       (''ordering_policy'', JStr ''raw ingress ordinal is the cross-scope total order; source sequences validate only their represented domain; timestamps never reorder records''),
       (''continuity_policy'', JStr (if nv_refuse cfg then ''refuse'' else ''record'')),
       (''completeness'', JStr completeness),
       (''incomplete_reasons'', JArr (map JObj reasons)),
       (''event_counts'', sorted_counts (nv_event_counts st)),
       (''discontinuity_counts'', sorted_counts (nv_gap_counts st)),
       (''identical_duplicates_skipped'', JInt (nv_duplicates st)),
       (''late_source_events'', JInt (nv_late st)),
       (''truth_category'', JStr (nv_truth cfg)),
       (''source_fidelity'', JStr ''level_2''),
       (''limitations'', names_json
          [''Level-2 data has no individual order identity or queue position.'',
           ''Unknown sequence domains do not prove venue-global continuity.'',
           ''A recovery snapshot starts a new segment and does not recover a missing interval.''])] @
      (if nv_packages cfg = [] then []
       else
         [(''product_catalog_sha256'', JStr (nu_catalog_sha256 inp)),
          (''conversion_policy_sha256'', case policy of Some q \<Rightarrow> JStr (cp_sha256 q) | None \<Rightarrow> JNull),
          (''product_lineage'', JArr (map package_lineage_entry (sort_key fst (nv_packages cfg))))]))"

definition nv_telemetry :: "nv_config \<Rightarrow> nv_input \<Rightarrow> nv_state \<Rightarrow> jobj" where
  "nv_telemetry cfg inp st =
     [(''schema'', JStr ''pmm.phase7.b2c_normalization_telemetry.v1''),
      (''input_frames_sha256'', JStr (nv_sha cfg (nu_frames inp))),
      (''input_capture_metadata_sha256'', JStr (nv_sha cfg (nu_metadata inp))),
      (''processed_raw_records'', JInt (nv_processed st)),
      (''sequenced_unique_identities'', JInt (int (length (nv_payloads st)))),
      (''peak_sequenced_unique_identities'', JInt (nv_peak st)),
      (''identical_duplicates_skipped'', JInt (nv_duplicates st)),
      (''samples'', JArr (map JObj (nv_samples st)))]"

definition nv_finish :: "nv_config \<Rightarrow> conversion_policy option \<Rightarrow> nv_input \<Rightarrow> nv_state \<Rightarrow> nv_output res" where
  "nv_finish cfg policy inp st =
     (let reasons = final_reasons cfg st; completeness = completeness_of reasons (nv_discontinuous st) in
      rbind (require ''MarketIdentityMissing'' (list_all (\<lambda>t. sget (nv_market_ids st) t \<noteq> None) (nv_tickers cfg))) (\<lambda>_.
      rbind (require (first_code reasons) (completeness = ''complete_observed_interval'' \<or> \<not> nv_refuse cfg)) (\<lambda>_.
      let scopes = scope_map cfg st in
      rbind (validate_historical_schema (nv_valid cfg) (JObj scopes) ''source-scope-map-v1.schema.json''
               ''SourceScopeSchemaMismatch'') (\<lambda>_.
      rbind (product_document cfg policy st) (\<lambda>products.
      rbind (validate_historical_schema (nv_valid cfg) (JObj products) ''product-map-v3.schema.json''
               ''ProductMapSchemaMismatch'') (\<lambda>_.
      let manifest = nv_manifest cfg policy inp st scopes products completeness reasons in
      rbind (validate_historical_schema (nv_valid cfg) (JObj manifest) ''normalization-manifest-v3.schema.json''
               ''NormalizationManifestSchemaMismatch'') (\<lambda>_.
      rbind (if nu_instrument inp
             then rbind (validate_historical_schema (nv_valid cfg) (JObj (nv_telemetry cfg inp st))
                    ''b2c-normalization-telemetry-v1.schema.json'' ''NormalizationTelemetrySchemaMismatch'') (\<lambda>_.
                  Inr (Some (nv_telemetry cfg inp st)))
             else Inr None) (\<lambda>telemetry.
      Inr \<lparr>nr_records = nv_records st, nr_scopes = scopes, nr_products = products, nr_manifest = manifest,
           nr_telemetry = telemetry\<rparr>))))))))"

section \<open>Before the loop\<close>

definition sequence_key :: "string \<Rightarrow> json" where
  "sequence_key topology =
     names_json ([''connection_segment_id'', ''venue_subscription_id''] @
       (if topology = ''independent'' then [''market_ticker''] else []))"

definition resolve_ticker ::
  "(string \<Rightarrow> product_package res) \<Rightarrow> product_catalog \<Rightarrow> jobj \<Rightarrow> string \<Rightarrow> (string \<times> product_package) res" where
  "resolve_ticker load catalog metadata ticker =
     (let m = sset metadata ''ticker'' (JStr ticker) in
      rbind (catalog_resolve load catalog m) (\<lambda>package.
      rbind (package_verify_capture package m) (\<lambda>_. Inr (ticker, package))))"

definition as_names :: "json \<Rightarrow> string list option" where
  "as_names v =
     (case v of
        JArr xs \<Rightarrow> (if list_all nonempty_str xs then Some (map py_str xs) else None)
      | _ \<Rightarrow> None)"

definition nv_prepare ::
  "(string \<Rightarrow> string) \<Rightarrow> validator \<Rightarrow> string \<Rightarrow> (string \<Rightarrow> product_package res) \<Rightarrow> product_catalog option
    \<Rightarrow> conversion_policy option \<Rightarrow> jobj res \<Rightarrow> nv_config res" where
  "nv_prepare sha valid continuity load catalog policy read_metadata =
     rbind (require ''ContinuityPolicyInvalid'' (continuity = ''refuse'' \<or> continuity = ''record'')) (\<lambda>_.
     rbind (require ''ProductLineageIncomplete'' ((catalog = None) = (policy = None))) (\<lambda>_.
     rbind read_metadata (\<lambda>metadata.
     rbind (require ''CaptureSchemaMismatch'' (oget metadata ''schema'' = JStr ''pmm.kalshi.raw_capture.v2'')) (\<lambda>_.
     rbind (validate_historical_schema valid (JObj metadata) ''raw-capture-v2.schema.json'' ''CaptureSchemaMismatch'') (\<lambda>_.
     rbind (of_option (HistoricalDataError ''CaptureIdentityInvalid'') (as_names (oget metadata ''market_tickers''))) (\<lambda>tickers.
     rbind (require ''CaptureIdentityInvalid'' (tickers \<noteq> [] \<and> tickers = sorted_set tickers)) (\<lambda>_.
     rbind (of_option (HistoricalDataError ''SequenceDomainMissing'') (as_obj (oget metadata ''sequence_domain''))) (\<lambda>domain.
     rbind (in_names (oget domain ''status'') [''documented'', ''fixture_declared'', ''unknown'']) (\<lambda>status_known.
     rbind (require ''SequenceDomainMissing'' status_known) (\<lambda>_.
     rbind (in_names (oget domain ''topology'') [''shared'', ''independent'', ''unknown'']) (\<lambda>topology_known.
     rbind (require ''SequenceDomainMissing'' topology_known) (\<lambda>_.
     let topology = py_str (oget domain ''topology'') in
     rbind (require ''SequenceDomainInvalid'' (oget domain ''status'' \<noteq> JStr ''unknown'' \<or> topology = ''unknown'')) (\<lambda>_.
     rbind (require ''SequenceDomainInvalid'' (py_eq (oget domain ''mechanical_validation_key'') (sequence_key topology))) (\<lambda>_.
     rbind (in_names (oget_default metadata ''truth_category'' (JStr ''Observed'')) [''Observed'', ''Synthetic'']) (\<lambda>truth_known.
     rbind (require ''TruthCategoryInvalid'' truth_known) (\<lambda>_.
     rbind (case catalog of None \<Rightarrow> Inr [] | Some c \<Rightarrow> res_map (resolve_ticker load c metadata) tickers) (\<lambda>packages.
     Inr \<lparr>nv_tickers = tickers, nv_domain = domain, nv_topology = topology,
          nv_truth = py_str (oget_default metadata ''truth_category'' (JStr ''Observed'')),
          nv_refuse = (continuity = ''refuse''), nv_packages = packages, nv_sha = sha, nv_valid = valid\<rparr>)))))))))))))))))"

definition normalize_capture_v3 ::
  "(string \<Rightarrow> string) \<Rightarrow> validator \<Rightarrow> string \<Rightarrow> (string \<Rightarrow> product_package res) \<Rightarrow> product_catalog option
    \<Rightarrow> conversion_policy option \<Rightarrow> nv_input \<Rightarrow> nv_output res" where
  "normalize_capture_v3 sha valid continuity load catalog policy inp =
     rbind (nv_prepare sha valid continuity load catalog policy (read_json (nu_metadata inp))) (\<lambda>cfg.
     rbind (res_fold (nv_line cfg) (nv_init cfg) (text_lines (nu_frames inp))) (\<lambda>st.
     nv_finish cfg policy inp st))"

end
