(* ===== verification/Normalized_V3.thy ===== *)
theory Normalized_V3
  imports Normalize_V3 Features_V3 Normalized_Projection
begin

text \<open>
  What a finished multi-market normalization guarantees: its log of records (\<open>log_ok\<close>), what its
  completeness judgement means, and that the records of a complete capture are accepted by the
  segment cursors of the feature stage (\<open>cursor_accepts\<close>), whose only refusals left are the contents
  of the books.
\<close>

section \<open>The log\<close>

definition is_discontinuity :: "jobj \<Rightarrow> bool" where
  "is_discontinuity r = (oget r ''kind'' = JStr ''discontinuity'')"

definition raw_of :: "jobj \<Rightarrow> int" where
  "raw_of r = ev_int ''raw_ingress_ordinal'' r"

definition log_ok :: "nv_state \<Rightarrow> bool" where
  "log_ok st \<longleftrightarrow>
     nv_ordinal st = int (length (nv_records st)) + 1 \<and>
     (\<forall>i < length (nv_records st). oget (nv_records st ! i) ''normalization_ordinal'' = JInt (int i + 1)) \<and>
     sorted (map raw_of (nv_records st)) \<and> (\<forall>r \<in> set (nv_records st). raw_of r \<le> nv_raw st) \<and>
     (nv_discontinuous st \<longleftrightarrow> (\<exists>r \<in> set (nv_records st). is_discontinuity r))"

lemma write_record_Inr:
  assumes "write_record cfg st r = Inr st'"
  shows "\<exists>r'. nv_records st' = nv_records st @ [r'] \<and> nv_ordinal st' = nv_ordinal st + 1 \<and>
    oget r' ''normalization_ordinal'' = JInt (nv_ordinal st) \<and>
    (\<forall>k. k \<noteq> ''schema'' \<and> k \<noteq> ''normalization_ordinal'' \<longrightarrow> oget r' k = oget r k) \<and>
    st' = st\<lparr>nv_records := nv_records st', nv_ordinal := nv_ordinal st'\<rparr>"
  using assms by (auto simp: write_record_def rbind_eq_Inr Let_def)

lemma log_extend:
  assumes "nv_ordinal st = int (length (nv_records st)) + 1"
    "\<forall>i < length (nv_records st). oget (nv_records st ! i) ''normalization_ordinal'' = JInt (int i + 1)"
    "sorted (map raw_of (nv_records st))" "\<forall>r \<in> set (nv_records st). raw_of r \<le> nv_raw st"
    "nv_records st' = nv_records st @ [r']" "nv_ordinal st' = nv_ordinal st + 1"
    "oget r' ''normalization_ordinal'' = JInt (nv_ordinal st)" "raw_of r' = nv_raw st" "nv_raw st' = nv_raw st"
    "nv_discontinuous st' \<longleftrightarrow> is_discontinuity r' \<or> (\<exists>r \<in> set (nv_records st). is_discontinuity r)"
  shows "log_ok st'"
  unfolding log_ok_def
proof (intro conjI)
  show "\<forall>i < length (nv_records st'). oget (nv_records st' ! i) ''normalization_ordinal'' = JInt (int i + 1)"
    using assms(1,2,5,7) by (auto simp: nth_append less_Suc_eq)
  show "sorted (map raw_of (nv_records st'))"
    using assms(3,4,5,8) by (auto simp: sorted_append)
qed (use assms in auto)

lemma control_record_log:
  assumes "log_ok st" and "raw = nv_raw st" and "control_record cfg st raw received t ticker sid details = Inr st'"
  shows "log_ok st' \<and> nv_raw st' = raw \<and> nv_discontinuous st'"
proof -
  let ?st = "st\<lparr>nv_time := max (nv_time st) received, nv_gap_counts := counter_add (nv_gap_counts st) t 1,
      nv_discontinuous := True\<rparr>"
  from assms(3) obtain r where w: "write_record cfg ?st r = Inr st'" and r: "raw_of r = raw" "is_discontinuity r"
    by (auto simp: control_record_def Let_def raw_of_def ev_int_def is_discontinuity_def)
  from write_record_Inr [OF w] obtain r' where r': "nv_records st' = nv_records ?st @ [r']"
      "nv_ordinal st' = nv_ordinal ?st + 1" "oget r' ''normalization_ordinal'' = JInt (nv_ordinal ?st)"
      "\<forall>k. k \<noteq> ''schema'' \<and> k \<noteq> ''normalization_ordinal'' \<longrightarrow> oget r' k = oget r k"
      "st' = ?st\<lparr>nv_records := nv_records st', nv_ordinal := nv_ordinal st'\<rparr>"
    by blast
  have f: "raw_of r' = raw" "is_discontinuity r'"
    using r r'(4) by (simp_all add: raw_of_def ev_int_def is_discontinuity_def)
  have g: "nv_raw st' = nv_raw st" "nv_discontinuous st'"
    by (subst r'(5), simp)+
  have "log_ok st'"
    using assms(1,2) r'(1,2,3) f g by (intro log_extend [of st st' r']) (auto simp: log_ok_def)
  with g assms(2) show ?thesis by simp
qed

lemma write_record_log:
  assumes "log_ok st" and "raw_of r = nv_raw st" and "\<not> is_discontinuity r" and w: "write_record cfg st r = Inr st'"
  shows "log_ok st' \<and> nv_raw st' = nv_raw st"
proof -
  from write_record_Inr [OF w] obtain r' where r': "nv_records st' = nv_records st @ [r']"
      "nv_ordinal st' = nv_ordinal st + 1" "oget r' ''normalization_ordinal'' = JInt (nv_ordinal st)"
      "\<forall>k. k \<noteq> ''schema'' \<and> k \<noteq> ''normalization_ordinal'' \<longrightarrow> oget r' k = oget r k"
      "st' = st\<lparr>nv_records := nv_records st', nv_ordinal := nv_ordinal st'\<rparr>"
    by blast
  have f: "raw_of r' = nv_raw st" "\<not> is_discontinuity r'"
    using assms(2,3) r'(4) by (simp_all add: raw_of_def ev_int_def is_discontinuity_def)
  have g: "nv_raw st' = nv_raw st" "nv_discontinuous st' = nv_discontinuous st"
    by (subst r'(5), simp)+
  have "log_ok st'"
    using assms(1) r'(1,2,3) f g by (intro log_extend [of st st' r']) (auto simp: log_ok_def)
  with g show ?thesis by simp
qed

text \<open>A change of the other fields.\<close>

definition same_log :: "nv_state \<Rightarrow> nv_state \<Rightarrow> bool" where
  "same_log st st' \<longleftrightarrow> nv_records st' = nv_records st \<and> nv_ordinal st' = nv_ordinal st \<and> nv_raw st' = nv_raw st \<and>
     nv_discontinuous st' = nv_discontinuous st"

lemma same_log_ok: "log_ok st \<Longrightarrow> same_log st st' \<Longrightarrow> log_ok st' \<and> nv_raw st' = nv_raw st"
  by (simp add: log_ok_def same_log_def)

definition same_books :: "nv_state \<Rightarrow> nv_state \<Rightarrow> bool" where
  "same_books st st' \<longleftrightarrow> same_log st st' \<and> nv_markets st' = nv_markets st \<and> nv_market_ids st' = nv_market_ids st \<and>
     set (nv_reasons st) \<subseteq> set (nv_reasons st')"

lemma same_books_log: "same_books st st' \<Longrightarrow> same_log st st'"
  by (simp add: same_books_def)

lemma lose_connection_log:
  assumes "log_ok st \<and> nv_raw st = raw" and "lose_connection cfg r connection raw received st t = Inr st'"
  shows "log_ok st' \<and> nv_raw st' = raw"
proof -
  from assms(2) obtain st2 d where c: "control_record cfg st2 raw received ''connection_gap'' (JStr t) JNull d = Inr st'"
    and s: "same_log st st2"
    by (auto simp: lose_connection_def rbind_eq_Inr Let_def same_log_def add_reason_def split: if_splits)
  from same_log_ok [OF _ s] assms(1) have "log_ok st2" "raw = nv_raw st2" by auto
  from control_record_log [OF this c] show ?thesis by simp
qed

interpretation lose_connections: res_machine "lose_connection cfg r connection raw received"
    "\<lambda>st. log_ok st \<and> nv_raw st = raw" for cfg r connection raw received
  by unfold_locales (rule lose_connection_log)

lemma lose_market_same: "lose_market st t = Inr st' \<Longrightarrow> same_log st st'"
  by (auto simp: lose_market_def rbind_eq_Inr same_log_def)

interpretation lose_markets: res_machine lose_market "\<lambda>st. same_log s st" for s
  by unfold_locales (auto simp: same_log_def dest!: lose_market_same)

lemma sequence_gap_log:
  assumes "log_ok st" and "raw = nv_raw st" and "sequence_gap cfg st scope t raw received p n = Inr st'"
  shows "log_ok st' \<and> nv_raw st' = raw \<and> nv_discontinuous st'"
proof -
  from assms(3) obtain st1 d where c: "control_record cfg st raw received ''sequence_gap'' JNull
        (JStr (so_id scope)) d = Inr st1"
    and rest: "st' = st1 \<or> (\<exists>ts. res_fold lose_market st1 ts = Inr st')"
    by (auto simp: sequence_gap_def rbind_eq_Inr Let_def simp del: res_fold.simps split: if_splits)
  note L = control_record_log [OF assms(1,2) c]
  have "same_log st1 st'"
    using rest lose_markets.run_inv [of st1 st1] by (auto simp: same_log_def)
  with L same_log_ok [of st1 st'] show ?thesis by (auto simp: same_log_def)
qed

lemma check_sequence_step:
  assumes "check_sequence cfg st scope key t m raw received n = Inr (d, st')"
  shows "same_books st st' \<or> (\<exists>st1 p. sequence_gap cfg st scope t raw received p n = Inr st1 \<and> same_log st1 st')"
proof (cases "sget (nv_payloads st) (key, n)")
  case (Some h)
  with assms show ?thesis by (auto simp: check_sequence_def rbind_eq_Inr Let_def same_books_def same_log_def)
next
  case None
  define gap where "gap = (case sget (nv_previous st) key of
      None \<Rightarrow> Inr st
    | Some p \<Rightarrow> (if p + 1 < n then sequence_gap cfg st scope t raw received p n else Inr st))"
  from assms None obtain st1 where st1: "gap = Inr st1" and s: "same_books st1 st'"
    unfolding check_sequence_def Let_def None option.case gap_def rbind_eq_Inr by (auto simp: same_books_def same_log_def)
  from st1 have "st1 = st \<or> (\<exists>p. sequence_gap cfg st scope t raw received p n = Inr st1)"
    unfolding gap_def by (cases "sget (nv_previous st) key") (auto split: if_splits)
  with s same_books_log [OF s] show ?thesis by blast
qed

lemma check_sequence_log:
  assumes "log_ok st" and "raw = nv_raw st" and "check_sequence cfg st scope key t m raw received n = Inr (d, st')"
  shows "log_ok st' \<and> nv_raw st' = raw \<and> (\<not> nv_discontinuous st' \<longrightarrow> same_books st st')"
proof -
  from check_sequence_step [OF assms(3)] show ?thesis
  proof (elim disjE exE conjE)
    assume s: "same_books st st'"
    with same_log_ok [OF assms(1) same_books_log [OF s]] assms(2) show ?thesis by simp
  next
    fix st1 p assume "sequence_gap cfg st scope t raw received p n = Inr st1" "same_log st1 st'"
    with sequence_gap_log [OF assms(1,2) this(1)] same_log_ok [of st1 st'] show ?thesis
      by (auto simp: same_log_def)
  qed
qed

lemma nv_sequenced_log:
  assumes "log_ok st" and "raw = nv_raw st" and "nv_sequenced cfg st r scope ty m t raw received s = Inr (d, st')"
  shows "log_ok st' \<and> nv_raw st' = raw \<and> (\<not> nv_discontinuous st' \<longrightarrow> same_books st st')"
proof (cases "s = JNull")
  case True
  with assms(3) have "same_books st st'"
    by (auto simp: nv_sequenced_def rbind_eq_Inr Let_def same_books_def same_log_def add_reason_def split: if_splits)
  with same_log_ok [OF assms(1) same_books_log [OF this]] assms(2) show ?thesis by simp
next
  case False
  with assms(3) obtain key n where "check_sequence cfg st scope key t m raw received n = Inr (d, st')"
    by (auto simp: nv_sequenced_def rbind_eq_Inr Let_def)
  from check_sequence_log [OF assms(1,2) this] show ?thesis .
qed

lemma open_segment_writes:
  assumes "open_segment cfg st scope connection ticker raw received = Inr st'"
  shows "\<exists>m st1. sget (nv_markets st) ticker = Some m \<and> \<not> ms_valid m \<and> same_log st st1 \<and>
    nv_markets st1 = sset (nv_markets st) ticker (market_opened m) \<and> nv_market_ids st1 = nv_market_ids st \<and>
    nv_reasons st1 = nv_reasons st \<and>
    write_record cfg st1 (boundary_record cfg scope ticker raw received (max (nv_time st) received) (ms_awaiting m)
      (ms_segment (market_opened m))) = Inr st'"
proof -
  from assms obtain m where "sget (nv_markets st) ticker = Some m" "\<not> ms_valid m"
    "write_record cfg
       (st\<lparr>nv_markets := sset (nv_markets st) ticker (market_opened m),
          nv_snapshots := counter_add (nv_snapshots st) (connection, ticker) 1\<rparr>)
       (boundary_record cfg scope ticker raw received (max (nv_time st) received) (ms_awaiting m)
          (ms_segment (market_opened m))) = Inr st'"
    unfolding open_segment_def market_at_def by (auto simp: rbind_eq_Inr)
  then show ?thesis
    by (intro exI [of _ m] exI [of _ "st\<lparr>nv_markets := sset (nv_markets st) ticker (market_opened m),
          nv_snapshots := counter_add (nv_snapshots st) (connection, ticker) 1\<rparr>"])
      (simp add: same_log_def)
qed

lemma boundary_fields [simp]:
  "oget (boundary_record cfg scope t raw received time aw n) ''kind'' = JStr ''segment_boundary''"
  "oget (boundary_record cfg scope t raw received time aw n) ''raw_ingress_ordinal'' = JInt raw"
  "oget (boundary_record cfg scope t raw received time aw n) ''ticker'' = JStr t"
  "oget (boundary_record cfg scope t raw received time aw n) ''source_scope_id'' = JStr (so_id scope)"
  "oget (boundary_record cfg scope t raw received time aw n) ''book_segment_id'' = JStr (segment_name t n)"
  "oget (boundary_record cfg scope t raw received time aw n) ''start_evidence'' =
     (case aw of None \<Rightarrow> JNull | Some a \<Rightarrow> JStr a)"
  "oget (boundary_record cfg scope t raw received time aw n) ''continuity_claim'' = JStr ''valid_from_observed_snapshot_only''"
  by (simp_all add: boundary_record_def)

lemma event_fields [simp]:
  "oget (v2_event cfg r scope ty t market b payload c sequence raw m et) ''kind'' = JStr ''market_event''"
  "oget (v2_event cfg r scope ty t market b payload c sequence raw m et) ''raw_ingress_ordinal'' = JInt raw"
  "oget (v2_event cfg r scope ty t market b payload c sequence raw m et) ''ticker'' = JStr t"
  "oget (v2_event cfg r scope ty t market b payload c sequence raw m et) ''source_scope_id'' = JStr (so_id scope)"
  "oget (v2_event cfg r scope ty t market b payload c sequence raw m et) ''venue_market_id'' = JStr market"
  "oget (v2_event cfg r scope ty t market b payload c sequence raw m et) ''book_segment_id'' =
     (if ms_segment m = 0 then JNull else JStr (segment_name t (ms_segment m)))"
  "oget (v2_event cfg r scope ty t market b payload c sequence raw m et) ''book_state_valid'' = JBool (ms_valid m)"
  "oget (v2_event cfg r scope ty t market b payload c sequence raw m et) ''event_type'' = JStr (event_type_of ty)"
  "oget (v2_event cfg r scope ty t market b payload c sequence raw m et) ''payload'' = JObj payload"
  by (simp_all add: v2_event_def)

lemma open_segment_log:
  assumes "log_ok st" and "raw = nv_raw st" and "open_segment cfg st scope connection ticker raw received = Inr st'"
  shows "log_ok st' \<and> nv_raw st' = raw"
proof -
  from open_segment_writes [OF assms(3)] obtain m st1 where s: "same_log st st1"
    and w: "write_record cfg st1 (boundary_record cfg scope ticker raw received (max (nv_time st) received)
       (ms_awaiting m) (ms_segment (market_opened m))) = Inr st'" by blast
  from same_log_ok [OF assms(1) s] have l: "log_ok st1" "nv_raw st1 = raw" using assms(2) by simp_all
  have "raw_of (boundary_record cfg scope ticker raw received (max (nv_time st) received) (ms_awaiting m)
       (ms_segment (market_opened m))) = nv_raw st1"
    "\<not> is_discontinuity (boundary_record cfg scope ticker raw received (max (nv_time st) received) (ms_awaiting m)
       (ms_segment (market_opened m)))"
    using l(2) by (simp_all add: raw_of_def ev_int_def is_discontinuity_def)
  from write_record_log [OF l(1) this w] l(2) show ?thesis by simp
qed

lemma check_delta_same: "check_delta cfg st t raw = Inr st' \<Longrightarrow>
  same_log st st' \<and> nv_markets st' = nv_markets st \<and> nv_market_ids st' = nv_market_ids st"
proof -
  assume "check_delta cfg st t raw = Inr st'"
  then obtain m :: market_state where m: "(if ms_valid m then Inr st
     else rbind (require ''DeltaBeforeRecovery'' (\<not> nv_refuse cfg)) (\<lambda>_.
       Inr (add_reason st [(''code'', JStr ''DeltaBeforeRecovery''), (''ticker'', JStr t),
                           (''raw_ingress_ordinal'', JInt raw)]))) = Inr st'"
    unfolding check_delta_def rbind_eq_Inr by (elim exE conjE) (rule that)
  have "st' = st \<or> (\<exists>x. st' = add_reason st x)"
    using m by (cases "ms_valid m") (auto simp: rbind_eq_Inr)
  then show ?thesis by (auto simp: same_log_def add_reason_def)
qed

lemma market_event_writes:
  assumes "market_event cfg st r scope ty message ticker market b payload connection sequence raw = Inr st'"
  shows "\<exists>m st1 et. sget (nv_markets st) ticker = Some m \<and> same_log st st1 \<and> nv_markets st1 = nv_markets st \<and>
    nv_market_ids st1 = nv_market_ids st \<and> nv_reasons st1 = nv_reasons st \<and>
    write_record cfg st1 (v2_event cfg r scope ty ticker market b payload connection sequence raw m et) = Inr st'"
proof -
  from assms obtain et m where "sget (nv_markets st) ticker = Some m"
    "write_record cfg (event_clock st (so_id scope) ty et)
      (v2_event cfg r scope ty ticker market b payload connection sequence raw m et) = Inr st'"
    unfolding market_event_def market_at_def Let_def by (auto simp: rbind_eq_Inr)
  then show ?thesis
    by (intro exI [of _ m] exI [of _ "event_clock st (so_id scope) ty et"] exI [of _ et])
      (simp add: same_log_def event_clock_def)
qed

lemma market_event_log:
  assumes "log_ok st" and "raw = nv_raw st"
    and "market_event cfg st r scope ty message ticker market b payload connection sequence raw = Inr st'"
  shows "log_ok st' \<and> nv_raw st' = raw"
proof -
  from market_event_writes [OF assms(3)] obtain m st1 et where s: "same_log st st1"
    and w: "write_record cfg st1 (v2_event cfg r scope ty ticker market b payload connection sequence raw m et) = Inr st'"
    by blast
  from same_log_ok [OF assms(1) s] have l: "log_ok st1" "nv_raw st1 = raw" using assms(2) by simp_all
  have "raw_of (v2_event cfg r scope ty ticker market b payload connection sequence raw m et) = nv_raw st1"
    "\<not> is_discontinuity (v2_event cfg r scope ty ticker market b payload connection sequence raw m et)"
    using l(2) by (simp_all add: raw_of_def ev_int_def is_discontinuity_def)
  from write_record_log [OF l(1) this w] l(2) show ?thesis by simp
qed

section \<open>One raw record\<close>

text \<open>An accepted frame, taken apart.\<close>

lemma nv_frame_Inr:
  assumes "nv_frame cfg st r raw received = Inr st'"
  shows "\<exists>connection scope ty message ticker pm payload.
    parse_raw_message r = Inr (ty, message) \<and> normalized_payload ty message = Inr (ticker, pm, payload) \<and>
    ticker \<in> set (nv_tickers cfg) \<and>
    nv_market cfg st r scope connection ty message ticker pm payload raw received = Inr st'"
  using assms unfolding nv_frame_def by (auto simp: rbind_eq_Inr split: prod.splits) blast

lemma nv_market_Inr:
  assumes "nv_market cfg st r scope connection ty message ticker pm payload raw received = Inr st'"
  shows "\<exists>market st1 sequence d st2. nv_bind_market st ticker pm = Inr (market, st1) \<and>
    nv_sequenced cfg st1 r scope ty message ticker raw received sequence = Inr (d, st2) \<and>
    (d \<and> st' = st2 \<or> \<not> d \<and> (\<exists>st3. book_step cfg st2 scope connection ty ticker raw received = Inr st3 \<and>
       market_event cfg st3 r scope ty message ticker market (pm \<noteq> None) payload connection sequence raw = Inr st'))"
proof -
  let ?s = "oget_default r ''source_sequence'' (oget message ''seq'')"
  from assms obtain market st1 where b: "nv_bind_market st ticker pm = Inr (market, st1)"
    and rest: "rbind (nv_sequenced cfg st1 r scope ty message ticker raw received ?s) (\<lambda>(duplicate, st2).
      if duplicate then Inr st2
      else
        rbind (book_step cfg st2 scope connection ty ticker raw received) (\<lambda>st3.
        market_event cfg st3 r scope ty message ticker market (pm \<noteq> None) payload connection ?s raw)) = Inr st'"
    unfolding nv_market_def Let_def rbind_eq_Inr [of "nv_bind_market st ticker pm"] by force
  from rest obtain d st2 where q: "nv_sequenced cfg st1 r scope ty message ticker raw received ?s = Inr (d, st2)"
    and out: "(if d then Inr st2
      else
        rbind (book_step cfg st2 scope connection ty ticker raw received) (\<lambda>st3.
        market_event cfg st3 r scope ty message ticker market (pm \<noteq> None) payload connection ?s raw)) = Inr st'"
    unfolding rbind_eq_Inr [of "nv_sequenced cfg st1 r scope ty message ticker raw received ?s"] by force
  from out have "d \<and> st' = st2 \<or> \<not> d \<and> (\<exists>st3. book_step cfg st2 scope connection ty ticker raw received = Inr st3 \<and>
       market_event cfg st3 r scope ty message ticker market (pm \<noteq> None) payload connection ?s raw = Inr st')"
    by (cases d) (simp_all add: rbind_eq_Inr)
  with b q show ?thesis by blast
qed

lemma nv_bind_market_same: "nv_bind_market st t pm = Inr (m, st') \<Longrightarrow>
  same_log st st' \<and> nv_markets st' = nv_markets st \<and> nv_reasons st' = nv_reasons st \<and>
  sget (nv_market_ids st') t = Some m \<and> (sget (nv_market_ids st) t = None \<or> st' = st) \<and>
  (\<forall>u. u \<noteq> t \<longrightarrow> sget (nv_market_ids st') u = sget (nv_market_ids st) u)"
  by (cases "sget (nv_market_ids st) t") (auto simp: nv_bind_market_def rbind_eq_Inr same_log_def)

lemma book_step_log:
  assumes "log_ok st" and "raw = nv_raw st" and "book_step cfg st scope connection ty ticker raw received = Inr st'"
  shows "log_ok st' \<and> nv_raw st' = raw"
proof -
  consider "ty = ''orderbook_snapshot''" | "ty = ''orderbook_delta''" | "ty \<noteq> ''orderbook_snapshot''" "ty \<noteq> ''orderbook_delta''"
    by blast
  then show ?thesis
  proof cases
    case 1
    with assms(3) have "open_segment cfg st scope connection ticker raw received = Inr st'" by (simp add: book_step_def)
    with assms(1,2) show ?thesis by (rule open_segment_log)
  next
    case 2
    with assms(3) have "check_delta cfg st ticker raw = Inr st'" by (simp add: book_step_def)
    then have s: "same_log st st'" using check_delta_same by blast
    from same_log_ok [OF assms(1) s] assms(2) show ?thesis by simp
  next
    case 3
    with assms show ?thesis by (simp add: book_step_def)
  qed
qed

lemma nv_frame_log:
  assumes "log_ok st" and "raw = nv_raw st" and "nv_frame cfg st r raw received = Inr st'"
  shows "log_ok st' \<and> nv_raw st' = raw"
proof -
  from nv_frame_Inr [OF assms(3)] obtain connection scope ty message ticker pm payload where
    "nv_market cfg st r scope connection ty message ticker pm payload raw received = Inr st'" by blast
  from nv_market_Inr [OF this] obtain market st1 sequence d st2 where
    b: "nv_bind_market st ticker pm = Inr (market, st1)"
    and q: "nv_sequenced cfg st1 r scope ty message ticker raw received sequence = Inr (d, st2)"
    and out: "d \<and> st' = st2 \<or> \<not> d \<and> (\<exists>st3. book_step cfg st2 scope connection ty ticker raw received = Inr st3 \<and>
       market_event cfg st3 r scope ty message ticker market (pm \<noteq> None) payload connection sequence raw = Inr st')"
    by blast
  have "same_log st st1" using nv_bind_market_same [OF b] by blast
  from same_log_ok [OF assms(1) this] have l1: "log_ok st1" "raw = nv_raw st1" using assms(2) by simp_all
  from nv_sequenced_log [OF l1 q] have l2: "log_ok st2" "raw = nv_raw st2" by simp_all
  show ?thesis
  proof (cases d)
    case True
    with out l2 show ?thesis by simp
  next
    case False
    with out obtain st3 where s3: "book_step cfg st2 scope connection ty ticker raw received = Inr st3"
      and e: "market_event cfg st3 r scope ty message ticker market (pm \<noteq> None) payload connection sequence raw = Inr st'"
      by blast
    from book_step_log [OF l2 s3] have "log_ok st3" "raw = nv_raw st3" by simp_all
    from market_event_log [OF this e] show ?thesis .
  qed
qed

text \<open>The other kinds of raw records write nothing, or only discontinuities.\<close>

lemma subscription_same:
  "subscription_sent cfg st r = Inr st' \<Longrightarrow> same_log st st' \<and> nv_markets st' = nv_markets st \<and>
     nv_market_ids st' = nv_market_ids st \<and> nv_reasons st' = nv_reasons st"
  "subscription_acknowledged cfg st r = Inr st' \<Longrightarrow> same_log st st' \<and> nv_markets st' = nv_markets st \<and>
     nv_market_ids st' = nv_market_ids st \<and> nv_reasons st' = nv_reasons st"
  unfolding subscription_sent_def subscription_acknowledged_def rbind_eq_Inr Let_def
  by (elim exE conjE; simp add: same_log_def; (drule sym, simp)?)+

lemma nv_dispatch_cases:
  assumes "nv_dispatch cfg st r raw received = Inr st'"
  shows "subscription_sent cfg st r = Inr st' \<or> subscription_acknowledged cfg st r = Inr st' \<or>
    connection_gap cfg st r raw received = Inr st' \<or> st' = st \<or>
    st' = add_reason st [(''code'', JStr ''UnsupportedBinaryFrame''), (''raw_ingress_ordinal'', JInt raw)] \<or>
    nv_frame cfg st r raw received = Inr st'"
proof -
  let ?k = "oget r ''kind''"
  consider "?k = JStr ''subscription_sent''" | "?k = JStr ''subscription_acknowledged''" | "?k = JStr ''connection_gap''"
    | "?k \<noteq> JStr ''subscription_sent''" "?k \<noteq> JStr ''subscription_acknowledged''" "?k \<noteq> JStr ''connection_gap''"
    by blast
  then show ?thesis
  proof cases
    case 4
    let ?frame = "rbind (in_names (oget r ''message_type'') market_types) (\<lambda>known.
        if known then nv_frame cfg st r raw received else Inr st)"
    from assms 4 obtain b where
      out: "(if b then
          Inr (if ?k = JStr ''binary_frame_rejected''
               then add_reason st [(''code'', JStr ''UnsupportedBinaryFrame''), (''raw_ingress_ordinal'', JInt raw)]
               else st)
        else if ?k \<noteq> JStr ''inbound_frame'' then Inr st else ?frame) = Inr st'"
      unfolding nv_dispatch_def Let_def if_not_P [OF 4(1)] if_not_P [OF 4(2)] if_not_P [OF 4(3)] rbind_eq_Inr [of "in_names ?k _"]
      by (elim exE conjE) (rule that)
    have frame: "?frame = Inr st' \<Longrightarrow> st' = st \<or> nv_frame cfg st r raw received = Inr st'"
      unfolding rbind_eq_Inr by (elim exE conjE) (simp split: if_splits)
    show ?thesis
      using out frame by (auto split: if_splits)
  qed (use assms in \<open>simp_all add: nv_dispatch_def\<close>)
qed

lemma nv_dispatch_log:
  assumes "log_ok st" and "raw = nv_raw st" and "nv_dispatch cfg st r raw received = Inr st'"
  shows "log_ok st' \<and> nv_raw st' = raw"
  using nv_dispatch_cases [OF assms(3)]
proof (elim disjE)
  assume "subscription_sent cfg st r = Inr st'"
  then have "same_log st st'" using subscription_same(1) by blast
  from same_log_ok [OF assms(1) this] assms(2) show ?thesis by simp
next
  assume "subscription_acknowledged cfg st r = Inr st'"
  then have "same_log st st'" using subscription_same(2) by blast
  from same_log_ok [OF assms(1) this] assms(2) show ?thesis by simp
next
  assume "connection_gap cfg st r raw received = Inr st'"
  then obtain c where run: "res_fold (lose_connection cfg r c raw received) st (nv_tickers cfg) = Inr st'"
    by (auto simp: connection_gap_def rbind_eq_Inr)
  from lose_connections.run_inv [OF _ run] assms(1,2) show ?thesis by blast
next
  assume "st' = add_reason st [(''code'', JStr ''UnsupportedBinaryFrame''), (''raw_ingress_ordinal'', JInt raw)]"
  then have "same_log st st'" by (simp add: same_log_def add_reason_def)
  from same_log_ok [OF assms(1) this] assms(2) show ?thesis by simp
next
  assume "nv_frame cfg st r raw received = Inr st'"
  with assms(1,2) show ?thesis by (rule nv_frame_log)
next
  assume "st' = st"
  with assms(1,2) show ?thesis by blast
qed

lemma nv_record_log:
  assumes "log_ok st" and "nv_record cfg st r = Inr st'"
  shows "log_ok st'"
proof -
  from assms(2) obtain raw received where raw: "raw = nv_raw st + 1"
    and run: "nv_dispatch cfg (st\<lparr>nv_processed := nv_processed st + 1, nv_raw := raw\<rparr>) r raw received = Inr st'"
    by (auto simp: nv_record_def rbind_eq_Inr)
  have "log_ok (st\<lparr>nv_processed := nv_processed st + 1, nv_raw := raw\<rparr>)"
    using assms(1) raw by (fastforce simp: log_ok_def)
  from nv_dispatch_log [OF this _ run] show ?thesis by simp
qed

lemma nv_line_record: "nv_line cfg st l = Inr st' \<Longrightarrow> \<exists>r. nv_record cfg st r = Inr st'"
  by (auto simp: nv_line_def rbind_eq_Inr)

interpretation nv_log: res_machine "nv_line cfg" log_ok for cfg
  by unfold_locales (auto dest!: nv_line_record intro: nv_record_log)

lemma nv_init_log: "log_ok (nv_init cfg)"
  by (simp add: log_ok_def nv_init_def)

section \<open>What the segment cursors see\<close>

definition cursor_fault :: "exn \<Rightarrow> bool" where
  "cursor_fault e \<longleftrightarrow> book_fault e \<or> e = HistoricalDataError ''FeatureProjectionInvalid''"

text \<open>A cursor that agrees with the normalizer's view of its market.\<close>

definition fits :: "string \<Rightarrow> string \<Rightarrow> market_state \<Rightarrow> segment_cursor \<Rightarrow> bool" where
  "fits t mid m c \<longleftrightarrow> sc_ticker c = t \<and> sc_market_id c = mid \<and> sc_pending c = None \<and> finite_book (sc_projection c) \<and>
     (if ms_valid m
      then sc_state c = Valid \<and> ms_segment m \<noteq> 0 \<and> sc_segment c = Some (segment_name t (ms_segment m))
      else sc_state c = Awaiting_Initial_Snapshot \<and> sc_seen c = [] \<and> ms_segment m = 0 \<and>
        ms_awaiting m = Some ''initial_snapshot'')"

definition cursor_fits :: "string \<Rightarrow> string \<Rightarrow> market_state \<Rightarrow> segment_cursor res \<Rightarrow> bool" where
  "cursor_fits t mid m r = (case r of Inl e \<Rightarrow> cursor_fault e | Inr c \<Rightarrow> fits t mid m c)"

lemma cursor_fits_simps [simp]:
  "cursor_fits t mid m (Inl e) = cursor_fault e" "cursor_fits t mid m (Inr c) = fits t mid m c"
  by (simp_all add: cursor_fits_def)

lemma cursor_fits_bind:
  "cursor_fits t mid m r \<Longrightarrow> (\<And>c. fits t mid m c \<Longrightarrow> cursor_fits t mid m' (f c)) \<Longrightarrow> cursor_fits t mid m' (rbind r f)"
  by (cases r) simp_all

lemma normal_event_order: "normal_event (with_order e n) = normal_event e"
  by (simp add: normal_event_def with_order_def)

lemma oget_order: "k \<noteq> ''ingress_order'' \<Longrightarrow> oget (with_order e n) k = oget e k"
  by (simp add: with_order_def)

lemma proj_apply_order_good:
  assumes "finite_book p" and "normal_event e" and "pj_ingress p + 1 = n"
  shows "good_step finite_book (proj_apply p (with_order e n))"
proof (rule proj_apply_good)
  show "normal_event (with_order e n)" using assms(2) by (simp add: normal_event_order)
  show "oget (with_order e n) ''ingress_order'' = JInt (pj_ingress p + 1)" using assms(3) by (simp add: with_order_def)
qed (rule assms(1))

lemma watermark_ints:
  "oget r ''raw_ingress_ordinal'' = JInt a \<Longrightarrow> oget r ''normalization_ordinal'' = JInt b \<Longrightarrow>
   watermark_of r = Inr \<lparr>cw_raw = a, cw_normalization = b\<rparr>"
  by (simp add: watermark_of_def)

text \<open>A boundary and its snapshot on a market that has no book.\<close>

lemma snapshot_fits:
  assumes c: "fits t mid m c" and m: "\<not> ms_valid m"
    and b: "oget b ''kind'' = JStr ''segment_boundary''" "oget b ''raw_ingress_ordinal'' = JInt raw"
      "oget b ''normalization_ordinal'' = JInt n" "oget b ''ticker'' = JStr t" "oget b ''source_scope_id'' = JStr sid"
      "oget b ''book_segment_id'' = JStr (segment_name t (Suc (ms_segment m)))" "oget b ''start_evidence'' = JStr ''initial_snapshot''"
      "oget b ''continuity_claim'' = JStr ''valid_from_observed_snapshot_only''"
    and e: "oget e ''raw_ingress_ordinal'' = JInt raw" "oget e ''normalization_ordinal'' = JInt k"
      "oget e ''ticker'' = JStr t" "oget e ''source_scope_id'' = JStr sid" "oget e ''venue_market_id'' = JStr mid"
      "oget e ''book_segment_id'' = JStr (segment_name t (Suc (ms_segment m)))" "oget e ''book_state_valid'' = JBool True"
      "oget e ''event_type'' = JStr ''book_snapshot''" "normal_event e"
  shows "cursor_fits t mid (market_opened m) (res_fold cursor_step c [Start_Segment b, Market_Event e])"
proof -
  have c': "sc_ticker c = t" "sc_market_id c = mid" "sc_pending c = None" "sc_state c = Awaiting_Initial_Snapshot"
      "sc_seen c = []" "ms_segment m = 0" "finite_book (sc_projection c)"
    using c m by (simp_all add: fits_def)
  have name: "nonempty_str (JStr (segment_name t (Suc (ms_segment m))))"
    by (simp add: nonempty_str_def segment_name_def)
  let ?w = "\<lparr>cw_raw = raw, cw_normalization = n\<rparr>"
  let ?c = "c\<lparr>sc_pending := Some b, sc_applied := Some ?w\<rparr>"
  have start: "start_segment c b = Inr ?c"
    by (simp add: start_segment_def c' b name [simplified c'] watermark_ints Let_def)
  have same: "same_fields [''ticker'', ''book_segment_id'', ''source_scope_id'', ''raw_ingress_ordinal''] e b"
    by (simp add: same_fields_def b e num_of_def)
  have idx: "oindex e ''book_segment_id'' = Inr (JStr (segment_name t (Suc (ms_segment m))))"
    "oindex b ''start_evidence'' = Inr (JStr ''initial_snapshot'')"
    using e(6) b(7) by (simp_all add: oindex_def oget_def split: option.splits)
  have good: "good_step finite_book (proj_apply proj_init (with_order e 1))"
    by (rule proj_apply_order_good [OF _ e(9)]) (simp_all add: finite_book_def finite_quantities_def proj_init_def)
  have "cursor_fits t mid (market_opened m) (rbind (apply_market_event ?c e) (\<lambda>(c', _). Inr c'))"
  proof (cases "proj_apply proj_init (with_order e 1)")
    case (Inl x)
    with good have "cursor_fault x" by (simp add: cursor_fault_def)
    with Inl show ?thesis
      by (simp add: apply_market_event_def apply_snapshot_def c' e same watermark_ints)
  next
    case (Inr p)
    with good have "finite_book p" by simp
    with Inr show ?thesis
      by (simp add: apply_market_event_def apply_snapshot_def c' e b same idx watermark_ints fits_def market_opened_def)
  qed
  then show ?thesis by (simp add: start)
qed

text \<open>Any other market event: the normalizer's validity mark is the cursor's state.\<close>

lemma event_fits:
  assumes c: "fits t mid m c" and live: "ms_valid m \<or> oget e ''event_type'' = JStr ''trade''"
    and e: "oget e ''raw_ingress_ordinal'' = JInt raw" "oget e ''normalization_ordinal'' = JInt k"
      "oget e ''ticker'' = JStr t" "oget e ''venue_market_id'' = JStr mid"
      "oget e ''book_segment_id'' = (if ms_segment m = 0 then JNull else JStr (segment_name t (ms_segment m)))"
      "oget e ''book_state_valid'' = JBool (ms_valid m)" "oget e ''event_type'' \<noteq> JStr ''book_snapshot''" "normal_event e"
  shows "cursor_fits t mid m (rbind (apply_market_event c e) (\<lambda>(c', _). Inr c'))"
proof (cases "ms_valid m")
  case True
  then have c': "sc_ticker c = t" "sc_market_id c = mid" "sc_pending c = None" "sc_state c = Valid" "ms_segment m \<noteq> 0"
      "sc_segment c = Some (segment_name t (ms_segment m))" "finite_book (sc_projection c)"
    using c by (simp_all add: fits_def)
  have good: "good_step finite_book (proj_apply (sc_projection c) (with_order e (pj_ingress (sc_projection c) + 1)))"
    by (rule proj_apply_order_good [OF c'(7) e(8)]) simp
  show ?thesis
  proof (cases "proj_apply (sc_projection c) (with_order e (pj_ingress (sc_projection c) + 1))")
    case (Inl x)
    with good have x: "book_fault x" by simp
    then have "cursor_fault (if is_value_error x then HistoricalDataError ''FeatureProjectionInvalid'' else x)"
      by (simp add: cursor_fault_def)
    with Inl show ?thesis
      by (simp add: apply_market_event_def c' e True watermark_ints reraise_def)
  next
    case (Inr p)
    with good have "finite_book p" by simp
    with Inr c' show ?thesis
      by (simp add: apply_market_event_def c' e True watermark_ints reraise_def fits_def)
  qed
next
  case False
  with live have trade: "oget e ''event_type'' = JStr ''trade''" by simp
  have c': "sc_ticker c = t" "sc_market_id c = mid" "sc_pending c = None" "sc_state c = Awaiting_Initial_Snapshot"
    using c False by (simp_all add: fits_def)
  show ?thesis
    using c False by (simp add: apply_market_event_def c' e trade watermark_ints fits_def)
qed

section \<open>The normalizer and the cursors agree\<close>

definition delta_reason :: "jobj \<Rightarrow> bool" where
  "delta_reason x = (oget x ''code'' = JStr ''DeltaBeforeRecovery'')"

text \<open>No discontinuity so far, and no delta outside a segment.\<close>

definition sound :: "nv_state \<Rightarrow> bool" where
  "sound st \<longleftrightarrow> \<not> nv_discontinuous st \<and> (\<forall>x \<in> set (nv_reasons st). \<not> delta_reason x)"

definition market_accepted :: "nv_state \<Rightarrow> string \<Rightarrow> bool" where
  "market_accepted st t \<longleftrightarrow>
     (\<exists>m. sget (nv_markets st) t = Some m \<and>
        (\<forall>mid. (\<forall>x. sget (nv_market_ids st) t = Some x \<longrightarrow> mid = x) \<longrightarrow>
           cursor_fits t mid m (res_fold cursor_step (cursor_init t mid) (product_ops t (nv_records st)))))"

definition cursor_accepts :: "nv_config \<Rightarrow> nv_state \<Rightarrow> bool" where
  "cursor_accepts cfg st \<longleftrightarrow> (sound st \<longrightarrow> (\<forall>t \<in> set (nv_tickers cfg). market_accepted st t))"

lemma cursor_accepts_sound: "cursor_accepts cfg st \<Longrightarrow> sound st \<Longrightarrow> t \<in> set (nv_tickers cfg) \<Longrightarrow> market_accepted st t"
  by (simp add: cursor_accepts_def)

lemma sound_back: "same_books st st' \<Longrightarrow> sound st' \<Longrightarrow> sound st"
  by (auto simp: same_books_def same_log_def sound_def)

lemma accepts_same_books: "cursor_accepts cfg st \<Longrightarrow> same_books st st' \<Longrightarrow> cursor_accepts cfg st'"
  using sound_back [of st st'] by (simp add: cursor_accepts_def market_accepted_def same_books_def same_log_def)

lemma write_record_rest:
  assumes "write_record cfg st r = Inr st'"
  shows "nv_discontinuous st' = nv_discontinuous st \<and> nv_markets st' = nv_markets st \<and>
    nv_market_ids st' = nv_market_ids st \<and> nv_reasons st' = nv_reasons st"
  using assms by (auto simp: write_record_def rbind_eq_Inr Let_def)

lemma bind_accepts:
  assumes "nv_bind_market st t pm = Inr (market, st1)" and "cursor_accepts cfg st"
  shows "cursor_accepts cfg st1 \<and> sget (nv_market_ids st1) t = Some market"
proof -
  note B = nv_bind_market_same [OF assms(1)]
  have "market_accepted st1 u" if "market_accepted st u" for u
    using that B by (cases "u = t") (fastforce simp: market_accepted_def same_log_def)+
  with B assms(2) show ?thesis by (auto simp: cursor_accepts_def sound_def same_log_def)
qed

text \<open>Writing a record of market \<open>t\<close> only matters to \<open>t\<close>.\<close>

lemma other_market:
  assumes "market_accepted st u" and "u \<noteq> t" and "sget (nv_markets st') u = sget (nv_markets st) u"
    and "nv_market_ids st' = nv_market_ids st" and "product_ops u (nv_records st') = product_ops u (nv_records st)"
  shows "market_accepted st' u"
  using assms by (simp add: market_accepted_def)

lemma frame_snapshot:
  assumes acc: "cursor_accepts cfg st" and id: "sget (nv_market_ids st) t = Some market"
    and b: "open_segment cfg st scope connection t raw received = Inr st3"
    and e: "market_event cfg st3 r scope ''orderbook_snapshot'' message t market pm payload connection s raw = Inr st'"
    and payload: "normalized_payload ''orderbook_snapshot'' message = Inr (t, x, payload)"
  shows "cursor_accepts cfg st'"
  unfolding cursor_accepts_def
proof (intro impI ballI)
  fix u assume sound: "sound st'" and u: "u \<in> set (nv_tickers cfg)"
  from open_segment_writes [OF b] obtain m st1 where m: "sget (nv_markets st) t = Some m" "\<not> ms_valid m"
    and s1: "same_log st st1" "nv_markets st1 = sset (nv_markets st) t (market_opened m)"
      "nv_market_ids st1 = nv_market_ids st" "nv_reasons st1 = nv_reasons st"
    and wb: "write_record cfg st1 (boundary_record cfg scope t raw received (max (nv_time st) received) (ms_awaiting m)
      (ms_segment (market_opened m))) = Inr st3" by blast
  from write_record_Inr [OF wb] obtain b' where b': "nv_records st3 = nv_records st1 @ [b']"
      "oget b' ''normalization_ordinal'' = JInt (nv_ordinal st1)"
    and bf: "\<forall>k. k \<noteq> ''schema'' \<and> k \<noteq> ''normalization_ordinal'' \<longrightarrow> oget b' k =
      oget (boundary_record cfg scope t raw received (max (nv_time st) received) (ms_awaiting m)
        (ms_segment (market_opened m))) k"
    by blast
  note R3 = write_record_rest [OF wb]
  from market_event_writes [OF e] obtain m3 st4 et where m3: "sget (nv_markets st3) t = Some m3"
    and s4: "same_log st3 st4" "nv_markets st4 = nv_markets st3" "nv_market_ids st4 = nv_market_ids st3"
      "nv_reasons st4 = nv_reasons st3"
    and we: "write_record cfg st4 (v2_event cfg r scope ''orderbook_snapshot'' t market pm payload connection s raw m3 et) = Inr st'"
    by blast
  from write_record_Inr [OF we] obtain e' where e': "nv_records st' = nv_records st4 @ [e']"
      "oget e' ''normalization_ordinal'' = JInt (nv_ordinal st4)"
    and ef: "\<forall>k. k \<noteq> ''schema'' \<and> k \<noteq> ''normalization_ordinal'' \<longrightarrow> oget e' k =
      oget (v2_event cfg r scope ''orderbook_snapshot'' t market pm payload connection s raw m3 et) k"
    by blast
  note R' = write_record_rest [OF we]
  have m3': "m3 = market_opened m" using m3 R3 s1(2) by simp
  have recs: "nv_records st' = nv_records st @ [b', e']"
    using e'(1) b'(1) s4(1) s1(1) by (simp add: same_log_def)
  have ops: "product_ops v (nv_records st') = product_ops v (nv_records st) @
      (if t = v then [Start_Segment b', Market_Event e'] else [])" for v
    using bf ef by (simp add: recs product_ops_def record_op_def)
  have sound0: "sound st"
    using sound R' R3 s4 s1 by (simp add: sound_def same_log_def)
  show "market_accepted st' u"
  proof (cases "u = t")
    case False
    with cursor_accepts_sound [OF acc sound0 u] R' R3 s4 s1 show ?thesis
      by (intro other_market [of st u t st']) (simp_all add: ops)
  next
    case True
    have opened: "ms_segment (market_opened m) = Suc (ms_segment m)" "ms_valid (market_opened m)"
      by (simp_all add: market_opened_def)
    have normal: "normal_event e'"
      unfolding normal_event_def using payload ef by (auto simp: market_types_def)
    have ev: "event_type_of ''orderbook_snapshot'' = ''book_snapshot''" by (simp add: event_type_of_def)
    have step: "cursor_fits t market (market_opened m) (res_fold cursor_step c [Start_Segment b', Market_Event e'])"
      if fit: "fits t market m c" for c
    proof (rule snapshot_fits [OF fit m(2), of b' raw "nv_ordinal st1" "so_id scope" e' "nv_ordinal st4"])
      have aw: "ms_awaiting m = Some ''initial_snapshot''" using fit m(2) by (simp add: fits_def)
      show "oget b' ''start_evidence'' = JStr ''initial_snapshot''" using bf by (simp add: aw)
    qed (use bf ef b'(2) e'(2) m3' opened normal ev in simp_all)
    from cursor_accepts_sound [OF acc sound0 u] m(1) id True have
      "cursor_fits t market m (res_fold cursor_step (cursor_init t market) (product_ops t (nv_records st)))"
      by (auto simp: market_accepted_def)
    then have fin: "cursor_fits t market (market_opened m)
        (res_fold cursor_step (cursor_init t market) (product_ops t (nv_records st')))"
      unfolding ops res_fold_append using step by (auto intro: cursor_fits_bind simp del: res_fold.simps)
    have "sget (nv_markets st') t = Some (market_opened m)" "nv_market_ids st' = nv_market_ids st"
      using R' R3 s4 s1 by simp_all
    with fin id True show ?thesis by (auto simp: market_accepted_def)
  qed
qed

lemma frame_event:
  assumes acc: "cursor_accepts cfg st" and id: "sget (nv_market_ids st) t = Some market"
    and live: "\<And>m. sget (nv_markets st) t = Some m \<Longrightarrow> ms_valid m \<or> ty = ''trade''"
    and e: "market_event cfg st r scope ty message t market pm payload connection s raw = Inr st'"
    and payload: "normalized_payload ty message = Inr (t, x, payload)" "ty \<in> set market_types" "ty \<noteq> ''orderbook_snapshot''"
  shows "cursor_accepts cfg st'"
  unfolding cursor_accepts_def
proof (intro impI ballI)
  fix u assume sound: "sound st'" and u: "u \<in> set (nv_tickers cfg)"
  from market_event_writes [OF e] obtain m st4 et where m: "sget (nv_markets st) t = Some m"
    and s4: "same_log st st4" "nv_markets st4 = nv_markets st" "nv_market_ids st4 = nv_market_ids st"
      "nv_reasons st4 = nv_reasons st"
    and we: "write_record cfg st4 (v2_event cfg r scope ty t market pm payload connection s raw m et) = Inr st'"
    by blast
  from write_record_Inr [OF we] obtain e' where e': "nv_records st' = nv_records st4 @ [e']"
      "oget e' ''normalization_ordinal'' = JInt (nv_ordinal st4)"
    and ef: "\<forall>k. k \<noteq> ''schema'' \<and> k \<noteq> ''normalization_ordinal'' \<longrightarrow> oget e' k =
      oget (v2_event cfg r scope ty t market pm payload connection s raw m et) k"
    by blast
  note R' = write_record_rest [OF we]
  have ops: "product_ops v (nv_records st') = product_ops v (nv_records st) @ (if t = v then [Market_Event e'] else [])" for v
    using ef s4(1) by (simp add: e'(1) same_log_def product_ops_def record_op_def)
  have sound0: "sound st"
    using sound R' s4 by (simp add: sound_def same_log_def)
  show "market_accepted st' u"
  proof (cases "u = t")
    case False
    with cursor_accepts_sound [OF acc sound0 u] R' s4 show ?thesis
      by (intro other_market [of st u t st']) (simp_all add: ops)
  next
    case True
    have normal: "normal_event e'"
      unfolding normal_event_def using payload ef by auto
    have ty: "ty = ''orderbook_delta'' \<or> ty = ''trade''" using payload(2,3) by (auto simp: market_types_def)
    then have ev: "event_type_of ty \<noteq> ''book_snapshot''" "ty = ''trade'' \<Longrightarrow> event_type_of ty = ''trade''"
      by (auto simp: event_type_of_def)
    have step: "cursor_fits t market m (rbind (apply_market_event c e') (\<lambda>(c', _). Inr c'))"
      if fit: "fits t market m c" for c
    proof (rule event_fits [OF fit, of e' raw "nv_ordinal st4"])
      show "ms_valid m \<or> oget e' ''event_type'' = JStr ''trade''" using live [OF m] ev(2) ef by auto
    qed (use ef e'(2) normal ev(1) in simp_all)
    from cursor_accepts_sound [OF acc sound0 u] m id True have
      "cursor_fits t market m (res_fold cursor_step (cursor_init t market) (product_ops t (nv_records st)))"
      by (auto simp: market_accepted_def)
    then have fin: "cursor_fits t market m (res_fold cursor_step (cursor_init t market) (product_ops t (nv_records st')))"
      unfolding ops res_fold_append using step by (auto intro: cursor_fits_bind)
    have "sget (nv_markets st') t = Some m" "nv_market_ids st' = nv_market_ids st"
      using R' s4 m by simp_all
    with fin id True show ?thesis by (auto simp: market_accepted_def)
  qed
qed

lemma not_sound_accepts: "\<not> sound st \<Longrightarrow> cursor_accepts cfg st"
  by (simp add: cursor_accepts_def)

lemma market_event_keeps:
  assumes "market_event cfg st r scope ty message t market b payload connection s raw = Inr st'"
  shows "nv_discontinuous st' = nv_discontinuous st \<and> nv_reasons st' = nv_reasons st"
proof -
  from market_event_writes [OF assms] obtain m st1 et where s: "same_log st st1" "nv_reasons st1 = nv_reasons st"
    and w: "write_record cfg st1 (v2_event cfg r scope ty t market b payload connection s raw m et) = Inr st'"
    by blast
  from write_record_rest [OF w] s show ?thesis by (simp add: same_log_def)
qed

lemma check_delta_cases:
  assumes "check_delta cfg st t raw = Inr st'"
  shows "(st' = st \<and> (\<forall>m. sget (nv_markets st) t = Some m \<longrightarrow> ms_valid m)) \<or> \<not> sound st'"
proof -
  from assms obtain m :: market_state where m: "sget (nv_markets st) t = Some m" and out: "(if ms_valid m then Inr st
     else rbind (require ''DeltaBeforeRecovery'' (\<not> nv_refuse cfg)) (\<lambda>_.
       Inr (add_reason st [(''code'', JStr ''DeltaBeforeRecovery''), (''ticker'', JStr t),
                           (''raw_ingress_ordinal'', JInt raw)]))) = Inr st'"
    unfolding check_delta_def market_at_def rbind_eq_Inr of_option_eq by (elim exE conjE) (rule that)
  show ?thesis
  proof (cases "ms_valid m")
    case True
    with out m show ?thesis by simp
  next
    case False
    with out have "st' = add_reason st [(''code'', JStr ''DeltaBeforeRecovery''), (''ticker'', JStr t),
                           (''raw_ingress_ordinal'', JInt raw)]" by (simp add: rbind_eq_Inr)
    then have "\<not> sound st'" by (simp add: sound_def add_reason_def delta_reason_def)
    then show ?thesis ..
  qed
qed

lemma open_segment_keeps:
  assumes "open_segment cfg st scope connection t raw received = Inr st'"
  shows "nv_discontinuous st' = nv_discontinuous st"
proof -
  from open_segment_writes [OF assms] obtain m st1 where s: "same_log st st1"
    and w: "write_record cfg st1 (boundary_record cfg scope t raw received (max (nv_time st) received) (ms_awaiting m)
      (ms_segment (market_opened m))) = Inr st'" by blast
  from write_record_rest [OF w] s show ?thesis by (simp add: same_log_def)
qed

lemma book_step_keeps:
  assumes "book_step cfg st scope connection ty t raw received = Inr st'"
  shows "nv_discontinuous st' = nv_discontinuous st"
proof -
  consider "ty = ''orderbook_snapshot''" | "ty = ''orderbook_delta''" | "ty \<noteq> ''orderbook_snapshot''" "ty \<noteq> ''orderbook_delta''"
    by blast
  then show ?thesis
  proof cases
    case 1
    with assms show ?thesis by (simp add: book_step_def open_segment_keeps)
  next
    case 2
    with assms have "check_delta cfg st t raw = Inr st'" by (simp add: book_step_def)
    from check_delta_same [OF this] show ?thesis by (simp add: same_log_def)
  next
    case 3
    with assms show ?thesis by (simp add: book_step_def)
  qed
qed

lemma nv_market_accepts:
  assumes acc: "cursor_accepts cfg st" and log: "log_ok st" "raw = nv_raw st"
    and ty: "ty \<in> set market_types" and payload: "normalized_payload ty message = Inr (t, pm, payload)"
    and run: "nv_market cfg st r scope connection ty message t pm payload raw received = Inr st'"
  shows "cursor_accepts cfg st'"
proof -
  from nv_market_Inr [OF run] obtain market st1 sequence d st2 where
    b: "nv_bind_market st t pm = Inr (market, st1)"
    and q: "nv_sequenced cfg st1 r scope ty message t raw received sequence = Inr (d, st2)"
    and out: "d \<and> st' = st2 \<or> \<not> d \<and> (\<exists>st3. book_step cfg st2 scope connection ty t raw received = Inr st3 \<and>
       market_event cfg st3 r scope ty message t market (pm \<noteq> None) payload connection sequence raw = Inr st')"
    by blast
  have s1: "same_log st st1" using nv_bind_market_same [OF b] by blast
  from same_log_ok [OF log(1) s1] have l1: "log_ok st1" "raw = nv_raw st1" using log(2) by simp_all
  from bind_accepts [OF b acc] have a1: "cursor_accepts cfg st1" "sget (nv_market_ids st1) t = Some market" by simp_all
  show ?thesis
  proof (cases "nv_discontinuous st2")
    case True
    from out have "nv_discontinuous st'"
    proof (elim disjE conjE exE)
      fix st3 assume "book_step cfg st2 scope connection ty t raw received = Inr st3"
        and "market_event cfg st3 r scope ty message t market (pm \<noteq> None) payload connection sequence raw = Inr st'"
      with True market_event_keeps [OF this(2)] book_step_keeps [OF this(1)] show ?thesis by simp
    qed (use True in simp)
    then show ?thesis by (intro not_sound_accepts) (simp add: sound_def)
  next
    case False
    with nv_sequenced_log [OF l1 q] have same: "same_books st1 st2" by blast
    have a2: "cursor_accepts cfg st2" "sget (nv_market_ids st2) t = Some market"
      using accepts_same_books [OF a1(1) same] a1(2) same by (simp_all add: same_books_def)
    from out show ?thesis
    proof (elim disjE conjE exE)
      assume "st' = st2"
      with a2 show ?thesis by simp
    next
      fix st3 assume s3: "book_step cfg st2 scope connection ty t raw received = Inr st3"
        and e: "market_event cfg st3 r scope ty message t market (pm \<noteq> None) payload connection sequence raw = Inr st'"
      consider (snapshot) "ty = ''orderbook_snapshot''" | (delta) "ty = ''orderbook_delta''" | (trade) "ty = ''trade''"
        using ty by (auto simp: market_types_def)
      then show ?thesis
      proof cases
        case snapshot
        with s3 have "open_segment cfg st2 scope connection t raw received = Inr st3" by (simp add: book_step_def)
        from frame_snapshot [OF a2 this e [unfolded snapshot] payload [unfolded snapshot]] show ?thesis .
      next
        case delta
        with s3 have "check_delta cfg st2 t raw = Inr st3" by (simp add: book_step_def)
        from check_delta_cases [OF this] show ?thesis
        proof (elim disjE conjE)
          assume st3: "st3 = st2" and live: "\<forall>m. sget (nv_markets st2) t = Some m \<longrightarrow> ms_valid m"
          from frame_event [OF a2 _ e [unfolded st3] payload ty] live delta show ?thesis by simp
        next
          assume "\<not> sound st3"
          with market_event_keeps [OF e] have "\<not> sound st'" by (simp add: sound_def)
          then show ?thesis by (rule not_sound_accepts)
        qed
      next
        case trade
        with s3 have st3: "st3 = st2" by (simp add: book_step_def)
        from frame_event [OF a2 _ e [unfolded st3] payload ty] trade show ?thesis by simp
      qed
    qed
  qed
qed

lemma control_record_unsound: "control_record cfg st raw received t ticker sid d = Inr st' \<Longrightarrow> nv_discontinuous st'"
  by (auto simp: control_record_def Let_def dest!: write_record_rest)

lemma lose_connections_unsound:
  "res_fold (lose_connection cfg r c raw received) st ts = Inr st' \<Longrightarrow> st' = st \<or> nv_discontinuous st'"
proof (induction ts arbitrary: st)
  case Nil
  then show ?case by simp
next
  case (Cons t ts)
  from Cons.prems obtain s where s: "lose_connection cfg r c raw received st t = Inr s"
    and run: "res_fold (lose_connection cfg r c raw received) s ts = Inr st'"
    by (auto simp: rbind_eq_Inr)
  from s obtain st2 d where "control_record cfg st2 raw received ''connection_gap'' (JStr t) JNull d = Inr s"
    by (auto simp: lose_connection_def rbind_eq_Inr Let_def)
  then have "nv_discontinuous s" by (rule control_record_unsound)
  with Cons.IH [OF run] show ?case by blast
qed

lemma nv_dispatch_accepts:
  assumes acc: "cursor_accepts cfg st" and log: "log_ok st" "raw = nv_raw st"
    and run: "nv_dispatch cfg st r raw received = Inr st'"
  shows "cursor_accepts cfg st'"
  using nv_dispatch_cases [OF run]
proof (elim disjE)
  assume "subscription_sent cfg st r = Inr st'"
  then have "same_books st st'" using subscription_same(1) by (auto simp: same_books_def)
  with acc show ?thesis by (rule accepts_same_books)
next
  assume "subscription_acknowledged cfg st r = Inr st'"
  then have "same_books st st'" using subscription_same(2) by (auto simp: same_books_def)
  with acc show ?thesis by (rule accepts_same_books)
next
  assume "connection_gap cfg st r raw received = Inr st'"
  then obtain c where "res_fold (lose_connection cfg r c raw received) st (nv_tickers cfg) = Inr st'"
    by (auto simp: connection_gap_def rbind_eq_Inr)
  from lose_connections_unsound [OF this] acc show ?thesis
    by (auto intro: not_sound_accepts simp: sound_def)
next
  assume "st' = add_reason st [(''code'', JStr ''UnsupportedBinaryFrame''), (''raw_ingress_ordinal'', JInt raw)]"
  then have "same_books st st'" by (auto simp: same_books_def same_log_def add_reason_def)
  with acc show ?thesis by (rule accepts_same_books)
next
  assume "nv_frame cfg st r raw received = Inr st'"
  from nv_frame_Inr [OF this] obtain connection scope ty message t pm payload where
    p: "parse_raw_message r = Inr (ty, message)" "normalized_payload ty message = Inr (t, pm, payload)"
      "nv_market cfg st r scope connection ty message t pm payload raw received = Inr st'" by blast
  from nv_market_accepts [OF acc log parse_raw_message_type [OF p(1)] p(2,3)] show ?thesis .
next
  assume "st' = st"
  with acc show ?thesis by simp
qed

lemma nv_record_accepts:
  assumes acc: "cursor_accepts cfg st" and log: "log_ok st" and run: "nv_record cfg st r = Inr st'"
  shows "cursor_accepts cfg st'"
proof -
  from run obtain raw received where raw: "raw = nv_raw st + 1"
    and d: "nv_dispatch cfg (st\<lparr>nv_processed := nv_processed st + 1, nv_raw := raw\<rparr>) r raw received = Inr st'"
    by (auto simp: nv_record_def rbind_eq_Inr)
  let ?st = "st\<lparr>nv_processed := nv_processed st + 1, nv_raw := raw\<rparr>"
  have "cursor_accepts cfg ?st" using acc by (simp add: cursor_accepts_def sound_def market_accepted_def)
  moreover have "log_ok ?st" using log raw by (fastforce simp: log_ok_def)
  ultimately show ?thesis using nv_dispatch_accepts [OF _ _ _ d] by simp
qed

interpretation nv_books: res_machine "nv_line cfg" "\<lambda>st. log_ok st \<and> cursor_accepts cfg st" for cfg
  by unfold_locales (auto dest!: nv_line_record intro: nv_record_log nv_record_accepts)

lemma nv_init_accepts: "cursor_accepts cfg (nv_init cfg)"
proof -
  have get: "sget (map (\<lambda>t. (t, market_start)) ts) t = Some market_start" if "t \<in> set ts" for t ts
    using that by (induction ts) auto
  have "fits t mid market_start (cursor_init t mid)" for t mid
    by (simp add: fits_def market_start_def cursor_init_def finite_book_def finite_quantities_def proj_init_def)
  with get show ?thesis
    by (fastforce simp: cursor_accepts_def market_accepted_def nv_init_def product_ops_def)
qed

section \<open>The whole normalization\<close>

definition completeness :: "nv_output \<Rightarrow> json" where
  "completeness out = oget (nr_manifest out) ''completeness''"

text \<open>The market id the product map gives a ticker.\<close>

definition mapped_market :: "nv_output \<Rightarrow> string \<Rightarrow> string \<Rightarrow> bool" where
  "mapped_market out t mid \<longleftrightarrow>
     (\<exists>es entry. oget (nr_products out) ''products'' = JArr (map JObj es) \<and> entry \<in> set es \<and>
        oget entry ''ticker'' = JStr t \<and> oget entry ''venue_market_id'' = JStr mid)"

lemma normalize_v3_run:
  assumes "normalize_capture_v3 sha valid continuity load catalog policy inp = Inr out"
  shows "\<exists>cfg st. nv_refuse cfg = (continuity = ''refuse'') \<and> nv_finish cfg policy inp st = Inr out \<and>
    log_ok st \<and> cursor_accepts cfg st"
proof -
  from assms obtain cfg st where cfg: "nv_prepare sha valid continuity load catalog policy (read_json (nu_metadata inp)) = Inr cfg"
    and run: "res_fold (nv_line cfg) (nv_init cfg) (text_lines (nu_frames inp)) = Inr st"
    and fin: "nv_finish cfg policy inp st = Inr out"
    by (auto simp: normalize_capture_v3_def rbind_eq_Inr)
  from cfg have "nv_refuse cfg = (continuity = ''refuse'')"
    unfolding nv_prepare_def rbind_eq_Inr Let_def by (elim exE conjE) (simp, (drule sym, simp)?)
  with nv_books.run_inv [OF _ run] nv_init_log nv_init_accepts fin show ?thesis by blast
qed

lemma nv_finish_Inr:
  assumes "nv_finish cfg policy inp st = Inr out"
  shows "nr_records out = nv_records st \<and>
    completeness out = JStr (completeness_of (final_reasons cfg st) (nv_discontinuous st)) \<and>
    oget (nr_manifest out) ''incomplete_reasons'' = JArr (map JObj (final_reasons cfg st)) \<and>
    oget (nr_manifest out) ''market_tickers'' = names_json (nv_tickers cfg) \<and>
    (nv_refuse cfg \<longrightarrow> completeness out = JStr ''complete_observed_interval'') \<and>
    product_document cfg policy st = Inr (nr_products out) \<and>
    list_all (\<lambda>t. sget (nv_market_ids st) t \<noteq> None) (nv_tickers cfg)"
proof -
  let ?c = "completeness_of (final_reasons cfg st) (nv_discontinuous st)"
  from assms obtain products telemetry where p: "product_document cfg policy st = Inr products"
    and ids: "list_all (\<lambda>t. sget (nv_market_ids st) t \<noteq> None) (nv_tickers cfg)"
    and refuse: "?c = ''complete_observed_interval'' \<or> \<not> nv_refuse cfg"
    and out: "out = \<lparr>nr_records = nv_records st, nr_scopes = scope_map cfg st, nr_products = products,
       nr_manifest = nv_manifest cfg policy inp st (scope_map cfg st) products ?c (final_reasons cfg st),
       nr_telemetry = telemetry\<rparr>"
    unfolding nv_finish_def Let_def rbind_eq_Inr require_eq
    by (elim exE conjE, rule_tac products = xc and telemetry = xf in that, simp_all)
  have man: "oget (nv_manifest cfg policy inp st (scope_map cfg st) products ?c (final_reasons cfg st)) ''completeness'' = JStr ?c"
    "oget (nv_manifest cfg policy inp st (scope_map cfg st) products ?c (final_reasons cfg st)) ''incomplete_reasons'' =
       JArr (map JObj (final_reasons cfg st))"
    "oget (nv_manifest cfg policy inp st (scope_map cfg st) products ?c (final_reasons cfg st)) ''market_tickers'' =
       names_json (nv_tickers cfg)"
    by (simp_all add: nv_manifest_def Let_def)
  show ?thesis using p ids refuse by (auto simp: out completeness_def man)
qed

lemma complete_iff:
  "completeness_of reasons d = ''complete_observed_interval'' \<longleftrightarrow> reasons = [] \<and> \<not> d"
  by (simp add: completeness_of_def)

lemma product_document_entries:
  assumes "product_document cfg policy st = Inr doc" and "t \<in> set (nv_tickers cfg)" and "sget (nv_market_ids st) t = Some mid"
  shows "\<exists>es entry. oget doc ''products'' = JArr (map JObj es) \<and> entry \<in> set es \<and>
        oget entry ''ticker'' = JStr t \<and> oget entry ''venue_market_id'' = JStr mid"
proof -
  from assms(1) obtain es where es: "res_map (product_entry cfg policy st) (nv_tickers cfg) = Inr es"
    and doc: "oget doc ''products'' = JArr (map JObj es)"
    by (auto simp: product_document_def rbind_eq_Inr)
  from es have "list_all2 (\<lambda>t e. product_entry cfg policy st t = Inr e) (nv_tickers cfg) es"
    by (simp add: res_map_Inr_conv)
  with assms(2) obtain entry where entry: "entry \<in> set es" "product_entry cfg policy st t = Inr entry"
    by (auto simp: list_all2_conv_all_nth in_set_conv_nth) metis
  from entry(2) assms(3) have "oget entry ''ticker'' = JStr t \<and> oget entry ''venue_market_id'' = JStr mid"
    by (cases "sget (nv_packages cfg) t") (auto simp: product_entry_def rbind_eq_Inr Let_def)
  with doc entry(1) show ?thesis by blast
qed

section \<open>Properties\<close>

text \<open>C8: The log of a multi-market normalization and its verdict. The records written are numbered
  1, 2, 3, ... and follow the raw ingress order; the verdict is \<open>complete_observed_interval\<close> exactly
  when no reason against it was found and no discontinuity was written; and under the policy
  \<open>refuse\<close> nothing else is ever returned.\<close>

theorem normalization_v3_verdict:
  assumes "normalize_capture_v3 sha valid continuity load catalog policy inp = Inr out"
  shows "(\<forall>i < length (nr_records out). oget (nr_records out ! i) ''normalization_ordinal'' = JInt (int i + 1)) \<and>
    sorted (map raw_of (nr_records out)) \<and>
    (completeness out = JStr ''complete_observed_interval'' \<longleftrightarrow>
       oget (nr_manifest out) ''incomplete_reasons'' = JArr [] \<and> \<not> (\<exists>r \<in> set (nr_records out). is_discontinuity r)) \<and>
    (continuity = ''refuse'' \<longrightarrow> completeness out = JStr ''complete_observed_interval'')"
proof -
  from normalize_v3_run [OF assms] obtain cfg st where cfg: "nv_refuse cfg = (continuity = ''refuse'')"
    and fin: "nv_finish cfg policy inp st = Inr out" and log: "log_ok st" by blast
  note F = nv_finish_Inr [OF fin]
  from log have L: "\<forall>i < length (nr_records out). oget (nr_records out ! i) ''normalization_ordinal'' = JInt (int i + 1)"
    "sorted (map raw_of (nr_records out))"
    "nv_discontinuous st \<longleftrightarrow> (\<exists>r \<in> set (nr_records out). is_discontinuity r)"
    using F by (simp_all add: log_ok_def)
  have V: "completeness out = JStr ''complete_observed_interval'' \<longleftrightarrow>
      final_reasons cfg st = [] \<and> \<not> (\<exists>r \<in> set (nr_records out). is_discontinuity r)"
    using F complete_iff [of "final_reasons cfg st" "nv_discontinuous st"] L(3) by simp
  have R: "continuity = ''refuse'' \<longrightarrow> completeness out = JStr ''complete_observed_interval''"
    using F cfg by blast
  have "oget (nr_manifest out) ''incomplete_reasons'' = JArr [] \<longleftrightarrow> final_reasons cfg st = []"
    using F by simp
  with L V R show ?thesis by blast
qed

text \<open>C3: What a complete capture hands to the feature stage. If the verdict is
  \<open>complete_observed_interval\<close> then every requested market has a market id in the product map, and
  running its segment cursor over the records written about it is never refused for a missing,
  repeated or mismatched segment, a stale book or a wrong identity: the cursor can only fail on the
  contents of the book, and if it does not it ends with a valid book.\<close>

theorem complete_capture_accepted:
  assumes "normalize_capture_v3 sha valid continuity load catalog policy inp = Inr out"
    and "completeness out = JStr ''complete_observed_interval''"
    and "oget (nr_manifest out) ''market_tickers'' = names_json ts" and "t \<in> set ts"
  shows "\<exists>mid. mapped_market out t mid \<and>
    (case res_fold cursor_step (cursor_init t mid) (product_ops t (nr_records out)) of
       Inl e \<Rightarrow> cursor_fault e | Inr c \<Rightarrow> sc_state c = Valid \<and> sc_pending c = None)"
proof -
  from normalize_v3_run [OF assms(1)] obtain cfg st where
    fin: "nv_finish cfg policy inp st = Inr out" and acc: "cursor_accepts cfg st" by blast
  note F = nv_finish_Inr [OF fin]
  have "map JStr ts = map JStr (nv_tickers cfg)" using F assms(3) by (simp add: names_json_def)
  then have "ts = nv_tickers cfg" by (simp add: inj_map_eq_map inj_def)
  then have t: "t \<in> set (nv_tickers cfg)" using assms(4) by simp
  from F assms(2) have "completeness_of (final_reasons cfg st) (nv_discontinuous st) = ''complete_observed_interval''"
    by simp
  then have complete: "final_reasons cfg st = []" "\<not> nv_discontinuous st"
    by (simp_all add: complete_iff)
  then have sound: "sound st" by (simp add: sound_def final_reasons_def)
  from F t obtain mid where mid: "sget (nv_market_ids st) t = Some mid" by (auto simp: list_all_iff)
  from F have "product_document cfg policy st = Inr (nr_products out)" by simp
  from product_document_entries [OF this t mid] have map: "mapped_market out t mid" by (simp add: mapped_market_def)
  from cursor_accepts_sound [OF acc sound t] mid obtain m where m: "sget (nv_markets st) t = Some m"
    and fits: "cursor_fits t mid m (res_fold cursor_step (cursor_init t mid) (product_ops t (nr_records out)))"
    using F by (auto simp: market_accepted_def)
  from complete(1) sget_mem [OF m] have "ms_valid m"
    by (auto simp: final_reasons_def split: if_splits)
  with fits have "case res_fold cursor_step (cursor_init t mid) (product_ops t (nr_records out)) of
       Inl e \<Rightarrow> cursor_fault e | Inr c \<Rightarrow> sc_state c = Valid \<and> sc_pending c = None"
    by (auto simp: cursor_fits_def fits_def split: sum.splits)
  with map show ?thesis by blast
qed

section \<open>A small capture\<close>

text \<open>One connection, one market: the request, both acknowledgements and a snapshot.\<close>

definition sample_nv_ack :: "int \<Rightarrow> string \<Rightarrow> string \<Rightarrow> jobj" where
  "sample_nv_ack raw channel sid =
     [(''channel'', JStr channel), (''connection_segment_id'', JInt 1), (''kind'', JStr ''subscription_acknowledged''),
      (''membership_claim'', JStr ''request_bound_not_echoed_by_acknowledgement''),
      (''raw_ingress_ordinal'', JInt raw), (''received_at_utc_ns'', JInt 5),
      (''requested_market_tickers'', names_json [''T'']), (''schema'', JStr ''pmm.kalshi.raw_capture_record.v2''),
      (''subscription_request_id'', JStr ''c1:r1''), (''venue_subscription_id'', JStr sid), (''wire_request_id'', JInt 1)]"

definition sample_nv_text :: string where
  \<open>sample_nv_text =
     ''{"msg":{"market_id":"m","market_ticker":"T","no_dollars_fp":[],"yes_dollars_fp":[]},'' @
     ''"seq":1,"type":"orderbook_snapshot"}''\<close>

definition sample_nv_records :: "jobj list" where
  "sample_nv_records =
     [[(''connection_segment_id'', JInt 1), (''kind'', JStr ''subscription_sent''), (''raw_ingress_ordinal'', JInt 1),
       (''received_at_utc_ns'', JInt 5), (''schema'', JStr ''pmm.kalshi.raw_capture_record.v2''),
       (''subscription'', JObj [(''cmd'', JStr ''subscribe''), (''id'', JInt 1),
          (''params'', JObj [(''channels'', names_json [''orderbook_delta'', ''trade'']),
             (''market_tickers'', names_json [''T'']), (''use_yes_price'', JBool True)])]),
       (''subscription_request_id'', JStr ''c1:r1''), (''wire_request_id'', JInt 1)],
      sample_nv_ack 2 ''orderbook_delta'' ''7'', sample_nv_ack 3 ''trade'' ''8'',
      [(''connection_segment_id'', JInt 1), (''kind'', JStr ''inbound_frame''),
       (''message_type'', JStr ''orderbook_snapshot''), (''raw_frame_utf8'', JStr sample_nv_text),
       (''raw_ingress_ordinal'', JInt 4), (''received_at_utc_ns'', JInt 5),
       (''schema'', JStr ''pmm.kalshi.raw_capture_record.v2''), (''subscription_id'', JInt 7)]]"

definition sample_nv_metadata :: jobj where
  "sample_nv_metadata =
     [(''market_tickers'', names_json [''T'']), (''schema'', JStr ''pmm.kalshi.raw_capture.v2''),
      (''sequence_domain'', JObj [(''mechanical_validation_key'', sequence_key ''shared''),
         (''status'', JStr ''documented''), (''topology'', JStr ''shared'')])]"

definition sample_nv_input :: nv_input where
  "sample_nv_input = \<lparr>nu_directory = ''c'', nu_frames = jsonl_text sample_nv_records,
     nu_metadata = canonical_json (JObj sample_nv_metadata), nu_catalog_sha256 = [], nu_instrument = False\<rparr>"

definition sample_nv_config :: nv_config where
  "sample_nv_config =
     \<lparr>nv_tickers = [''T''],
      nv_domain = [(''mechanical_validation_key'', sequence_key ''shared''),
        (''status'', JStr ''documented''), (''topology'', JStr ''shared'')],
      nv_topology = ''shared'', nv_truth = ''Observed'', nv_refuse = True, nv_packages = [], nv_sha = (\<lambda>_. ''h''),
      nv_valid = (\<lambda>_ _. True)\<rparr>"

definition sample_nv_state :: nv_state where
  "sample_nv_state = projr (res_fold (nv_record sample_nv_config) (nv_init sample_nv_config) sample_nv_records)"

lemma sample_nv_facts:
  "json_plain (JObj sample_nv_metadata)" "sorted_obj sample_nv_metadata = sample_nv_metadata"
  "\<forall>d \<in> set sample_nv_records. json_plain (JObj d)" "map sorted_obj sample_nv_records = sample_nv_records"
  by code_simp+

lemma sample_nv_run:
  "case res_fold (nv_record sample_nv_config) (nv_init sample_nv_config) sample_nv_records of
     Inl _ \<Rightarrow> False
   | Inr st \<Rightarrow> final_reasons sample_nv_config st = [] \<and> \<not> nv_discontinuous st \<and> length (nv_records st) = 2 \<and>
       sget (nv_market_ids st) ''T'' = Some ''m''"
  by code_simp

lemma nv_prepare_parameters:
  assumes "nv_prepare sha valid continuity load catalog policy metadata = Inr cfg"
  shows "nv_sha cfg = sha \<and> nv_valid cfg = valid"
  using assms unfolding nv_prepare_def rbind_eq_Inr Let_def
  by (elim exE conjE) (simp, (drule sym, simp)?)

lemma sample_nv_prepares:
  "nv_prepare (\<lambda>_. ''h'') (\<lambda>_ _. True) ''refuse'' (\<lambda>_. Inl KeyError) None None (read_json (nu_metadata sample_nv_input)) =
     Inr sample_nv_config"
proof -
  have "case nv_prepare (\<lambda>_. ''h'') (\<lambda>_ _. True) ''refuse'' (\<lambda>_. Inl KeyError) None None (Inr sample_nv_metadata) of
      Inl _ \<Rightarrow> False
    | Inr c \<Rightarrow> nv_tickers c = nv_tickers sample_nv_config \<and> nv_domain c = nv_domain sample_nv_config \<and>
        nv_topology c = nv_topology sample_nv_config \<and> nv_truth c = nv_truth sample_nv_config \<and> nv_refuse c \<and>
        List.null (nv_packages c)"
    by code_simp
  then obtain c :: nv_config where c: "nv_prepare (\<lambda>_. ''h'') (\<lambda>_ _. True) ''refuse'' (\<lambda>_. Inl KeyError) None None
        (Inr sample_nv_metadata) = Inr c"
    "nv_tickers c = nv_tickers sample_nv_config" "nv_domain c = nv_domain sample_nv_config"
    "nv_topology c = nv_topology sample_nv_config" "nv_truth c = nv_truth sample_nv_config" "nv_refuse c"
    "List.null (nv_packages c)"
    by (auto split: sum.splits)
  have "c = sample_nv_config"
    by (rule nv_config.equality)
      (use c nv_prepare_parameters [OF c(1)] in \<open>simp_all add: sample_nv_config_def List.null_iff\<close>)
  moreover have "read_json (nu_metadata sample_nv_input) = Inr sample_nv_metadata"
    using read_json_canonical [OF sample_nv_facts(1)] sample_nv_facts(2)
    by (simp add: sample_nv_input_def del: canonical_json.simps)
  ultimately show ?thesis using c(1) by simp
qed

lemma nv_line_canonical:
  "json_plain (JObj d) \<Longrightarrow> nv_line cfg st (canonical_json (JObj d) @ [CHR 0x0A]) = nv_record cfg st (sorted_obj d)"
  using json_loads_canonical(2) [of "JObj d"] by (simp add: nv_line_def sorted_obj_def)

lemma sample_nv_lines:
  "\<exists>st. res_fold (nv_line sample_nv_config) (nv_init sample_nv_config) (text_lines (nu_frames sample_nv_input)) = Inr st \<and>
     final_reasons sample_nv_config st = [] \<and> \<not> nv_discontinuous st \<and> length (nv_records st) = 2 \<and>
     sget (nv_market_ids st) ''T'' = Some ''m''"
  using sample_nv_run
    res_fold_jsonl_lines [of "nv_line sample_nv_config" "nv_record sample_nv_config", OF nv_line_canonical sample_nv_facts(3)]
  by (simp add: sample_nv_facts(4) sample_nv_input_def split: sum.splits)

lemma sample_nv_normalizes:
  "\<exists>out. normalize_capture_v3 (\<lambda>_. ''h'') (\<lambda>_ _. True) ''refuse'' (\<lambda>_. Inl KeyError) None None sample_nv_input = Inr out \<and>
     completeness out = JStr ''complete_observed_interval'' \<and>
     oget (nr_manifest out) ''market_tickers'' = names_json [''T''] \<and> length (nr_records out) = 2"
proof -
  from sample_nv_lines obtain st where
    run: "res_fold (nv_line sample_nv_config) (nv_init sample_nv_config) (text_lines (nu_frames sample_nv_input)) = Inr st"
    and st: "final_reasons sample_nv_config st = []" "\<not> nv_discontinuous st" "length (nv_records st) = 2"
      "sget (nv_market_ids st) ''T'' = Some ''m''"
    by blast
  have cfg: "nv_tickers sample_nv_config = [''T'']" "nv_packages sample_nv_config = []"
    "nv_valid sample_nv_config = (\<lambda>_ _. True)" "\<not> nu_instrument sample_nv_input"
    by (simp_all add: sample_nv_config_def sample_nv_input_def)
  from st obtain out where out: "nv_finish sample_nv_config None sample_nv_input st = Inr out"
    by (simp add: nv_finish_def Let_def require_def completeness_of_def validate_historical_schema_def cfg
        product_document_def product_entry_def)
  note F = nv_finish_Inr [OF out]
  from F st cfg have "completeness out = JStr ''complete_observed_interval'' \<and>
     oget (nr_manifest out) ''market_tickers'' = names_json [''T''] \<and> length (nr_records out) = 2"
    by (simp add: completeness_of_def)
  with run out sample_nv_prepares show ?thesis
    by (simp add: normalize_capture_v3_def)
qed

theorem normalization_v3_verdict_witness:
  "\<exists>out. normalize_capture_v3 (\<lambda>_. ''h'') (\<lambda>_ _. True) ''refuse'' (\<lambda>_. Inl KeyError) None None sample_nv_input = Inr out \<and>
     length (nr_records out) = 2 \<and>
     (\<forall>i < length (nr_records out). oget (nr_records out ! i) ''normalization_ordinal'' = JInt (int i + 1))"
  using sample_nv_normalizes normalization_v3_verdict by blast

theorem complete_capture_accepted_witness:
  "\<exists>out mid. normalize_capture_v3 (\<lambda>_. ''h'') (\<lambda>_ _. True) ''refuse'' (\<lambda>_. Inl KeyError) None None sample_nv_input = Inr out \<and>
     length (nr_records out) = 2 \<and> mapped_market out ''T'' mid \<and>
     (case res_fold cursor_step (cursor_init ''T'' mid) (product_ops ''T'' (nr_records out)) of
       Inl e \<Rightarrow> cursor_fault e | Inr c \<Rightarrow> sc_state c = Valid \<and> sc_pending c = None)"
proof -
  from sample_nv_normalizes obtain out where
    out: "normalize_capture_v3 (\<lambda>_. ''h'') (\<lambda>_ _. True) ''refuse'' (\<lambda>_. Inl KeyError) None None sample_nv_input = Inr out"
    "completeness out = JStr ''complete_observed_interval''"
    "oget (nr_manifest out) ''market_tickers'' = names_json [''T'']" "length (nr_records out) = 2"
    by blast
  from complete_capture_accepted [OF out(1,2,3)] out show ?thesis by auto
qed

end
