(* ===== verification/Backtest_Risk.thy ===== *)
theory Backtest_Risk
  imports Documents Field_Values Product_Catalog
begin

text \<open>
  The risk gates and the ledger of the backtests (\<open>pmm_phase7.py\<close>): the simulated orders
  (\<open>BacktestOrder\<close>), the reference gate (\<open>BacktestRisk\<close>), the client of the risk oracle
  (\<open>CxxRiskOracle\<close>) and the fill ledger (\<open>ResearchLedger\<close>).

  The oracle itself is a program of its own that answers each command line with one line. It is the
  parameter \<open>step\<close>: from its state and a command to its next state and the answer, the empty line
  being the end of its output. Clocks and the resolution of the executable are left out.
\<close>

section \<open>Orders\<close>

record backtest_order =
  bo_id :: int
  bo_side :: string
  bo_price :: decimal
  bo_remaining :: decimal
  bo_active_at :: int
  bo_expires_at :: int
  bo_watermark :: int

section \<open>The reference risk gate\<close>

record backtest_risk =
  br_maximum_position :: decimal
  br_maximum_orders :: int
  br_position :: decimal

definition remaining_of_side :: "string \<Rightarrow> backtest_order list \<Rightarrow> decimal res" where
  "remaining_of_side side active =
     res_fold dec_add (dec_of_int 0) (map bo_remaining (filter (\<lambda>o'. bo_side o' = side) active))"

definition br_admit :: "backtest_risk \<Rightarrow> string \<Rightarrow> decimal \<Rightarrow> backtest_order list \<Rightarrow> string option res" where
  "br_admit r side quantity active =
     (if br_maximum_orders r \<le> int (length active) then Inr (Some ''active_order_limit'')
      else
        rbind (remaining_of_side ''buy'' active) (\<lambda>pending_buy.
        rbind (remaining_of_side ''sell'' active) (\<lambda>pending_sell.
        rbind (if side = ''buy''
               then rbind (dec_add (br_position r) pending_buy) (\<lambda>p. dec_add p quantity)
               else rbind (dec_sub (br_position r) pending_sell) (\<lambda>p. dec_sub p quantity)) (\<lambda>projected.
        rbind (dec_abs projected) (\<lambda>size.
        rbind (dec_lt (br_maximum_position r) size) (\<lambda>over.
        Inr (if over then Some ''position_limit'' else None)))))))"

definition br_apply_fill :: "backtest_risk \<Rightarrow> backtest_order \<Rightarrow> decimal \<Rightarrow> backtest_risk res" where
  "br_apply_fill r o' quantity =
     rbind (if bo_side o' = ''buy'' then Inr quantity else dec_neg quantity) (\<lambda>signed.
     rbind (dec_add (br_position r) signed) (\<lambda>position.
     Inr (r\<lparr>br_position := position\<rparr>)))"

section \<open>Numbers of the configuration\<close>

text \<open>\<open>integer_units\<close>: whole numbers only.\<close>

definition integer_units :: "decimal \<Rightarrow> int res" where
  "integer_units v =
     rbind (dec_to_integral v) (\<lambda>w.
     rbind (ensure (dec_eq v w) (ValueError ''must be an integer for cxx_oracle_v1'')) (\<lambda>_.
     dec_int v))"

text \<open>\<open>decimal_config\<close>, along the keys of a dotted path.\<close>

fun config_at :: "json \<Rightarrow> string list \<Rightarrow> json res" where
  "config_at v [] = Inr v"
| "config_at v (k # ks) =
     rbind (of_option (ValueError ''backtest config requires'')
              (case v of JObj d \<Rightarrow> sget d k | _ \<Rightarrow> None)) (\<lambda>w.
     config_at w ks)"

definition decimal_config :: "jobj \<Rightarrow> string list \<Rightarrow> decimal res" where
  "decimal_config config path = rbind (config_at (JObj config) path) decimal_of"

text \<open>\<open>int_value\<close> of a \<open>Decimal\<close> truncates it.\<close>

definition int_of_decimal :: "decimal \<Rightarrow> int res" where
  "int_of_decimal d = reraise is_value_error (ValueError ''must be an integer'') (dec_int d)"

definition int_config :: "jobj \<Rightarrow> string list \<Rightarrow> int res" where
  "int_config config path = rbind (decimal_config config path) int_of_decimal"

section \<open>The client of the risk oracle\<close>

type_synonym 'p process = "string \<Rightarrow> 'p \<Rightarrow> 'p \<times> string"

record 'p oracle_client =
  or_process :: "'p"
  or_canonical :: bool
  or_trace :: "jobj list"
  or_sequence :: int
  or_pending :: "(int \<times> int) list"
  or_sent :: int
  or_received :: int

text \<open>\<open>_send\<close> and \<open>_receive\<close>.\<close>

definition oracle_ask :: "'p process \<Rightarrow> 'p oracle_client \<Rightarrow> string \<Rightarrow> (string \<times> 'p oracle_client) res" where
  "oracle_ask step r line =
     (case step line (or_process r) of (p, answer) \<Rightarrow>
        let response = strip answer in
        rbind (ensure (response \<noteq> []) (ValueError ''C++ risk oracle terminated without a response'')) (\<lambda>_.
        rbind (ensure (take 6 response \<noteq> ''ERROR '') (ValueError ''C++ risk oracle'')) (\<lambda>_.
        Inr (response, r\<lparr>or_process := p, or_sent := or_sent r + 1, or_received := or_received r + 1\<rparr>))))"

text \<open>\<open>view\<close>: the snapshot of the oracle's state.\<close>

definition is_array :: "json \<Rightarrow> bool" where
  "is_array v = (as_arr v \<noteq> None)"

definition oracle_view :: "'p process \<Rightarrow> 'p oracle_client \<Rightarrow> (jobj \<times> 'p oracle_client) res" where
  "oracle_view step r =
     rbind (oracle_ask step r ''SNAPSHOT'') (\<lambda>(response, r').
     rbind (of_option (ValueError ''unexpected C++ risk snapshot response'') (json_loads response)) (\<lambda>parsed.
     rbind (of_option (ValueError ''unexpected C++ risk snapshot response'') (as_obj parsed)) (\<lambda>v.
     rbind (ensure (is_array (oget v ''live_orders'') \<and> is_array (oget v ''pending_orders''))
              (ValueError ''unexpected C++ risk snapshot response'')) (\<lambda>_.
     rbind (int_value (oget v ''event_watermark'')) (\<lambda>w.
     Inr (sset v ''event_watermark'' (JInt w), r'))))))"

definition oracle_position :: "'p process \<Rightarrow> 'p oracle_client \<Rightarrow> (decimal \<times> 'p oracle_client) res" where
  "oracle_position step r =
     rbind (oracle_view step r) (\<lambda>(v, r').
     rbind (oindex v ''net_position_contracts'') (\<lambda>n.
     rbind (decimal_new n) (\<lambda>d. Inr (d, r'))))"

definition trace_row :: "int \<Rightarrow> string \<Rightarrow> jobj \<Rightarrow> string \<Rightarrow> jobj \<Rightarrow> jobj" where
  "trace_row n operation input result state =
     [(''schema'', JStr ''pmm.risk_conformance_trace.v2''), (''step'', JInt n), (''operation'', JStr operation),
      (''truth_category'', JStr (if operation \<noteq> ''init'' then ''ModelDerived'' else ''NotApplicable'')),
      (''input'', JObj input), (''result'', JStr result), (''state'', JObj state)]"

definition oracle_record :: "'p process \<Rightarrow> 'p oracle_client \<Rightarrow> string \<Rightarrow> jobj \<Rightarrow> string \<Rightarrow> 'p oracle_client res" where
  "oracle_record step r operation input result =
     (if \<not> or_canonical r then Inr r
      else
        rbind (oracle_view step r) (\<lambda>(state, r').
        Inr (r'\<lparr>or_trace := or_trace r' @ [trace_row (int (length (or_trace r)) + 1) operation input result state]\<rparr>)))"

text \<open>\<open>split()\<close>.\<close>

function words :: "string \<Rightarrow> string list" where
  "words s =
     (let t = dropWhile is_space s in
      if t = [] then [] else takeWhile (\<lambda>c. \<not> is_space c) t # words (dropWhile (\<lambda>c. \<not> is_space c) t))"
  by pat_completeness auto

termination
proof (relation "measure length", simp)
  fix s t :: string
  assume t: "t = dropWhile is_space s" and ne: "t \<noteq> []"
  then have "\<not> is_space (hd t)" using hd_dropWhile by blast
  with ne have "length (dropWhile (\<lambda>c. \<not> is_space c) t) < length t"
    by (cases t) (simp_all add: length_dropWhile_le le_imp_less_Suc)
  also have "length t \<le> length s" by (simp add: t length_dropWhile_le)
  finally show "(dropWhile (\<lambda>c. \<not> is_space c) t, s) \<in> measure length" by simp
qed

declare words.simps [simp del]

text \<open>\<open>_expect_applied_or_bound\<close>, with the command before it.\<close>

definition oracle_expect :: "'p process \<Rightarrow> 'p oracle_client \<Rightarrow> string \<Rightarrow> string \<Rightarrow> 'p oracle_client res" where
  "oracle_expect step r line expected =
     rbind (oracle_ask step r line) (\<lambda>(response, r').
     rbind (ensure (words response \<noteq> [] \<and> hd (words response) = expected)
              (ValueError ''unexpected C++ risk oracle response'')) (\<lambda>_.
     Inr r'))"

definition spaced :: "string list \<Rightarrow> string" where
  "spaced ss = join '' '' ss"

definition cents :: "decimal \<Rightarrow> int res" where
  "cents price = rbind (dec_mul price (dec_of_int 100)) integer_units"

definition admission_input :: "int \<Rightarrow> string \<Rightarrow> decimal \<Rightarrow> decimal \<Rightarrow> int \<Rightarrow> jobj" where
  "admission_input client side quantity price moment =
     [(''client_intent_id'', JInt client), (''side'', JStr side), (''quantity_contracts'', JStr (dec_format quantity)),
      (''price_dollars'', JStr (dec_format price)), (''time_utc_ns'', JInt moment)]"

definition oracle_admit ::
  "'p process \<Rightarrow> 'p oracle_client \<Rightarrow> int \<Rightarrow> string \<Rightarrow> decimal \<Rightarrow> decimal \<Rightarrow> int \<Rightarrow> (string option \<times> 'p oracle_client) res" where
  "oracle_admit step r client side quantity price submitted_at =
     rbind (integer_units quantity) (\<lambda>quantity_units.
     rbind (cents price) (\<lambda>price_units.
     rbind (oracle_ask step r (spaced [''ADMIT'', int_str client, side, int_str quantity_units, int_str price_units,
              int_str submitted_at])) (\<lambda>(line, r1).
     let response = words line; input = admission_input client side quantity price submitted_at in
     if take 2 response = [''ADMISSION'', ''approved''] then
       rbind (oracle_record step (r1\<lparr>or_pending := sset (or_pending r1) client client\<rparr>) ''admit'' input ''approved'') (\<lambda>r2.
       Inr (None, r2))
     else if take 2 response = [''ADMISSION'', ''rejected''] then
       rbind (ensure (3 < length response) IndexError) (\<lambda>_.
       let rejection = ''cxx_risk_'' @ response ! 3 in
       rbind (oracle_record step r1 ''admit'' input rejection) (\<lambda>r2.
       Inr (Some rejection, r2)))
     else Inl (ValueError ''unexpected C++ risk admission response''))))"

text \<open>\<open>pending_clients.pop(order_id)\<close> and the BIND command, shared by \<open>acknowledge\<close> and \<open>reject_pending\<close>.\<close>

definition oracle_bind :: "'p process \<Rightarrow> 'p oracle_client \<Rightarrow> backtest_order \<Rightarrow> 'p oracle_client res" where
  "oracle_bind step r o' =
     rbind (of_option KeyError (sget (or_pending r) (bo_id o'))) (\<lambda>client.
     rbind (oracle_expect step (r\<lparr>or_pending := dpop (=) (or_pending r) (bo_id o')\<rparr>)
              (spaced [''BIND'', int_str client, int_str (bo_id o')]) ''BOUND'') (\<lambda>r1.
     oracle_record step r1 ''bind_ingress''
       [(''client_intent_id'', JInt client), (''ingress_sequence'', JInt (bo_id o'))] ''bound''))"

definition oracle_acknowledge :: "'p process \<Rightarrow> 'p oracle_client \<Rightarrow> backtest_order \<Rightarrow> 'p oracle_client res" where
  "oracle_acknowledge step r o' =
     rbind (oracle_bind step r o') (\<lambda>r1.
     let n = or_sequence r1 + 1 in
     rbind (cents (bo_price o')) (\<lambda>price_units.
     rbind (integer_units (bo_remaining o')) (\<lambda>quantity_units.
     rbind (oracle_expect step (r1\<lparr>or_sequence := n\<rparr>)
              (spaced [''ACK'', int_str n, int_str (bo_id o'), int_str (bo_id o'), bo_side o',
                 int_str quantity_units, int_str price_units, int_str (bo_active_at o')]) ''APPLIED'') (\<lambda>r2.
     oracle_record step r2 ''acknowledge''
       [(''order_id'', JInt (bo_id o')), (''ingress_sequence'', JInt (bo_id o')), (''side'', JStr (bo_side o')),
        (''quantity_contracts'', JStr (dec_format (bo_remaining o'))), (''price_dollars'', JStr (dec_format (bo_price o'))),
        (''time_utc_ns'', JInt (bo_active_at o'))] ''applied''))))"

definition oracle_apply_fill ::
  "'p process \<Rightarrow> 'p oracle_client \<Rightarrow> backtest_order \<Rightarrow> decimal \<Rightarrow> int option \<Rightarrow> 'p oracle_client res" where
  "oracle_apply_fill step r o' quantity time =
     (let n = or_sequence r + 1; moment = (case time of None \<Rightarrow> bo_active_at o' | Some t \<Rightarrow> t) in
      rbind (cents (bo_price o')) (\<lambda>price_units.
      rbind (integer_units quantity) (\<lambda>quantity_units.
      rbind (oracle_expect step (r\<lparr>or_sequence := n\<rparr>)
               (spaced [''FILL'', int_str n, int_str (bo_id o'), bo_side o', int_str quantity_units,
                  int_str price_units, int_str moment]) ''APPLIED'') (\<lambda>r1.
      oracle_record step r1 ''fill''
        [(''order_id'', JInt (bo_id o')), (''side'', JStr (bo_side o')), (''quantity_contracts'', JStr (dec_format quantity)),
         (''price_dollars'', JStr (dec_format (bo_price o'))), (''time_utc_ns'', JInt moment)] ''applied''))))"

definition oracle_cancel ::
  "'p process \<Rightarrow> 'p oracle_client \<Rightarrow> backtest_order \<Rightarrow> string \<Rightarrow> int option \<Rightarrow> 'p oracle_client res" where
  "oracle_cancel step r o' reason time =
     (let n = or_sequence r + 1; moment = (case time of None \<Rightarrow> bo_expires_at o' | Some t \<Rightarrow> t) in
      rbind (oracle_expect step (r\<lparr>or_sequence := n\<rparr>)
               (spaced [''CANCEL'', int_str n, int_str (bo_id o'), int_str moment]) ''APPLIED'') (\<lambda>r1.
      oracle_record step r1 (if reason = ''logical_expiry'' then ''expire'' else ''cancel'')
        [(''order_id'', JInt (bo_id o')), (''reason'', JStr reason), (''time_utc_ns'', JInt moment)] ''applied''))"

definition oracle_reject_pending :: "'p process \<Rightarrow> 'p oracle_client \<Rightarrow> backtest_order \<Rightarrow> int \<Rightarrow> 'p oracle_client res" where
  "oracle_reject_pending step r o' time =
     rbind (oracle_bind step r o') (\<lambda>r1.
     let n = or_sequence r1 + 1 in
     rbind (oracle_expect step (r1\<lparr>or_sequence := n\<rparr>)
              (spaced [''REJECT'', int_str n, int_str (bo_id o'), int_str time]) ''APPLIED'') (\<lambda>r2.
     oracle_record step r2 ''command_reject''
       [(''ingress_sequence'', JInt (bo_id o')), (''time_utc_ns'', JInt time)] ''applied''))"

text \<open>\<open>__init__\<close>: the identifiers and the limits the oracle is started with.\<close>

definition limit_units :: "jobj \<Rightarrow> string \<Rightarrow> int res" where
  "limit_units risk name = rbind (oindex risk name) (\<lambda>v. int_config [(''value'', v)] [''value''])"

definition binding_id :: "jobj \<Rightarrow> string \<Rightarrow> int res" where
  "binding_id binding name = int_value (oget_default binding name (JInt 1))"

definition oracle_limits :: "string list" where
  "oracle_limits =
     [''maximum_order_quantity_contracts'', ''maximum_absolute_position_contracts'', ''maximum_buy_exposure_contracts'',
      ''maximum_sell_exposure_contracts'', ''maximum_pending_exposure_contracts'', ''maximum_active_orders'']"

definition oracle_start :: "'p process \<Rightarrow> 'p \<Rightarrow> jobj \<Rightarrow> bool \<Rightarrow> 'p oracle_client res" where
  "oracle_start step p config canonical =
     rbind (of_option (ValueError ''risk.limits is required for cxx_oracle_v1'') (as_obj (oget config ''limits''))) (\<lambda>risk.
     rbind (of_option (ValueError ''risk.binding must be an object'')
              (as_obj (oget_default config ''binding'' (JObj [])))) (\<lambda>binding.
     rbind (res_map (binding_id binding) [''account_id'', ''strategy_id'', ''trader_id'', ''contract_id'']) (\<lambda>ids.
     rbind (ensure (list_all (\<lambda>i. 0 < i) ids) (ValueError ''risk binding identifiers must be positive'')) (\<lambda>_.
     rbind (res_map (limit_units risk) oracle_limits) (\<lambda>limits.
     rbind (oracle_ask step
              \<lparr>or_process = p, or_canonical = canonical, or_trace = [], or_sequence = 0, or_pending = [],
               or_sent = 0, or_received = 0\<rparr>
              (spaced (''INIT'' # map int_str (ids @ limits)))) (\<lambda>(response, r).
     rbind (ensure (response = ''READY'') (ValueError ''C++ risk oracle did not initialize'')) (\<lambda>_.
     oracle_record step r ''init''
       [(''engine'', JStr (if canonical then ''cxx_oracle_v2'' else ''cxx_oracle_v1''))] ''ready'')))))))"

section \<open>The ledger\<close>

record research_ledger =
  rl_enabled :: bool
  rl_fee :: decimal
  rl_cash :: decimal
  rl_fees :: decimal
  rl_entries :: "jobj list"

definition ledger_start :: "bool \<Rightarrow> decimal \<Rightarrow> research_ledger" where
  "ledger_start enabled fee =
     \<lparr>rl_enabled = enabled, rl_fee = fee, rl_cash = dec_of_int 0, rl_fees = dec_of_int 0, rl_entries = []\<rparr>"

definition ledger_from_config :: "jobj \<Rightarrow> research_ledger res" where
  "ledger_from_config config =
     (case oget config ''accounting'' of
        JNull \<Rightarrow> Inr (ledger_start False (dec_of_int 0))
      | JObj accounting \<Rightarrow>
          rbind (ensure (oget accounting ''schema'' = JStr ''pmm.accounting_policy.v1'')
                   (ValueError ''accounting must use schema pmm.accounting_policy.v1'')) (\<lambda>_.
          rbind (ensure (oget accounting ''settlement_status'' = JStr ''unresolved'')
                   (ValueError ''V1 accounting supports only unresolved settlement'')) (\<lambda>_.
          rbind (decimal_config accounting [''fee_per_contract_dollars'']) (\<lambda>fee.
          Inr (ledger_start True fee))))
      | _ \<Rightarrow> Inl (ValueError ''accounting must use schema pmm.accounting_policy.v1''))"

definition ledger_apply_fill :: "research_ledger \<Rightarrow> backtest_order \<Rightarrow> decimal \<Rightarrow> int \<Rightarrow> research_ledger res" where
  "ledger_apply_fill l o' quantity time =
     (if \<not> rl_enabled l then Inr l
      else
        rbind (dec_mul (bo_price o') quantity) (\<lambda>notional.
        rbind (dec_mul (rl_fee l) quantity) (\<lambda>fee.
        rbind (if bo_side o' = ''buy'' then rbind (dec_add notional fee) dec_neg else dec_sub notional fee) (\<lambda>cash_delta.
        rbind (dec_add (rl_cash l) cash_delta) (\<lambda>cash.
        rbind (dec_add (rl_fees l) fee) (\<lambda>fees.
        Inr (l\<lparr>rl_cash := cash, rl_fees := fees,
               rl_entries := rl_entries l @
                 [[(''kind'', JStr ''model_fill_cashflow''), (''truth_category'', JStr ''ModelDerived''),
                   (''time_utc_ns'', JInt time), (''order_id'', JInt (bo_id o')), (''side'', JStr (bo_side o')),
                   (''quantity_contracts'', JStr (dec_format quantity)), (''price_dollars'', JStr (dec_format (bo_price o'))),
                   (''notional_dollars'', JStr (dec_format notional)), (''fee_dollars'', JStr (dec_format fee)),
                   (''cash_delta_dollars'', JStr (dec_format cash_delta)),
                   (''policy_note'', JStr ''Unresolved synthetic ledger; it is not settlement or venue PnL.'')]]\<rparr>)))))))"

end
