(* ===== verification/Backtest.thy ===== *)
theory Backtest
  imports Backtest_Risk Normalize_V1 "HOL-Library.Product_Lexorder"
begin

text \<open>
  \<open>run_backtest\<close> (\<open>pmm_phase7.py\<close>): the deterministic single-market backtest. The loop over the
  normalized events is \<open>backtest_event\<close>: orders whose lifetime is over are cancelled, decisions that
  are due are taken on the feature row they were scheduled with, the trade of the event fills the
  active orders in the order of their ids, and the next decision is scheduled.

  The state record holds the local variables of the function; the risk gate is either the reference
  gate or the client of the risk oracle, whose process is the parameter \<open>step\<close>. Files are their
  texts; the output directory is left out.
\<close>

section \<open>The two risk gates\<close>

datatype 'p risk = Python_Risk backtest_risk | Cxx_Risk "'p oracle_client"

fun risk_admit ::
  "'p process \<Rightarrow> 'p risk \<Rightarrow> int \<Rightarrow> string \<Rightarrow> decimal \<Rightarrow> decimal \<Rightarrow> int \<Rightarrow> backtest_order list \<Rightarrow> (string option \<times> 'p risk) res" where
  "risk_admit step (Python_Risk r) client side quantity price time active =
     rbind (br_admit r side quantity active) (\<lambda>rejection. Inr (rejection, Python_Risk r))"
| "risk_admit step (Cxx_Risk r) client side quantity price time active =
     rbind (oracle_admit step r client side quantity price time) (\<lambda>(rejection, r'). Inr (rejection, Cxx_Risk r'))"

fun risk_acknowledge :: "'p process \<Rightarrow> 'p risk \<Rightarrow> backtest_order \<Rightarrow> 'p risk res" where
  "risk_acknowledge step (Python_Risk r) o' = Inr (Python_Risk r)"
| "risk_acknowledge step (Cxx_Risk r) o' = rbind (oracle_acknowledge step r o') (\<lambda>r'. Inr (Cxx_Risk r'))"

fun risk_apply_fill :: "'p process \<Rightarrow> 'p risk \<Rightarrow> backtest_order \<Rightarrow> decimal \<Rightarrow> 'p risk res" where
  "risk_apply_fill step (Python_Risk r) o' quantity = rbind (br_apply_fill r o' quantity) (\<lambda>r'. Inr (Python_Risk r'))"
| "risk_apply_fill step (Cxx_Risk r) o' quantity =
     rbind (oracle_apply_fill step r o' quantity None) (\<lambda>r'. Inr (Cxx_Risk r'))"

fun risk_cancel :: "'p process \<Rightarrow> 'p risk \<Rightarrow> backtest_order \<Rightarrow> string \<Rightarrow> 'p risk res" where
  "risk_cancel step (Python_Risk r) o' reason = Inr (Python_Risk r)"
| "risk_cancel step (Cxx_Risk r) o' reason = rbind (oracle_cancel step r o' reason None) (\<lambda>r'. Inr (Cxx_Risk r'))"

fun risk_position :: "'p process \<Rightarrow> 'p risk \<Rightarrow> (decimal \<times> 'p risk) res" where
  "risk_position step (Python_Risk r) = Inr (br_position r, Python_Risk r)"
| "risk_position step (Cxx_Risk r) = rbind (oracle_position step r) (\<lambda>(d, r'). Inr (d, Cxx_Risk r'))"

section \<open>State\<close>

record backtest_config =
  bc_schema :: string
  bc_fill_model :: string
  bc_market_latency :: int
  bc_decision_latency :: int
  bc_order_latency :: int
  bc_interval :: int
  bc_lifetime :: int
  bc_minimum_spread :: decimal
  bc_quantity :: decimal
  bc_features :: "(int \<times> jobj) list"

record 'p backtest_state =
  bs_scheduled :: "(int \<times> int \<times> jobj) list"
  bs_active :: "(int \<times> backtest_order) list"
  bs_next_decision :: int
  bs_next_order :: int
  bs_schedule_ordinal :: int
  bs_decisions :: int
  bs_rejections :: "(string \<times> int) list"
  bs_fills :: "jobj list"
  bs_orders :: "jobj list"
  bs_cancellations :: int
  bs_risk :: "'p risk"
  bs_ledger :: research_ledger

definition backtest_init :: "'p risk \<Rightarrow> research_ledger \<Rightarrow> 'p backtest_state" where
  "backtest_init risk ledger =
     \<lparr>bs_scheduled = [], bs_active = [], bs_next_decision = -1, bs_next_order = 1, bs_schedule_ordinal = 0,
      bs_decisions = 0, bs_rejections = [], bs_fills = [], bs_orders = [], bs_cancellations = 0, bs_risk = risk,
      bs_ledger = ledger\<rparr>"

definition active_orders :: "'p backtest_state \<Rightarrow> backtest_order list" where
  "active_orders st = map snd (bs_active st)"

definition reject :: "'p backtest_state \<Rightarrow> string \<Rightarrow> 'p backtest_state" where
  "reject st reason = st\<lparr>bs_rejections := counter_add (bs_rejections st) reason 1\<rparr>"

section \<open>Cancelling and scheduling\<close>

definition schedule :: "'p backtest_state \<Rightarrow> int \<Rightarrow> jobj \<Rightarrow> 'p backtest_state" where
  "schedule st due feature =
     (let n = bs_schedule_ordinal st + 1 in
      st\<lparr>bs_schedule_ordinal := n,
         bs_scheduled := sort_key (\<lambda>item. (fst item, fst (snd item))) (bs_scheduled st @ [(due, n, feature)])\<rparr>)"

definition cancellation_row :: "backtest_order \<Rightarrow> string \<Rightarrow> int \<Rightarrow> jobj" where
  "cancellation_row o' reason now =
     [(''kind'', JStr ''cancellation''), (''truth_category'', JStr ''ModelDerived''), (''order_id'', JInt (bo_id o')),
      (''time_utc_ns'', JInt now), (''reason'', JStr reason), (''remaining_contracts'', JStr (dec_format (bo_remaining o')))]"

definition cancel_order :: "'p process \<Rightarrow> string \<Rightarrow> int \<Rightarrow> 'p backtest_state \<Rightarrow> backtest_order \<Rightarrow> 'p backtest_state res" where
  "cancel_order step reason now st o' =
     rbind (risk_cancel step (bs_risk st) o' reason) (\<lambda>risk.
     Inr (st\<lparr>bs_risk := risk, bs_orders := bs_orders st @ [cancellation_row o' reason now],
            bs_active := dpop (=) (bs_active st) (bo_id o'), bs_cancellations := bs_cancellations st + 1\<rparr>))"

definition cancel_all :: "'p process \<Rightarrow> string \<Rightarrow> int \<Rightarrow> 'p backtest_state \<Rightarrow> 'p backtest_state res" where
  "cancel_all step reason now st = res_fold (cancel_order step reason now) st (active_orders st)"

definition cancel_expired :: "'p process \<Rightarrow> int \<Rightarrow> 'p backtest_state \<Rightarrow> 'p backtest_state res" where
  "cancel_expired step now st =
     res_fold (cancel_order step ''logical_expiry'' now) st (filter (\<lambda>o'. bo_expires_at o' \<le> now) (active_orders st))"

section \<open>Decisions\<close>

definition accepted_row :: "backtest_order \<Rightarrow> jobj" where
  "accepted_row o' =
     [(''kind'', JStr ''order_accepted''), (''truth_category'', JStr ''ModelDerived''), (''order_id'', JInt (bo_id o')),
      (''side'', JStr (bo_side o')), (''price_dollars'', JStr (dec_format (bo_price o'))),
      (''quantity_contracts'', JStr (dec_format (bo_remaining o'))), (''active_at_utc_ns'', JInt (bo_active_at o')),
      (''expires_at_utc_ns'', JInt (bo_expires_at o')), (''feature_watermark'', JInt (bo_watermark o')),
      (''post_only'', JBool True)]"

definition quote ::
  "'p process \<Rightarrow> backtest_config \<Rightarrow> int \<Rightarrow> jobj \<Rightarrow> 'p backtest_state \<Rightarrow> string \<times> decimal \<Rightarrow> 'p backtest_state res" where
  "quote step cfg now feature st sp =
     (case sp of (side, price) \<Rightarrow>
        rbind (risk_admit step (bs_risk st) (bs_next_order st) side (bc_quantity cfg) price now (active_orders st))
          (\<lambda>(rejection, risk).
        case rejection of
          Some reason \<Rightarrow> Inr (reject (st\<lparr>bs_risk := risk\<rparr>) reason)
        | None \<Rightarrow>
            rbind (oindex feature ''as_of_watermark'') (\<lambda>v.
            rbind (int_value v) (\<lambda>watermark.
            let o' = \<lparr>bo_id = bs_next_order st, bo_side = side, bo_price = price, bo_remaining = bc_quantity cfg,
                      bo_active_at = now, bo_expires_at = now + bc_lifetime cfg, bo_watermark = watermark\<rparr> in
            rbind (risk_acknowledge step risk o') (\<lambda>risk'.
            Inr (st\<lparr>bs_risk := risk', bs_active := sset (bs_active st) (bo_id o') o',
                   bs_orders := bs_orders st @ [accepted_row o'], bs_next_order := bs_next_order st + 1\<rparr>))))))"

text \<open>\<open>ask - bid < minimum or bid >= ask\<close>.\<close>

definition too_narrow :: "decimal \<Rightarrow> decimal \<Rightarrow> decimal \<Rightarrow> bool res" where
  "too_narrow minimum bid ask =
     rbind (dec_sub ask bid) (\<lambda>spread.
     rbind (dec_lt spread minimum) (\<lambda>small.
     if small then Inr True else dec_le ask bid))"

definition decide :: "'p process \<Rightarrow> backtest_config \<Rightarrow> int \<Rightarrow> 'p backtest_state \<Rightarrow> jobj \<Rightarrow> 'p backtest_state res" where
  "decide step cfg now st feature =
     (let st1 = st\<lparr>bs_decisions := bs_decisions st + 1\<rparr> in
      rbind (oindex feature ''values'') (\<lambda>v.
      rbind (of_option AttributeError (as_obj v)) (\<lambda>vs.
      let bid = oget vs ''best_yes_bid_dollars''; ask = oget vs ''best_yes_ask_dollars'' in
      if bid = JNull \<or> ask = JNull then Inr (reject st1 ''missing_two_sided_book'')
      else
        rbind (decimal_of bid) (\<lambda>bid_price.
        rbind (decimal_of ask) (\<lambda>ask_price.
        rbind (too_narrow (bc_minimum_spread cfg) bid_price ask_price) (\<lambda>narrow.
        if narrow then Inr (reject st1 ''post_only_or_spread'')
        else
          rbind (cancel_all step ''quote_replacement'' now st1) (\<lambda>st2.
          res_fold (quote step cfg now feature) st2 [(''buy'', bid_price), (''sell'', ask_price)])))))))"

definition is_due :: "int \<Rightarrow> int \<times> int \<times> jobj \<Rightarrow> bool" where
  "is_due now item \<longleftrightarrow> fst item \<le> now"

definition activate_due :: "'p process \<Rightarrow> backtest_config \<Rightarrow> int \<Rightarrow> 'p backtest_state \<Rightarrow> 'p backtest_state res" where
  "activate_due step cfg now st =
     rbind (cancel_expired step now st) (\<lambda>st1.
     res_fold (decide step cfg now) (st1\<lparr>bs_scheduled := dropWhile (is_due now) (bs_scheduled st1)\<rparr>)
       (map (\<lambda>item. snd (snd item)) (takeWhile (is_due now) (bs_scheduled st1))))"

section \<open>Fills\<close>

definition eligible :: "decimal \<Rightarrow> backtest_order \<Rightarrow> bool res" where
  "eligible trade_price o' =
     (if bo_side o' = ''buy'' then dec_le trade_price (bo_price o')
      else if bo_side o' = ''sell'' then dec_le (bo_price o') trade_price
      else Inr False)"

definition fill_row :: "jobj \<Rightarrow> decimal \<Rightarrow> backtest_order \<Rightarrow> decimal \<Rightarrow> jobj res" where
  "fill_row event trade_price o' filled =
     rbind (oindex event ''event_id'') (\<lambda>event_id.
     rbind (oindex event ''logical_time_utc_ns'') (\<lambda>time.
     Inr [(''truth_category'', JStr ''ModelDerived''), (''fill_model'', JStr ''trade_touch_v1''),
          (''order_id'', JInt (bo_id o')), (''side'', JStr (bo_side o')), (''price_dollars'', JStr (dec_format (bo_price o'))),
          (''quantity_contracts'', JStr (dec_format filled)), (''trade_event_id'', event_id),
          (''trade_yes_price_dollars'', JStr (dec_format trade_price)), (''time_utc_ns'', time),
          (''assumption'', JStr ''A qualifying public trade consumes displayed simulated size without queue-position modelling.'')]))"

definition fill_order ::
  "'p process \<Rightarrow> jobj \<Rightarrow> decimal \<Rightarrow> decimal \<times> 'p backtest_state \<Rightarrow> backtest_order \<Rightarrow> (decimal \<times> 'p backtest_state) res" where
  "fill_order step event trade_price rs o' =
     (case rs of (remaining_trade, st) \<Rightarrow>
        rbind (eligible trade_price o') (\<lambda>good.
        rbind (if good then dec_le remaining_trade (dec_of_int 0) else Inr True) (\<lambda>skip.
        if skip then Inr (remaining_trade, st)
        else
          rbind (dec_min (bo_remaining o') remaining_trade) (\<lambda>filled.
          rbind (dec_sub (bo_remaining o') filled) (\<lambda>left.
          rbind (dec_sub remaining_trade filled) (\<lambda>remaining_trade'.
          let o2 = o'\<lparr>bo_remaining := left\<rparr> in
          rbind (risk_apply_fill step (bs_risk st) o2 filled) (\<lambda>risk.
          rbind (oindex event ''logical_time_utc_ns'') (\<lambda>time_value.
          rbind (int_value time_value) (\<lambda>time.
          rbind (ledger_apply_fill (bs_ledger st) o2 filled time) (\<lambda>ledger.
          rbind (fill_row event trade_price o2 filled) (\<lambda>row.
          Inr (remaining_trade',
               st\<lparr>bs_risk := risk, bs_ledger := ledger, bs_fills := bs_fills st @ [row],
                  bs_active := (if dec_eq left (dec_of_int 0) then dpop (=) (bs_active st) (bo_id o')
                                else sset (bs_active st) (bo_id o') o2)\<rparr>))))))))))))"

definition apply_trade_fills ::
  "'p process \<Rightarrow> backtest_config \<Rightarrow> jobj \<Rightarrow> 'p backtest_state \<Rightarrow> 'p backtest_state res" where
  "apply_trade_fills step cfg event st =
     (if bc_fill_model cfg \<noteq> ''trade_touch_v1'' \<or> oget event ''event_type'' \<noteq> JStr ''trade'' then Inr st
      else
        rbind (oindex event ''payload'') (\<lambda>payload.
        rbind (jindex payload ''yes_price_dollars'') (\<lambda>p.
        rbind (decimal_of p) (\<lambda>trade_price.
        rbind (jindex payload ''quantity_contracts'') (\<lambda>q.
        rbind (decimal_of q) (\<lambda>remaining_trade.
        rbind (res_fold (fill_order step event trade_price) (remaining_trade, st) (sort_key bo_id (active_orders st))) (\<lambda>rs.
        Inr (snd rs))))))))"

section \<open>One event\<close>

definition backtest_event :: "'p process \<Rightarrow> backtest_config \<Rightarrow> 'p backtest_state \<Rightarrow> jobj \<Rightarrow> 'p backtest_state res" where
  "backtest_event step cfg st event =
     rbind (int_value (oget event ''ingress_order'')) (\<lambda>watermark.
     rbind (int_value (oget event ''logical_time_utc_ns'')) (\<lambda>event_time.
     rbind (activate_due step cfg event_time st) (\<lambda>st1.
     rbind (apply_trade_fills step cfg event st1) (\<lambda>st2.
     rbind (of_option (ValueError ''feature dataset is missing watermark'') (sget (bc_features cfg) watermark)) (\<lambda>feature.
     let available = event_time + bc_market_latency cfg in
     if bs_next_decision st2 \<le> available
     then Inr ((schedule st2 (available + bc_decision_latency cfg + bc_order_latency cfg) feature)
                 \<lparr>bs_next_decision := available + bc_interval cfg\<rparr>)
     else Inr st2)))))"

definition backtest_line :: "'p process \<Rightarrow> backtest_config \<Rightarrow> 'p backtest_state \<Rightarrow> string \<Rightarrow> 'p backtest_state res" where
  "backtest_line step cfg st line = rbind (jsonl_object line) (backtest_event step cfg st)"

definition backtest_loop :: "'p process \<Rightarrow> backtest_config \<Rightarrow> 'p backtest_state \<Rightarrow> string list \<Rightarrow> 'p backtest_state res" where
  "backtest_loop step cfg st lines =
     rbind (res_fold (backtest_line step cfg) st lines) (\<lambda>st1.
     if bs_scheduled st1 = [] then Inr st1
     else activate_due step cfg (Max (set (map fst (bs_scheduled st1)))) st1)"

text \<open>\<open>feature_by_watermark\<close>.\<close>

definition feature_step :: "(int \<times> jobj) list \<Rightarrow> string \<Rightarrow> (int \<times> jobj) list res" where
  "feature_step result line =
     rbind (jsonl_object line) (\<lambda>row.
     rbind (int_value (oget row ''as_of_watermark'')) (\<lambda>watermark.
     rbind (ensure (sget result watermark = None) (ValueError ''features repeat a watermark'')) (\<lambda>_.
     Inr (sset result watermark row))))"

definition feature_by_watermark :: "string list \<Rightarrow> (int \<times> jobj) list res" where
  "feature_by_watermark lines = res_fold feature_step [] lines"

end
