(* ===== verification/Backtest_Run.thy ===== *)
theory Backtest_Run
  imports Backtest
begin

text \<open>
  The frame of \<open>run_backtest\<close> (\<open>pmm_phase7.py\<close>): the reading of the configuration, the lineage of a
  V3 run (\<open>verify_v3_lineage\<close>, \<open>verify_lineage\<close>), the choice of the risk gate and the result manifest.

  The files a configuration names are given by their texts, the package and the conversion policy by
  the results of their loaders; \<open>lf_owns_events\<close> and \<open>lf_owns_features\<close> are the outcomes of the two
  comparisons of paths. The process of the risk oracle starts in the state \<open>p0\<close>.
\<close>

section \<open>Lineage of a V3 run\<close>

record lineage_files =
  lf_normalization :: string
  lf_feature_manifest :: string
  lf_product :: string
  lf_terms :: string
  lf_policy :: string
  lf_owns_events :: bool
  lf_owns_features :: bool
  lf_load_package :: "product_package res"
  lf_load_policy :: "conversion_policy res"

definition upstream :: "bool \<Rightarrow> unit res" where
  "upstream b = demand b ''UpstreamManifestMismatch''"

definition mismatch_code :: "string \<Rightarrow> string" where
  "mismatch_code name =
     (if name = ''product_terms_sha256'' then ''TermsHashMismatch''
      else if name = ''source_manifest_sha256'' then ''SourceHashMismatch''
      else if name = ''review_sha256'' then ''ReviewHashMismatch''
      else ''ConversionPolicyMismatch'')"

definition lineage_hashes :: "product_package \<Rightarrow> conversion_policy \<Rightarrow> (string \<times> string) list" where
  "lineage_hashes package policy =
     [(''product_terms_sha256'', pt_sha256 (pk_terms package)),
      (''source_manifest_sha256'', ev_sha256 (pk_evidence package)),
      (''review_sha256'', rv_sha256 (pk_review package)),
      (''conversion_policy_sha256'', cp_sha256 policy)]"

definition check_hash :: "jobj \<Rightarrow> jobj \<Rightarrow> jobj \<Rightarrow> string \<times> string \<Rightarrow> unit res" where
  "check_hash declared normalization features nv =
     (case nv of (name, v) \<Rightarrow>
        rbind (demand (oget declared name = JStr v) (mismatch_code name)) (\<lambda>_.
        upstream (oget normalization name = JStr v \<and> oget features name = JStr v)))"

definition verify_v3_lineage ::
  "(string \<Rightarrow> string) \<Rightarrow> jobj \<Rightarrow> lineage_files \<Rightarrow> string \<Rightarrow> string \<Rightarrow> (product_package \<times> conversion_policy \<times> jobj) res" where
  "verify_v3_lineage sha config files events features =
     rbind (upstream (lf_owns_events files)) (\<lambda>_.
     rbind (upstream (lf_owns_features files)) (\<lambda>_.
     rbind (read_json (lf_normalization files)) (\<lambda>normalization.
     rbind (read_json (lf_feature_manifest files)) (\<lambda>feature_manifest.
     rbind (demand (oget normalization ''schema'' = JStr ''pmm.historical.normalization_manifest.v2'') ''UnsupportedTermsSchema'') (\<lambda>_.
     rbind (demand (oget feature_manifest ''schema'' = JStr ''pmm.historical.feature_manifest.v2'') ''UnsupportedTermsSchema'') (\<lambda>_.
     rbind (lf_load_package files) (\<lambda>package.
     rbind (lf_load_policy files) (\<lambda>policy.
     rbind (require_core_compatible (pk_terms package)) (\<lambda>_.
     let expected = lineage_hashes package policy in
     rbind (of_option (ProductTermsError ''TermsHashMismatch'') (as_obj (oget config ''product_terms''))) (\<lambda>declared.
     rbind (demand (set (map fst declared) = set (map fst expected)) ''TermsHashMismatch'') (\<lambda>_.
     rbind (res_all (check_hash declared normalization feature_manifest) expected) (\<lambda>_.
     rbind (upstream (oget normalization ''output_events_sha256'' = JStr (sha events))) (\<lambda>_.
     rbind (upstream (oget normalization ''output_product_sha256'' = JStr (sha (lf_product files)))) (\<lambda>_.
     rbind (upstream (oget normalization ''product_terms_file_sha256'' = JStr (sha (lf_terms files)))) (\<lambda>_.
     rbind (upstream (oget normalization ''conversion_policy_file_sha256'' = JStr (sha (lf_policy files)))) (\<lambda>_.
     rbind (upstream (oget feature_manifest ''input_events_sha256'' = JStr (sha events))) (\<lambda>_.
     rbind (upstream (oget feature_manifest ''output_features_sha256'' = JStr (sha features))) (\<lambda>_.
     rbind (upstream (oget feature_manifest ''input_product_sha256'' = JStr (sha (lf_product files)))) (\<lambda>_.
     rbind (upstream (oget feature_manifest ''input_normalization_manifest_sha256'' = JStr (sha (lf_normalization files)))) (\<lambda>_.
     Inr (package, policy,
          map (\<lambda>(k, v). (k, JStr v)) expected @
          [(''normalization_manifest_sha256'', JStr (sha (lf_normalization files))),
           (''feature_manifest_sha256'', JStr (sha (lf_feature_manifest files)))])))))))))))))))))))))"

section \<open>Configuration\<close>

record backtest_input =
  bi_config :: string
  bi_events :: string
  bi_features :: string
  bi_lineage :: lineage_files

definition backtest_schemas :: "string list" where
  "backtest_schemas = [''pmm.backtest.v1'', ''pmm.backtest.v2'', ''pmm.backtest.v3'']"

definition check_engine :: "jobj \<Rightarrow> unit res" where
  "check_engine config =
     (if oget config ''schema'' = JStr ''pmm.backtest.v1'' then Inr ()
      else ensure (case oget config ''risk'' of
                     JObj risk \<Rightarrow> oget risk ''engine'' = JStr ''cxx_oracle_v2''
                   | _ \<Rightarrow> False) (ValueError ''requires risk.engine cxx_oracle_v2''))"

text \<open>The lineage of the product, for a V3 configuration.\<close>

definition product_lineage ::
  "(string \<Rightarrow> string) \<Rightarrow> jobj \<Rightarrow> backtest_input \<Rightarrow> (product_package \<times> conversion_policy \<times> jobj) option res" where
  "product_lineage sha config inp =
     (if oget config ''schema'' = JStr ''pmm.backtest.v3'' then
        rbind (demand (oget config ''accounting'' = JNull) ''FeePolicyUnsupported'') (\<lambda>_.
        rbind (verify_v3_lineage sha config (bi_lineage inp) (bi_events inp) (bi_features inp)) (\<lambda>l.
        Inr (Some l)))
      else Inr None)"

definition not_positive :: "decimal \<Rightarrow> bool res" where
  "not_positive d = dec_le d (dec_of_int 0)"

text \<open>The numbers of the configuration, with their checks.\<close>

definition backtest_numbers ::
  "jobj \<Rightarrow> (int \<times> jobj) list \<Rightarrow> bool \<Rightarrow> backtest_config res" where
  "backtest_numbers config features converted =
     rbind (int_config config [''latency'', ''market_data_ns'']) (\<lambda>market_latency.
     rbind (int_config config [''latency'', ''decision_ns'']) (\<lambda>decision_latency.
     rbind (int_config config [''latency'', ''order_ns'']) (\<lambda>order_latency.
     rbind (int_config config [''strategy'', ''decision_interval_ns'']) (\<lambda>interval.
     rbind (int_config config [''strategy'', ''order_lifetime_ns'']) (\<lambda>lifetime.
     rbind (decimal_config config [''strategy'', ''minimum_spread_dollars'']) (\<lambda>minimum_spread.
     rbind (decimal_config config [''strategy'', ''quote_quantity_contracts'']) (\<lambda>quantity.
     rbind (not_positive quantity) (\<lambda>none.
     rbind (ensure (\<not> none \<and> 0 < lifetime \<and> 0 < interval)
              (ValueError ''quote quantity, order lifetime, and decision interval must be positive'')) (\<lambda>_.
     rbind (if converted
            then rbind (convert_quantity_to_contracts quantity) (\<lambda>_.
                 rbind (convert_price_to_cents minimum_spread) (\<lambda>_. Inr ()))
            else Inr ()) (\<lambda>_.
     Inr \<lparr>bc_schema = py_str (oget config ''schema''), bc_fill_model = py_str (oget config ''fill_model''),
          bc_market_latency = market_latency, bc_decision_latency = decision_latency,
          bc_order_latency = order_latency, bc_interval = interval, bc_lifetime = lifetime,
          bc_minimum_spread = minimum_spread, bc_quantity = quantity, bc_features = features\<rparr>))))))))))"

definition check_risk_contract :: "jobj \<Rightarrow> unit res" where
  "check_risk_contract risk_config =
     rbind (of_option (ValueError ''cxx_oracle_v2 requires risk.risk_contract'') (as_obj (oget risk_config ''risk_contract''))) (\<lambda>rc.
     rbind (ensure (oget rc ''schema'' = JStr ''pmm.research_risk_contract.v1'')
              (ValueError ''cxx_oracle_v2 requires risk.risk_contract'')) (\<lambda>_.
     rbind (ensure (oget rc ''quantity_unit'' = JStr ''whole_contract'' \<and> oget rc ''price_unit'' = JStr ''cent'')
              (ValueError ''cxx_oracle_v2 supports only whole_contract quantities and cent prices'')) (\<lambda>_.
     ensure (oget rc ''post_only'' = JBool True) (ValueError ''cxx_oracle_v2 requires post_only true''))))"

definition start_risk :: "'p process \<Rightarrow> 'p \<Rightarrow> jobj \<Rightarrow> (string \<times> 'p risk) res" where
  "start_risk step p0 config =
     rbind (of_option (ValueError ''backtest config requires risk'') (as_obj (oget config ''risk''))) (\<lambda>risk_config.
     let kind = oget_default risk_config ''engine'' (JStr ''python_reference_v1'');
         v1 = (oget config ''schema'' = JStr ''pmm.backtest.v1'') in
     if kind = JStr ''python_reference_v1'' then
       rbind (ensure v1 (ValueError ''requires risk.engine cxx_oracle_v2'')) (\<lambda>_.
       rbind (decimal_config config [''risk'', ''maximum_absolute_position_contracts'']) (\<lambda>position.
       rbind (int_config config [''risk'', ''maximum_active_orders'']) (\<lambda>orders.
       rbind (not_positive position) (\<lambda>none.
       rbind (ensure (\<not> none \<and> 0 < orders) (ValueError ''risk limits must be positive'')) (\<lambda>_.
       Inr (py_str kind, Python_Risk
              \<lparr>br_maximum_position = position, br_maximum_orders = orders, br_position = dec_of_int 0\<rparr>))))))
     else if kind = JStr ''cxx_oracle_v1'' then
       rbind (ensure v1 (ValueError ''cxx_oracle_v1 is supported only by pmm.backtest.v1'')) (\<lambda>_.
       rbind (oracle_start step p0 risk_config False) (\<lambda>r. Inr (py_str kind, Cxx_Risk r)))
     else if kind = JStr ''cxx_oracle_v2'' then
       rbind (ensure (\<not> v1) (ValueError ''cxx_oracle_v2 requires schema pmm.backtest.v2 or pmm.backtest.v3'')) (\<lambda>_.
       rbind (check_risk_contract risk_config) (\<lambda>_.
       rbind (oracle_start step p0 risk_config True) (\<lambda>r. Inr (py_str kind, Cxx_Risk r))))
     else Inl (ValueError ''risk.engine must be python_reference_v1, cxx_oracle_v1, or cxx_oracle_v2''))"

section \<open>The result\<close>

record backtest_output =
  bo_orders :: "jobj list"
  bo_fills :: "jobj list"
  bo_ledger :: "jobj list"
  bo_trace :: "jobj list"
  bo_manifest :: jobj

fun risk_trace :: "'p risk \<Rightarrow> jobj list" where
  "risk_trace (Python_Risk r) = []"
| "risk_trace (Cxx_Risk r) = or_trace r"

fun traced :: "'p risk \<Rightarrow> bool" where
  "traced (Python_Risk r) = False"
| "traced (Cxx_Risk r) = or_canonical r"

definition fill_assumption :: "string \<Rightarrow> string" where
  "fill_assumption fill_model =
     (if fill_model = ''trade_touch_v1''
      then ''trade_touch_v1 allocates qualifying public trade quantity to simulated orders by deterministic order id.''
      else ''no_fill_v1 never creates simulated fills; it is the execution-free control.'')"

definition accounting_document :: "research_ledger \<Rightarrow> json" where
  "accounting_document l =
     JObj [(''enabled'', JBool (rl_enabled l)),
           (''settlement_status'', JStr (if rl_enabled l then ''unresolved'' else ''not_configured'')),
           (''cash_balance_dollars'', if rl_enabled l then JStr (dec_format (rl_cash l)) else JNull),
           (''total_fees_dollars'', if rl_enabled l then JStr (dec_format (rl_fees l)) else JNull),
           (''claim'', JStr ''Policy cashflows only; no settlement or PnL claim.'')]"

definition backtest_metrics :: "'p backtest_state \<Rightarrow> decimal \<Rightarrow> json" where
  "backtest_metrics st position =
     JObj [(''decisions'', JInt (bs_decisions st)),
           (''accepted_orders'', JInt (int (length (filter (\<lambda>r. oget r ''kind'' = JStr ''order_accepted'') (bs_orders st))))),
           (''cancellations'', JInt (bs_cancellations st)),
           (''model_derived_fills'', JInt (int (length (bs_fills st)))),
           (''final_inventory_contracts'', JStr (dec_format position)),
           (''active_orders_at_end'', JInt (int (length (bs_active st)))),
           (''admission_rejections'', sorted_counts (bs_rejections st))]"

definition lineage_metadata :: "product_package \<times> conversion_policy \<times> jobj \<Rightarrow> jobj res" where
  "lineage_metadata l =
     (case l of (package, policy, lineage) \<Rightarrow>
        rbind (pt_identity (pk_terms package)) (\<lambda>identity.
        rbind (oindex (pt_payload (pk_terms package)) ''effective'') (\<lambda>effective.
        rbind (oindex (rv_payload (pk_review package)) ''limitations'') (\<lambda>limitations.
        rbind (oindex (cp_payload policy) ''fee_application'') (\<lambda>fee.
        rbind (oindex (cp_payload policy) ''settlement_application'') (\<lambda>settlement.
        Inr (lineage @
          [(''product_identity'', identity), (''product_terms_effective'', effective),
           (''product_terms_review_limitations'', limitations), (''fee_application'', fee),
           (''settlement_application'', settlement)])))))))"

definition backtest_manifest ::
  "(string \<Rightarrow> string) \<Rightarrow> jobj \<Rightarrow> backtest_config \<Rightarrow> backtest_input \<Rightarrow> string \<Rightarrow> 'p backtest_state \<Rightarrow> json \<Rightarrow> decimal \<Rightarrow> jobj" where
  "backtest_manifest sha config cfg inp kind st latency position =
     [(''schema'', JStr (if bc_schema cfg = ''pmm.backtest.v3'' then ''pmm.backtest_result_manifest.v3''
                         else if bc_schema cfg = ''pmm.backtest.v2'' then ''pmm.backtest_result_manifest.v2''
                         else ''pmm.backtest_result_manifest.v1'')),
      (''config_sha256'', JStr (sha (bi_config inp))),
      (''normalized_events_sha256'', JStr (sha (bi_events inp))),
      (''features_sha256'', JStr (sha (bi_features inp))),
      (''run_id'', oget config ''run_id''),
      (''seed'', oget config ''seed''),
      (''source_fidelity'', JStr ''level_2''),
      (''market_truth'', JStr ''Observed''),
      (''execution_truth'', JStr ''ModelDerived''),
      (''fill_model'', JStr (bc_fill_model cfg)),
      (''risk_engine'', JStr kind),
      (''risk_trace_schema'', if traced (bs_risk st) then JStr ''pmm.risk_conformance_trace.v2'' else JNull),
      (''latency'', latency),
      (''accounting'', accounting_document (bs_ledger st)),
      (''assumptions'', JArr (map JStr
         [''Observed Level-2 book data is not replayed through ExchangeSimulator.'',
          ''No queue position, hidden liquidity, venue acknowledgement, fees, PnL, collateral, or settlement is modelled.'',
          fill_assumption (bc_fill_model cfg)])),
      (''metrics'', backtest_metrics st position),
      (''orders_sha256'', JStr (sha (jsonl (bs_orders st)))),
      (''fills_sha256'', JStr (sha (jsonl (bs_fills st)))),
      (''ledger_sha256'', JStr (sha (jsonl (rl_entries (bs_ledger st))))),
      (''risk_trace_sha256'', JStr (sha (jsonl (risk_trace (bs_risk st)))))]"

section \<open>The run\<close>

definition backtest_finish ::
  "'p process \<Rightarrow> (string \<Rightarrow> string) \<Rightarrow> jobj \<Rightarrow> backtest_config \<Rightarrow> backtest_input \<Rightarrow> string
    \<Rightarrow> (product_package \<times> conversion_policy \<times> jobj) option \<Rightarrow> 'p backtest_state \<Rightarrow> backtest_output res" where
  "backtest_finish step sha config cfg inp kind lineage st =
     rbind (oindex config ''latency'') (\<lambda>latency.
     rbind (risk_position step (bs_risk st)) (\<lambda>(position, risk).
     rbind (case lineage of None \<Rightarrow> Inr [] | Some l \<Rightarrow> lineage_metadata l) (\<lambda>metadata.
     Inr \<lparr>bo_orders = bs_orders st, bo_fills = bs_fills st, bo_ledger = rl_entries (bs_ledger st),
          bo_trace = risk_trace (bs_risk st),
          bo_manifest = backtest_manifest sha config cfg inp kind st latency position @ metadata\<rparr>)))"

definition run_backtest :: "'p process \<Rightarrow> 'p \<Rightarrow> (string \<Rightarrow> string) \<Rightarrow> backtest_input \<Rightarrow> backtest_output res" where
  "run_backtest step p0 sha inp =
     rbind (read_json (bi_config inp)) (\<lambda>config.
     rbind (in_names (oget config ''schema'') backtest_schemas) (\<lambda>known.
     rbind (ensure known (ValueError ''backtest config schema'')) (\<lambda>_.
     rbind (check_engine config) (\<lambda>_.
     rbind (in_names (oget config ''fill_model'') [''no_fill_v1'', ''trade_touch_v1'']) (\<lambda>model_known.
     rbind (ensure model_known (ValueError ''fill_model must be no_fill_v1 or trade_touch_v1'')) (\<lambda>_.
     rbind (product_lineage sha config inp) (\<lambda>lineage.
     rbind (feature_by_watermark (text_lines (bi_features inp))) (\<lambda>features.
     rbind (backtest_numbers config features (lineage \<noteq> None)) (\<lambda>cfg.
     rbind (start_risk step p0 config) (\<lambda>(kind, risk).
     rbind (ledger_from_config config) (\<lambda>ledger.
     rbind (backtest_loop step cfg (backtest_init risk ledger) (text_lines (bi_events inp))) (\<lambda>st.
     backtest_finish step sha config cfg inp kind lineage st))))))))))))"

section \<open>\<open>verify_lineage\<close>\<close>

record result_files =
  rf_manifest :: string
  rf_orders :: string
  rf_fills :: string
  rf_ledger :: string
  rf_trace :: string

definition check_result ::
  "(string \<Rightarrow> string) \<Rightarrow> backtest_input \<Rightarrow> product_package \<times> conversion_policy \<times> jobj \<Rightarrow> result_files \<Rightarrow> unit res" where
  "check_result sha inp l files =
     (case l of (package, policy, lineage) \<Rightarrow>
        rbind (read_json (rf_manifest files)) (\<lambda>manifest.
        rbind (demand (oget manifest ''schema'' = JStr ''pmm.backtest_result_manifest.v3'') ''UnsupportedTermsSchema'') (\<lambda>_.
        rbind (upstream (oget manifest ''config_sha256'' = JStr (sha (bi_config inp)))) (\<lambda>_.
        rbind (res_all (\<lambda>(name, v). upstream (py_eq (oget manifest name) v)) lineage) (\<lambda>_.
        rbind (upstream (oget manifest ''normalized_events_sha256'' = JStr (sha (bi_events inp)))) (\<lambda>_.
        rbind (upstream (oget manifest ''features_sha256'' = JStr (sha (bi_features inp)))) (\<lambda>_.
        rbind (lineage_metadata (package, policy, [])) (\<lambda>metadata.
        rbind (res_all (\<lambda>(name, v). upstream (py_eq (oget manifest name) v)) metadata) (\<lambda>_.
        res_all (\<lambda>(name, text). upstream (oget manifest name = JStr (sha text)))
          [(''orders_sha256'', rf_orders files), (''fills_sha256'', rf_fills files),
           (''ledger_sha256'', rf_ledger files), (''risk_trace_sha256'', rf_trace files)])))))))))"

definition verify_lineage :: "(string \<Rightarrow> string) \<Rightarrow> backtest_input \<Rightarrow> result_files option \<Rightarrow> jobj res" where
  "verify_lineage sha inp files =
     rbind (read_json (bi_config inp)) (\<lambda>config.
     rbind (demand (oget config ''schema'' = JStr ''pmm.backtest.v3'') ''UnsupportedTermsSchema'') (\<lambda>_.
     rbind (verify_v3_lineage sha config (bi_lineage inp) (bi_events inp) (bi_features inp)) (\<lambda>(package, policy, lineage).
     rbind (pt_market_ticker (pk_terms package)) (\<lambda>ticker.
     rbind (oindex (cp_payload policy) ''fee_application'') (\<lambda>fee.
     rbind (oindex (cp_payload policy) ''settlement_application'') (\<lambda>settlement.
     let result = [(''status'', JStr ''valid''), (''market_ticker'', ticker)] @ lineage @
           [(''fee_application'', fee), (''settlement_application'', settlement)] in
     case files of
       None \<Rightarrow> Inr result
     | Some f \<Rightarrow>
         rbind (check_result sha inp (package, policy, lineage) f) (\<lambda>_.
         Inr (result @ [(''result_manifest_sha256'', JStr (sha (rf_manifest f)))])))))))) "

end
