(* ===== verification/Backtest_Gate.thy ===== *)
theory Backtest_Gate
  imports Backtest_Run
begin

text \<open>
  What the backtest relies on of its risk gate. The locale \<open>risk_gate\<close> is the contract of a gate: a
  relation between its state, the next order id and the active orders that admission, fills and
  cancellations keep. Inside it the whole loop is shown to keep that relation; the two gates of the
  code are its interpretations (\<open>Backtest_Limits\<close>, \<open>Backtest_Lifecycle\<close>).
\<close>

section \<open>The table of active orders\<close>

definition table_ok :: "int \<Rightarrow> (int \<times> backtest_order) list \<Rightarrow> bool" where
  "table_ok n table \<longleftrightarrow> distinct (map fst table) \<and> (\<forall>(i, o') \<in> set table. i = bo_id o' \<and> i < n)"

lemma table_ok_Nil [simp]: "table_ok n []"
  by (simp add: table_ok_def)

lemma table_split:
  assumes "table_ok n table" and "(bo_id o', o') \<in> set table"
  obtains xs ys where "table = xs @ (bo_id o', o') # ys" and "dpop (=) table (bo_id o') = xs @ ys"
    and "\<And>o2. sset table (bo_id o') o2 = xs @ (bo_id o', o2) # ys"
proof -
  from split_list [OF assms(2)] obtain xs ys where table: "table = xs @ (bo_id o', o') # ys" by blast
  have "bo_id o' \<notin> fst ` set xs" using assms(1) by (simp add: table_ok_def table)
  then have xs: "list_all (\<lambda>(a, b). a \<noteq> bo_id o') xs" by (force simp: list_all_iff)
  then have pop: "dpop (=) (xs @ z) k = xs @ dpop (=) z k" if "k = bo_id o'" for z :: "(int \<times> backtest_order) list" and k
    using that by (induction xs) auto
  from xs have set: "dset (=) (xs @ z) k v = xs @ dset (=) z k v" if "k = bo_id o'"
    for z :: "(int \<times> backtest_order) list" and k v
    using that by (induction xs) auto
  show thesis by (rule that [OF table]) (simp_all add: table pop set)
qed

lemma table_pop:
  assumes "table_ok n table" and "(bo_id o', o') \<in> set table"
  shows "table_ok n (dpop (=) table (bo_id o'))"
proof -
  from table_split [OF assms] obtain xs ys where "table = xs @ (bo_id o', o') # ys"
    "dpop (=) table (bo_id o') = xs @ ys" by blast
  with assms(1) show ?thesis by (auto simp: table_ok_def)
qed

lemma table_pop_other:
  assumes "table_ok n table" and "(i, p) \<in> set table" and "i \<noteq> j"
  shows "(i, p) \<in> set (dpop (=) table j)"
  using assms(2,3) by (induction table) auto

lemma table_set_other:
  assumes "(i, p) \<in> set table" and "i \<noteq> j"
  shows "(i, p) \<in> set (sset table j v)"
  using assms by (induction table) auto

lemma table_replace:
  assumes "table_ok n table" and "(bo_id o', o') \<in> set table" and "bo_id o2 = bo_id o'"
  shows "table_ok n (sset table (bo_id o') o2)"
proof -
  from table_split [OF assms(1,2)] obtain xs ys where "table = xs @ (bo_id o', o') # ys"
    "sset table (bo_id o') o2 = xs @ (bo_id o', o2) # ys" by metis
  with assms(1,3) show ?thesis by (auto simp: table_ok_def)
qed

lemma table_add:
  assumes "table_ok n table" and "bo_id o' = n"
  shows "sset table n o' = table @ [(n, o')]" "table_ok (n + 1) (table @ [(n, o')])"
proof -
  from assms(1) have "sget table n = None"
    by (fastforce simp: table_ok_def dget_None)
  then show "sset table n o' = table @ [(n, o')]" by (rule plain.dset_new)
  show "table_ok (n + 1) (table @ [(n, o')])" using assms by (auto simp: table_ok_def)
qed

lemma table_mem: "table_ok n table \<Longrightarrow> o' \<in> set (map snd table) \<longleftrightarrow> (bo_id o', o') \<in> set table"
  by (force simp: table_ok_def)

lemma table_ids: "table_ok n table \<Longrightarrow> map bo_id (map snd table) = map fst table"
  by (auto simp: table_ok_def)

section \<open>The contract of a risk gate\<close>

definition new_order :: "backtest_config \<Rightarrow> int \<Rightarrow> string \<Rightarrow> decimal \<Rightarrow> int \<Rightarrow> int \<Rightarrow> backtest_order" where
  "new_order cfg i side price now watermark =
     \<lparr>bo_id = i, bo_side = side, bo_price = price, bo_remaining = bc_quantity cfg, bo_active_at = now,
      bo_expires_at = now + bc_lifetime cfg, bo_watermark = watermark\<rparr>"

text \<open>A trade whose quantity is an amount the gate can count with.\<close>

definition countable :: "(decimal \<Rightarrow> bool) \<Rightarrow> jobj \<Rightarrow> bool" where
  "countable amount event \<longleftrightarrow> (\<forall>payload q d. oget event ''event_type'' = JStr ''trade'' \<longrightarrow>
     oindex event ''payload'' = Inr payload \<longrightarrow> jindex payload ''quantity_contracts'' = Inr q \<longrightarrow>
     decimal_of q = Inr d \<longrightarrow> amount d)"

text \<open>Every trade of a file of events is.\<close>

definition countable_lines :: "(decimal \<Rightarrow> bool) \<Rightarrow> string list \<Rightarrow> bool" where
  "countable_lines amount lines \<longleftrightarrow> (\<forall>l \<in> set lines. \<forall>e. jsonl_object l = Inr e \<longrightarrow> countable amount e)"

lemma fill_order_cases:
  assumes "fill_order step event tp (m, st) o' = Inr (m', st')"
  shows "m' = m \<and> st' = st \<or>
    (\<exists>f left risk ledger row. dec_le m (dec_of_int 0) = Inr False \<and> dec_min (bo_remaining o') m = Inr f \<and>
       dec_sub (bo_remaining o') f = Inr left \<and> dec_sub m f = Inr m' \<and>
       risk_apply_fill step (bs_risk st) (o'\<lparr>bo_remaining := left\<rparr>) f = Inr risk \<and>
       st' = st\<lparr>bs_risk := risk, bs_ledger := ledger, bs_fills := bs_fills st @ [row],
         bs_active := (if dec_eq left (dec_of_int 0) then dpop (=) (bs_active st) (bo_id o')
           else sset (bs_active st) (bo_id o') (o'\<lparr>bo_remaining := left\<rparr>))\<rparr>)"
proof -
  from assms obtain good skip where good: "eligible tp o' = Inr good"
    and skip: "(if good then dec_le m (dec_of_int 0) else Inr True) = Inr skip"
    by (auto simp: fill_order_def rbind_eq_Inr)
  show ?thesis
  proof (cases skip)
    case True
    with assms good skip show ?thesis by (simp add: fill_order_def)
  next
    case False
    with skip have "good" "dec_le m (dec_of_int 0) = Inr False" by (simp_all split: if_splits)
    note run = assms [unfolded fill_order_def prod.case good rbind_simps skip Let_def]
    from run [simplified False if_False rbind_eq_Inr] \<open>dec_le m (dec_of_int 0) = Inr False\<close> show ?thesis
      by (elim exE conjE) (simp split del: if_split, blast)
  qed
qed

locale risk_gate =
  fixes step :: "'p process"
    and cfg :: backtest_config
    and gate :: "'p risk \<Rightarrow> int \<Rightarrow> backtest_order list \<Rightarrow> bool"
    and amount :: "decimal \<Rightarrow> bool"
  assumes rejected: "gate R n os \<Longrightarrow> side = ''buy'' \<or> side = ''sell'' \<Longrightarrow>
      risk_admit step R n side (bc_quantity cfg) price now os = Inr (Some reason, R1) \<Longrightarrow> gate R1 n os"
    and admitted: "gate R n os \<Longrightarrow> side = ''buy'' \<or> side = ''sell'' \<Longrightarrow>
      risk_admit step R n side (bc_quantity cfg) price now os = Inr (None, R1) \<Longrightarrow>
      risk_acknowledge step R1 (new_order cfg n side price now w) = Inr R2 \<Longrightarrow>
      gate R2 (n + 1) (os @ [new_order cfg n side price now w])"
    and cancelled: "gate R n (xs @ o' # ys) \<Longrightarrow> risk_cancel step R o' reason = Inr R1 \<Longrightarrow> gate R1 n (xs @ ys)"
    and filled: "gate R n (xs @ o' # ys) \<Longrightarrow> amount m \<Longrightarrow> dec_le m (dec_of_int 0) = Inr False \<Longrightarrow>
      dec_min (bo_remaining o') m = Inr f \<Longrightarrow> dec_sub (bo_remaining o') f = Inr left \<Longrightarrow> dec_sub m f = Inr m' \<Longrightarrow>
      risk_apply_fill step R (o'\<lparr>bo_remaining := left\<rparr>) f = Inr R1 \<Longrightarrow>
      amount m' \<and> (if dec_eq left (dec_of_int 0) then gate R1 n (xs @ ys)
                    else gate R1 n (xs @ o'\<lparr>bo_remaining := left\<rparr> # ys))"
begin

definition gate_inv :: "'p backtest_state \<Rightarrow> bool" where
  "gate_inv st \<longleftrightarrow> table_ok (bs_next_order st) (bs_active st) \<and>
     gate (bs_risk st) (bs_next_order st) (active_orders st)"

lemma inv_cancel_order:
  assumes inv: "gate_inv st" and mem: "o' \<in> set (active_orders st)"
    and run: "cancel_order step reason now st o' = Inr st'"
  shows "gate_inv st' \<and> (\<forall>p \<in> set (active_orders st). bo_id p \<noteq> bo_id o' \<longrightarrow> p \<in> set (active_orders st'))"
proof -
  from inv have t: "table_ok (bs_next_order st) (bs_active st)" by (simp add: gate_inv_def)
  from mem have e: "(bo_id o', o') \<in> set (bs_active st)" using table_mem [OF t] by (simp add: active_orders_def)
  from table_split [OF t e] obtain xs ys where s: "bs_active st = xs @ (bo_id o', o') # ys"
    "dpop (=) (bs_active st) (bo_id o') = xs @ ys" by blast
  from run obtain risk where r: "risk_cancel step (bs_risk st) o' reason = Inr risk"
    and st': "bs_risk st' = risk" "bs_active st' = dpop (=) (bs_active st) (bo_id o')" "bs_next_order st' = bs_next_order st"
    by (auto simp: cancel_order_def rbind_eq_Inr)
  from inv have "gate (bs_risk st) (bs_next_order st) (map snd xs @ o' # map snd ys)"
    by (simp add: gate_inv_def active_orders_def s(1))
  from cancelled [OF this r] have "gate risk (bs_next_order st) (active_orders st')"
    by (simp add: active_orders_def st' s(2))
  moreover have "p \<in> set (active_orders st')" if "p \<in> set (active_orders st)" "bo_id p \<noteq> bo_id o'" for p
    using that table_mem [OF t] table_pop_other [OF t, of "bo_id p" p] table_mem [OF table_pop [OF t e]]
    by (simp add: active_orders_def st')
  ultimately show ?thesis using table_pop [OF t e] by (auto simp: gate_inv_def st')
qed

lemma inv_cancel_orders:
  assumes "gate_inv st" and "set os \<subseteq> set (active_orders st)" and "distinct (map bo_id os)"
    and "res_fold (cancel_order step reason now) st os = Inr st'"
  shows "gate_inv st'"
  using assms
proof (induction os arbitrary: st)
  case (Cons o' os)
  from Cons.prems(4) obtain s where s: "cancel_order step reason now st o' = Inr s"
    and rest: "res_fold (cancel_order step reason now) s os = Inr st'"
    by (auto simp: rbind_eq_Inr)
  from Cons.prems(2) have "o' \<in> set (active_orders st)" by simp
  note I = inv_cancel_order [OF Cons.prems(1) this s]
  have "set os \<subseteq> set (active_orders s)"
  proof
    fix p assume "p \<in> set os"
    with Cons.prems have "p \<in> set (active_orders st)" "bo_id p \<in> bo_id ` set os" by auto
    moreover from Cons.prems have "bo_id o' \<notin> bo_id ` set os" by simp
    ultimately have "p \<in> set (active_orders st)" "bo_id p \<noteq> bo_id o'" by metis+
    with I show "p \<in> set (active_orders s)" by blast
  qed
  with I Cons.IH [OF _ _ _ rest] Cons.prems(3) show ?case by simp
qed simp

lemma active_distinct: "gate_inv st \<Longrightarrow> distinct (map bo_id (active_orders st))"
proof -
  assume "gate_inv st"
  then have t: "table_ok (bs_next_order st) (bs_active st)" by (simp add: gate_inv_def)
  then have "distinct (map fst (bs_active st))" by (simp add: table_ok_def)
  then show ?thesis unfolding active_orders_def table_ids [OF t] .
qed

lemma inv_cancel_expired: "gate_inv st \<Longrightarrow> cancel_expired step now st = Inr st' \<Longrightarrow> gate_inv st'"
  unfolding cancel_expired_def
  by (rule inv_cancel_orders) (auto simp: distinct_map_filter active_distinct)

lemma inv_cancel_all: "gate_inv st \<Longrightarrow> cancel_all step reason now st = Inr st' \<Longrightarrow> gate_inv st'"
  unfolding cancel_all_def by (rule inv_cancel_orders) (auto simp: active_distinct)

lemma inv_quote:
  assumes inv: "gate_inv st" and run: "quote step cfg now feature st (side, price) = Inr st'"
    and side: "side = ''buy'' \<or> side = ''sell''"
  shows "gate_inv st'"
proof -
  from inv have t: "table_ok (bs_next_order st) (bs_active st)"
    and g: "gate (bs_risk st) (bs_next_order st) (active_orders st)" by (simp_all add: gate_inv_def)
  from run obtain rejection risk where admit: "risk_admit step (bs_risk st) (bs_next_order st) side (bc_quantity cfg)
      price now (active_orders st) = Inr (rejection, risk)"
    by (auto simp: quote_def rbind_eq_Inr)
  show ?thesis
  proof (cases rejection)
    case (Some reason)
    with run admit have "st' = reject (st\<lparr>bs_risk := risk\<rparr>) reason" by (simp add: quote_def)
    with rejected [OF g side admit [unfolded Some]] t show ?thesis
      by (simp add: gate_inv_def reject_def active_orders_def)
  next
    case None
    with run admit obtain w risk' where
      ack: "risk_acknowledge step risk (new_order cfg (bs_next_order st) side price now w) = Inr risk'"
      and st': "bs_risk st' = risk'" "bs_next_order st' = bs_next_order st + 1"
        "bs_active st' = sset (bs_active st) (bs_next_order st) (new_order cfg (bs_next_order st) side price now w)"
      by (auto simp: quote_def rbind_eq_Inr Let_def new_order_def)
    have "bo_id (new_order cfg (bs_next_order st) side price now w) = bs_next_order st" by (simp add: new_order_def)
    note A = table_add [OF t this]
    from admitted [OF g side admit [unfolded None] ack] show ?thesis
      using A by (simp add: gate_inv_def st' active_orders_def)
  qed
qed

lemma inv_decide:
  assumes inv: "gate_inv st" and run: "decide step cfg now st feature = Inr st'"
  shows "gate_inv st'"
proof -
  let ?st1 = "st\<lparr>bs_decisions := bs_decisions st + 1\<rparr>"
  have inv1: "gate_inv ?st1" using inv by (simp add: gate_inv_def active_orders_def)
  then have rej: "gate_inv (reject ?st1 reason)" for reason by (simp add: gate_inv_def active_orders_def reject_def)
  from run consider (rejection) reason where "st' = reject ?st1 reason"
    | (quotes) st2 st3 bid ask where "cancel_all step ''quote_replacement'' now ?st1 = Inr st2"
        "quote step cfg now feature st2 (''buy'', bid) = Inr st3" "quote step cfg now feature st3 (''sell'', ask) = Inr st'"
    by (auto simp: decide_def rbind_eq_Inr Let_def split: if_splits)
  then show ?thesis
  proof cases
    case rejection
    with rej show ?thesis by simp
  next
    case quotes
    from inv_quote [OF inv_quote [OF inv_cancel_all [OF inv1 quotes(1)] quotes(2)] quotes(3)] show ?thesis by simp
  qed
qed

lemma inv_decisions: "gate_inv st \<Longrightarrow> res_fold (decide step cfg now) st fs = Inr st' \<Longrightarrow> gate_inv st'"
  by (induction fs arbitrary: st) (auto simp: rbind_eq_Inr intro: inv_decide)

lemma inv_activate_due:
  assumes "gate_inv st" and "activate_due step cfg now st = Inr st'"
  shows "gate_inv st'"
proof -
  from assms(2) obtain st1 where s: "cancel_expired step now st = Inr st1"
    and d: "res_fold (decide step cfg now) (st1\<lparr>bs_scheduled := dropWhile (is_due now) (bs_scheduled st1)\<rparr>)
       (map (\<lambda>item. snd (snd item)) (takeWhile (is_due now) (bs_scheduled st1))) = Inr st'"
    by (auto simp: activate_due_def rbind_eq_Inr)
  from inv_cancel_expired [OF assms(1) s]
  have "gate_inv (st1\<lparr>bs_scheduled := dropWhile (is_due now) (bs_scheduled st1)\<rparr>)"
    by (simp add: gate_inv_def active_orders_def)
  from inv_decisions [OF this d] show ?thesis .
qed

lemma inv_fill_order:
  assumes inv: "gate_inv st" and m: "amount m" and mem: "o' \<in> set (active_orders st)"
    and run: "fill_order step event tp (m, st) o' = Inr (m', st')"
  shows "gate_inv st' \<and> amount m' \<and>
    (\<forall>p \<in> set (active_orders st). bo_id p \<noteq> bo_id o' \<longrightarrow> p \<in> set (active_orders st'))"
proof (cases "st' = st \<and> m' = m")
  case True
  with inv m show ?thesis by simp
next
  case False
  from inv have t: "table_ok (bs_next_order st) (bs_active st)" by (simp add: gate_inv_def)
  from mem have e: "(bo_id o', o') \<in> set (bs_active st)" using table_mem [OF t] by (simp add: active_orders_def)
  obtain xs ys where s: "bs_active st = xs @ (bo_id o', o') # ys"
    "dpop (=) (bs_active st) (bo_id o') = xs @ ys" "\<And>o2. sset (bs_active st) (bo_id o') o2 = xs @ (bo_id o', o2) # ys"
    using table_split [OF t e] by blast
  from fill_order_cases [OF run] False obtain f left risk where f: "dec_le m (dec_of_int 0) = Inr False"
      "dec_min (bo_remaining o') m = Inr f" "dec_sub (bo_remaining o') f = Inr left" "dec_sub m f = Inr m'"
      "risk_apply_fill step (bs_risk st) (o'\<lparr>bo_remaining := left\<rparr>) f = Inr risk"
    and st': "bs_risk st' = risk" "bs_next_order st' = bs_next_order st"
      "bs_active st' = (if dec_eq left (dec_of_int 0) then dpop (=) (bs_active st) (bo_id o')
         else sset (bs_active st) (bo_id o') (o'\<lparr>bo_remaining := left\<rparr>))"
    by force
  from inv have "gate (bs_risk st) (bs_next_order st) (map snd xs @ o' # map snd ys)"
    by (simp add: gate_inv_def active_orders_def s(1))
  from filled [OF this m f] have g: "amount m'" "gate risk (bs_next_order st) (active_orders st')"
    by (auto simp: active_orders_def st' s(2,3) split: if_splits)
  have t': "table_ok (bs_next_order st) (bs_active st')"
    using table_pop [OF t e] table_replace [OF t e] by (simp add: st')
  have "p \<in> set (active_orders st')" if "p \<in> set (active_orders st)" "bo_id p \<noteq> bo_id o'" for p
    using that table_mem [OF t] table_mem [OF t'] table_pop_other [OF t, of "bo_id p" p]
      table_set_other [of "bo_id p" p "bs_active st"]
    by (simp add: active_orders_def st')
  with g t' show ?thesis by (simp add: gate_inv_def st')
qed

lemma inv_fill_orders:
  assumes "gate_inv st" and "amount m" and "set os \<subseteq> set (active_orders st)" and "distinct (map bo_id os)"
    and "res_fold (fill_order step event tp) (m, st) os = Inr (m', st')"
  shows "gate_inv st'"
  using assms
proof (induction os arbitrary: m st)
  case (Cons o' os)
  from Cons.prems(5) obtain m1 s where s: "fill_order step event tp (m, st) o' = Inr (m1, s)"
    and rest: "res_fold (fill_order step event tp) (m1, s) os = Inr (m', st')"
    by (auto simp: rbind_eq_Inr)
  from Cons.prems(3) have "o' \<in> set (active_orders st)" by simp
  note I = inv_fill_order [OF Cons.prems(1,2) this s]
  have "set os \<subseteq> set (active_orders s)"
  proof
    fix p assume "p \<in> set os"
    with Cons.prems have "p \<in> set (active_orders st)" "bo_id p \<in> bo_id ` set os" by auto
    moreover from Cons.prems have "bo_id o' \<notin> bo_id ` set os" by simp
    ultimately have "p \<in> set (active_orders st)" "bo_id p \<noteq> bo_id o'" by metis+
    with I show "p \<in> set (active_orders s)" by blast
  qed
  with I Cons.IH [OF _ _ _ _ rest] Cons.prems(4) show ?case by simp
qed simp

lemma inv_trade_fills:
  assumes inv: "gate_inv st" and ok: "countable amount event" and run: "apply_trade_fills step cfg event st = Inr st'"
  shows "gate_inv st'"
proof (cases "bc_fill_model cfg \<noteq> ''trade_touch_v1'' \<or> oget event ''event_type'' \<noteq> JStr ''trade''")
  case True
  with run inv show ?thesis by (auto simp: apply_trade_fills_def)
next
  case False
  with run obtain payload q m tp m' where p: "oindex event ''payload'' = Inr payload"
      "jindex payload ''quantity_contracts'' = Inr q" "decimal_of q = Inr m"
    and fills: "res_fold (fill_order step event tp) (m, st) (sort_key bo_id (active_orders st)) = Inr (m', st')"
    by (auto simp: apply_trade_fills_def rbind_eq_Inr)
  from ok False p have "amount m" by (auto simp: countable_def)
  moreover have "distinct (map bo_id (sort_key bo_id (active_orders st)))"
  proof -
    have "mset (map bo_id (sort_key bo_id (active_orders st))) = mset (map bo_id (active_orders st))" by simp
    then show ?thesis using active_distinct [OF inv] by (metis mset_eq_imp_distinct_iff)
  qed
  ultimately show ?thesis using inv_fill_orders [OF inv _ _ _ fills] by simp
qed

lemma inv_event:
  assumes inv: "gate_inv st" and ok: "countable amount event" and run: "backtest_event step cfg st event = Inr st'"
  shows "gate_inv st'"
proof -
  from run obtain now st1 st2 where d: "activate_due step cfg now st = Inr st1"
    and f: "apply_trade_fills step cfg event st1 = Inr st2"
    and st': "bs_risk st' = bs_risk st2" "bs_next_order st' = bs_next_order st2" "bs_active st' = bs_active st2"
    by (auto simp: backtest_event_def rbind_eq_Inr Let_def schedule_def split: if_splits)
  from inv_trade_fills [OF inv_activate_due [OF inv d] ok f] show ?thesis
    by (simp add: gate_inv_def active_orders_def st')
qed

lemma inv_lines:
  assumes "gate_inv st" and "countable_lines amount lines"
    and "res_fold (backtest_line step cfg) st lines = Inr st'"
  shows "gate_inv st'"
  using assms
  by (induction lines arbitrary: st) (auto simp: rbind_eq_Inr backtest_line_def countable_lines_def intro: inv_event)

lemma inv_loop:
  assumes "gate_inv st" and "countable_lines amount lines"
    and "backtest_loop step cfg st lines = Inr st'"
  shows "gate_inv st'"
  using assms(3) inv_lines [OF assms(1,2)]
  by (auto simp: backtest_loop_def rbind_eq_Inr intro: inv_activate_due split: if_splits)

end

end
