(* ===== verification/Backtest_Limits.thy ===== *)
theory Backtest_Limits
  imports Backtest_Gate
begin

text \<open>
  The reference gate keeps its limits: \<open>BacktestRisk\<close> as an instance of the contract \<open>risk_gate\<close>. The
  quantities are counted exactly as long as they are multiples of \<open>10 ^ (-k)\<close> and the limit has room
  in the 28 digits of the decimal context.
\<close>

section \<open>Sums of displayed quantities\<close>

definition resting :: "string \<Rightarrow> backtest_order list \<Rightarrow> rat" where
  "resting side os = sum_list (map (\<lambda>o'. dval (bo_remaining o')) (filter (\<lambda>o'. bo_side o' = side) os))"

lemma resting_simps [simp]:
  "resting side [] = 0"
  "resting side (o' # os) = (if bo_side o' = side then dval (bo_remaining o') else 0) + resting side os"
  "resting side (xs @ ys) = resting side xs + resting side ys"
  by (simp_all add: resting_def)

definition good_orders :: "nat \<Rightarrow> backtest_order list \<Rightarrow> bool" where
  "good_orders k os \<longleftrightarrow> (\<forall>o' \<in> set os. (bo_side o' = ''buy'' \<or> bo_side o' = ''sell'') \<and>
     dgrid k (bo_remaining o') \<and> 0 < dval (bo_remaining o'))"

lemma good_orders_simps [simp]:
  "good_orders k []"
  "good_orders k (o' # os) \<longleftrightarrow> (bo_side o' = ''buy'' \<or> bo_side o' = ''sell'') \<and>
     dgrid k (bo_remaining o') \<and> 0 < dval (bo_remaining o') \<and> good_orders k os"
  "good_orders k (xs @ ys) \<longleftrightarrow> good_orders k xs \<and> good_orders k ys"
  by (auto simp: good_orders_def)

lemma resting_nonneg: "good_orders k os \<Longrightarrow> 0 \<le> resting side os"
  by (induction os) auto

lemma sum_from:
  assumes "dgrid k a" and "good_orders k os" and "0 \<le> dval a" and "dfits k (dval a + resting side os)"
  shows "\<exists>s. res_fold dec_add a (map bo_remaining (filter (\<lambda>o'. bo_side o' = side) os)) = Inr s \<and>
    dgrid k s \<and> dval s = dval a + resting side os"
  using assms
proof (induction os arbitrary: a)
  case (Cons o' os)
  show ?case
  proof (cases "bo_side o' = side")
    case True
    let ?x = "dval (bo_remaining o')"
    have nn: "0 \<le> resting side os" using Cons.prems(2) resting_nonneg by auto
    have "dfits k (dval a + ?x)"
      using Cons.prems True nn by (intro dfits_mono [OF Cons.prems(4)]) auto
    from dec_add_grid [OF Cons.prems(1) _ this] Cons.prems(2)
    obtain r where r: "dec_add a (bo_remaining o') = Inr r" "dgrid k r" "dval r = dval a + ?x" by auto
    have "\<exists>s. res_fold dec_add r (map bo_remaining (filter (\<lambda>o'. bo_side o' = side) os)) = Inr s \<and>
        dgrid k s \<and> dval s = dval r + resting side os"
      using Cons.prems True r by (intro Cons.IH) (auto simp: add.assoc)
    with r True show ?thesis by (auto simp: add.assoc)
  next
    case False
    with Cons show ?thesis by simp
  qed
qed simp

section \<open>The invariant of the gate\<close>

definition within_limits :: "nat \<Rightarrow> decimal \<Rightarrow> int \<Rightarrow> backtest_risk \<Rightarrow> backtest_order list \<Rightarrow> bool" where
  "within_limits k limit orders r os \<longleftrightarrow>
     br_maximum_position r = limit \<and> br_maximum_orders r = orders \<and> int (length os) \<le> orders \<and>
     dgrid k (br_position r) \<and> good_orders k os \<and>
     dval (br_position r) + resting ''buy'' os \<le> dval limit \<and>
     - dval limit \<le> dval (br_position r) - resting ''sell'' os"

definition exact_amount :: "nat \<Rightarrow> decimal \<Rightarrow> bool" where
  "exact_amount k d \<longleftrightarrow> dgrid k d \<and> dfits k (dval d)"

text \<open>Limits the arithmetic of the gate is exact for.\<close>

definition exact_limits :: "nat \<Rightarrow> decimal \<Rightarrow> decimal \<Rightarrow> bool" where
  "exact_limits k limit quantity \<longleftrightarrow> finite_dec limit \<and> 0 \<le> dval limit \<and> dgrid k quantity \<and> 0 < dval quantity \<and>
     dfits k (2 * dval limit + dval quantity)"

definition limits_gate ::
  "nat \<Rightarrow> decimal \<Rightarrow> int \<Rightarrow> backtest_config \<Rightarrow> 'p risk \<Rightarrow> int \<Rightarrow> backtest_order list \<Rightarrow> bool" where
  "limits_gate k limit orders cfg R n os \<longleftrightarrow> exact_limits k limit (bc_quantity cfg) \<and>
     (\<exists>r. R = Python_Risk r \<and> within_limits k limit orders r os)"

lemma within_bounds:
  assumes "within_limits k limit orders r os"
  shows "- dval limit \<le> dval (br_position r)" "dval (br_position r) \<le> dval limit"
    "0 \<le> resting ''buy'' os" "0 \<le> resting ''sell'' os"
    "resting ''buy'' os \<le> 2 * dval limit" "resting ''sell'' os \<le> 2 * dval limit"
  using assms resting_nonneg [of k os "''buy''"] resting_nonneg [of k os "''sell''"]
  by (auto simp: within_limits_def)

lemma admit_exact:
  assumes w: "within_limits k limit orders r os" and e: "exact_limits k limit quantity"
    and side: "side = ''buy'' \<or> side = ''sell''"
    and run: "br_admit r side quantity os = Inr None"
  shows "int (length os) < orders \<and>
    (if side = ''buy'' then dval (br_position r) + resting ''buy'' os + dval quantity \<le> dval limit
     else - dval limit \<le> dval (br_position r) - resting ''sell'' os - dval quantity)"
proof -
  note B = within_bounds [OF w]
  from w have p: "dgrid k (br_position r)" and g: "good_orders k os" and M: "br_maximum_position r = limit"
    by (simp_all add: within_limits_def)
  from e have fits: "dfits k (2 * dval limit + dval quantity)" and q: "dgrid k quantity" "0 < dval quantity"
    and M0: "finite_dec limit" "0 \<le> dval limit"
    by (simp_all add: exact_limits_def)
  have fit: "dfits k v" if "\<bar>v\<bar> \<le> 2 * dval limit + dval quantity" for v
    using that by (intro dfits_mono [OF fits]) auto
  have few: "int (length os) < orders" using run w by (auto simp: br_admit_def within_limits_def split: if_splits)
  have sums: "\<exists>s. remaining_of_side sd os = Inr s \<and> dgrid k s \<and> dval s = resting sd os" if "sd = ''buy'' \<or> sd = ''sell''" for sd
  proof -
    have "dfits k (dval (dec_of_int 0) + resting sd os)"
      using that B q by (intro fit) auto
    from sum_from [OF _ g _ this] show ?thesis by (auto simp: remaining_of_side_def)
  qed
  from sums obtain b s where b: "remaining_of_side ''buy'' os = Inr b" "dgrid k b" "dval b = resting ''buy'' os"
    and s: "remaining_of_side ''sell'' os = Inr s" "dgrid k s" "dval s = resting ''sell'' os" by metis
  define v where "v = (if side = ''buy'' then dval (br_position r) + dval b + dval quantity
    else dval (br_position r) - dval s - dval quantity)"
  have v_fits: "\<bar>v\<bar> \<le> 2 * dval limit + dval quantity"
    using w b s B q by (auto simp: v_def within_limits_def)
  have "\<exists>x. (if side = ''buy'' then rbind (dec_add (br_position r) b) (\<lambda>p. dec_add p quantity)
      else rbind (dec_sub (br_position r) s) (\<lambda>p. dec_sub p quantity)) = Inr x \<and> dgrid k x \<and> dval x = v"
  proof (cases "side = ''buy''")
    case True
    have "dfits k (dval (br_position r) + dval b)" using w b B q by (intro fit) (auto simp: within_limits_def)
    from dec_add_grid [OF p b(2) this] obtain y where y: "dec_add (br_position r) b = Inr y" "dgrid k y"
      "dval y = dval (br_position r) + dval b" by blast
    from dec_add_grid [OF y(2) q(1)] v_fits fit True y show ?thesis by (auto simp: v_def)
  next
    case False
    have "dfits k (dval (br_position r) - dval s)" using w s B q by (intro fit) (auto simp: within_limits_def)
    from dec_sub_grid [OF p s(2) this] obtain y where y: "dec_sub (br_position r) s = Inr y" "dgrid k y"
      "dval y = dval (br_position r) - dval s" by blast
    from dec_sub_grid [OF y(2) q(1)] v_fits fit False y show ?thesis by (auto simp: v_def)
  qed
  then obtain x where x: "(if side = ''buy'' then rbind (dec_add (br_position r) b) (\<lambda>p. dec_add p quantity)
      else rbind (dec_sub (br_position r) s) (\<lambda>p. dec_sub p quantity)) = Inr x" "dgrid k x" "dval x = v" by blast
  from dec_abs_grid [OF x(2)] x(3) v_fits fit obtain a where a: "dec_abs x = Inr a" "dgrid k a" "dval a = \<bar>v\<bar>" by auto
  have "dec_lt limit a = Inr (dval limit < \<bar>v\<bar>)" using dec_lt_finite [OF M0(1) dgrid_finite [OF a(2)]] a(3) by simp
  with run few w b(1) s(1) x(1) a(1) have "\<bar>v\<bar> \<le> dval limit"
    by (auto simp: br_admit_def within_limits_def split: if_splits)
  with few b(3) s(3) show ?thesis by (auto simp: v_def)
qed

lemma fill_exact:
  assumes w: "within_limits k limit orders r (xs @ o' # ys)" and e: "exact_limits k limit quantity"
    and m: "exact_amount k m" and pos: "dec_le m (dec_of_int 0) = Inr False"
    and f: "dec_min (bo_remaining o') m = Inr f" and left: "dec_sub (bo_remaining o') f = Inr left"
    and rest: "dec_sub m f = Inr m'" and run: "br_apply_fill r (o'\<lparr>bo_remaining := left\<rparr>) f = Inr r'"
  shows "exact_amount k m' \<and> (if dec_eq left (dec_of_int 0) then within_limits k limit orders r' (xs @ ys)
      else within_limits k limit orders r' (xs @ o'\<lparr>bo_remaining := left\<rparr> # ys))"
proof -
  note B = within_bounds [OF w]
  from w have p: "dgrid k (br_position r)"
    and o1: "dgrid k (bo_remaining o')" "0 < dval (bo_remaining o')" "bo_side o' = ''buy'' \<or> bo_side o' = ''sell''"
    and g: "good_orders k xs" "good_orders k ys" by (simp_all add: within_limits_def)
  from e have fits: "dfits k (2 * dval limit + dval quantity)" and q: "0 < dval quantity" by (simp_all add: exact_limits_def)
  have fit: "dfits k v" if "\<bar>v\<bar> \<le> 2 * dval limit" for v
    using that q by (intro dfits_mono [OF fits]) auto
  from m have mg: "dgrid k m" "dfits k (dval m)" by (simp_all add: exact_amount_def)
  have m0: "0 < dval m" using pos dec_le_finite [OF dgrid_finite [OF mg(1)] finite_of_int [of 0]] by simp
  from dec_min_grid [OF dgrid_finite [OF o1(1)] dgrid_finite [OF mg(1)]] f o1(1) mg(1)
  have fv: "dval f = min (dval (bo_remaining o')) (dval m)" and fg: "dgrid k f" by auto
  have f0: "0 < dval f" "dval f \<le> dval (bo_remaining o')" "dval f \<le> dval m" using fv o1(2) m0 by auto
  have small: "dval (bo_remaining o') \<le> 2 * dval limit"
    using B o1(2,3) resting_nonneg [OF g(1), of "''buy''"] resting_nonneg [OF g(2), of "''buy''"]
      resting_nonneg [OF g(1), of "''sell''"] resting_nonneg [OF g(2), of "''sell''"] by auto
  have "dfits k (dval (bo_remaining o') - dval f)" using f0 small by (intro fit) auto
  from dec_sub_grid [OF o1(1) fg this] left have l: "dgrid k left" "dval left = dval (bo_remaining o') - dval f" by auto
  have "dfits k (dval m - dval f)" using f0 m0 by (intro dfits_mono [OF mg(2)]) auto
  from dec_sub_grid [OF mg(1) fg this] rest this have amount: "exact_amount k m'" by (auto simp: exact_amount_def)
  define v where "v = (if bo_side o' = ''buy'' then dval (br_position r) + dval f else dval (br_position r) - dval f)"
  have bounds: "if bo_side o' = ''buy'' then dval (br_position r) + dval (bo_remaining o') + resting ''buy'' (xs @ ys) \<le> dval limit
      else - dval limit \<le> dval (br_position r) - dval (bo_remaining o') - resting ''sell'' (xs @ ys)"
    using w o1(3) by (auto simp: within_limits_def)
  have nn: "0 \<le> resting sd (xs @ ys)" for sd using g resting_nonneg by auto
  have v: "\<bar>v\<bar> \<le> 2 * dval limit"
    using bounds nn [of "''buy''"] nn [of "''sell''"] B f0 by (auto simp: v_def split: if_splits)
  have "dfits k (dval f)" using f0 small by (intro fit) auto
  from dec_neg_grid [OF fg this] obtain f' where neg: "dec_neg f = Inr f'" "dgrid k f'" "dval f' = - dval f" by blast
  have "\<exists>x. (if bo_side o' = ''buy'' then Inr f else dec_neg f) = Inr x \<and> dgrid k x \<and>
      dval (br_position r) + dval x = v"
    using neg fg by (auto simp: v_def)
  then obtain x where x: "(if bo_side o' = ''buy'' then Inr f else dec_neg f) = Inr x" "dgrid k x"
    "dval (br_position r) + dval x = v" by blast
  from dec_add_grid [OF p x(2)] x(3) fit [OF v] run x(1) obtain y where
    r': "r' = r\<lparr>br_position := y\<rparr>" and y: "dgrid k y" "dval y = v"
    by (auto simp: br_apply_fill_def rbind_eq_Inr split: if_splits)
  have zero: "dec_eq left (dec_of_int 0) \<longleftrightarrow> dval left = 0"
    using dec_eq_finite [OF dgrid_finite [OF l(1)] finite_of_int [of 0]] by simp
  have "within_limits k limit orders r' (xs @ ys)" if "dval left = 0"
    using w y l(2) that o1(2,3) by (auto simp: within_limits_def r' v_def split: if_splits)
  moreover have "within_limits k limit orders r' (xs @ o'\<lparr>bo_remaining := left\<rparr> # ys)" if "dval left \<noteq> 0"
    using w y l that o1(3) f0 by (auto simp: within_limits_def r' v_def split: if_splits)
  ultimately show ?thesis using amount zero by simp
qed

lemma cancel_within:
  assumes "within_limits k limit orders r (xs @ o' # ys)"
  shows "within_limits k limit orders r (xs @ ys)"
  using assms by (auto simp: within_limits_def split: if_splits)

section \<open>The reference gate fulfils the contract\<close>

interpretation limits: risk_gate step cfg "limits_gate k limit orders cfg" "exact_amount k"
  for step :: "'p process" and cfg k limit orders
proof (unfold_locales, goal_cases)
  case (1 R n os side price now reason R1)
  then show ?case by (auto simp: limits_gate_def rbind_eq_Inr)
next
  case (2 R n os side price now R1 w R2)
  from 2(1) obtain r where r: "R = Python_Risk r" "within_limits k limit orders r os"
    and e: "exact_limits k limit (bc_quantity cfg)" by (auto simp: limits_gate_def)
  from 2(3) r(1) have admit: "br_admit r side (bc_quantity cfg) os = Inr None" and R1: "R1 = Python_Risk r"
    by (auto simp: rbind_eq_Inr)
  from 2(4) R1 have R2: "R2 = Python_Risk r" by simp
  from admit_exact [OF r(2) e 2(2) admit] r(2) e 2(2) show ?case
    by (auto simp: limits_gate_def R2 within_limits_def new_order_def exact_limits_def split: if_splits)
next
  case (3 R n xs o' ys reason R1)
  then show ?case by (auto simp: limits_gate_def intro: cancel_within)
next
  case (4 R n xs o' ys m f left m' R1)
  from 4(1) obtain r where r: "R = Python_Risk r" "within_limits k limit orders r (xs @ o' # ys)"
    and e: "exact_limits k limit (bc_quantity cfg)" by (auto simp: limits_gate_def)
  with 4(7) obtain r' where run: "br_apply_fill r (o'\<lparr>bo_remaining := left\<rparr>) f = Inr r'" and R1: "R1 = Python_Risk r'"
    by (auto simp: rbind_eq_Inr)
  from fill_exact [OF r(2) e 4(2,3,4,5,6) run] e show ?case by (simp add: limits_gate_def R1)
qed

section \<open>Properties\<close>

text \<open>C9: The reference gate keeps its limits. After any number of events, and after the whole run, the
  position lies within the configured limit and stays there whatever part of the active orders is
  filled later, there are never more active orders than configured, and every active order still has
  something to fill. The quantities have to be multiples of \<open>10 ^ (-k)\<close> within the precision of the
  decimal context.\<close>

theorem reference_gate_keeps_limits:
  assumes "backtest_loop step cfg (backtest_init (Python_Risk
        \<lparr>br_maximum_position = limit, br_maximum_orders = orders, br_position = dec_of_int 0\<rparr>) ledger) lines = Inr st"
    and "0 < orders" and "exact_limits k limit (bc_quantity cfg)" and "countable_lines (exact_amount k) lines"
  shows "\<exists>r. bs_risk st = Python_Risk r \<and> \<bar>dval (br_position r)\<bar> \<le> dval limit \<and>
    dval (br_position r) + resting ''buy'' (active_orders st) \<le> dval limit \<and>
    - dval limit \<le> dval (br_position r) - resting ''sell'' (active_orders st) \<and>
    int (length (active_orders st)) \<le> orders \<and> good_orders k (active_orders st)"
proof -
  have "limits.gate_inv k limit orders cfg (backtest_init (Python_Risk
        \<lparr>br_maximum_position = limit, br_maximum_orders = orders, br_position = dec_of_int 0\<rparr>) ledger)"
    using assms(2,3)
    by (simp add: limits.gate_inv_def limits_gate_def within_limits_def backtest_init_def active_orders_def exact_limits_def)
  from limits.inv_loop [OF this assms(4,1)] obtain r where "bs_risk st = Python_Risk r"
    and w: "within_limits k limit orders r (active_orders st)"
    by (auto simp: limits.gate_inv_def limits_gate_def)
  with within_bounds [OF w] show ?thesis by (auto simp: within_limits_def)
qed

end
