(* ===== verification/Risk_Lifecycle.thy ===== *)
theory Risk_Lifecycle
  imports Backtest_Risk
begin

text \<open>
  The life of an order in the conformance trace of the risk oracle. Every row of the trace is one
  operation on one order; \<open>life_step\<close> says in which order they may follow each other, \<open>extends\<close> what an
  operation of the client appends to the trace.
\<close>

section \<open>The life of an order\<close>

datatype life = Fresh | Admitted | Bound | Live | Closed

fun life_step :: "life \<Rightarrow> string \<Rightarrow> bool \<Rightarrow> life option" where
  "life_step Fresh op approved =
     (if op = ''admit'' then Some (if approved then Admitted else Fresh) else None)"
| "life_step Admitted op approved = (if op = ''bind_ingress'' then Some Bound else None)"
| "life_step Bound op approved =
     (if op = ''acknowledge'' then Some Live else if op = ''command_reject'' then Some Closed else None)"
| "life_step Live op approved =
     (if op = ''fill'' then Some Live else if op = ''cancel'' \<or> op = ''expire'' then Some Closed else None)"
| "life_step Closed op approved = None"

text \<open>The order a row is about.\<close>

definition subject_key :: "string \<Rightarrow> string" where
  "subject_key op =
     (if op = ''admit'' then ''client_intent_id''
      else if op = ''bind_ingress'' \<or> op = ''command_reject'' then ''ingress_sequence''
      else ''order_id'')"

definition row_id :: "jobj \<Rightarrow> int option" where
  "row_id row =
     (case oget row ''input'' of
        JObj input \<Rightarrow> (case oget input (subject_key (py_str (oget row ''operation''))) of JInt i \<Rightarrow> Some i | _ \<Rightarrow> None)
      | _ \<Rightarrow> None)"

definition life_row :: "int \<Rightarrow> life option \<Rightarrow> jobj \<Rightarrow> life option" where
  "life_row i l row =
     (if row_id row = Some i
      then Option.bind l (\<lambda>s. life_step s (py_str (oget row ''operation'')) (oget row ''result'' = JStr ''approved''))
      else l)"

text \<open>\<open>None\<close>: the rows of the order are out of order.\<close>

definition life_of :: "jobj list \<Rightarrow> int \<Rightarrow> life option" where
  "life_of rows i = foldl (life_row i) (Some Fresh) rows"

definition numbered_rows :: "jobj list \<Rightarrow> bool" where
  "numbered_rows rows \<longleftrightarrow> (\<forall>j < length rows. oget (rows ! j) ''step'' = JInt (int j + 1))"

lemma life_of_Nil [simp]: "life_of [] i = Some Fresh"
  by (simp add: life_of_def)

lemma life_of_append: "life_of (xs @ [row]) i = life_row i (life_of xs i) row"
  by (simp add: life_of_def)

lemma numbered_Nil [simp]: "numbered_rows []"
  by (simp add: numbered_rows_def)

lemma trace_row_fields [simp]:
  "oget (trace_row n op input result state) ''step'' = JInt n"
  "oget (trace_row n op input result state) ''operation'' = JStr op"
  "oget (trace_row n op input result state) ''input'' = JObj input"
  "oget (trace_row n op input result state) ''result'' = JStr result"
  by (simp_all add: trace_row_def oget_def)

section \<open>What an operation appends\<close>

type_synonym row_spec = "string \<times> jobj \<times> string"

fun rows_extend :: "jobj list \<Rightarrow> row_spec list \<Rightarrow> jobj list \<Rightarrow> bool" where
  "rows_extend rows [] rows' \<longleftrightarrow> rows' = rows"
| "rows_extend rows ((op, input, result) # specs) rows' \<longleftrightarrow>
     (\<exists>state. rows_extend (rows @ [trace_row (int (length rows) + 1) op input result state]) specs rows')"

definition extends :: "'p oracle_client \<Rightarrow> row_spec list \<Rightarrow> 'p oracle_client \<Rightarrow> bool" where
  "extends r specs r' \<longleftrightarrow> or_canonical r' = or_canonical r \<and>
     (if or_canonical r then rows_extend (or_trace r) specs (or_trace r') else or_trace r' = or_trace r)"

lemma rows_extend_trans: "rows_extend a s b \<Longrightarrow> rows_extend b t c \<Longrightarrow> rows_extend a (s @ t) c"
  by (induction a s b rule: rows_extend.induct) auto

lemma extends_refl: "or_canonical r' = or_canonical r \<Longrightarrow> or_trace r' = or_trace r \<Longrightarrow> extends r [] r'"
  by (simp add: extends_def)

lemma extends_trans: "extends a s b \<Longrightarrow> extends b t c \<Longrightarrow> extends a (s @ t) c"
  by (auto simp: extends_def intro: rows_extend_trans)

lemma rows_extend_numbered: "rows_extend rows specs rows' \<Longrightarrow> numbered_rows rows \<Longrightarrow> numbered_rows rows'"
proof (induction rows specs rows' rule: rows_extend.induct)
  case (2 rows op input result specs rows')
  then obtain state where e: "rows_extend (rows @ [trace_row (int (length rows) + 1) op input result state]) specs rows'"
    by auto
  have "numbered_rows (rows @ [trace_row (int (length rows) + 1) op input result state])"
    using 2(3) by (auto simp: numbered_rows_def nth_append)
  with 2(1) e show ?case by blast
qed simp

text \<open>The life of an order after the rows of an operation.\<close>

definition spec_life :: "int \<Rightarrow> life option \<Rightarrow> row_spec \<Rightarrow> life option" where
  "spec_life i l s =
     (case s of (op, input, result) \<Rightarrow>
        if oget input (subject_key op) = JInt i
        then Option.bind l (\<lambda>x. life_step x op (result = ''approved'')) else l)"

lemma life_trace_row: "life_row i l (trace_row n op input result state) = spec_life i l (op, input, result)"
  by (auto simp: life_row_def spec_life_def row_id_def split: json.splits)

lemma rows_extend_life: "rows_extend rows specs rows' \<Longrightarrow> life_of rows' i = foldl (spec_life i) (life_of rows i) specs"
  by (induction rows specs rows' rule: rows_extend.induct) (auto simp: life_of_append life_trace_row)

section \<open>The operations of the client\<close>

lemma ask_extends: "oracle_ask step r line = Inr (x, r') \<Longrightarrow> extends r [] r'"
  by (auto simp: oracle_ask_def rbind_eq_Inr Let_def extends_def split: prod.splits)

lemma view_extends: "oracle_view step r = Inr (x, r') \<Longrightarrow> extends r [] r'"
  by (auto simp: oracle_view_def rbind_eq_Inr dest: ask_extends)

lemma expect_extends: "oracle_expect step r line expected = Inr r' \<Longrightarrow> extends r [] r'"
  by (auto simp: oracle_expect_def rbind_eq_Inr dest: ask_extends)

lemma position_extends: "oracle_position step r = Inr (x, r') \<Longrightarrow> extends r [] r'"
  by (auto simp: oracle_position_def rbind_eq_Inr dest: view_extends)

lemma record_extends:
  assumes "oracle_record step r op input result = Inr r'"
  shows "extends r [(op, input, result)] r'"
proof (cases "or_canonical r")
  case False
  with assms show ?thesis by (simp add: oracle_record_def extends_def)
next
  case True
  with assms obtain state r1 where v: "oracle_view step r = Inr (state, r1)"
    and r': "r' = r1\<lparr>or_trace := or_trace r1 @ [trace_row (int (length (or_trace r)) + 1) op input result state]\<rparr>"
    by (auto simp: oracle_record_def rbind_eq_Inr)
  from view_extends [OF v] True show ?thesis by (auto simp: r' extends_def)
qed

lemma extends_start: "extends r s r' \<Longrightarrow> or_trace r0 = or_trace r \<Longrightarrow> or_canonical r0 = or_canonical r \<Longrightarrow> extends r0 s r'"
  by (simp add: extends_def)

lemma admit_extends:
  assumes "oracle_admit step r client side quantity price time = Inr (rejection, r')"
  shows "\<exists>result. extends r [(''admit'', admission_input client side quantity price time, result)] r' \<and>
    (result = ''approved'' \<longleftrightarrow> rejection = None)"
proof -
  from assms obtain line cmd r1 where a: "oracle_ask step r cmd = Inr (line, r1)"
    and rest: "(\<exists>x. oracle_record step (r1\<lparr>or_pending := x\<rparr>) ''admit''
        (admission_input client side quantity price time) ''approved'' = Inr r') \<and> rejection = None \<or>
      (\<exists>x. oracle_record step r1 ''admit'' (admission_input client side quantity price time) (''cxx_risk_'' @ x) = Inr r') \<and>
        rejection \<noteq> None"
    by (auto simp: oracle_admit_def rbind_eq_Inr Let_def split: if_splits)
  note A = ask_extends [OF a]
  from rest show ?thesis
  proof
    assume "(\<exists>x. oracle_record step (r1\<lparr>or_pending := x\<rparr>) ''admit''
        (admission_input client side quantity price time) ''approved'' = Inr r') \<and> rejection = None"
    then obtain x where "extends (r1\<lparr>or_pending := x\<rparr>) [(''admit'', admission_input client side quantity price time, ''approved'')] r'"
      and n: "rejection = None" using record_extends by blast
    have "extends r1 [(''admit'', admission_input client side quantity price time, ''approved'')] r'"
      by (rule extends_start [OF \<open>extends (r1\<lparr>or_pending := x\<rparr>) _ r'\<close>]) simp_all
    with extends_trans [OF A this] n show ?thesis by auto
  next
    assume "(\<exists>x. oracle_record step r1 ''admit'' (admission_input client side quantity price time) (''cxx_risk_'' @ x) = Inr r') \<and>
        rejection \<noteq> None"
    then obtain x where "extends r1 [(''admit'', admission_input client side quantity price time, ''cxx_risk_'' @ x)] r'"
      and n: "rejection \<noteq> None" using record_extends by blast
    with extends_trans [OF A this(1)] show ?thesis by (intro exI [of _ "''cxx_risk_'' @ x"]) auto
  qed
qed

lemma bind_extends:
  assumes "oracle_bind step r o' = Inr r'"
  shows "\<exists>client. extends r [(''bind_ingress'',
    [(''client_intent_id'', JInt client), (''ingress_sequence'', JInt (bo_id o'))], ''bound'')] r'"
proof -
  from assms obtain client r0 cmd r1 where e: "oracle_expect step r0 cmd ''BOUND'' = Inr r1"
    and r0: "or_trace r = or_trace r0" "or_canonical r = or_canonical r0"
    and rec: "oracle_record step r1 ''bind_ingress''
       [(''client_intent_id'', JInt client), (''ingress_sequence'', JInt (bo_id o'))] ''bound'' = Inr r'"
    by (auto simp: oracle_bind_def rbind_eq_Inr)
  from extends_trans [OF extends_start [OF expect_extends [OF e] r0] record_extends [OF rec]] show ?thesis by auto
qed

text \<open>The operations on one live order, each as the kind of row it appends.\<close>

definition appends :: "'p oracle_client \<Rightarrow> string \<Rightarrow> int \<Rightarrow> 'p oracle_client \<Rightarrow> bool" where
  "appends r op i r' \<longleftrightarrow>
     (\<exists>input. oget input (subject_key op) = JInt i \<and> extends r [(op, input, ''applied'')] r')"

lemma expect_record:
  assumes "oracle_expect step r0 cmd x = Inr r1" and "oracle_record step r1 op input ''applied'' = Inr r'"
    and "or_trace r = or_trace r0" and "or_canonical r = or_canonical r0" and "oget input (subject_key op) = JInt i"
  shows "appends r op i r'"
  using extends_trans [OF extends_start [OF expect_extends [OF assms(1)] assms(3,4)] record_extends [OF assms(2)]] assms(5)
  unfolding appends_def by auto

lemma fill_appends:
  assumes "oracle_apply_fill step r o' quantity time = Inr r'"
  shows "appends r ''fill'' (bo_id o') r'"
proof -
  from assms obtain r0 cmd r1 input where "oracle_expect step r0 cmd ''APPLIED'' = Inr r1"
    "oracle_record step r1 ''fill'' input ''applied'' = Inr r'" "or_trace r = or_trace r0" "or_canonical r = or_canonical r0"
    "oget input (subject_key ''fill'') = JInt (bo_id o')"
    by (auto simp: oracle_apply_fill_def rbind_eq_Inr Let_def subject_key_def oget_def)
  from expect_record [OF this] show ?thesis .
qed

lemma cancel_appends:
  assumes "oracle_cancel step r o' reason time = Inr r'"
  shows "appends r (if reason = ''logical_expiry'' then ''expire'' else ''cancel'') (bo_id o') r'"
proof -
  let ?op = "if reason = ''logical_expiry'' then ''expire'' else ''cancel''"
  from assms obtain r0 cmd r1 input where "oracle_expect step r0 cmd ''APPLIED'' = Inr r1"
    "oracle_record step r1 ?op input ''applied'' = Inr r'" "or_trace r = or_trace r0" "or_canonical r = or_canonical r0"
    "oget input (subject_key ?op) = JInt (bo_id o')"
    unfolding oracle_cancel_def rbind_eq_Inr Let_def
    by (elim exE conjE) (rule that, assumption+, simp_all add: subject_key_def oget_def)
  from expect_record [OF this] show ?thesis .
qed

lemma acknowledge_appends:
  assumes "oracle_acknowledge step r o' = Inr r'"
  shows "\<exists>client r1. extends r [(''bind_ingress'',
      [(''client_intent_id'', JInt client), (''ingress_sequence'', JInt (bo_id o'))], ''bound'')] r1 \<and>
    appends r1 ''acknowledge'' (bo_id o') r'"
proof -
  from assms obtain r1 r0 cmd r2 input where b: "oracle_bind step r o' = Inr r1"
    and "oracle_expect step r0 cmd ''APPLIED'' = Inr r2"
    "oracle_record step r2 ''acknowledge'' input ''applied'' = Inr r'" "or_trace r1 = or_trace r0"
    "or_canonical r1 = or_canonical r0" "oget input (subject_key ''acknowledge'') = JInt (bo_id o')"
    by (auto simp: oracle_acknowledge_def rbind_eq_Inr Let_def subject_key_def oget_def)
  from expect_record [OF this(2-)] bind_extends [OF b] show ?thesis by blast
qed

lemma reject_pending_appends:
  assumes "oracle_reject_pending step r o' time = Inr r'"
  shows "\<exists>client r1. extends r [(''bind_ingress'',
      [(''client_intent_id'', JInt client), (''ingress_sequence'', JInt (bo_id o'))], ''bound'')] r1 \<and>
    appends r1 ''command_reject'' (bo_id o') r'"
proof -
  from assms obtain r1 r0 cmd r2 input where b: "oracle_bind step r o' = Inr r1"
    and "oracle_expect step r0 cmd ''APPLIED'' = Inr r2"
    "oracle_record step r2 ''command_reject'' input ''applied'' = Inr r'" "or_trace r1 = or_trace r0"
    "or_canonical r1 = or_canonical r0" "oget input (subject_key ''command_reject'') = JInt (bo_id o')"
    by (auto simp: oracle_reject_pending_def rbind_eq_Inr Let_def subject_key_def oget_def)
  from expect_record [OF this(2-)] bind_extends [OF b] show ?thesis by blast
qed

section \<open>The lives of all orders\<close>

text \<open>Order ids from \<open>n\<close> on are unused; the given ids are in the given states.\<close>

definition lives_ok :: "'p oracle_client \<Rightarrow> int \<Rightarrow> (int \<Rightarrow> life option) \<Rightarrow> bool" where
  "lives_ok r n lives \<longleftrightarrow> numbered_rows (or_trace r) \<and>
     (if or_canonical r
      then (\<forall>i. life_of (or_trace r) i \<noteq> None) \<and> (\<forall>i. n \<le> i \<longrightarrow> life_of (or_trace r) i = Some Fresh) \<and>
        (\<forall>i s. lives i = Some s \<longrightarrow> life_of (or_trace r) i = Some s)
      else or_trace r = [])"

lemma lives_ok_legal: "lives_ok r n lives \<Longrightarrow> numbered_rows (or_trace r) \<and> life_of (or_trace r) i \<noteq> None"
  by (auto simp: lives_ok_def split: if_splits)

lemma lives_ok_same: "lives_ok r n lives \<Longrightarrow> extends r [] r' \<Longrightarrow> lives_ok r' n lives"
  by (auto simp: lives_ok_def extends_def split: if_splits)

lemma lives_ok_weaken: "lives_ok r n lives \<Longrightarrow> (\<And>i s. lives' i = Some s \<Longrightarrow> lives i = Some s) \<Longrightarrow> lives_ok r n lives'"
  by (auto simp: lives_ok_def)

text \<open>One row about order \<open>i\<close> that its state allows.\<close>

lemma lives_ok_row:
  assumes ok: "lives_ok r n lives" and e: "extends r [(op, input, result)] r'"
    and id: "oget input (subject_key op) = JInt i"
    and s: "or_canonical r \<Longrightarrow> life_of (or_trace r) i = Some s" and s': "life_step s op (result = ''approved'') = Some s'"
    and n: "s' \<noteq> Fresh \<Longrightarrow> i < n'" "n \<le> n'"
  shows "lives_ok r' n' (lives(i \<mapsto> s'))"
proof (cases "or_canonical r")
  case False
  with ok e show ?thesis by (simp add: lives_ok_def extends_def)
next
  case True
  with e have rows: "rows_extend (or_trace r) [(op, input, result)] (or_trace r')" and c: "or_canonical r'"
    by (simp_all add: extends_def)
  have life: "life_of (or_trace r') j = (if j = i then Some s' else life_of (or_trace r) j)" for j
    using rows_extend_life [OF rows, of j] s [OF True] s' id by (auto simp: spec_life_def)
  from ok True have "numbered_rows (or_trace r)" by (simp add: lives_ok_def)
  from rows_extend_numbered [OF rows this] ok True n show ?thesis
    by (cases "s' = Fresh") (auto simp: lives_ok_def c life)
qed

lemma lives_ok_get: "lives_ok r n lives \<Longrightarrow> or_canonical r \<Longrightarrow> lives i = Some s \<Longrightarrow> life_of (or_trace r) i = Some s"
  by (simp add: lives_ok_def)

lemma lives_ok_fresh: "lives_ok r n lives \<Longrightarrow> or_canonical r \<Longrightarrow> n \<le> i \<Longrightarrow> life_of (or_trace r) i = Some Fresh"
  by (simp add: lives_ok_def)

lemma lives_ok_appends:
  assumes ok: "lives_ok r n lives" and e: "appends r op i r'" and s: "lives i = Some s"
    and s': "life_step s op False = Some s'" "i < n"
  shows "lives_ok r' n (lives(i \<mapsto> s'))"
proof -
  from e obtain input where i: "oget input (subject_key op) = JInt i" "extends r [(op, input, ''applied'')] r'"
    by (auto simp: appends_def)
  show ?thesis
    by (rule lives_ok_row [OF ok i(2,1) lives_ok_get [OF ok _ s]]) (use s' in simp_all)
qed

lemma lives_ok_rejected:
  assumes ok: "lives_ok r n lives" and run: "oracle_admit step r n side quantity price time = Inr (Some x, r')"
  shows "lives_ok r' n lives"
proof -
  from admit_extends [OF run] obtain result where e: "extends r [(''admit'', admission_input n side quantity price time, result)] r'"
    and result: "result \<noteq> ''approved''" by auto
  show ?thesis
  proof (cases "or_canonical r")
    case False
    with ok e show ?thesis by (simp add: lives_ok_def extends_def)
  next
    case True
    have fresh: "s = Fresh" if "lives n = Some s" for s
      using lives_ok_fresh [OF ok True, of n] lives_ok_get [OF ok True that] by simp
    have "lives_ok r' n (lives(n \<mapsto> Fresh))"
      by (rule lives_ok_row [OF ok e _ lives_ok_fresh [OF ok]])
        (use result in \<open>simp_all add: subject_key_def admission_input_def oget_def\<close>)
    then show ?thesis by (rule lives_ok_weaken) (auto dest: fresh)
  qed
qed

lemma lives_ok_approved:
  assumes ok: "lives_ok r n lives" and run: "oracle_admit step r n side quantity price time = Inr (None, r')"
  shows "lives_ok r' (n + 1) (lives(n \<mapsto> Admitted))"
proof -
  from admit_extends [OF run] have e: "extends r [(''admit'', admission_input n side quantity price time, ''approved'')] r'"
    by auto
  show ?thesis
    by (rule lives_ok_row [OF ok e _ lives_ok_fresh [OF ok]]) (simp_all add: subject_key_def admission_input_def oget_def)
qed

lemma lives_ok_bind:
  assumes ok: "lives_ok r n lives" and s: "lives i = Some Admitted" "i < n"
    and e: "extends r [(''bind_ingress'', [(''client_intent_id'', JInt client), (''ingress_sequence'', JInt i)], ''bound'')] r'"
  shows "lives_ok r' n (lives(i \<mapsto> Bound))"
  by (rule lives_ok_row [OF ok e _ lives_ok_get [OF ok _ s(1)]]) (use s in \<open>simp_all add: subject_key_def oget_def\<close>)

lemma lives_ok_acknowledge:
  assumes ok: "lives_ok r n lives" and s: "lives (bo_id o') = Some Admitted" "bo_id o' < n"
    and run: "oracle_acknowledge step r o' = Inr r'"
  shows "lives_ok r' n (lives(bo_id o' \<mapsto> Live))"
proof -
  from acknowledge_appends [OF run] obtain client r1 where
    b: "extends r [(''bind_ingress'', [(''client_intent_id'', JInt client), (''ingress_sequence'', JInt (bo_id o'))], ''bound'')] r1"
    and a: "appends r1 ''acknowledge'' (bo_id o') r'" by blast
  have "lives_ok r' n (lives(bo_id o' \<mapsto> Bound, bo_id o' \<mapsto> Live))"
    by (rule lives_ok_appends [OF lives_ok_bind [OF ok s b] a, where s = Bound]) (use s in simp_all)
  then show ?thesis by simp
qed

lemma lives_ok_reject_pending:
  assumes ok: "lives_ok r n lives" and s: "lives (bo_id o') = Some Admitted" "bo_id o' < n"
    and run: "oracle_reject_pending step r o' time = Inr r'"
  shows "lives_ok r' n (lives(bo_id o' \<mapsto> Closed))"
proof -
  from reject_pending_appends [OF run] obtain client r1 where
    b: "extends r [(''bind_ingress'', [(''client_intent_id'', JInt client), (''ingress_sequence'', JInt (bo_id o'))], ''bound'')] r1"
    and a: "appends r1 ''command_reject'' (bo_id o') r'" by blast
  have "lives_ok r' n (lives(bo_id o' \<mapsto> Bound, bo_id o' \<mapsto> Closed))"
    by (rule lives_ok_appends [OF lives_ok_bind [OF ok s b] a, where s = Bound]) (use s in simp_all)
  then show ?thesis by simp
qed

lemma lives_ok_fill:
  assumes ok: "lives_ok r n lives" and s: "lives (bo_id o') = Some Live" "bo_id o' < n"
    and run: "oracle_apply_fill step r o' quantity time = Inr r'"
  shows "lives_ok r' n lives"
  using lives_ok_appends [OF ok fill_appends [OF run] s(1) _ s(2), of Live] s(1)
  by (simp add: map_upd_triv)

lemma lives_ok_cancel:
  assumes ok: "lives_ok r n lives" and s: "lives (bo_id o') = Some Live" "bo_id o' < n"
    and run: "oracle_cancel step r o' reason time = Inr r'"
  shows "lives_ok r' n (lives(bo_id o' \<mapsto> Closed))"
  by (rule lives_ok_appends [OF ok cancel_appends [OF run] s(1) _ s(2)]) simp

lemma oracle_start_lives:
  assumes "oracle_start step p config canonical = Inr r"
  shows "lives_ok r n Map.empty \<and> (or_canonical r \<longrightarrow> or_trace r \<noteq> [])"
proof -
  from assms obtain r0 cmd response r1 input where a: "oracle_ask step r0 cmd = Inr (response, r1)"
    and r0: "or_trace r0 = []" and rec: "oracle_record step r1 ''init'' [(''engine'', JStr input)] ''ready'' = Inr r"
    by (auto simp: oracle_start_def rbind_eq_Inr)
  from extends_trans [OF ask_extends [OF a] record_extends [OF rec]]
  have e: "extends r0 [(''init'', [(''engine'', JStr input)], ''ready'')] r" by simp
  show ?thesis
  proof (cases "or_canonical r0")
    case False
    with e r0 show ?thesis by (simp add: extends_def lives_ok_def)
  next
    case True
    with e r0 have rows: "rows_extend [] [(''init'', [(''engine'', JStr input)], ''ready'')] (or_trace r)"
      and c: "or_canonical r" by (simp_all add: extends_def)
    from rows_extend_life [OF rows] rows_extend_numbered [OF rows] rows c show ?thesis
      by (auto simp: lives_ok_def spec_life_def oget_def subject_key_def)
  qed
qed

end
