(* ===== verification/Backtest_Lifecycle.thy ===== *)
theory Backtest_Lifecycle
  imports Backtest_Gate Risk_Lifecycle
begin

text \<open>
  The conformance trace of a backtest: the client of the risk oracle as an instance of the contract
  \<open>risk_gate\<close>. Whatever the oracle answers, the commands of a backtest that returns take every order
  through its life in the right order.
\<close>

definition live_ids :: "backtest_order list \<Rightarrow> int \<Rightarrow> life option" where
  "live_ids os i = (if i \<in> bo_id ` set os then Some Live else None)"

fun lifecycle_gate :: "'p risk \<Rightarrow> int \<Rightarrow> backtest_order list \<Rightarrow> bool" where
  "lifecycle_gate (Python_Risk r) n os \<longleftrightarrow> True"
| "lifecycle_gate (Cxx_Risk r) n os \<longleftrightarrow>
     lives_ok r n (live_ids os) \<and> distinct (map bo_id os) \<and> (\<forall>o' \<in> set os. bo_id o' < n)"

lemma live_ids_self: "live_ids (xs @ o' # ys) (bo_id o') = Some Live"
  by (simp add: live_ids_def)

interpretation lifecycle: risk_gate step cfg lifecycle_gate "\<lambda>_. True" for step :: "'p process" and cfg
proof (unfold_locales, goal_cases)
  case (1 R n os side price now reason R1)
  then show ?case by (cases R) (auto simp: rbind_eq_Inr dest: lives_ok_rejected)
next
  case (2 R n os side price now R1 w R2)
  show ?case
  proof (cases R)
    case (Python_Risk r)
    with 2 show ?thesis by (auto simp: rbind_eq_Inr)
  next
    case (Cxx_Risk r)
    let ?o = "new_order cfg n side price now w"
    have id: "bo_id ?o = n" by (simp add: new_order_def)
    from 2(3) Cxx_Risk obtain r1 where a: "oracle_admit step r n side (bc_quantity cfg) price now = Inr (None, r1)"
      and R1: "R1 = Cxx_Risk r1" by (auto simp: rbind_eq_Inr)
    from 2(4) R1 obtain r2 where k: "oracle_acknowledge step r1 ?o = Inr r2" and R2: "R2 = Cxx_Risk r2"
      by (auto simp: rbind_eq_Inr)
    from 2(1) Cxx_Risk have ok: "lives_ok r n (live_ids os)" and d: "distinct (map bo_id os)" "\<forall>o' \<in> set os. bo_id o' < n"
      by simp_all
    have "lives_ok r2 (n + 1) ((live_ids os)(n \<mapsto> Admitted, n \<mapsto> Live))"
      using lives_ok_acknowledge [OF lives_ok_approved [OF ok a] _ _ k] by (simp add: id)
    then have "lives_ok r2 (n + 1) (live_ids (os @ [?o]))"
      by (rule lives_ok_weaken) (auto simp: live_ids_def id split: if_splits)
    with d show ?thesis by (auto simp: R2 id)
  qed
next
  case (3 R n xs o' ys reason R1)
  show ?case
  proof (cases R)
    case (Python_Risk r)
    with 3 show ?thesis by (cases R1) auto
  next
    case (Cxx_Risk r)
    from 3(2) Cxx_Risk obtain r1 where c: "oracle_cancel step r o' reason None = Inr r1" and R1: "R1 = Cxx_Risk r1"
      by (auto simp: rbind_eq_Inr)
    from 3(1) Cxx_Risk have ok: "lives_ok r n (live_ids (xs @ o' # ys))" and n: "bo_id o' < n"
      and d: "distinct (map bo_id (xs @ ys))" "bo_id o' \<notin> bo_id ` set (xs @ ys)" "\<forall>o' \<in> set (xs @ ys). bo_id o' < n"
      by auto
    have "lives_ok r1 n ((live_ids (xs @ o' # ys))(bo_id o' \<mapsto> Closed))"
      by (rule lives_ok_cancel [OF ok live_ids_self n c])
    then have "lives_ok r1 n (live_ids (xs @ ys))"
    proof (rule lives_ok_weaken)
      fix i s assume "live_ids (xs @ ys) i = Some s"
      then have i: "i \<in> bo_id ` set (xs @ ys)" "s = Live" by (simp_all add: live_ids_def split: if_splits)
      with d(2) have "i \<noteq> bo_id o'" by metis
      with i show "((live_ids (xs @ o' # ys))(bo_id o' \<mapsto> Closed)) i = Some s" by (auto simp: live_ids_def)
    qed
    with d show ?thesis by (simp add: R1)
  qed
next
  case (4 R n xs o' ys m f left m' R1)
  show ?case
  proof (cases R)
    case (Python_Risk r)
    with 4 show ?thesis by (auto simp: rbind_eq_Inr)
  next
    case (Cxx_Risk r)
    from 4(7) Cxx_Risk obtain r1 where c: "oracle_apply_fill step r (o'\<lparr>bo_remaining := left\<rparr>) f None = Inr r1"
      and R1: "R1 = Cxx_Risk r1" by (auto simp: rbind_eq_Inr)
    from 4(1) Cxx_Risk have ok: "lives_ok r n (live_ids (xs @ o' # ys))" and n: "bo_id o' < n"
      and d: "distinct (map bo_id (xs @ o' # ys))" "\<forall>o' \<in> set (xs @ ys). bo_id o' < n"
      by auto
    have ok1: "lives_ok r1 n (live_ids (xs @ o' # ys))"
      by (rule lives_ok_fill [OF ok _ _ c]) (simp_all add: live_ids_self n)
    then have "lives_ok r1 n (live_ids (xs @ ys))"
      by (rule lives_ok_weaken) (auto simp: live_ids_def split: if_splits)
    moreover have "live_ids (xs @ o'\<lparr>bo_remaining := left\<rparr> # ys) = live_ids (xs @ o' # ys)"
      by (simp add: live_ids_def fun_eq_iff)
    ultimately show ?thesis using ok1 d n by (auto simp: R1)
  qed
qed

lemma start_risk_gate:
  assumes "start_risk step p0 config = Inr (kind, R)"
  shows "lifecycle_gate R 1 []"
proof (cases R)
  case (Python_Risk r)
  then show ?thesis by simp
next
  case (Cxx_Risk r)
  with assms obtain c b where "oracle_start step p0 c b = Inr r"
    by (auto simp: start_risk_def rbind_eq_Inr Let_def split: if_splits)
  from oracle_start_lives [OF this, of 1] show ?thesis
    by (auto simp: Cxx_Risk live_ids_def intro: lives_ok_weaken)
qed

text \<open>A whole run, seen from its final state.\<close>

lemma run_backtest_state:
  assumes "run_backtest step p0 sha inp = Inr out"
  shows "\<exists>config cfg gate ledger features lineage st. read_json (bi_config inp) = Inr config \<and>
    start_risk step p0 config = Inr gate \<and> ledger_from_config config = Inr ledger \<and>
    feature_by_watermark (text_lines (bi_features inp)) = Inr features \<and>
    backtest_numbers config features (lineage \<noteq> None) = Inr cfg \<and>
    backtest_loop step cfg (backtest_init (snd gate) ledger) (text_lines (bi_events inp)) = Inr st \<and>
    backtest_finish step sha config cfg inp (fst gate) lineage st = Inr out"
  using assms unfolding run_backtest_def case_prod_beta rbind_eq_Inr by blast

lemma backtest_finish_fields:
  assumes "backtest_finish step sha config cfg inp kind lineage st = Inr out"
  shows "bo_orders out = bs_orders st \<and> bo_fills out = bs_fills st \<and> bo_trace out = risk_trace (bs_risk st) \<and>
    bo_ledger out = rl_entries (bs_ledger st)"
  using assms by (auto simp: backtest_finish_def rbind_eq_Inr split: prod.splits)

section \<open>Properties\<close>

text \<open>C10: The conformance trace of a backtest is in order. Whatever the risk oracle answers, if the run
  returns then the rows of its risk trace are numbered 1, 2, 3, ..., and the rows of every order id
  follow the life of an order: it is admitted, bound and acknowledged before it is filled, cancelled
  or expired, a rejected intent may be submitted again under its unused id, and nothing follows a
  cancellation.\<close>

theorem backtest_trace_lifecycle:
  assumes "run_backtest step p0 sha inp = Inr out"
  shows "numbered_rows (bo_trace out) \<and> (\<forall>i. life_of (bo_trace out) i \<noteq> None)"
proof -
  from run_backtest_state [OF assms] obtain config cfg gate ledger lineage st where
    start: "start_risk step p0 config = Inr gate"
    and loop: "backtest_loop step cfg (backtest_init (snd gate) ledger) (text_lines (bi_events inp)) = Inr st"
    and fin: "backtest_finish step sha config cfg inp (fst gate) lineage st = Inr out" by blast
  have "lifecycle.gate_inv (backtest_init (snd gate) ledger)"
    using start_risk_gate [of step p0 config "fst gate" "snd gate"] start by (simp add: lifecycle.gate_inv_def backtest_init_def active_orders_def)
  from lifecycle.inv_loop [OF this _ loop]
  have "lifecycle_gate (bs_risk st) (bs_next_order st) (active_orders st)"
    by (simp add: countable_lines_def countable_def lifecycle.gate_inv_def)
  then have "numbered_rows (risk_trace (bs_risk st)) \<and> (\<forall>i. life_of (risk_trace (bs_risk st)) i \<noteq> None)"
    by (cases "bs_risk st") (auto dest: lives_ok_legal)
  with backtest_finish_fields [OF fin] show ?thesis by simp
qed

end
