(* ===== verification/Backtest_Causality.thy ===== *)
theory Backtest_Causality
  imports Backtest_Lifecycle
begin

text \<open>
  A backtest does not look ahead: every order it accepts was quoted from the feature row of an event
  that was already there, at the earliest when the configured latencies were over, and at the prices
  that row shows. The loop is followed event by event: \<open>items_ok\<close> says where the scheduled decisions
  come from, \<open>rows_ok\<close> where the accepted orders do.
\<close>

section \<open>Where a decision comes from\<close>

definition total_latency :: "backtest_config \<Rightarrow> int" where
  "total_latency cfg = bc_market_latency cfg + bc_decision_latency cfg + bc_order_latency cfg"

text \<open>The feature row of an event, and when a decision taken on it is due.\<close>

definition sourced :: "backtest_config \<Rightarrow> jobj \<Rightarrow> jobj \<Rightarrow> int \<Rightarrow> bool" where
  "sourced cfg e f due \<longleftrightarrow>
     (\<exists>w t. int_value (oget e ''ingress_order'') = Inr w \<and> sget (bc_features cfg) w = Some f \<and>
        int_value (oget e ''logical_time_utc_ns'') = Inr t \<and> due = t + total_latency cfg)"

definition is_accepted :: "jobj \<Rightarrow> bool" where
  "is_accepted row \<longleftrightarrow> oget row ''kind'' = JStr ''order_accepted''"

text \<open>The row quotes the best bid or the best ask of a feature row, which are far enough apart.\<close>

definition quotes :: "backtest_config \<Rightarrow> int \<Rightarrow> jobj \<Rightarrow> jobj \<Rightarrow> bool" where
  "quotes cfg now f row \<longleftrightarrow>
     (\<exists>vs bid ask w. oget f ''values'' = JObj vs \<and> decimal_of (oget vs ''best_yes_bid_dollars'') = Inr bid \<and>
        decimal_of (oget vs ''best_yes_ask_dollars'') = Inr ask \<and>
        too_narrow (bc_minimum_spread cfg) bid ask = Inr False \<and>
        oget row ''active_at_utc_ns'' = JInt now \<and>
        int_value (oget f ''as_of_watermark'') = Inr w \<and> oget row ''feature_watermark'' = JInt w \<and>
        (oget row ''side'' = JStr ''buy'' \<and> oget row ''price_dollars'' = JStr (dec_format bid) \<or>
         oget row ''side'' = JStr ''sell'' \<and> oget row ''price_dollars'' = JStr (dec_format ask)))"

definition items_ok :: "backtest_config \<Rightarrow> jobj list \<Rightarrow> (int \<times> int \<times> jobj) list \<Rightarrow> bool" where
  "items_ok cfg es items \<longleftrightarrow> (\<forall>(due, n, f) \<in> set items. \<exists>e \<in> set es. sourced cfg e f due)"

definition rows_ok :: "backtest_config \<Rightarrow> jobj list \<Rightarrow> jobj list \<Rightarrow> bool" where
  "rows_ok cfg es rows \<longleftrightarrow>
     (\<forall>row \<in> set rows. is_accepted row \<longrightarrow>
        (\<exists>e \<in> set es. \<exists>f due now. sourced cfg e f due \<and> due \<le> now \<and> quotes cfg now f row))"

lemma items_ok_more: "items_ok cfg es items \<Longrightarrow> set es \<subseteq> set es' \<Longrightarrow> items_ok cfg es' items"
  unfolding items_ok_def by blast

lemma rows_ok_more: "rows_ok cfg es rows \<Longrightarrow> set es \<subseteq> set es' \<Longrightarrow> rows_ok cfg es' rows"
  unfolding rows_ok_def by blast

lemma rows_ok_append: "rows_ok cfg es (xs @ ys) \<longleftrightarrow> rows_ok cfg es xs \<and> rows_ok cfg es ys"
  by (auto simp: rows_ok_def)

section \<open>What the parts of an event write\<close>

text \<open>New rows, all of which satisfy a condition when they are acceptances; the schedule is the same.\<close>

definition writes :: "(jobj \<Rightarrow> bool) \<Rightarrow> 'p backtest_state \<Rightarrow> 'p backtest_state \<Rightarrow> bool" where
  "writes P st st' \<longleftrightarrow> bs_scheduled st' = bs_scheduled st \<and>
     (\<exists>rows. bs_orders st' = bs_orders st @ rows \<and> (\<forall>row \<in> set rows. is_accepted row \<longrightarrow> P row))"

lemma writes_refl: "bs_scheduled st' = bs_scheduled st \<Longrightarrow> bs_orders st' = bs_orders st \<Longrightarrow> writes P st st'"
  by (simp add: writes_def)

lemma writes_trans: "writes P a b \<Longrightarrow> writes P b c \<Longrightarrow> writes P a c"
proof -
  assume "writes P a b" "writes P b c"
  then obtain xs ys where "bs_scheduled c = bs_scheduled a" "bs_orders c = bs_orders a @ xs @ ys"
    "\<forall>row \<in> set xs. is_accepted row \<longrightarrow> P row" "\<forall>row \<in> set ys. is_accepted row \<longrightarrow> P row"
    by (auto simp: writes_def)
  then show ?thesis unfolding writes_def by (intro conjI exI [of _ "xs @ ys"]) auto
qed

lemma writes_start: "writes P st st' \<Longrightarrow> bs_scheduled st0 = bs_scheduled st \<Longrightarrow> bs_orders st0 = bs_orders st \<Longrightarrow> writes P st0 st'"
  by (simp add: writes_def)

lemma writes_fold:
  assumes "\<And>s x s'. x \<in> set xs \<Longrightarrow> f s x = Inr s' \<Longrightarrow> writes P s s'" and "res_fold f st xs = Inr st'"
  shows "writes P st st'"
  using assms
proof (induction xs arbitrary: st)
  case Nil
  then show ?case by (simp add: writes_refl)
next
  case (Cons x xs)
  from Cons.prems(2) obtain s where s: "f st x = Inr s" "res_fold f s xs = Inr st'" by (auto simp: rbind_eq_Inr)
  have "writes P st s" by (rule Cons.prems(1) [OF _ s(1)]) simp
  moreover have "writes P s st'" by (rule Cons.IH [OF Cons.prems(1) s(2)]) simp_all
  ultimately show ?case by (rule writes_trans)
qed

lemma cancel_order_writes: "cancel_order step reason now st o' = Inr st' \<Longrightarrow> writes P st st'"
  by (auto simp: cancel_order_def rbind_eq_Inr writes_def is_accepted_def cancellation_row_def oget_def)

lemma cancel_all_writes: "cancel_all step reason now st = Inr st' \<Longrightarrow> writes P st st'"
  unfolding cancel_all_def by (rule writes_fold) (rule cancel_order_writes)

lemma cancel_expired_writes: "cancel_expired step now st = Inr st' \<Longrightarrow> writes P st st'"
  unfolding cancel_expired_def by (rule writes_fold) (rule cancel_order_writes)

lemma accepted_row_fields:
  "oget (accepted_row o') ''side'' = JStr (bo_side o')" "oget (accepted_row o') ''price_dollars'' = JStr (dec_format (bo_price o'))"
  "oget (accepted_row o') ''active_at_utc_ns'' = JInt (bo_active_at o')"
  "oget (accepted_row o') ''feature_watermark'' = JInt (bo_watermark o')"
  by (simp_all add: accepted_row_def oget_def)

lemma quote_writes:
  assumes run: "quote step cfg now f st (side, price) = Inr st'"
    and P: "\<And>row w. oget row ''side'' = JStr side \<Longrightarrow> oget row ''price_dollars'' = JStr (dec_format price) \<Longrightarrow>
      oget row ''active_at_utc_ns'' = JInt now \<Longrightarrow> int_value (oget f ''as_of_watermark'') = Inr w \<Longrightarrow>
      oget row ''feature_watermark'' = JInt w \<Longrightarrow> P row"
  shows "writes P st st'"
proof -
  from run obtain rejection risk where a: "risk_admit step (bs_risk st) (bs_next_order st) side (bc_quantity cfg)
      price now (active_orders st) = Inr (rejection, risk)"
    by (auto simp: quote_def rbind_eq_Inr)
  show ?thesis
  proof (cases rejection)
    case (Some reason)
    with run a show ?thesis by (auto simp: quote_def reject_def intro: writes_refl)
  next
    case None
    with run a obtain v w risk' where v: "oindex f ''as_of_watermark'' = Inr v" "int_value v = Inr w"
      and st': "bs_scheduled st' = bs_scheduled st"
        "bs_orders st' = bs_orders st @ [accepted_row (new_order cfg (bs_next_order st) side price now w)]"
      by (auto simp: quote_def rbind_eq_Inr Let_def new_order_def)
    from v have "int_value (oget f ''as_of_watermark'') = Inr w" by (auto simp: oindex_def oget_def)
    with P [of "accepted_row (new_order cfg (bs_next_order st) side price now w)" w] show ?thesis
      by (auto simp: writes_def st' accepted_row_fields new_order_def)
  qed
qed

lemma decide_writes:
  assumes "decide step cfg now st f = Inr st'"
  shows "writes (quotes cfg now f) st st'"
proof -
  let ?st1 = "st\<lparr>bs_decisions := bs_decisions st + 1\<rparr>"
  from assms consider (rejection) reason where "st' = reject ?st1 reason"
    | (quotes) st2 st3 v vs bid ask where "oindex f ''values'' = Inr v" "as_obj v = Some vs"
        "decimal_of (oget vs ''best_yes_bid_dollars'') = Inr bid" "decimal_of (oget vs ''best_yes_ask_dollars'') = Inr ask"
        "too_narrow (bc_minimum_spread cfg) bid ask = Inr False"
        "cancel_all step ''quote_replacement'' now ?st1 = Inr st2"
        "quote step cfg now f st2 (''buy'', bid) = Inr st3" "quote step cfg now f st3 (''sell'', ask) = Inr st'"
    by (auto simp: decide_def rbind_eq_Inr Let_def split: if_splits)
  then show ?thesis
  proof cases
    case rejection
    then show ?thesis by (auto simp: reject_def intro: writes_refl)
  next
    case quotes
    from quotes(1,2) have vs: "oget f ''values'' = JObj vs" by (cases v) (auto simp: oindex_def oget_def)
    have "writes (Backtest_Causality.quotes cfg now f) st2 st3"
      by (rule quote_writes [OF quotes(7)]) (use vs quotes(3-5) in \<open>auto simp: quotes_def\<close>)
    moreover have "writes (Backtest_Causality.quotes cfg now f) st3 st'"
      by (rule quote_writes [OF quotes(8)]) (use vs quotes(3-5) in \<open>auto simp: quotes_def\<close>)
    ultimately have "writes (Backtest_Causality.quotes cfg now f) ?st1 st'"
      using cancel_all_writes [OF quotes(6)] by (blast intro: writes_trans)
    then show ?thesis by (rule writes_start) simp_all
  qed
qed

lemma decisions_write:
  assumes "res_fold (decide step cfg now) st fs = Inr st'"
  shows "writes (\<lambda>row. \<exists>f \<in> set fs. quotes cfg now f row) st st'"
proof (rule writes_fold [OF _ assms])
  fix s f s' assume "f \<in> set fs" and "decide step cfg now s f = Inr s'"
  then show "writes (\<lambda>row. \<exists>f \<in> set fs. quotes cfg now f row) s s'"
    using decide_writes unfolding writes_def by blast
qed

lemma activate_due_ok:
  assumes items: "items_ok cfg es (bs_scheduled st)" and rows: "rows_ok cfg es (bs_orders st)"
    and run: "activate_due step cfg now st = Inr st'"
  shows "items_ok cfg es (bs_scheduled st') \<and> rows_ok cfg es (bs_orders st')"
proof -
  from run obtain st1 where c: "cancel_expired step now st = Inr st1"
    and d: "res_fold (decide step cfg now) (st1\<lparr>bs_scheduled := dropWhile (is_due now) (bs_scheduled st1)\<rparr>)
       (map (\<lambda>item. snd (snd item)) (takeWhile (is_due now) (bs_scheduled st1))) = Inr st'"
    by (auto simp: activate_due_def rbind_eq_Inr)
  from cancel_expired_writes [OF c, of "\<lambda>_. False"] obtain r1 where
    s1: "bs_scheduled st1 = bs_scheduled st" "bs_orders st1 = bs_orders st @ r1" "\<forall>row \<in> set r1. \<not> is_accepted row"
    by (auto simp: writes_def)
  from decisions_write [OF d] obtain r2 where
    s2: "bs_scheduled st' = dropWhile (is_due now) (bs_scheduled st)" "bs_orders st' = bs_orders st1 @ r2"
    and r2: "\<forall>row \<in> set r2. is_accepted row \<longrightarrow>
      (\<exists>item \<in> set (takeWhile (is_due now) (bs_scheduled st)). quotes cfg now (snd (snd item)) row)"
    by (auto simp: writes_def s1)
  have "rows_ok cfg es r2"
    unfolding rows_ok_def
  proof (intro ballI impI)
    fix row assume "row \<in> set r2" "is_accepted row"
    with r2 obtain item where item: "item \<in> set (takeWhile (is_due now) (bs_scheduled st))"
      and q: "quotes cfg now (snd (snd item)) row" by blast
    from set_takeWhileD [OF item] have "item \<in> set (bs_scheduled st)" "fst item \<le> now" by (auto simp: is_due_def)
    moreover from this(1) items obtain e where "e \<in> set es" "sourced cfg e (snd (snd item)) (fst item)"
      by (fastforce simp: items_ok_def)
    ultimately show "\<exists>e \<in> set es. \<exists>f due now. sourced cfg e f due \<and> due \<le> now \<and> quotes cfg now f row"
      using q by blast
  qed
  moreover have "rows_ok cfg es r1" using s1(3) by (simp add: rows_ok_def)
  moreover have "items_ok cfg es (bs_scheduled st')"
    using items by (auto simp: items_ok_def s2(1) dest: set_dropWhileD)
  ultimately show ?thesis using rows by (simp add: s2(2) s1(2) rows_ok_append)
qed

lemma fill_order_frame:
  assumes "fill_order step event tp (m, st) o' = Inr (m', st')"
  shows "bs_scheduled st' = bs_scheduled st \<and> bs_orders st' = bs_orders st"
  using fill_order_cases [OF assms] by auto

lemma fill_orders_frame:
  "res_fold (fill_order step event tp) (m, st) os = Inr (m', st') \<Longrightarrow>
   bs_scheduled st' = bs_scheduled st \<and> bs_orders st' = bs_orders st"
proof (induction os arbitrary: m st)
  case (Cons o' os)
  then obtain m1 s where "fill_order step event tp (m, st) o' = Inr (m1, s)"
    "res_fold (fill_order step event tp) (m1, s) os = Inr (m', st')" by (auto simp: rbind_eq_Inr)
  with Cons.IH fill_order_frame show ?case by metis
qed simp

lemma trade_fills_frame:
  "apply_trade_fills step cfg event st = Inr st' \<Longrightarrow>
   bs_scheduled st' = bs_scheduled st \<and> bs_orders st' = bs_orders st"
  by (auto simp: apply_trade_fills_def rbind_eq_Inr split: if_splits dest: fill_orders_frame)

section \<open>The loop\<close>

lemma event_ok:
  fixes st st' :: "'p backtest_state"
  assumes items: "items_ok cfg es (bs_scheduled st)" and rows: "rows_ok cfg es (bs_orders st)"
    and run: "backtest_event step cfg st e = Inr st'"
  shows "items_ok cfg (es @ [e]) (bs_scheduled st') \<and> rows_ok cfg (es @ [e]) (bs_orders st')"
proof -
  from run obtain w now f and st1 st2 :: "'p backtest_state" where w: "int_value (oget e ''ingress_order'') = Inr w"
      "int_value (oget e ''logical_time_utc_ns'') = Inr now" "sget (bc_features cfg) w = Some f"
    and d: "activate_due step cfg now st = Inr st1" and t: "apply_trade_fills step cfg e st1 = Inr st2"
    and last: "(if bs_next_decision st2 \<le> now + bc_market_latency cfg
       then Inr ((schedule st2 (now + bc_market_latency cfg + bc_decision_latency cfg + bc_order_latency cfg) f)
         \<lparr>bs_next_decision := now + bc_market_latency cfg + bc_interval cfg\<rparr>) else Inr st2) = (Inr st' :: 'p backtest_state res)"
    unfolding backtest_event_def rbind_eq_Inr of_option_eq Let_def
    by (elim exE conjE) (rule that, assumption+)
  from last have st': "bs_orders st' = bs_orders st2" "set (bs_scheduled st') \<subseteq> set (bs_scheduled st2) \<union>
      {(now + total_latency cfg, bs_schedule_ordinal st2 + 1, f)}"
    by (auto simp: schedule_def Let_def total_latency_def add.assoc split: if_splits)
  note A = activate_due_ok [OF items rows d] and F = trade_fills_frame [OF t]
  have new: "sourced cfg e f (now + total_latency cfg)" using w by (auto simp: sourced_def)
  have "items_ok cfg (es @ [e]) (bs_scheduled st2)" "rows_ok cfg (es @ [e]) (bs_orders st2)"
    using A F items_ok_more [of cfg es _ "es @ [e]"] rows_ok_more [of cfg es _ "es @ [e]"] by auto
  with st' new show ?thesis by (fastforce simp: items_ok_def)
qed

lemma lines_ok:
  assumes "res_fold (backtest_line step cfg) st lines = Inr st'"
    and "items_ok cfg es (bs_scheduled st)" and "rows_ok cfg es (bs_orders st)"
  shows "\<exists>new. res_map jsonl_object lines = Inr new \<and> items_ok cfg (es @ new) (bs_scheduled st') \<and>
    rows_ok cfg (es @ new) (bs_orders st')"
  using assms
proof (induction lines arbitrary: es st)
  case (Cons l lines)
  from Cons.prems(1) obtain e s where e: "jsonl_object l = Inr e" "backtest_event step cfg st e = Inr s"
    and rest: "res_fold (backtest_line step cfg) s lines = Inr st'"
    unfolding res_fold.simps backtest_line_def [of step cfg st l] rbind_eq_Inr by (elim exE conjE) (rule that, assumption+)
  from Cons.IH [OF rest] event_ok [OF Cons.prems(2,3) e(2)] obtain new where
    "res_map jsonl_object lines = Inr new" "items_ok cfg ((es @ [e]) @ new) (bs_scheduled st')"
    "rows_ok cfg ((es @ [e]) @ new) (bs_orders st')" by blast
  with e(1) show ?case by simp
qed simp

lemma loop_ok:
  assumes "backtest_loop step cfg (backtest_init risk ledger) lines = Inr st"
  shows "\<exists>es. res_map jsonl_object lines = Inr es \<and> rows_ok cfg es (bs_orders st)"
proof -
  from assms obtain st1 where run: "res_fold (backtest_line step cfg) (backtest_init risk ledger) lines = Inr st1"
    and fin: "st = st1 \<or> (\<exists>now. activate_due step cfg now st1 = Inr st)"
    by (auto simp: backtest_loop_def rbind_eq_Inr split: if_splits)
  from lines_ok [OF run, of "[]"] obtain es where es: "res_map jsonl_object lines = Inr es"
    "items_ok cfg es (bs_scheduled st1)" "rows_ok cfg es (bs_orders st1)"
    by (auto simp: backtest_init_def items_ok_def rows_ok_def)
  from fin activate_due_ok [OF es(2,3)] es show ?thesis by auto
qed

text \<open>The features are keyed by their own watermark.\<close>

lemma features_keyed:
  assumes "feature_by_watermark lines = Inr features" and "sget features w = Some f"
  shows "int_value (oget f ''as_of_watermark'') = Inr w"
proof -
  have "\<forall>w f. sget d w = Some f \<longrightarrow> int_value (oget f ''as_of_watermark'') = Inr w"
    if "res_fold feature_step d0 ls = Inr d" "\<forall>w f. sget d0 w = Some f \<longrightarrow> int_value (oget f ''as_of_watermark'') = Inr w"
    for d0 d ls
    using that
  proof (induction ls arbitrary: d0)
    case (Cons l ls)
    from Cons.prems(1) obtain d1 where d1: "feature_step d0 l = Inr d1" "res_fold feature_step d1 ls = Inr d"
      by (auto simp: rbind_eq_Inr)
    have "\<forall>w f. sget d1 w = Some f \<longrightarrow> int_value (oget f ''as_of_watermark'') = Inr w"
      using d1(1) Cons.prems(2) by (auto simp: feature_step_def rbind_eq_Inr split: if_splits)
    from Cons.IH [OF d1(2) this] show ?case .
  qed simp
  from this [of "[]" lines features] assms show ?thesis by (simp add: feature_by_watermark_def)
qed

section \<open>Properties\<close>

text \<open>C4: No look-ahead. Every order accepted in a backtest was quoted from one event of the input: its
  watermark is the ingress order of that event, it became active no earlier than the event's logical
  time plus the market data, decision and order latencies, and its price is the best bid (for a buy)
  or the best ask (for a sell) that the feature row of exactly that watermark shows.\<close>

theorem backtest_no_lookahead:
  assumes "run_backtest step p0 sha inp = Inr out"
  shows "\<exists>config cfg features converted es. read_json (bi_config inp) = Inr config \<and>
    feature_by_watermark (text_lines (bi_features inp)) = Inr features \<and>
    backtest_numbers config features converted = Inr cfg \<and>
    res_map jsonl_object (text_lines (bi_events inp)) = Inr es \<and>
    (\<forall>row \<in> set (bo_orders out). is_accepted row \<longrightarrow>
       (\<exists>e \<in> set es. \<exists>w t f now. int_value (oget e ''ingress_order'') = Inr w \<and>
          int_value (oget e ''logical_time_utc_ns'') = Inr t \<and> sget features w = Some f \<and>
          oget row ''feature_watermark'' = JInt w \<and> oget row ''active_at_utc_ns'' = JInt now \<and>
          t + total_latency cfg \<le> now \<and> quotes cfg now f row))"
proof -
  from run_backtest_state [OF assms] obtain config cfg gate ledger features lineage st where
    c: "read_json (bi_config inp) = Inr config"
    and f: "feature_by_watermark (text_lines (bi_features inp)) = Inr features"
    and n: "backtest_numbers config features (lineage \<noteq> None) = Inr cfg"
    and loop: "backtest_loop step cfg (backtest_init (snd gate) ledger) (text_lines (bi_events inp)) = Inr st"
    and fin: "backtest_finish step sha config cfg inp (fst gate) lineage st = Inr out" by blast
  from n have features: "bc_features cfg = features" by (auto simp: backtest_numbers_def rbind_eq_Inr)
  from loop_ok [OF loop] obtain es where es: "res_map jsonl_object (text_lines (bi_events inp)) = Inr es"
    and rows: "rows_ok cfg es (bo_orders out)" using backtest_finish_fields [OF fin] by auto
  have "\<forall>row \<in> set (bo_orders out). is_accepted row \<longrightarrow>
       (\<exists>e \<in> set es. \<exists>w t f now. int_value (oget e ''ingress_order'') = Inr w \<and>
          int_value (oget e ''logical_time_utc_ns'') = Inr t \<and> sget features w = Some f \<and>
          oget row ''feature_watermark'' = JInt w \<and> oget row ''active_at_utc_ns'' = JInt now \<and>
          t + total_latency cfg \<le> now \<and> quotes cfg now f row)"
  proof (intro ballI impI)
    fix row assume "row \<in> set (bo_orders out)" "is_accepted row"
    with rows obtain e fr due now where e: "e \<in> set es" "sourced cfg e fr due" "due \<le> now" "quotes cfg now fr row"
      by (auto simp: rows_ok_def)
    from e(2) obtain w t where s: "int_value (oget e ''ingress_order'') = Inr w" "sget features w = Some fr"
      "int_value (oget e ''logical_time_utc_ns'') = Inr t" "due = t + total_latency cfg"
      by (auto simp: sourced_def features)
    from features_keyed [OF f s(2)] e(4) have "oget row ''feature_watermark'' = JInt w" "oget row ''active_at_utc_ns'' = JInt now"
      by (auto simp: quotes_def)
    with e s show "\<exists>e \<in> set es. \<exists>w t f now. int_value (oget e ''ingress_order'') = Inr w \<and>
          int_value (oget e ''logical_time_utc_ns'') = Inr t \<and> sget features w = Some f \<and>
          oget row ''feature_watermark'' = JInt w \<and> oget row ''active_at_utc_ns'' = JInt now \<and>
          t + total_latency cfg \<le> now \<and> quotes cfg now f row" by blast
  qed
  with c f n es show ?thesis by blast
qed


end
