(* ===== verification/Backtest_Sample.thy ===== *)
theory Backtest_Sample
  imports Backtest_Limits Backtest_Causality Jsonl
begin

text \<open>
  A small backtest, run to its end: two events, one feature row each, and a risk oracle that grants
  everything. The properties of the backtest are applied to it.
\<close>

section \<open>Input\<close>

definition sample_oracle :: "unit process" where
  \<open>sample_oracle line u =
     (u, if take 4 line = ''INIT'' then ''READY''
         else if take 5 line = ''ADMIT'' then ''ADMISSION approved''
         else if take 4 line = ''BIND'' then ''BOUND''
         else if line = ''SNAPSHOT'' then
           ''{"event_watermark":0,"live_orders":[],"net_position_contracts":0,"pending_orders":[]}''
         else ''APPLIED'')\<close>

definition sample_bt_config :: jobj where
  "sample_bt_config =
     [(''fill_model'', JStr ''trade_touch_v1''),
      (''latency'', JObj [(''decision_ns'', JInt 1), (''market_data_ns'', JInt 1), (''order_ns'', JInt 1)]),
      (''risk'', JObj
         [(''engine'', JStr ''cxx_oracle_v2''),
          (''limits'', JObj (map (\<lambda>k. (k, JInt 10)) (sort_key id oracle_limits))),
          (''risk_contract'', JObj [(''post_only'', JBool True), (''price_unit'', JStr ''cent''),
             (''quantity_unit'', JStr ''whole_contract''), (''schema'', JStr ''pmm.research_risk_contract.v1'')])]),
      (''run_id'', JStr ''r''), (''schema'', JStr ''pmm.backtest.v2''), (''seed'', JInt 1),
      (''strategy'', JObj [(''decision_interval_ns'', JInt 100), (''minimum_spread_dollars'', JStr ''0.1''),
         (''order_lifetime_ns'', JInt 50), (''quote_quantity_contracts'', JInt 1)])]"

definition sample_bt_features :: "jobj list" where
  "sample_bt_features = map (\<lambda>w.
     [(''as_of_watermark'', JInt w),
      (''values'', JObj [(''best_yes_ask_dollars'', JStr ''0.6''), (''best_yes_bid_dollars'', JStr ''0.4'')])]) [1, 2]"

definition sample_bt_events :: "jobj list" where
  "sample_bt_events =
     [[(''event_type'', JStr ''book_snapshot''), (''ingress_order'', JInt 1), (''logical_time_utc_ns'', JInt 10)],
      [(''event_id'', JStr ''e2''), (''event_type'', JStr ''trade''), (''ingress_order'', JInt 2),
       (''logical_time_utc_ns'', JInt 20),
       (''payload'', JObj [(''quantity_contracts'', JStr ''1''), (''yes_price_dollars'', JStr ''0.4'')])]]"

definition sample_bt_input :: backtest_input where
  "sample_bt_input =
     \<lparr>bi_config = canonical_json (JObj sample_bt_config), bi_events = jsonl_text sample_bt_events,
      bi_features = jsonl_text sample_bt_features,
      bi_lineage = \<lparr>lf_normalization = [], lf_feature_manifest = [], lf_product = [], lf_terms = [], lf_policy = [],
        lf_owns_events = True, lf_owns_features = True, lf_load_package = Inl KeyError, lf_load_policy = Inl KeyError\<rparr>\<rparr>"

lemma sample_bt_facts:
  "json_plain (JObj sample_bt_config)" "sorted_obj sample_bt_config = sample_bt_config"
  "\<forall>d \<in> set sample_bt_features. json_plain (JObj d)" "map sorted_obj sample_bt_features = sample_bt_features"
  "\<forall>d \<in> set sample_bt_events. json_plain (JObj d)" "map sorted_obj sample_bt_events = sample_bt_events"
  by code_simp+

lemma sample_bt_reads:
  "read_json (bi_config sample_bt_input) = Inr sample_bt_config"
  "feature_by_watermark (text_lines (bi_features sample_bt_input)) = Inr (zip [1, 2] sample_bt_features)"
  "backtest_loop step cfg st (text_lines (bi_events sample_bt_input)) =
     rbind (res_fold (backtest_event step cfg) st sample_bt_events) (\<lambda>st1.
     if bs_scheduled st1 = [] then Inr st1
     else activate_due step cfg (Max (set (map fst (bs_scheduled st1)))) st1)"
proof -
  show "read_json (bi_config sample_bt_input) = Inr sample_bt_config"
    using read_json_canonical [OF sample_bt_facts(1)] sample_bt_facts(2)
    by (simp add: sample_bt_input_def del: canonical_json.simps)
  have "case res_fold (\<lambda>result row. rbind (int_value (oget row ''as_of_watermark'')) (\<lambda>watermark.
       rbind (ensure (sget result watermark = None) (ValueError ''features repeat a watermark'')) (\<lambda>_.
       Inr (sset result watermark row)))) [] sample_bt_features of Inl _ \<Rightarrow> False
     | Inr d \<Rightarrow> d = zip [1, 2] sample_bt_features"
    by code_simp
  then show "feature_by_watermark (text_lines (bi_features sample_bt_input)) = Inr (zip [1, 2] sample_bt_features)"
    using res_fold_jsonl [of feature_step, OF feature_step_def sample_bt_facts(3)]
    by (simp add: feature_by_watermark_def sample_bt_input_def sample_bt_facts(4) split: sum.splits)
  show "backtest_loop step cfg st (text_lines (bi_events sample_bt_input)) =
     rbind (res_fold (backtest_event step cfg) st sample_bt_events) (\<lambda>st1.
     if bs_scheduled st1 = [] then Inr st1
     else activate_due step cfg (Max (set (map fst (bs_scheduled st1)))) st1)"
    using res_fold_jsonl [of "backtest_line step cfg", OF backtest_line_def sample_bt_facts(5)]
    by (simp add: backtest_loop_def sample_bt_input_def sample_bt_facts(6))
qed

section \<open>The run\<close>

definition sample_bt_run :: "backtest_output res" where
  "sample_bt_run =
     rbind (backtest_numbers sample_bt_config (zip [1, 2] sample_bt_features) False) (\<lambda>cfg.
     rbind (start_risk sample_oracle () sample_bt_config) (\<lambda>(kind, risk).
     rbind (ledger_from_config sample_bt_config) (\<lambda>ledger.
     rbind (rbind (res_fold (backtest_event sample_oracle cfg) (backtest_init risk ledger) sample_bt_events) (\<lambda>st1.
       if bs_scheduled st1 = [] then Inr st1
       else activate_due sample_oracle cfg (Max (set (map fst (bs_scheduled st1)))) st1)) (\<lambda>st.
     backtest_finish sample_oracle (\<lambda>_. ''h'') sample_bt_config cfg sample_bt_input kind None st))))"

lemma sample_bt_result:
  "case sample_bt_run of Inl _ \<Rightarrow> False | Inr out \<Rightarrow>
     length (filter is_accepted (bo_orders out)) = 2 \<and> length (bo_fills out) = 1 \<and> length (bo_trace out) = 8"
  by code_simp

lemma sample_bt_returns:
  "\<exists>out. run_backtest sample_oracle () (\<lambda>_. ''h'') sample_bt_input = Inr out \<and>
     length (filter is_accepted (bo_orders out)) = 2 \<and> length (bo_fills out) = 1 \<and> length (bo_trace out) = 8"
proof -
  have pre: "(case in_names (oget sample_bt_config ''schema'') backtest_schemas of Inl _ \<Rightarrow> False | Inr b \<Rightarrow> b)"
    "(case check_engine sample_bt_config of Inl _ \<Rightarrow> False | Inr b \<Rightarrow> True)"
    "(case in_names (oget sample_bt_config ''fill_model'') [''no_fill_v1'', ''trade_touch_v1''] of Inl _ \<Rightarrow> False | Inr b \<Rightarrow> b)"
    "(case product_lineage (\<lambda>_. ''h'') sample_bt_config sample_bt_input of Inl _ \<Rightarrow> False | Inr b \<Rightarrow> b = None)"
    by code_simp+
  have "run_backtest sample_oracle () (\<lambda>_. ''h'') sample_bt_input = sample_bt_run"
    using pre unfolding run_backtest_def sample_bt_run_def sample_bt_reads
    by (simp split: sum.splits)
  with sample_bt_result show ?thesis by (auto split: sum.splits)
qed

theorem backtest_trace_lifecycle_witness:
  "\<exists>out. run_backtest sample_oracle () (\<lambda>_. ''h'') sample_bt_input = Inr out \<and> length (bo_trace out) = 8 \<and>
     numbered_rows (bo_trace out) \<and> (\<forall>i. life_of (bo_trace out) i \<noteq> None)"
proof -
  from sample_bt_returns obtain out where "run_backtest sample_oracle () (\<lambda>_. ''h'') sample_bt_input = Inr out"
    "length (bo_trace out) = 8" by blast
  with backtest_trace_lifecycle [of sample_oracle "()" "\<lambda>_. ''h''" sample_bt_input out] show ?thesis by blast
qed

theorem backtest_no_lookahead_witness:
  "\<exists>out es. run_backtest sample_oracle () (\<lambda>_. ''h'') sample_bt_input = Inr out \<and>
     res_map jsonl_object (text_lines (bi_events sample_bt_input)) = Inr es \<and>
     (\<exists>row \<in> set (bo_orders out). \<exists>e \<in> set es. int_value (oget e ''ingress_order'') = int_value (oget row ''feature_watermark''))"
proof -
  from sample_bt_returns obtain out where out: "run_backtest sample_oracle () (\<lambda>_. ''h'') sample_bt_input = Inr out"
    and two: "length (filter is_accepted (bo_orders out)) = 2" by blast
  from two obtain row where row: "row \<in> set (bo_orders out)" "is_accepted row"
    by (metis filter_False length_0_conv zero_neq_numeral)
  from backtest_no_lookahead [OF out] obtain es where
    es: "res_map jsonl_object (text_lines (bi_events sample_bt_input)) = Inr es"
    and rows: "\<forall>row \<in> set (bo_orders out). is_accepted row \<longrightarrow>
      (\<exists>e \<in> set es. \<exists>w. int_value (oget e ''ingress_order'') = Inr w \<and> oget row ''feature_watermark'' = JInt w)"
    by blast
  from rows row obtain e w where "e \<in> set es" "int_value (oget e ''ingress_order'') = Inr w"
    "oget row ''feature_watermark'' = JInt w" by blast
  with out es row show ?thesis by force
qed

section \<open>One cancellation\<close>

definition sample_bt_order :: backtest_order where
  "sample_bt_order = \<lparr>bo_id = 1, bo_side = ''buy'', bo_price = dec_of_int 0, bo_remaining = dec_of_int 1,
     bo_active_at = 10, bo_expires_at = 60, bo_watermark = 1\<rparr>"

definition sample_bt_client :: "unit oracle_client" where
  "sample_bt_client = \<lparr>or_process = (), or_canonical = True, or_trace = [], or_sequence = 0, or_pending = [],
     or_sent = 0, or_received = 0\<rparr>"


section \<open>The reference gate\<close>

definition sample_bt_numbers :: backtest_config where
  "sample_bt_numbers =
     \<lparr>bc_schema = ''pmm.backtest.v1'', bc_fill_model = ''trade_touch_v1'', bc_market_latency = 1, bc_decision_latency = 1,
      bc_order_latency = 1, bc_interval = 100, bc_lifetime = 50, bc_minimum_spread = dec_of_int 0,
      bc_quantity = dec_of_int 1, bc_features = zip [1, 2] sample_bt_features\<rparr>"

definition sample_bt_gate :: "unit risk" where
  "sample_bt_gate = Python_Risk
     \<lparr>br_maximum_position = dec_of_int 1, br_maximum_orders = 3, br_position = dec_of_int 0\<rparr>"

definition sample_bt_loop :: "unit backtest_state res" where
  "sample_bt_loop =
     rbind (res_fold (backtest_event sample_oracle sample_bt_numbers)
       (backtest_init sample_bt_gate (ledger_start False (dec_of_int 0))) sample_bt_events) (\<lambda>st1.
     if bs_scheduled st1 = [] then Inr st1
     else activate_due sample_oracle sample_bt_numbers (Max (set (map fst (bs_scheduled st1)))) st1)"

lemma sample_bt_loop_result:
  "case sample_bt_loop of Inl _ \<Rightarrow> False | Inr st \<Rightarrow> length (active_orders st) = 1 \<and> length (bs_fills st) = 1"
  by code_simp

lemma countable_jsonl:
  assumes "\<forall>d \<in> set ds. json_plain (JObj d)" and "\<forall>d \<in> set (map sorted_obj ds). countable amount d"
  shows "countable_lines amount (text_lines (jsonl_text ds))"
  using assms text_lines_jsonl [OF assms(1), of "[]"]
  by (auto simp: countable_lines_def text_lines_def jsonl_object_canonical simp del: canonical_json.simps)

lemma sample_bt_countable: "\<forall>d \<in> set sample_bt_events. countable (exact_amount 0) d"
proof -
  have "case decimal_of (JStr ''1'') of Inl _ \<Rightarrow> False | Inr d \<Rightarrow> d = dec_of_int 1" by code_simp
  then have "decimal_of (JStr ''1'') = Inr (dec_of_int 1)" by (auto split: sum.splits)
  then show ?thesis
    by (simp add: sample_bt_events_def countable_def oget_def oindex_def jindex_def exact_amount_def dfits_def dec_prec_def)
qed

theorem reference_gate_keeps_limits_witness:
  "\<exists>st r. backtest_loop sample_oracle sample_bt_numbers (backtest_init sample_bt_gate (ledger_start False (dec_of_int 0)))
       (text_lines (bi_events sample_bt_input)) = Inr st \<and>
     length (active_orders st) = 1 \<and> bs_risk st = Python_Risk r \<and> \<bar>dval (br_position r)\<bar> \<le> dval (dec_of_int 1)"
proof -
  from sample_bt_loop_result obtain st where run: "sample_bt_loop = Inr st" and one: "length (active_orders st) = 1"
    by (auto split: sum.splits)
  from run have loop: "backtest_loop sample_oracle sample_bt_numbers (backtest_init (Python_Risk
        \<lparr>br_maximum_position = dec_of_int 1, br_maximum_orders = 3, br_position = dec_of_int 0\<rparr>)
        (ledger_start False (dec_of_int 0))) (text_lines (bi_events sample_bt_input)) = Inr st"
    by (simp add: sample_bt_loop_def sample_bt_reads sample_bt_gate_def)
  have limits: "exact_limits 0 (dec_of_int 1) (bc_quantity sample_bt_numbers)"
    by (simp add: exact_limits_def sample_bt_numbers_def dfits_def dec_prec_def)
  have "countable_lines (exact_amount 0) (text_lines (bi_events sample_bt_input))"
    using countable_jsonl [OF sample_bt_facts(5)] sample_bt_countable by (simp add: sample_bt_facts(6) sample_bt_input_def)
  from reference_gate_keeps_limits [OF loop _ limits this] one loop show ?thesis
    by (auto simp: sample_bt_gate_def)
qed

end
