(* ===== verification/Multi_Preflight.thy ===== *)
theory Multi_Preflight
  imports Documents Field_Values Product_Catalog
begin

text \<open>
  What the multi-market backtest checks before it starts (\<open>pmm_phase7_multimarket.py\<close>, \<open>_preflight\<close>):
  the six input files, their manifests and hashes, the agreement of the products, the feature rows and
  the normalized records.

  The files of the repository are a parameter: \<open>rp_inside\<close> says whether a path stays inside it, \<open>rp_file\<close>
  is the text of a regular file.
\<close>

section \<open>Helpers\<close>

text \<open>\<open>a or b or ...\<close> of conditions that may raise.\<close>

fun res_any :: "bool res list \<Rightarrow> bool res" where
  "res_any [] = Inr False"
| "res_any (x # xs) = rbind x (\<lambda>b. if b then Inr True else res_any xs)"

lemma res_any_False: "res_any xs = Inr False \<longleftrightarrow> (\<forall>x \<in> set xs. x = Inr False)"
  by (induction xs) (auto simp: rbind_eq_Inr)

definition value_sha :: "(string \<Rightarrow> string) \<Rightarrow> json \<Rightarrow> string" where
  "value_sha sha v = sha (canonical_json v)"

definition nonnegative_int :: "json \<Rightarrow> int res" where
  "nonnegative_int v = rbind (int_value v) (\<lambda>i. rbind (require ''BacktestConfigInvalid'' (0 \<le> i)) (\<lambda>_. Inr i))"

definition positive_int :: "json \<Rightarrow> int res" where
  "positive_int v = rbind (int_value v) (\<lambda>i. rbind (require ''BacktestConfigInvalid'' (0 < i)) (\<lambda>_. Inr i))"

text \<open>\<open>v.get(a, {}).get(b)\<close> and \<open>v[a][b]\<close>.\<close>

definition jget2 :: "json \<Rightarrow> string \<Rightarrow> string \<Rightarrow> json res" where
  "jget2 v a b = rbind (jget_default v a (JObj [])) (\<lambda>w. jget w b)"

definition jindex2 :: "json \<Rightarrow> string \<Rightarrow> string \<Rightarrow> json res" where
  "jindex2 v a b = rbind (jindex v a) (\<lambda>w. jindex w b)"

section \<open>Input files\<close>

record repository =
  rp_inside :: "string \<Rightarrow> bool"
  rp_file :: "string \<Rightarrow> string option"

definition repo_path :: "repository \<Rightarrow> json \<Rightarrow> string res" where
  "repo_path repo v =
     (case v of
        JStr path \<Rightarrow>
          rbind (require ''BacktestConfigInvalid'' (path \<noteq> [])) (\<lambda>_.
          rbind (require ''BacktestPathUnsafe'' (rp_inside repo path)) (\<lambda>_.
          of_option (HistoricalDataError ''BacktestInputMissing'') (rp_file repo path)))
      | _ \<Rightarrow> Inl (HistoricalDataError ''BacktestConfigInvalid''))"

definition declared_file :: "repository \<Rightarrow> (string \<Rightarrow> string) \<Rightarrow> json \<Rightarrow> string \<Rightarrow> string \<Rightarrow> string res" where
  "declared_file repo sha section path_field hash_field =
     rbind (jget section path_field) (\<lambda>path.
     rbind (repo_path repo path) (\<lambda>text.
     rbind (jget section hash_field) (\<lambda>expected.
     rbind (require ''BacktestInputHashMismatch'' (expected = JStr (sha text))) (\<lambda>_.
     Inr text))))"

record input_texts =
  it_normalization :: string
  it_records :: string
  it_scopes :: string
  it_product_map :: string
  it_features :: string
  it_rows :: string

definition input_files :: "repository \<Rightarrow> (string \<Rightarrow> string) \<Rightarrow> json \<Rightarrow> json \<Rightarrow> input_texts res" where
  "input_files repo sha normalization features =
     rbind (declared_file repo sha normalization ''manifest_path'' ''manifest_sha256'') (\<lambda>normalization_manifest.
     rbind (declared_file repo sha normalization ''records_path'' ''records_sha256'') (\<lambda>records.
     rbind (declared_file repo sha normalization ''source_scopes_path'' ''source_scopes_sha256'') (\<lambda>scopes.
     rbind (declared_file repo sha normalization ''product_map_path'' ''product_map_sha256'') (\<lambda>product_map.
     rbind (declared_file repo sha features ''manifest_path'' ''manifest_sha256'') (\<lambda>feature_manifest.
     rbind (declared_file repo sha features ''rows_path'' ''rows_sha256'') (\<lambda>rows.
     Inr \<lparr>it_normalization = normalization_manifest, it_records = records, it_scopes = scopes,
          it_product_map = product_map, it_features = feature_manifest, it_rows = rows\<rparr>))))))"

section \<open>Manifests\<close>

definition expected_feature_inputs :: "(string \<Rightarrow> string) \<Rightarrow> input_texts \<Rightarrow> (string \<times> string) list" where
  "expected_feature_inputs sha t =
     [(''normalization_manifest_sha256'', sha (it_normalization t)), (''records_sha256'', sha (it_records t)),
      (''source_scopes_sha256'', sha (it_scopes t)), (''product_map_sha256'', sha (it_product_map t))]"

definition complete_interval :: json where
  "complete_interval = JStr ''complete_observed_interval''"

text \<open>The checks of the manifests against the files; the result is the hash of the feature definitions.\<close>

definition check_manifests ::
  "(string \<Rightarrow> string) \<Rightarrow> input_texts \<Rightarrow> json \<Rightarrow> jobj \<Rightarrow> jobj \<Rightarrow> string res" where
  "check_manifests sha t features_input normalization features =
     rbind (require ''BacktestContinuityRequired''
        (oget normalization ''completeness'' = complete_interval \<and> oget features ''completeness'' = complete_interval)) (\<lambda>_.
     rbind (require ''BacktestInputHashMismatch'' (oget normalization ''output_records_sha256'' = JStr (sha (it_records t)))) (\<lambda>_.
     rbind (require ''BacktestInputHashMismatch'' (oget normalization ''output_source_scopes_sha256'' = JStr (sha (it_scopes t)))) (\<lambda>_.
     rbind (require ''BacktestInputHashMismatch'' (oget normalization ''output_product_sha256'' = JStr (sha (it_product_map t)))) (\<lambda>_.
     rbind (of_option AttributeError (as_obj (oget_default features ''input'' (JObj [])))) (\<lambda>feature_input.
     rbind (require ''BacktestFeatureLineageMismatch''
        (list_all (\<lambda>(name, v). oget feature_input name = JStr v) (expected_feature_inputs sha t))) (\<lambda>_.
     rbind (jget2 (JObj features) ''output'' ''feature_rows_sha256'') (\<lambda>rows_sha.
     rbind (require ''BacktestInputHashMismatch'' (rows_sha = JStr (sha (it_rows t)))) (\<lambda>_.
     let definition_hash = value_sha sha (oget features ''feature_definitions'') in
     rbind (jget features_input ''feature_definition_sha256'') (\<lambda>declared.
     rbind (require ''BacktestFeatureDefinitionMismatch'' (declared = JStr definition_hash)) (\<lambda>_.
     Inr definition_hash))))))))))"

section \<open>Products\<close>

definition map_tickers :: "json list \<Rightarrow> json list res" where
  "map_tickers items = res_map (\<lambda>item. jget item ''ticker'') items"

definition identity_tickers :: "json list \<Rightarrow> json list res" where
  "identity_tickers items = res_map (\<lambda>item. jget2 item ''product_identity'' ''ticker'') items"

text \<open>\<open>isinstance(...) and ... and [...] == tickers and ...\<close>.\<close>

definition same_tickers :: "json \<Rightarrow> json \<Rightarrow> json \<Rightarrow> json \<Rightarrow> bool res" where
  "same_tickers map_products manifest_products config_products tickers =
     (case (map_products, manifest_products, config_products) of
        (JArr ms, JArr fs, JArr cs) \<Rightarrow>
          rbind (map_tickers ms) (\<lambda>a.
          if \<not> py_eq (JArr a) tickers then Inr False
          else
            rbind (identity_tickers fs) (\<lambda>b.
            if \<not> py_eq (JArr b) tickers then Inr False
            else rbind (identity_tickers cs) (\<lambda>c. Inr (py_eq (JArr c) tickers))))
      | _ \<Rightarrow> Inr False)"

definition these_values :: "json \<Rightarrow> json list" where
  "these_values v = (case v of JArr xs \<Rightarrow> xs | _ \<Rightarrow> [])"

definition differs :: "json \<Rightarrow> json \<Rightarrow> string \<Rightarrow> bool res" where
  "differs a b name = rbind (jget a name) (\<lambda>v. rbind (jget b name) (\<lambda>w. Inr (\<not> py_eq v w)))"

definition check_product ::
  "(string \<Rightarrow> string) \<Rightarrow> int list \<times> string list \<Rightarrow> json \<times> json \<times> json \<Rightarrow> (int list \<times> string list) res" where
  "check_product sha seen entries =
     (case seen of (contract_ids, strategy_ids) \<Rightarrow> case entries of (map_entry, manifest_entry, declared) \<Rightarrow>
        rbind (jindex declared ''product_identity'') (\<lambda>identity.
        let expected = JStr (value_sha sha map_entry) in
        rbind (res_any [differs identity map_entry ''ticker'', differs identity map_entry ''venue_market_id'',
                 rbind (jget identity ''input_product_entry_sha256'') (\<lambda>h. Inr (h \<noteq> expected))]) (\<lambda>bad.
        rbind (require ''BacktestProductIdentityMismatch'' (\<not> bad)) (\<lambda>_.
        rbind (jget manifest_entry ''input_product_entry_sha256'') (\<lambda>h.
        rbind (require ''BacktestProductIdentityMismatch'' (h = expected)) (\<lambda>_.
        rbind (differs manifest_entry declared ''reviewed_lineage'') (\<lambda>other.
        rbind (require ''BacktestProductLineageMismatch'' (\<not> other)) (\<lambda>_.
        rbind (jindex2 declared ''contract_identity'' ''contract_id'') (\<lambda>c.
        rbind (positive_int c) (\<lambda>contract_id.
        rbind (jindex2 declared ''strategy'' ''strategy_instance_id'') (\<lambda>s.
        let strategy_id = py_str s in
        rbind (require ''BacktestProductIdentityMismatch'' (contract_id \<notin> set contract_ids \<and> strategy_id \<notin> set strategy_ids)) (\<lambda>_.
        Inr (contract_id # contract_ids, strategy_id # strategy_ids)))))))))))))"

definition contract_limit :: "json \<Rightarrow> int res" where
  "contract_limit item = rbind (jindex item ''contract_id'') py_int"

definition check_risk_binding :: "jobj \<Rightarrow> int list \<Rightarrow> unit res" where
  "check_risk_binding config contract_ids =
     rbind (oindex config ''risk'') (\<lambda>risk.
     rbind (jindex risk ''risk_contract'') (\<lambda>v.
     rbind (of_option AttributeError (as_obj v)) (\<lambda>contract.
     rbind (require ''BacktestRiskContractMismatch''
        (oget contract ''schema'' = JStr ''pmm.research_risk_contract.v1'' \<and> oget contract ''quantity_unit'' = JStr ''whole_contract'' \<and>
         oget contract ''price_unit'' = JStr ''cent'' \<and> oget contract ''post_only'' = JBool True)) (\<lambda>_.
     rbind (jindex risk ''limits_by_contract'') (\<lambda>limits.
     rbind (iter_value limits) (\<lambda>items.
     rbind (res_map contract_limit items) (\<lambda>contracts.
     require ''BacktestRiskBindingMismatch'' (distinct contracts \<and> set contracts = set contract_ids))))))))"

section \<open>Feature rows\<close>

type_synonym row_table = "(int \<times> jobj) list \<times> (string \<times> int \<times> int) list"

text \<open>\<open>a <= b\<close> on pairs.\<close>

fun pair_le :: "int \<times> int \<Rightarrow> int \<times> int \<Rightarrow> bool" where
  "pair_le (a, b) (c, d) \<longleftrightarrow> a < c \<or> a = c \<and> b \<le> d"

definition check_row :: "validator \<Rightarrow> row_table \<Rightarrow> jobj \<Rightarrow> row_table res" where
  "check_row valid table row =
     (case table of (rows, watermarks) \<Rightarrow>
        rbind (validate_historical_schema valid (JObj row) ''feature-row-v2.schema.json'' ''BacktestFeatureRowSchemaMismatch'') (\<lambda>_.
        rbind (jget2 (JObj row) ''as_of'' ''normalization_watermark'') (\<lambda>w.
        rbind (int_value w) (\<lambda>ordinal.
        rbind (require ''BacktestFeatureOrderingInvalid'' (sget rows ordinal = None)) (\<lambda>_.
        rbind (jindex2 (JObj row) ''product_identity'' ''ticker'') (\<lambda>t.
        let ticker = py_str t in
        rbind (jindex2 (JObj row) ''as_of'' ''product_applied_watermark'') (\<lambda>applied.
        rbind (rbind (jindex applied ''raw_ingress_ordinal'') py_int) (\<lambda>raw.
        rbind (rbind (jindex applied ''normalization_ordinal'') py_int) (\<lambda>local.
        rbind (if local \<noteq> ordinal then Inr True
               else rbind (rbind (jindex2 (JObj row) ''as_of'' ''capture_raw_ingress_watermark'') py_int) (\<lambda>c. Inr (raw \<noteq> c))) (\<lambda>bad.
        rbind (require ''BacktestFeatureCausalityMismatch'' (\<not> bad)) (\<lambda>_.
        rbind (require ''BacktestFeatureCausalityMismatch''
           (case sget watermarks ticker of None \<Rightarrow> True | Some w' \<Rightarrow> \<not> pair_le (raw, local) w')) (\<lambda>_.
        Inr (sset rows ordinal row, sset watermarks ticker (raw, local))))))))))))))"

definition read_row :: "validator \<Rightarrow> row_table \<Rightarrow> string \<Rightarrow> row_table res" where
  "read_row valid table line = rbind (jsonl_object line) (check_row valid table)"

section \<open>Records\<close>

record record_check =
  rc_records :: "jobj list"
  rc_raw :: int
  rc_logical :: int
  rc_boundary :: "jobj option"
  rc_market :: "int list"

definition rc_init :: record_check where
  "rc_init = \<lparr>rc_records = [], rc_raw = 0, rc_logical = 0, rc_boundary = None, rc_market = []\<rparr>"

definition opens_boundary :: "jobj \<Rightarrow> jobj \<Rightarrow> bool" where
  "opens_boundary boundary r \<longleftrightarrow>
     oget r ''kind'' = JStr ''market_event'' \<and> oget r ''event_type'' = JStr ''book_snapshot'' \<and>
     list_all (\<lambda>k. py_eq (oget r k) (oget boundary k))
       [''ticker'', ''book_segment_id'', ''source_scope_id'', ''raw_ingress_ordinal'']"

text \<open>\<open>row.get(a, {}).get(b) != record.get(c)\<close>.\<close>

definition row_differs :: "jobj \<Rightarrow> jobj \<Rightarrow> string \<times> string \<times> string \<Rightarrow> bool res" where
  "row_differs row r names =
     (case names of (a, b, c) \<Rightarrow> rbind (jget2 (JObj row) a b) (\<lambda>v. Inr (\<not> py_eq v (oget r c))))"

definition row_matches :: "jobj \<Rightarrow> jobj \<Rightarrow> bool res" where
  "row_matches row r =
     rbind (res_any (map (row_differs row r)
       [(''product_identity'', ''ticker'', ''ticker''), (''segment_identity'', ''book_segment_id'', ''book_segment_id''),
        (''as_of'', ''capture_raw_ingress_watermark'', ''raw_ingress_ordinal''),
        (''as_of'', ''logical_time_utc_ns'', ''logical_time_utc_ns'')])) (\<lambda>d. Inr (\<not> d))"

definition check_record :: "validator \<Rightarrow> (int \<times> jobj) list \<Rightarrow> record_check \<Rightarrow> jobj \<Rightarrow> record_check res" where
  "check_record valid rows st r =
     (let expected = int (length (rc_records st)) + 1 in
      rbind (validate_historical_schema valid (JObj r) ''normalized-record-v2.schema.json'' ''BacktestRecordSchemaMismatch'') (\<lambda>_.
      rbind (require ''BacktestOrderingInvalid'' (py_eq (oget r ''normalization_ordinal'') (JInt expected))) (\<lambda>_.
      rbind (rbind (oindex r ''raw_ingress_ordinal'') py_int) (\<lambda>raw.
      rbind (require ''BacktestOrderingInvalid'' (rc_raw st \<le> raw)) (\<lambda>_.
      rbind (rbind (oindex r ''logical_time_utc_ns'') py_int) (\<lambda>logical.
      rbind (require ''BacktestOrderingInvalid'' (rc_logical st \<le> logical)) (\<lambda>_.
      rbind (require ''BacktestSegmentMismatch''
         (case rc_boundary st of None \<Rightarrow> True | Some b \<Rightarrow> opens_boundary b r)) (\<lambda>_.
      rbind (require ''BacktestContinuityRequired'' (oget r ''kind'' \<noteq> JStr ''discontinuity'')) (\<lambda>_.
      let st1 = st\<lparr>rc_records := rc_records st @ [r], rc_raw := raw, rc_logical := logical, rc_boundary := None\<rparr> in
      if oget r ''kind'' = JStr ''market_event'' then
        rbind (of_option (HistoricalDataError ''BacktestFeatureMissing'') (sget rows expected)) (\<lambda>row.
        rbind (row_matches row r) (\<lambda>same.
        rbind (require ''BacktestFeatureCausalityMismatch'' same) (\<lambda>_.
        Inr (st1\<lparr>rc_market := rc_market st @ [expected]\<rparr>))))
      else if oget r ''kind'' = JStr ''segment_boundary'' then Inr (st1\<lparr>rc_boundary := Some r\<rparr>)
      else Inr st1)))))))))"

definition check_record_line :: "validator \<Rightarrow> (int \<times> jobj) list \<Rightarrow> record_check \<Rightarrow> string \<Rightarrow> record_check res" where
  "check_record_line valid rows st line = rbind (jsonl_object line) (check_record valid rows st)"

section \<open>The preflight\<close>

record preflight =
  pf_config :: jobj
  pf_config_sha256 :: string
  pf_normalization :: jobj
  pf_feature_manifest :: jobj
  pf_records :: "jobj list"
  pf_features :: "(int \<times> jobj) list"
  pf_product_map :: jobj
  pf_products :: "json list"
  pf_definition_sha256 :: string

definition check_products :: "(string \<Rightarrow> string) \<Rightarrow> jobj \<Rightarrow> jobj \<Rightarrow> jobj \<Rightarrow> jobj \<Rightarrow> json list res" where
  "check_products sha config normalization features product_map =
     (let map_products = oget_default product_map ''products'' (JArr []);
          manifest_products = oget_default features ''products'' (JArr []);
          config_products = oget_default config ''products'' (JArr []) in
      rbind (same_tickers map_products manifest_products config_products (oget normalization ''market_tickers'')) (\<lambda>same.
      rbind (require ''BacktestProductIdentityMismatch'' same) (\<lambda>_.
      let ms = these_values map_products; fs = these_values manifest_products; cs = these_values config_products in
      rbind (res_fold (check_product sha) ([], []) (zip ms (zip fs cs))) (\<lambda>(contract_ids, _).
      rbind (check_risk_binding config contract_ids) (\<lambda>_.
      Inr cs)))))"

definition check_rows_and_records ::
  "validator \<Rightarrow> input_texts \<Rightarrow> jobj \<Rightarrow> ((int \<times> jobj) list \<times> jobj list) res" where
  "check_rows_and_records valid t features =
     rbind (res_fold (read_row valid) ([], []) (text_lines (it_rows t))) (\<lambda>(rows, _).
     rbind (res_fold (check_record_line valid rows) rc_init (text_lines (it_records t))) (\<lambda>st.
     rbind (require ''BacktestSegmentMismatch'' (rc_boundary st = None)) (\<lambda>_.
     rbind (require ''BacktestFeatureOrderingInvalid'' (set (map fst rows) = set (rc_market st))) (\<lambda>_.
     rbind (jget2 (JObj features) ''output'' ''feature_row_count'') (\<lambda>n.
     rbind (require ''BacktestFeatureOrderingInvalid'' (py_eq n (JInt (int (length rows))))) (\<lambda>_.
     Inr (rows, rc_records st)))))))"

definition run_preflight :: "(string \<Rightarrow> string) \<Rightarrow> validator \<Rightarrow> repository \<Rightarrow> string \<Rightarrow> preflight res" where
  "run_preflight sha valid repo config_text =
     rbind (read_json config_text) (\<lambda>config.
     rbind (validate_historical_schema valid (JObj config) ''backtest-v4.schema.json'' ''BacktestConfigSchemaMismatch'') (\<lambda>_.
     rbind (oindex config ''inputs'') (\<lambda>inputs.
     rbind (jindex inputs ''normalization'') (\<lambda>normalization_input.
     rbind (jindex inputs ''features'') (\<lambda>features_input.
     rbind (input_files repo sha normalization_input features_input) (\<lambda>t.
     rbind (read_json (it_normalization t)) (\<lambda>normalization.
     rbind (read_json (it_features t)) (\<lambda>features.
     rbind (read_json (it_product_map t)) (\<lambda>product_map.
     rbind (validate_historical_schema valid (JObj normalization) ''normalization-manifest-v3.schema.json''
              ''BacktestNormalizationSchemaMismatch'') (\<lambda>_.
     rbind (validate_historical_schema valid (JObj features) ''feature-manifest-v3.schema.json'' ''BacktestFeatureSchemaMismatch'') (\<lambda>_.
     rbind (validate_historical_schema valid (JObj product_map) ''product-map-v3.schema.json'' ''BacktestProductSchemaMismatch'') (\<lambda>_.
     rbind (check_manifests sha t features_input normalization features) (\<lambda>definition_hash.
     rbind (check_products sha config normalization features product_map) (\<lambda>products.
     rbind (check_rows_and_records valid t features) (\<lambda>(rows, records).
     Inr \<lparr>pf_config = config, pf_config_sha256 = sha config_text, pf_normalization = normalization,
          pf_feature_manifest = features, pf_records = records, pf_features = rows, pf_product_map = product_map,
          pf_products = products, pf_definition_sha256 = definition_hash\<rparr>)))))))))))))))"

end
