(* ===== verification/Multi_Backtest.thy ===== *)
theory Multi_Backtest
  imports Multi_Preflight Backtest_Risk "HOL-Library.Product_Lexorder"
begin

text \<open>
  The event loop of the multi-market backtest (\<open>run_backtest_v4\<close> in \<open>pmm_phase7_multimarket.py\<close>): the
  runtime of each product, the heap of actions, the artifacts and one definition per kind of action.

  \<open>heapq\<close> with entries whose keys are all different is a list kept in the order of the keys. A handler
  works on one product: it gets and returns a cell, the shared state with the runtime of that product.
\<close>

section \<open>State\<close>

text \<open>\<open>MultiMarketOrder\<close> has the fields of \<open>BacktestOrder\<close> and more.\<close>

record mm_order = backtest_order +
  mo_client :: int
  mo_ticker :: string
  mo_contract :: int
  mo_segment :: string
  mo_causal :: json

definition plain_order :: "mm_order \<Rightarrow> backtest_order" where
  "plain_order o' = backtest_order.truncate o'"

record 'p product_runtime =
  pr_ordinal :: int
  pr_config :: json
  pr_definition :: string
  pr_risk :: "'p oracle_client"
  pr_segment :: "string option"
  pr_next_decision :: int
  pr_local :: int
  pr_pending :: "(int \<times> mm_order) list"
  pr_live :: "(int \<times> mm_order) list"
  pr_counts :: "(string \<times> int) list"
  pr_segments :: "string list"
  pr_last_row :: "jobj option"

text \<open>The actions, with their payloads.\<close>

datatype action =
    Segment_Action jobj
  | Feature_Action jobj jobj
  | Trade_Action jobj jobj
  | Fill_Action jobj int string jobj
  | Decision_Action jobj
  | Command_Action jobj string string
  | Risk_Action jobj mm_order
  | Ack_Action jobj int
  | Cancel_Action jobj int string

fun stage :: "action \<Rightarrow> int" where
  "stage (Segment_Action _) = 1"
| "stage (Feature_Action _ _) = 2"
| "stage (Trade_Action _ _) = 3"
| "stage (Fill_Action _ _ _ _) = 4"
| "stage (Decision_Action _) = 5"
| "stage (Command_Action _ _ _) = 6"
| "stage (Risk_Action _ _) = 7"
| "stage (Ack_Action _ _) = 8"
| "stage (Cancel_Action _ _ _) = 9"

text \<open>Time, causal ordinal, stage, declaration ordinal, local ordinal and global ordinal.\<close>

type_synonym action_key = "int \<times> int \<times> int \<times> int \<times> int \<times> int"

record mm_shared =
  ms_heap :: "(action_key \<times> action) list"
  ms_global :: int
  ms_next_order :: int
  ms_next_decision :: int
  ms_ordinal :: int
  ms_artifacts :: "(string \<times> jobj list) list"

type_synonym 'p mm_cell = "mm_shared \<times> 'p product_runtime"

record 'p mm_state =
  mm_shared :: mm_shared
  mm_runtimes :: "(string \<times> 'p product_runtime) list"

record mm_config =
  mc_preflight :: preflight
  mc_valid :: validator

definition artifact_schemas :: "(string \<times> string) list" where
  "artifact_schemas =
     [(''decisions'', ''pmm.backtest_decision.v1''), (''submitted-orders'', ''pmm.backtest_submitted_order.v1''),
      (''cancellations'', ''pmm.backtest_cancellation.v1''), (''acknowledgements'', ''pmm.backtest_acknowledgement.v1''),
      (''rejections'', ''pmm.backtest_rejection.v1''), (''fills'', ''pmm.backtest_fill.v1''),
      (''exposure'', ''pmm.backtest_exposure.v1''), (''risk-events'', ''pmm.backtest_risk_event.v1''),
      (''summary'', ''pmm.backtest_summary.v1'')]"

definition shared_init :: mm_shared where
  "shared_init =
     \<lparr>ms_heap = [], ms_global = 0, ms_next_order = 1, ms_next_decision = 1, ms_ordinal = 0,
      ms_artifacts = map (\<lambda>(name, _). (name, [])) artifact_schemas\<rparr>"

section \<open>\<open>push\<close> and \<open>emit\<close>\<close>

definition push :: "action \<Rightarrow> int \<Rightarrow> int \<Rightarrow> 'p mm_cell \<Rightarrow> 'p mm_cell res" where
  "push act time causal cell =
     (case cell of (sh, rt) \<Rightarrow>
        rbind (require ''BacktestLatencyOverflow'' (0 \<le> time \<and> time \<le> 9223372036854775807)) (\<lambda>_.
        let g = ms_global sh + 1; l = pr_local rt + 1;
            entry = ((time, causal, stage act, pr_ordinal rt, l, g), act) in
        Inr (sh\<lparr>ms_global := g, ms_heap := insort_key fst entry (ms_heap sh)\<rparr>, rt\<lparr>pr_local := l\<rparr>)))"

definition strategy_instance :: "'p product_runtime \<Rightarrow> string res" where
  "strategy_instance rt = rbind (jindex2 (pr_config rt) ''strategy'' ''strategy_instance_id'') (\<lambda>v. Inr (py_str v))"

definition row_watermarks :: "jobj \<Rightarrow> json res" where
  "row_watermarks row =
     rbind (jindex2 (JObj row) ''as_of'' ''capture_raw_ingress_watermark'') (\<lambda>raw.
     rbind (jindex2 (JObj row) ''as_of'' ''normalization_watermark'') (\<lambda>watermark.
     rbind (jindex2 (JObj row) ''as_of'' ''product_applied_watermark'') (\<lambda>applied.
     Inr (JObj [(''capture_raw_ingress_watermark'', raw), (''normalization_watermark'', watermark),
                (''product_applied_watermark'', applied)]))))"

definition artifact_record ::
  "mm_config \<Rightarrow> string \<Rightarrow> 'p product_runtime \<Rightarrow> int \<Rightarrow> int \<Rightarrow> jobj \<Rightarrow> jobj \<Rightarrow> jobj res" where
  "artifact_record cfg name rt ordinal time row values' =
     (let config = JObj (pf_config (mc_preflight cfg)) in
      rbind (row_watermarks row) (\<lambda>causal.
      rbind (of_option KeyError (sget artifact_schemas name)) (\<lambda>schema.
      rbind (jindex config ''run_id'') (\<lambda>run_id.
      rbind (jindex (pr_config rt) ''product_identity'') (\<lambda>product.
      rbind (jindex (pr_config rt) ''contract_identity'') (\<lambda>contract.
      rbind (oindex row ''segment_identity'') (\<lambda>segment.
      rbind (strategy_instance rt) (\<lambda>strategy.
      rbind (jindex2 config ''execution'' ''model'') (\<lambda>model.
      Inr ([(''schema'', JStr schema), (''run_id'', run_id), (''artifact_ordinal'', JInt ordinal),
            (''effective_time_utc_ns'', JInt time), (''product_identity'', product), (''contract_identity'', contract),
            (''segment_identity'', segment), (''strategy_instance_id'', JStr strategy), (''causal_watermark'', causal),
            (''truth'', JObj [(''truth_category'', JStr ''ModelDerived''), (''source_fidelity'', JStr ''level_2''),
               (''derivation'', JStr ''causal_multimarket_v1'')]),
            (''fidelity'', JObj [(''execution_model'', model)]),
            (''configuration_sha256'', JStr (pf_config_sha256 (mc_preflight cfg))),
            (''feature_definition_sha256'', JStr (pf_definition_sha256 (mc_preflight cfg)))] @ values'))))))))))"

definition append_artifact :: "string \<Rightarrow> jobj \<Rightarrow> (string \<times> jobj list) list \<Rightarrow> (string \<times> jobj list) list" where
  "append_artifact name r artifacts = map (\<lambda>(n, rs). (n, if n = name then rs @ [r] else rs)) artifacts"

definition emit :: "mm_config \<Rightarrow> string \<Rightarrow> int \<Rightarrow> jobj \<Rightarrow> jobj \<Rightarrow> 'p mm_cell \<Rightarrow> 'p mm_cell res" where
  "emit cfg name time row values' cell =
     (case cell of (sh, rt) \<Rightarrow>
        let n = ms_ordinal sh + 1 in
        rbind (artifact_record cfg name rt n time row values') (\<lambda>r.
        rbind (validate_historical_schema (mc_valid cfg) (JObj r) ''backtest-artifact-v1.schema.json''
                 ''BacktestArtifactSchemaMismatch'') (\<lambda>_.
        Inr (sh\<lparr>ms_ordinal := n, ms_artifacts := append_artifact name r (ms_artifacts sh)\<rparr>,
             rt\<lparr>pr_counts := counter_add (pr_counts rt) name 1\<rparr>))))"

text \<open>A row of \<open>risk-events\<close> shows the oracle's state, asked for at that moment.\<close>

definition emit_risk ::
  "'p process \<Rightarrow> mm_config \<Rightarrow> int \<Rightarrow> jobj \<Rightarrow> string \<Rightarrow> int \<Rightarrow> string \<Rightarrow> 'p mm_cell \<Rightarrow> 'p mm_cell res" where
  "emit_risk step cfg time row operation order_id result cell =
     (case cell of (sh, rt) \<Rightarrow>
        rbind (oracle_view step (pr_risk rt)) (\<lambda>(view, risk).
        emit cfg ''risk-events'' time row
          [(''operation'', JStr operation), (''order_id'', JInt order_id), (''result'', JStr result), (''risk_view'', JObj view)]
          (sh, rt\<lparr>pr_risk := risk\<rparr>)))"

definition emit_cancellation :: "mm_config \<Rightarrow> int \<Rightarrow> jobj \<Rightarrow> int \<Rightarrow> string \<Rightarrow> 'p mm_cell \<Rightarrow> 'p mm_cell res" where
  "emit_cancellation cfg time row order_id reason cell =
     emit cfg ''cancellations'' time row [(''order_id'', JInt order_id), (''reason'', JStr reason)] cell"

definition emit_rejection :: "mm_config \<Rightarrow> int \<Rightarrow> jobj \<Rightarrow> string \<Rightarrow> string \<Rightarrow> 'p mm_cell \<Rightarrow> 'p mm_cell res" where
  "emit_rejection cfg time row stage' reason cell =
     emit cfg ''rejections'' time row [(''stage'', JStr stage'), (''reason'', JStr reason)] cell"

section \<open>Withdrawing orders\<close>

text \<open>The rows of a withdrawn order; without a visible row nothing is written.\<close>

definition emit_withdrawal ::
  "'p process \<Rightarrow> mm_config \<Rightarrow> int \<Rightarrow> jobj option \<Rightarrow> string \<Rightarrow> int \<Rightarrow> string \<Rightarrow> 'p mm_cell \<Rightarrow> 'p mm_cell res" where
  "emit_withdrawal step cfg time row operation order_id reason cell =
     (case row of
        None \<Rightarrow> Inr cell
      | Some row' \<Rightarrow>
          rbind (emit_risk step cfg time row' operation order_id reason cell) (\<lambda>cell1.
          emit_cancellation cfg time row' order_id reason cell1))"

definition withdraw_pending ::
  "'p process \<Rightarrow> mm_config \<Rightarrow> int \<Rightarrow> jobj option \<Rightarrow> string \<Rightarrow> 'p mm_cell \<Rightarrow> mm_order \<Rightarrow> 'p mm_cell res" where
  "withdraw_pending step cfg time row reason cell o' =
     (case cell of (sh, rt) \<Rightarrow>
        rbind (oracle_reject_pending step (pr_risk rt) (plain_order o') time) (\<lambda>risk.
        emit_withdrawal step cfg time row ''command_reject'' (bo_id o') reason
          (sh, rt\<lparr>pr_risk := risk, pr_pending := spop (pr_pending rt) (bo_id o')\<rparr>)))"

definition withdraw_live ::
  "'p process \<Rightarrow> mm_config \<Rightarrow> int \<Rightarrow> jobj option \<Rightarrow> string \<Rightarrow> 'p mm_cell \<Rightarrow> mm_order \<Rightarrow> 'p mm_cell res" where
  "withdraw_live step cfg time row reason cell o' =
     (case cell of (sh, rt) \<Rightarrow>
        rbind (oracle_cancel step (pr_risk rt) (plain_order o') reason (Some time)) (\<lambda>risk.
        emit_withdrawal step cfg time row ''cancel'' (bo_id o') reason
          (sh, rt\<lparr>pr_risk := risk, pr_live := spop (pr_live rt) (bo_id o')\<rparr>)))"

definition withdraw_all :: "'p process \<Rightarrow> mm_config \<Rightarrow> int \<Rightarrow> jobj option \<Rightarrow> string \<Rightarrow> 'p mm_cell \<Rightarrow> 'p mm_cell res" where
  "withdraw_all step cfg time row reason cell =
     rbind (res_fold (withdraw_pending step cfg time row reason) cell (map snd (pr_pending (snd cell)))) (\<lambda>cell1.
     res_fold (withdraw_live step cfg time row reason) cell1 (map snd (pr_live (snd cell1))))"

section \<open>The actions\<close>

definition segment_action :: "'p process \<Rightarrow> mm_config \<Rightarrow> int \<Rightarrow> jobj \<Rightarrow> 'p mm_cell \<Rightarrow> 'p mm_cell res" where
  "segment_action step cfg time r cell =
     rbind (oindex r ''book_segment_id'') (\<lambda>v.
     let segment = py_str v; current = pr_segment (snd cell) in
     rbind (if current \<noteq> None \<and> current \<noteq> Some segment then
              rbind (withdraw_all step cfg time (pr_last_row (snd cell)) ''segment_transition'' cell) (\<lambda>(sh, rt).
              Inr (sh, rt\<lparr>pr_next_decision := -1, pr_last_row := None\<rparr>))
            else Inr cell) (\<lambda>(sh, rt).
     Inr (sh, rt\<lparr>pr_segment := Some segment,
                pr_segments := (if segment \<in> set (pr_segments rt) then pr_segments rt else pr_segments rt @ [segment])\<rparr>)))"

definition feature_action ::
  "json \<Rightarrow> json \<Rightarrow> int \<Rightarrow> int \<Rightarrow> jobj \<Rightarrow> 'p mm_cell \<Rightarrow> 'p mm_cell res" where
  "feature_action latency strategy time causal row cell =
     (case cell of (sh, rt) \<Rightarrow>
        let rt1 = rt\<lparr>pr_last_row := Some row\<rparr> in
        if time < pr_next_decision rt then Inr (sh, rt1)
        else
          rbind (rbind (jindex latency ''decision_ns'') nonnegative_int) (\<lambda>delay.
          rbind (push (Decision_Action row) (time + delay) causal (sh, rt1)) (\<lambda>(sh2, rt2).
          rbind (rbind (jindex strategy ''decision_interval_ns'') positive_int) (\<lambda>interval.
          Inr (sh2, rt2\<lparr>pr_next_decision := time + interval\<rparr>)))))"

definition trade_eligible :: "decimal \<Rightarrow> mm_order \<Rightarrow> bool res" where
  "trade_eligible trade_price o' =
     (if bo_side o' = ''buy'' then dec_le trade_price (bo_price o')
      else if bo_side o' = ''sell'' then dec_le (bo_price o') trade_price
      else Inr False)"

definition touch_order ::
  "json \<Rightarrow> int \<Rightarrow> int \<Rightarrow> jobj \<Rightarrow> jobj \<Rightarrow> decimal \<Rightarrow> decimal \<times> 'p mm_cell \<Rightarrow> mm_order \<Rightarrow> (decimal \<times> 'p mm_cell) res" where
  "touch_order latency time causal row r trade_price rs o' =
     (case rs of (remaining, cell) \<Rightarrow>
        rbind (trade_eligible trade_price o') (\<lambda>good.
        rbind (if good then dec_le remaining (dec_of_int 0) else Inr True) (\<lambda>skip.
        if skip then Inr (remaining, cell)
        else
          rbind (dec_min (bo_remaining o') remaining) (\<lambda>quantity.
          rbind (dec_sub remaining quantity) (\<lambda>remaining'.
          rbind (rbind (jindex latency ''fill_ns'') nonnegative_int) (\<lambda>delay.
          rbind (push (Fill_Action row (bo_id o') (dec_format quantity) r) (time + delay) causal cell) (\<lambda>cell'.
          Inr (remaining', cell'))))))))"

definition trade_action ::
  "mm_config \<Rightarrow> json \<Rightarrow> int \<Rightarrow> int \<Rightarrow> jobj \<Rightarrow> jobj \<Rightarrow> 'p mm_cell \<Rightarrow> 'p mm_cell res" where
  "trade_action cfg latency time causal row r cell =
     rbind (jindex2 (JObj (pf_config (mc_preflight cfg))) ''execution'' ''model'') (\<lambda>model.
     if model \<noteq> JStr ''trade_touch_v1'' then Inr cell
     else
       rbind (rbind (jindex2 (JObj r) ''payload'' ''yes_price_dollars'') decimal_of) (\<lambda>trade_price.
       rbind (rbind (jindex2 (JObj r) ''payload'' ''quantity_contracts'') decimal_of) (\<lambda>remaining.
       rbind (res_fold (touch_order latency time causal row r trade_price) (remaining, cell)
                (sort_key bo_id (map snd (pr_live (snd cell))))) (\<lambda>rs.
       Inr (snd rs)))))"

definition fill_action ::
  "'p process \<Rightarrow> mm_config \<Rightarrow> int \<Rightarrow> jobj \<Rightarrow> int \<Rightarrow> string \<Rightarrow> jobj \<Rightarrow> 'p mm_cell \<Rightarrow> 'p mm_cell res" where
  "fill_action step cfg time row order_id amount r cell =
     (case cell of (sh, rt) \<Rightarrow>
      case sget (pr_live rt) order_id of
        None \<Rightarrow> Inr cell
      | Some o' \<Rightarrow>
          if Some (mo_segment o') \<noteq> pr_segment rt then Inr cell
          else
            rbind (py_decimal amount) (\<lambda>wanted.
            rbind (dec_min (bo_remaining o') wanted) (\<lambda>quantity.
            rbind (dec_le quantity (dec_of_int 0)) (\<lambda>none.
            if none then Inr cell
            else
              rbind (dec_sub (bo_remaining o') quantity) (\<lambda>left.
              let o2 = o'\<lparr>bo_remaining := left\<rparr> in
              rbind (oracle_apply_fill step (pr_risk rt) (plain_order o2) quantity (Some time)) (\<lambda>risk.
              rbind (emit_risk step cfg time row ''fill'' (bo_id o2) ''applied''
                       (sh, rt\<lparr>pr_risk := risk, pr_live := sset (pr_live rt) order_id o2\<rparr>)) (\<lambda>cell1.
              rbind (oindex r ''event_id'') (\<lambda>event_id.
              rbind (emit cfg ''fills'' time row
                       [(''order_id'', JInt (bo_id o2)), (''side'', JStr (bo_side o2)),
                        (''price_dollars'', JStr (dec_format (bo_price o2))), (''quantity_contracts'', JStr (dec_format quantity)),
                        (''public_trade_event_id'', event_id), (''fill_model'', JStr ''trade_touch_v1'')] cell1) (\<lambda>(sh2, rt2).
              Inr (sh2, if dec_eq left (dec_of_int 0) then rt2\<lparr>pr_live := spop (pr_live rt2) (bo_id o2)\<rparr> else rt2))))))))))"

text \<open>\<open>bid_price >= ask_price or ask_price - bid_price < minimum\<close>.\<close>

definition crossed_or_narrow :: "decimal \<Rightarrow> decimal \<Rightarrow> decimal \<Rightarrow> bool res" where
  "crossed_or_narrow minimum bid ask =
     rbind (dec_le ask bid) (\<lambda>crossed.
     if crossed then Inr True else rbind (dec_sub ask bid) (\<lambda>spread. dec_lt spread minimum))"

definition push_replacement :: "json \<Rightarrow> int \<Rightarrow> int \<Rightarrow> jobj \<Rightarrow> 'p mm_cell \<Rightarrow> mm_order \<Rightarrow> 'p mm_cell res" where
  "push_replacement latency time causal row cell o' =
     rbind (rbind (jindex latency ''cancellation_ns'') nonnegative_int) (\<lambda>delay.
     push (Cancel_Action row (bo_id o') ''quote_replacement'') (time + delay) causal cell)"

definition push_command :: "int \<Rightarrow> int \<Rightarrow> jobj \<Rightarrow> 'p mm_cell \<Rightarrow> string \<times> decimal \<Rightarrow> 'p mm_cell res" where
  "push_command arrival causal row cell sp = push (Command_Action row (fst sp) (dec_format (snd sp))) arrival causal cell"

definition decision_action ::
  "mm_config \<Rightarrow> json \<Rightarrow> json \<Rightarrow> int \<Rightarrow> int \<Rightarrow> jobj \<Rightarrow> 'p mm_cell \<Rightarrow> 'p mm_cell res" where
  "decision_action cfg latency strategy time causal row cell =
     (let decision_id = ms_next_decision (fst cell) in
      rbind (oindex row ''values'') (\<lambda>v.
      rbind (jget v ''best_yes_bid_dollars'') (\<lambda>bid.
      rbind (jget v ''best_yes_ask_dollars'') (\<lambda>ask.
      rbind (emit cfg ''decisions'' time row [(''decision_id'', JInt decision_id)]
               ((fst cell)\<lparr>ms_next_decision := decision_id + 1\<rparr>, snd cell)) (\<lambda>cell1.
      if bid = JNull \<or> ask = JNull then emit_rejection cfg time row ''decision'' ''missing_two_sided_book'' cell1
      else
        rbind (decimal_of bid) (\<lambda>bid_price.
        rbind (decimal_of ask) (\<lambda>ask_price.
        rbind (rbind (jindex strategy ''minimum_spread_dollars'') decimal_of) (\<lambda>minimum.
        rbind (crossed_or_narrow minimum bid_price ask_price) (\<lambda>narrow.
        if narrow then emit_rejection cfg time row ''decision'' ''post_only_or_spread'' cell1
        else
          rbind (res_fold (push_replacement latency time causal row) cell1
                   (map snd (pr_pending (snd cell1)) @ map snd (pr_live (snd cell1)))) (\<lambda>cell2.
          rbind (rbind (jindex latency ''order_ns'') nonnegative_int) (\<lambda>delay.
          res_fold (push_command (time + delay) causal row) cell2 [(''buy'', bid_price), (''sell'', ask_price)])))))))))))"

text \<open>Whether a quantity and a price are whole contracts and whole cents.\<close>

definition inexact :: "decimal \<Rightarrow> decimal \<Rightarrow> bool res" where
  "inexact quantity price =
     rbind (dec_le quantity (dec_of_int 0)) (\<lambda>none.
     if none then Inr True
     else
       rbind (dec_to_integral quantity) (\<lambda>whole.
       if \<not> dec_eq quantity whole then Inr True
       else
         rbind (dec_mul price (dec_of_int 100)) (\<lambda>in_cents.
         rbind (dec_to_integral in_cents) (\<lambda>whole_cents.
         Inr (\<not> dec_eq in_cents whole_cents)))))"

definition contract_of :: "'p product_runtime \<Rightarrow> int res" where
  "contract_of rt = rbind (jindex2 (pr_config rt) ''contract_identity'' ''contract_id'') py_int"

definition ticker_of :: "'p product_runtime \<Rightarrow> string res" where
  "ticker_of rt = rbind (jindex2 (pr_config rt) ''product_identity'' ''ticker'') (\<lambda>v. Inr (py_str v))"

definition command_action ::
  "mm_config \<Rightarrow> json \<Rightarrow> int \<Rightarrow> int \<Rightarrow> jobj \<Rightarrow> string \<Rightarrow> string \<Rightarrow> 'p mm_cell \<Rightarrow> 'p mm_cell res" where
  "command_action cfg strategy time causal row side price cell =
     rbind (rbind (jindex strategy ''quote_quantity_contracts'') decimal_of) (\<lambda>quantity.
     rbind (py_decimal price) (\<lambda>p.
     rbind (inexact quantity p) (\<lambda>bad.
     rbind (require ''BacktestExactConversionRequired'' (\<not> bad)) (\<lambda>_.
     case cell of (sh, rt) \<Rightarrow>
     let order_id = ms_next_order sh in
     rbind (rbind (jindex strategy ''order_lifetime_ns'') positive_int) (\<lambda>lifetime.
     rbind (ticker_of rt) (\<lambda>ticker.
     rbind (contract_of rt) (\<lambda>contract.
     rbind (oindex row ''as_of'') (\<lambda>as_of.
     let o' = \<lparr>bo_id = order_id, bo_side = side, bo_price = p, bo_remaining = quantity, bo_active_at = time,
               bo_expires_at = time + lifetime, bo_watermark = causal, mo_client = order_id, mo_ticker = ticker,
               mo_contract = contract, mo_segment = (case pr_segment rt of None \<Rightarrow> [] | Some s \<Rightarrow> s), mo_causal = as_of\<rparr> in
     rbind (emit cfg ''submitted-orders'' time row
              [(''client_intent_id'', JInt order_id), (''side'', JStr side), (''price_dollars'', JStr (dec_format p)),
               (''quantity_contracts'', JStr (dec_format quantity)), (''planned_expires_at_utc_ns'', JInt (bo_expires_at o'))]
              (sh\<lparr>ms_next_order := order_id + 1\<rparr>, rt)) (\<lambda>cell1.
     push (Risk_Action row o') time causal cell1)))))))))"

definition risk_action ::
  "'p process \<Rightarrow> mm_config \<Rightarrow> json \<Rightarrow> int \<Rightarrow> int \<Rightarrow> jobj \<Rightarrow> mm_order \<Rightarrow> 'p mm_cell \<Rightarrow> 'p mm_cell res" where
  "risk_action step cfg latency time causal row o' cell =
     (case cell of (sh, rt) \<Rightarrow>
        rbind (oracle_admit step (pr_risk rt) (mo_client o') (bo_side o') (bo_remaining o') (bo_price o') time) (\<lambda>(rejection, risk).
        rbind (emit_risk step cfg time row ''admit'' (bo_id o') (case rejection of None \<Rightarrow> ''approved'' | Some reason \<Rightarrow> reason)
                 (sh, rt\<lparr>pr_risk := risk\<rparr>)) (\<lambda>(sh1, rt1).
        case rejection of
          Some reason \<Rightarrow> emit_rejection cfg time row ''risk'' reason (sh1, rt1)
        | None \<Rightarrow>
            rbind (rbind (jindex latency ''acknowledgement_ns'') nonnegative_int) (\<lambda>delay.
            push (Ack_Action row (bo_id o')) (time + delay) causal
              (sh1, rt1\<lparr>pr_pending := sset (pr_pending rt1) (bo_id o') o'\<rparr>)))))"

definition ack_action ::
  "'p process \<Rightarrow> mm_config \<Rightarrow> json \<Rightarrow> int \<Rightarrow> int \<Rightarrow> jobj \<Rightarrow> int \<Rightarrow> 'p mm_cell \<Rightarrow> 'p mm_cell res" where
  "ack_action step cfg strategy time causal row order_id cell =
     (case cell of (sh, rt) \<Rightarrow>
      case sget (pr_pending rt) order_id of
        None \<Rightarrow> Inr cell
      | Some o' \<Rightarrow>
          let rt1 = rt\<lparr>pr_pending := spop (pr_pending rt) order_id\<rparr> in
          if Some (mo_segment o') \<noteq> pr_segment rt then
            rbind (oracle_reject_pending step (pr_risk rt1) (plain_order o') time) (\<lambda>risk.
            emit_rejection cfg time row ''acknowledgement'' ''segment_changed'' (sh, rt1\<lparr>pr_risk := risk\<rparr>))
          else
            rbind (rbind (jindex strategy ''order_lifetime_ns'') positive_int) (\<lambda>lifetime.
            let o2 = o'\<lparr>bo_active_at := time, bo_expires_at := time + lifetime\<rparr> in
            rbind (oracle_acknowledge step (pr_risk rt1) (plain_order o2)) (\<lambda>risk.
            rbind (emit_risk step cfg time row ''acknowledge'' (bo_id o2) ''applied''
                     (sh, rt1\<lparr>pr_risk := risk, pr_live := sset (pr_live rt1) (bo_id o2) o2\<rparr>)) (\<lambda>cell1.
            rbind (emit cfg ''acknowledgements'' time row
                     [(''order_id'', JInt (bo_id o2)), (''expires_at_utc_ns'', JInt (bo_expires_at o2))] cell1) (\<lambda>cell2.
            push (Cancel_Action row (bo_id o2) ''logical_expiry'') (bo_expires_at o2) causal cell2)))))"

text \<open>\<open>emit\<close> of a cancellation, after \<open>risk-events\<close>; both branches of \<open>cancel\<close> end with it.\<close>

definition emit_cancelled ::
  "'p process \<Rightarrow> mm_config \<Rightarrow> int \<Rightarrow> jobj \<Rightarrow> string \<Rightarrow> int \<Rightarrow> string \<Rightarrow> 'p mm_cell \<Rightarrow> 'p mm_cell res" where
  "emit_cancelled step cfg time row operation order_id reason cell =
     rbind (emit_risk step cfg time row operation order_id ''applied'' cell) (\<lambda>cell1.
     emit_cancellation cfg time row order_id reason cell1)"

definition cancel_action ::
  "'p process \<Rightarrow> mm_config \<Rightarrow> int \<Rightarrow> jobj \<Rightarrow> int \<Rightarrow> string \<Rightarrow> 'p mm_cell \<Rightarrow> 'p mm_cell res" where
  "cancel_action step cfg time row order_id reason cell =
     (case cell of (sh, rt) \<Rightarrow>
      case sget (pr_pending rt) order_id of
        Some o' \<Rightarrow>
          rbind (oracle_reject_pending step (pr_risk rt) (plain_order o') time) (\<lambda>risk.
          emit_cancelled step cfg time row ''command_reject'' (bo_id o') reason
            (sh, rt\<lparr>pr_risk := risk, pr_pending := spop (pr_pending rt) order_id\<rparr>))
      | None \<Rightarrow>
          (case sget (pr_live rt) order_id of
             None \<Rightarrow> Inr cell
           | Some o' \<Rightarrow>
               rbind (oracle_cancel step (pr_risk rt) (plain_order o') reason (Some time)) (\<lambda>risk.
               emit_cancelled step cfg time row ''cancel'' (bo_id o') reason
                 (sh, rt\<lparr>pr_risk := risk, pr_live := spop (pr_live rt) order_id\<rparr>))))"

section \<open>One action\<close>

fun action_row :: "action \<Rightarrow> jobj option" where
  "action_row (Segment_Action _) = None"
| "action_row (Feature_Action row _) = Some row"
| "action_row (Trade_Action row _) = Some row"
| "action_row (Fill_Action row _ _ _) = Some row"
| "action_row (Decision_Action row) = Some row"
| "action_row (Command_Action row _ _) = Some row"
| "action_row (Risk_Action row _) = Some row"
| "action_row (Ack_Action row _) = Some row"
| "action_row (Cancel_Action row _ _) = Some row"

fun action_record :: "action \<Rightarrow> jobj option" where
  "action_record (Segment_Action r) = Some r"
| "action_record (Feature_Action _ r) = Some r"
| "action_record (Trade_Action _ r) = Some r"
| "action_record (Fill_Action _ _ _ r) = Some r"
| "action_record _ = None"

text \<open>An empty row is no row.\<close>

definition action_ticker :: "action \<Rightarrow> string res" where
  "action_ticker act =
     (case action_row act of
        Some (kv # row) \<Rightarrow> rbind (jget2 (JObj (kv # row)) ''product_identity'' ''ticker'') (\<lambda>v. Inr (py_str v))
      | _ \<Rightarrow> rbind (of_option AttributeError (action_record act)) (\<lambda>r. Inr (py_str (oget r ''ticker''))))"

text \<open>The actions on a row of the current segment.\<close>

fun row_action ::
  "'p process \<Rightarrow> mm_config \<Rightarrow> json \<Rightarrow> json \<Rightarrow> int \<Rightarrow> int \<Rightarrow> action \<Rightarrow> 'p mm_cell \<Rightarrow> 'p mm_cell res" where
  "row_action step cfg latency strategy time causal (Segment_Action r) cell = Inl AssertionError"
| "row_action step cfg latency strategy time causal (Feature_Action row r) cell =
     feature_action latency strategy time causal row cell"
| "row_action step cfg latency strategy time causal (Trade_Action row r) cell =
     trade_action cfg latency time causal row r cell"
| "row_action step cfg latency strategy time causal (Fill_Action row order_id amount r) cell =
     fill_action step cfg time row order_id amount r cell"
| "row_action step cfg latency strategy time causal (Decision_Action row) cell =
     decision_action cfg latency strategy time causal row cell"
| "row_action step cfg latency strategy time causal (Command_Action row side price) cell =
     command_action cfg strategy time causal row side price cell"
| "row_action step cfg latency strategy time causal (Risk_Action row o') cell =
     risk_action step cfg latency time causal row o' cell"
| "row_action step cfg latency strategy time causal (Ack_Action row order_id) cell =
     ack_action step cfg strategy time causal row order_id cell"
| "row_action step cfg latency strategy time causal (Cancel_Action row order_id reason) cell =
     cancel_action step cfg time row order_id reason cell"

definition of_input :: "action \<Rightarrow> bool" where
  "of_input act \<longleftrightarrow> stage act = 2 \<or> stage act = 3"

definition segment_value :: "string option \<Rightarrow> json" where
  "segment_value s = (case s of None \<Rightarrow> JNull | Some t \<Rightarrow> JStr t)"

definition cell_action :: "'p process \<Rightarrow> mm_config \<Rightarrow> int \<Rightarrow> int \<Rightarrow> action \<Rightarrow> 'p mm_cell \<Rightarrow> 'p mm_cell res" where
  "cell_action step cfg time causal act cell =
     (case act of
        Segment_Action r \<Rightarrow> segment_action step cfg time r cell
      | _ \<Rightarrow>
          rbind (of_option AssertionError (action_row act)) (\<lambda>row.
          rbind (jindex2 (JObj row) ''segment_identity'' ''book_segment_id'') (\<lambda>s.
          if s \<noteq> segment_value (pr_segment (snd cell)) then
            rbind (require ''BacktestSegmentMismatch'' (\<not> of_input act)) (\<lambda>_. Inr cell)
          else
            rbind (jindex (pr_config (snd cell)) ''latency'') (\<lambda>latency.
            rbind (jindex (pr_config (snd cell)) ''strategy'') (\<lambda>strategy.
            row_action step cfg latency strategy time causal act cell)))))"

definition mm_action :: "'p process \<Rightarrow> mm_config \<Rightarrow> 'p mm_state \<Rightarrow> action_key \<times> action \<Rightarrow> 'p mm_state res" where
  "mm_action step cfg st entry =
     (case entry of ((time, causal, _), act) \<Rightarrow>
        rbind (action_ticker act) (\<lambda>ticker.
        rbind (of_option KeyError (sget (mm_runtimes st) ticker)) (\<lambda>rt.
        rbind (cell_action step cfg time causal act (mm_shared st, rt)) (\<lambda>(sh, rt').
        Inr (st\<lparr>mm_shared := sh, mm_runtimes := sset (mm_runtimes st) ticker rt'\<rparr>)))))"

text \<open>\<open>while action_heap\<close>; the loop stops at the first action after the last record.\<close>

partial_function (option) action_loop ::
  "'p process \<Rightarrow> mm_config \<Rightarrow> int \<Rightarrow> 'p mm_state \<Rightarrow> 'p mm_state res option" where
  "action_loop step cfg terminal st =
     (case ms_heap (mm_shared st) of
        [] \<Rightarrow> Some (Inr st)
      | entry # rest \<Rightarrow>
          let st1 = st\<lparr>mm_shared := (mm_shared st)\<lparr>ms_heap := rest\<rparr>\<rparr> in
          if terminal < fst (fst entry) then Some (Inr st1)
          else
            (case mm_action step cfg st1 entry of
               Inl e \<Rightarrow> Some (Inl e)
             | Inr st2 \<Rightarrow> action_loop step cfg terminal st2))"

end
