(* ===== verification/Multi_Run.thy ===== *)
theory Multi_Run
  imports Multi_Backtest Normalize_V1
begin

text \<open>
  The frame of the multi-market backtest (\<open>run_backtest_v4\<close> and \<open>verify_backtest_v4\<close> in
  \<open>pmm_phase7_multimarket.py\<close>): the runtimes and the first actions, the end of the run, the result
  manifest and its verification. The telemetry of the oracles is left out, it holds clocks only.
\<close>

section \<open>Runtimes and first actions\<close>

definition contract_limits :: "json \<Rightarrow> (int \<times> json) res" where
  "contract_limits item =
     rbind (rbind (jindex item ''contract_id'') py_int) (\<lambda>c.
     rbind (jindex item ''limits'') (\<lambda>l. Inr (c, l)))"

definition start_runtime ::
  "'p process \<Rightarrow> 'p \<Rightarrow> string \<Rightarrow> json \<Rightarrow> (int \<times> json) list \<Rightarrow> (string \<times> 'p product_runtime) list \<Rightarrow> int \<times> json
    \<Rightarrow> (string \<times> 'p product_runtime) list res" where
  "start_runtime step p0 definition_sha risk_config limits runtimes entry =
     (case entry of (ordinal, product) \<Rightarrow>
     rbind (rbind (jindex2 product ''contract_identity'' ''contract_id'') py_int) (\<lambda>contract_id.
     rbind (jindex product ''risk_binding'') (\<lambda>binding.
     rbind (rbind (jindex binding ''contract_id'') py_int) (\<lambda>bound.
     rbind (require ''BacktestRiskBindingMismatch'' (bound = contract_id)) (\<lambda>_.
     rbind (jindex risk_config ''launcher'') (\<lambda>launcher.
     rbind (of_option KeyError (sget limits contract_id)) (\<lambda>own.
     rbind (oracle_start step p0 [(''oracle'', launcher), (''limits'', own), (''binding'', binding)] True) (\<lambda>risk.
     rbind (rbind (jindex2 product ''product_identity'' ''ticker'') (\<lambda>t. of_option TypeError (as_str t))) (\<lambda>ticker.
     Inr (sset runtimes ticker
       \<lparr>pr_ordinal = ordinal, pr_config = product, pr_definition = definition_sha, pr_risk = risk,
        pr_segment = None, pr_next_decision = -1, pr_local = 0, pr_pending = [], pr_live = [], pr_counts = [],
        pr_segments = [], pr_last_row = None\<rparr>))))))))))"

definition start_runtimes ::
  "'p process \<Rightarrow> 'p \<Rightarrow> preflight \<Rightarrow> (string \<times> 'p product_runtime) list res" where
  "start_runtimes step p0 pf =
     rbind (oindex (pf_config pf) ''risk'') (\<lambda>risk_config.
     rbind (rbind (jindex risk_config ''limits_by_contract'') iter_value) (\<lambda>items.
     rbind (res_map contract_limits items) (\<lambda>limits.
     res_fold (start_runtime step p0 (pf_definition_sha256 pf) risk_config (rev limits)) []
       (zip [1..int (length (pf_products pf))] (pf_products pf)))))"

definition record_cell :: "(int \<times> jobj) list \<Rightarrow> jobj \<Rightarrow> 'p mm_cell \<Rightarrow> 'p mm_cell res" where
  "record_cell features r cell =
     rbind (rbind (oindex r ''normalization_ordinal'') py_int) (\<lambda>ordinal.
     rbind (rbind (oindex r ''logical_time_utc_ns'') py_int) (\<lambda>time.
     rbind (oindex r ''kind'') (\<lambda>kind.
     if kind = JStr ''segment_boundary'' then push (Segment_Action r) time ordinal cell
     else
       rbind (of_option KeyError (sget features ordinal)) (\<lambda>row.
       rbind (rbind (jindex2 (pr_config (snd cell)) ''latency'' ''market_data_ns'') nonnegative_int) (\<lambda>delay.
       rbind (push (Feature_Action row r) (time + delay) ordinal cell) (\<lambda>cell1.
       if oget r ''event_type'' = JStr ''trade'' then push (Trade_Action row r) (time + delay) ordinal cell1
       else Inr cell1))))))"

definition push_record :: "(int \<times> jobj) list \<Rightarrow> 'p mm_state \<Rightarrow> jobj \<Rightarrow> 'p mm_state res" where
  "push_record features st r =
     (let ticker = py_str (oget r ''ticker'') in
      rbind (of_option KeyError (sget (mm_runtimes st) ticker)) (\<lambda>rt.
      rbind (record_cell features r (mm_shared st, rt)) (\<lambda>(sh, rt').
      Inr (st\<lparr>mm_shared := sh, mm_runtimes := sset (mm_runtimes st) ticker rt'\<rparr>))))"

text \<open>\<open>max(..., default=0)\<close> of the logical times.\<close>

definition terminal_time :: "jobj list \<Rightarrow> int res" where
  "terminal_time records =
     rbind (res_map (\<lambda>r. rbind (oindex r ''logical_time_utc_ns'') py_int) records) (\<lambda>times.
     Inr (if times = [] then 0 else Max (set times)))"

section \<open>The end of the run\<close>

text \<open>The last feature row of a product; the table is keyed by the watermark of the rows.\<close>

definition is_row_of :: "string \<Rightarrow> int \<times> jobj \<Rightarrow> bool res" where
  "is_row_of ticker kr =
     rbind (jindex2 (JObj (snd kr)) ''product_identity'' ''ticker'') (\<lambda>t. Inr (t = JStr ticker))"

definition terminal_row :: "(int \<times> jobj) list \<Rightarrow> string \<Rightarrow> jobj res" where
  "terminal_row features ticker =
     rbind (res_map (is_row_of ticker) features) (\<lambda>own.
     let rows = map fst (filter snd (zip features own)) in
     rbind (ensure (rows \<noteq> []) (ValueError ''max() iterable argument is empty'')) (\<lambda>_.
     of_option KeyError (sget rows (Max (set (map fst rows))))))"

definition finish_cell :: "'p process \<Rightarrow> mm_config \<Rightarrow> int \<Rightarrow> jobj \<Rightarrow> 'p mm_cell \<Rightarrow> 'p mm_cell res" where
  "finish_cell step cfg time row cell =
     rbind (withdraw_all step cfg time (Some row) ''end_of_run'' cell) (\<lambda>(sh, rt).
     rbind (oracle_view step (pr_risk rt)) (\<lambda>(view, risk).
     rbind (emit cfg ''exposure'' time row [(''risk_view'', JObj view)] (sh, rt\<lparr>pr_risk := risk\<rparr>)) (\<lambda>(sh2, rt2).
     emit cfg ''summary'' time row
       [(''scope'', JStr ''product''), (''counts'', sorted_counts (pr_counts rt2))] (sh2, rt2))))"

definition finish_product ::
  "'p process \<Rightarrow> mm_config \<Rightarrow> int \<Rightarrow> (string \<times> jobj) list \<Rightarrow> 'p mm_state \<Rightarrow> string \<Rightarrow> 'p mm_state res" where
  "finish_product step cfg time rows st ticker =
     rbind (of_option KeyError (sget rows ticker)) (\<lambda>row.
     rbind (of_option KeyError (sget (mm_runtimes st) ticker)) (\<lambda>rt.
     rbind (finish_cell step cfg time row (mm_shared st, rt)) (\<lambda>(sh, rt').
     Inr (st\<lparr>mm_shared := sh, mm_runtimes := sset (mm_runtimes st) ticker rt'\<rparr>))))"

definition finish_products :: "'p process \<Rightarrow> mm_config \<Rightarrow> int \<Rightarrow> 'p mm_state \<Rightarrow> 'p mm_state res" where
  "finish_products step cfg time st =
     (let tickers = map fst (mm_runtimes st) in
      rbind (res_map (terminal_row (pf_features (mc_preflight cfg))) tickers) (\<lambda>rows.
      res_fold (finish_product step cfg time (zip tickers rows)) st tickers))"

section \<open>The result manifest\<close>

definition artifact_descriptor :: "(string \<Rightarrow> string) \<Rightarrow> string \<times> jobj list \<Rightarrow> json" where
  "artifact_descriptor sha entry =
     (case entry of (name, rows) \<Rightarrow>
        JObj [(''name'', JStr name),
              (''schema'', case sget artifact_schemas name of None \<Rightarrow> JNull | Some s \<Rightarrow> JStr s),
              (''path'', JStr (name @ ''.jsonl'')), (''sha256'', JStr (sha (jsonl rows))),
              (''row_count'', JInt (int (length rows)))])"

definition trace_name :: "int \<Rightarrow> string" where
  "trace_name contract = ''risk-trace-'' @ int_str contract @ ''.jsonl''"

definition trace_descriptor :: "(string \<Rightarrow> string) \<Rightarrow> string \<Rightarrow> 'p product_runtime \<Rightarrow> json res" where
  "trace_descriptor sha ticker rt =
     rbind (contract_of rt) (\<lambda>contract.
     Inr (JObj [(''ticker'', JStr ticker), (''contract_id'', JInt contract), (''path'', JStr (trace_name contract)),
                (''sha256'', JStr (sha (jsonl (or_trace (pr_risk rt))))),
                (''row_count'', JInt (int (length (or_trace (pr_risk rt)))))]))"

text \<open>The entry of a product; its runtime is asked for the state of the oracle once more.\<close>

definition result_product :: "'p process \<Rightarrow> (string \<Rightarrow> string) \<Rightarrow> string \<times> 'p product_runtime \<Rightarrow> (json \<times> json) res" where
  "result_product step sha entry =
     (case entry of (ticker, rt) \<Rightarrow>
        rbind (trace_descriptor sha ticker rt) (\<lambda>trace.
        rbind (jindex (pr_config rt) ''product_identity'') (\<lambda>product.
        rbind (jindex (pr_config rt) ''contract_identity'') (\<lambda>contract.
        rbind (jindex (pr_config rt) ''reviewed_lineage'') (\<lambda>reviewed.
        rbind (oracle_view step (pr_risk rt)) (\<lambda>(view, _).
        Inr (trace,
             JObj [(''product_identity'', product), (''contract_identity'', contract), (''reviewed_lineage'', reviewed),
                   (''segments'', JArr (map JStr (pr_segments rt))), (''counts'', sorted_counts (pr_counts rt)),
                   (''terminal_risk_view'', JObj view), (''risk_trace'', trace)])))))))"

definition counter_update :: "(string \<times> int) list \<Rightarrow> (string \<times> int) list \<Rightarrow> (string \<times> int) list" where
  "counter_update c d = foldl (\<lambda>c (k, n). counter_add c k n) c d"

definition aggregate_counts :: "(string \<times> 'p product_runtime) list \<Rightarrow> (string \<times> int) list" where
  "aggregate_counts runtimes = foldl (\<lambda>c (_, rt). counter_update c (pr_counts rt)) [] runtimes"

definition non_claims :: json where
  "non_claims =
     JObj [(''fees'', JStr ''not_applied''), (''accounting'', JStr ''not_applied''), (''pnl'', JStr ''not_applied''),
           (''collateral'', JStr ''not_applied''), (''margin'', JStr ''not_applied''), (''settlement'', JStr ''not_applied''),
           (''portfolio_risk'', JStr ''not_implemented'')]"

record mm_result =
  rs_artifacts :: "(string \<times> jobj list) list"
  rs_traces :: "(string \<times> jobj list) list"
  rs_manifest :: jobj

definition result_manifest ::
  "'p process \<Rightarrow> (string \<Rightarrow> string) \<Rightarrow> mm_config \<Rightarrow> 'p mm_state \<Rightarrow> jobj res" where
  "result_manifest step sha cfg st =
     (let pf = mc_preflight cfg; config = pf_config pf in
      rbind (res_map (result_product step sha) (mm_runtimes st)) (\<lambda>entries.
      rbind (oindex config ''run_id'') (\<lambda>run_id.
      rbind (oindex config ''inputs'') (\<lambda>inputs.
      rbind (oindex config ''execution'') (\<lambda>execution.
      rbind (oindex config ''limitations'') (\<lambda>limitations.
      Inr [(''schema'', JStr ''pmm.backtest_result_manifest.v4''), (''run_id'', run_id),
           (''config_sha256'', JStr (pf_config_sha256 pf)), (''inputs'', inputs),
           (''feature_definition_sha256'', JStr (pf_definition_sha256 pf)),
           (''scheduling_policy'', JStr ''causal_multimarket_v1''), (''execution'', execution),
           (''risk'', JObj [(''engine'', JStr ''cxx_oracle_v2''), (''ownership'', JStr ''per_contract_projection''),
              (''traces'', JArr (map fst entries))]),
           (''completeness'', complete_interval), (''limitations'', limitations), (''non_claims'', non_claims),
           (''products'', JArr (map snd entries)), (''aggregate_counts'', sorted_counts (aggregate_counts (mm_runtimes st))),
           (''artifacts'', JArr (map (artifact_descriptor sha) (ms_artifacts (mm_shared st))))]))))))"

definition trace_file :: "string \<times> 'p product_runtime \<Rightarrow> (string \<times> jobj list) res" where
  "trace_file entry = rbind (contract_of (snd entry)) (\<lambda>c. Inr (trace_name c, or_trace (pr_risk (snd entry))))"

section \<open>The run\<close>

definition start_run :: "'p process \<Rightarrow> 'p \<Rightarrow> preflight \<Rightarrow> ('p mm_state \<times> int) res" where
  "start_run step p0 pf =
     rbind (start_runtimes step p0 pf) (\<lambda>runtimes.
     rbind (res_fold (push_record (pf_features pf)) \<lparr>mm_shared = shared_init, mm_runtimes = runtimes\<rparr> (pf_records pf)) (\<lambda>st.
     rbind (terminal_time (pf_records pf)) (\<lambda>terminal.
     Inr (st, terminal))))"

definition finish_run ::
  "'p process \<Rightarrow> (string \<Rightarrow> string) \<Rightarrow> mm_config \<Rightarrow> int \<Rightarrow> 'p mm_state \<Rightarrow> mm_result res" where
  "finish_run step sha cfg terminal st =
     rbind (finish_products step cfg terminal st) (\<lambda>st1.
     rbind (res_map trace_file (mm_runtimes st1)) (\<lambda>traces.
     rbind (result_manifest step sha cfg st1) (\<lambda>manifest.
     rbind (validate_historical_schema (mc_valid cfg) (JObj manifest) ''backtest-result-manifest-v4.schema.json''
              ''BacktestResultSchemaMismatch'') (\<lambda>_.
     Inr \<lparr>rs_artifacts = ms_artifacts (mm_shared st1), rs_traces = traces, rs_manifest = manifest\<rparr>))))"

text \<open>\<open>None\<close>: the loop over the actions does not return.\<close>

definition run_backtest_v4 ::
  "'p process \<Rightarrow> 'p \<Rightarrow> (string \<Rightarrow> string) \<Rightarrow> validator \<Rightarrow> repository \<Rightarrow> string \<Rightarrow> mm_result res option" where
  "run_backtest_v4 step p0 sha valid repo config_text =
     (case rbind (run_preflight sha valid repo config_text) (\<lambda>pf.
           rbind (start_run step p0 pf) (\<lambda>(st, terminal). Inr (pf, st, terminal))) of
        Inl e \<Rightarrow> Some (Inl e)
      | Inr (pf, st, terminal) \<Rightarrow>
          let cfg = \<lparr>mc_preflight = pf, mc_valid = valid\<rparr> in
          map_option (\<lambda>r. rbind r (finish_run step sha cfg terminal)) (action_loop step cfg terminal st))"

section \<open>Verification of a result\<close>

record result_directory =
  rd_inside :: "string \<Rightarrow> bool"
  rd_file :: "string \<Rightarrow> string option"

definition jsonl_rows :: "string \<Rightarrow> jobj list res" where
  "jsonl_rows text = res_map jsonl_object (text_lines text)"

definition verified_file ::
  "result_directory \<Rightarrow> (string \<Rightarrow> string) \<Rightarrow> string \<Rightarrow> json \<Rightarrow> json \<Rightarrow> int res" where
  "verified_file dir sha path expected_sha expected_rows =
     rbind (of_option (HistoricalDataError ''BacktestResultHashMismatch'') (rd_file dir path)) (\<lambda>text.
     rbind (require ''BacktestResultHashMismatch'' (expected_sha = JStr (sha text))) (\<lambda>_.
     rbind (jsonl_rows text) (\<lambda>rows.
     rbind (require ''BacktestResultCountMismatch'' (py_eq expected_rows (JInt (int (length rows))))) (\<lambda>_.
     Inr (int (length rows))))))"

definition verify_artifact ::
  "result_directory \<Rightarrow> (string \<Rightarrow> string) \<Rightarrow> (string \<times> int) list \<Rightarrow> json \<Rightarrow> (string \<times> int) list res" where
  "verify_artifact dir sha counts artifact =
     rbind (of_option AttributeError (as_obj artifact)) (\<lambda>a.
     let path = py_str (oget_default a ''path'' (JStr [])) in
     rbind (require ''BacktestResultPathUnsafe'' (rd_inside dir path)) (\<lambda>_.
     rbind (verified_file dir sha path (oget a ''sha256'') (oget a ''row_count'')) (\<lambda>n.
     rbind (oindex a ''name'') (\<lambda>name.
     Inr (sset counts (py_str name) n)))))"

definition count_item :: "string \<times> json \<Rightarrow> (string \<times> int) res" where
  "count_item kv = (case kv of (k, JInt n) \<Rightarrow> Inr (k, n) | _ \<Rightarrow> Inl TypeError)"

definition verify_product ::
  "result_directory \<Rightarrow> (string \<Rightarrow> string) \<Rightarrow> (string \<times> int) list \<Rightarrow> json \<Rightarrow> (string \<times> int) list res" where
  "verify_product dir sha summed product =
     rbind (of_option AttributeError (as_obj product)) (\<lambda>p.
     rbind (of_option TypeError (as_obj (oget_default p ''counts'' (JObj [])))) (\<lambda>counts.
     rbind (res_map count_item counts) (\<lambda>items.
     rbind (of_option AttributeError (as_obj (oget_default p ''risk_trace'' (JObj [])))) (\<lambda>trace.
     rbind (verified_file dir sha (py_str (oget_default trace ''path'' (JStr []))) (oget trace ''sha256'') (oget trace ''row_count'')) (\<lambda>_.
     Inr (counter_update summed items))))))"

definition counts_agree :: "(string \<times> int) list \<Rightarrow> (string \<times> int) list \<Rightarrow> json \<Rightarrow> bool res" where
  "counts_agree counts summed aggregate =
     (if \<not> py_eq (sorted_counts summed) aggregate then Inr False
      else
        rbind (of_option AttributeError (as_obj aggregate)) (\<lambda>a.
        Inr (list_all (\<lambda>(name, _). py_eq (JInt (counter_get counts name)) (oget_default a name (JInt 0))) artifact_schemas)))"

definition verify_backtest_v4 ::
  "(string \<Rightarrow> string) \<Rightarrow> validator \<Rightarrow> repository \<Rightarrow> string \<Rightarrow> result_directory \<Rightarrow> jobj res" where
  "verify_backtest_v4 sha valid repo config_text dir =
     rbind (run_preflight sha valid repo config_text) (\<lambda>pf.
     rbind (of_option (HistoricalDataError ''BacktestResultMissing'') (rd_file dir ''manifest.json'')) (\<lambda>text.
     rbind (read_json text) (\<lambda>manifest.
     rbind (validate_historical_schema valid (JObj manifest) ''backtest-result-manifest-v4.schema.json''
              ''BacktestResultSchemaMismatch'') (\<lambda>_.
     rbind (require ''BacktestResultLineageMismatch''
        (oget manifest ''config_sha256'' = JStr (pf_config_sha256 pf) \<and>
         py_eq (oget manifest ''inputs'') (oget (pf_config pf) ''inputs''))) (\<lambda>_.
     rbind (res_map (\<lambda>item. jindex item ''product_identity'') (pf_products pf)) (\<lambda>declared.
     rbind (iter_value (oget_default manifest ''products'' (JArr []))) (\<lambda>products.
     rbind (res_map (\<lambda>item. jget item ''product_identity'') products) (\<lambda>found.
     rbind (require ''BacktestResultLineageMismatch'' (py_eq (JArr declared) (JArr found))) (\<lambda>_.
     rbind (iter_value (oget_default manifest ''artifacts'' (JArr []))) (\<lambda>artifacts.
     rbind (res_fold (verify_artifact dir sha) [] artifacts) (\<lambda>counts.
     rbind (res_fold (verify_product dir sha) [] products) (\<lambda>summed.
     rbind (counts_agree counts summed (oget manifest ''aggregate_counts'')) (\<lambda>agree.
     rbind (require ''BacktestResultCountMismatch'' agree) (\<lambda>_.
     Inr [(''schema'', JStr ''pmm.backtest_result_manifest.v4''), (''config_sha256'', JStr (pf_config_sha256 pf)),
          (''result_manifest_sha256'', JStr (sha text)), (''verified'', JBool True)]))))))))))))))"

end
