(* ===== verification/Multi_Loop.thy ===== *)
theory Multi_Loop
  imports Multi_Run "HOL-Library.Multiset"
begin

text \<open>
  The loop over the actions of the multi-market backtest. The locale \<open>agenda_loop\<close> is the contract of a
  loop that takes one item of its agenda per round and may add items of smaller rank: it returns. What
  \<open>push\<close> and \<open>emit\<close> do is described by \<open>progress\<close>: new actions belong to later stages and are not earlier,
  new artifacts carry the time of the action that writes them.
\<close>

section \<open>Loops over an agenda\<close>

locale agenda_loop =
  fixes loop :: "'s \<Rightarrow> 'r option"
    and turn :: "'s \<Rightarrow> 's + 'r"
    and agenda :: "'s \<Rightarrow> 'e list"
    and rank :: "'e \<Rightarrow> nat"
  assumes loop_turn: "loop s = (case turn s of Inl s' \<Rightarrow> loop s' | Inr r \<Rightarrow> Some r)"
    and turn_agenda: "turn s = Inl s' \<Longrightarrow>
      \<exists>e rest new. mset (agenda s) = add_mset e rest \<and> mset (agenda s') = rest + mset new \<and>
        (\<forall>x \<in> set new. rank x < rank e)"
begin

definition weight :: "'s \<Rightarrow> nat multiset" where
  "weight s = image_mset rank (mset (agenda s))"

lemma turn_weight:
  assumes "turn s = Inl s'"
  shows "(weight s', weight s) \<in> mult less_than"
proof -
  from turn_agenda [OF assms] obtain e rest new where
    s: "weight s = image_mset rank rest + {#rank e#}" and s': "weight s' = image_mset rank rest + image_mset rank (mset new)"
    and less: "\<forall>x \<in> set new. rank x < rank e"
    by (auto simp: weight_def)
  show ?thesis unfolding s s' by (rule one_step_implies_mult) (use less in auto)
qed

lemma returns: "\<exists>r. loop s = Some r"
proof (induction "weight s" arbitrary: s rule: wf_induct_rule [OF wf_mult [OF wf_less_than]])
  case (1 s)
  show ?case
  proof (cases "turn s")
    case (Inl s')
    with 1 [OF turn_weight [OF Inl]] show ?thesis by (simp add: loop_turn [of s])
  qed (simp add: loop_turn [of s])
qed

lemma ends_in:
  assumes keep: "\<And>s s'. ok s \<Longrightarrow> turn s = Inl s' \<Longrightarrow> ok s'" and "ok s" and "loop s = Some r"
  shows "\<exists>s'. ok s' \<and> turn s' = Inr r"
  using assms(2,3)
proof (induction "weight s" arbitrary: s rule: wf_induct_rule [OF wf_mult [OF wf_less_than]])
  case (1 s)
  show ?case
  proof (cases "turn s")
    case (Inl s')
    with 1(1) [OF turn_weight [OF Inl] keep [OF 1(2) Inl]] 1(3) show ?thesis by (simp add: loop_turn [of s])
  next
    case (Inr r')
    with 1(2,3) show ?thesis by (auto simp: loop_turn [of s])
  qed
qed

end

section \<open>The log of the artifacts\<close>

text \<open>The artifact files are the parts of one log, one for each name.\<close>

definition split_log :: "(string \<times> jobj) list \<Rightarrow> (string \<times> jobj list) list" where
  "split_log entries = map (\<lambda>(name, _). (name, map snd (filter (\<lambda>e. fst e = name) entries))) artifact_schemas"

definition log_of :: "mm_shared \<Rightarrow> (string \<times> jobj) list \<Rightarrow> bool" where
  "log_of sh entries \<longleftrightarrow> ms_ordinal sh = int (length entries) \<and> ms_artifacts sh = split_log entries \<and>
     (\<forall>i < length entries. oget (snd (entries ! i)) ''artifact_ordinal'' = JInt (int i + 1))"

lemma append_artifact_log: "append_artifact name r (split_log entries) = split_log (entries @ [(name, r)])"
  by (simp add: append_artifact_def split_log_def case_prod_beta)

lemma log_of_init: "log_of shared_init []"
  by (simp add: log_of_def shared_init_def split_log_def case_prod_beta)

definition row_time :: "string \<times> jobj \<Rightarrow> json" where
  "row_time e = oget (snd e) ''effective_time_utc_ns''"

definition written :: "int \<Rightarrow> mm_shared \<Rightarrow> mm_shared \<Rightarrow> bool" where
  "written time sh sh' \<longleftrightarrow>
     (\<forall>entries. log_of sh entries \<longrightarrow> (\<exists>more. log_of sh' (entries @ more) \<and> (\<forall>e \<in> set more. row_time e = JInt time)))"

text \<open>New actions are for later: not earlier in time, for the same record, at a later stage.\<close>

definition later :: "int \<Rightarrow> int \<Rightarrow> int \<Rightarrow> action_key \<times> action \<Rightarrow> bool" where
  "later time causal s e \<longleftrightarrow> (case e of ((t, c, k, _), act) \<Rightarrow> time \<le> t \<and> c = causal \<and> k = stage act \<and> s < k)"

definition scheduled :: "(action_key \<times> action \<Rightarrow> bool) \<Rightarrow> mm_shared \<Rightarrow> mm_shared \<Rightarrow> bool" where
  "scheduled P sh sh' \<longleftrightarrow>
     (\<exists>new. mset (ms_heap sh') = mset (ms_heap sh) + mset new \<and> (\<forall>e \<in> set new. P e)) \<and>
     (sorted (map fst (ms_heap sh)) \<longrightarrow> sorted (map fst (ms_heap sh')))"

definition progress :: "int \<Rightarrow> int \<Rightarrow> int \<Rightarrow> 'p mm_cell \<Rightarrow> 'p mm_cell \<Rightarrow> bool" where
  "progress time causal s c c' \<longleftrightarrow> written time (fst c) (fst c') \<and> scheduled (later time causal s) (fst c) (fst c')"

lemma written_refl [simp]: "written time sh sh"
  by (auto simp: written_def intro: exI [of _ "[]"])

lemma written_trans: "written time a b \<Longrightarrow> written time b c \<Longrightarrow> written time a c"
  unfolding written_def
proof (intro allI impI)
  fix entries
  assume ab: "\<forall>entries. log_of a entries \<longrightarrow> (\<exists>more. log_of b (entries @ more) \<and> (\<forall>e \<in> set more. row_time e = JInt time))"
    and bc: "\<forall>entries. log_of b entries \<longrightarrow> (\<exists>more. log_of c (entries @ more) \<and> (\<forall>e \<in> set more. row_time e = JInt time))"
    and entries: "log_of a entries"
  from ab entries obtain xs where xs: "log_of b (entries @ xs)" "\<forall>e \<in> set xs. row_time e = JInt time" by blast
  from bc xs(1) obtain ys where "log_of c ((entries @ xs) @ ys)" "\<forall>e \<in> set ys. row_time e = JInt time" by blast
  with xs(2) show "\<exists>more. log_of c (entries @ more) \<and> (\<forall>e \<in> set more. row_time e = JInt time)"
    by (intro exI [of _ "xs @ ys"]) auto
qed

lemma scheduled_refl [simp]: "scheduled P sh sh"
  by (auto simp: scheduled_def intro: exI [of _ "[]"])

lemma scheduled_trans: "scheduled P a b \<Longrightarrow> scheduled P b c \<Longrightarrow> scheduled P a c"
  unfolding scheduled_def
proof (elim conjE exE, intro conjI)
  fix xs ys
  assume "mset (ms_heap b) = mset (ms_heap a) + mset xs" "mset (ms_heap c) = mset (ms_heap b) + mset ys"
    "\<forall>e \<in> set xs. P e" "\<forall>e \<in> set ys. P e"
  then show "\<exists>new. mset (ms_heap c) = mset (ms_heap a) + mset new \<and> (\<forall>e \<in> set new. P e)"
    by (intro exI [of _ "xs @ ys"]) auto
qed simp

lemma progress_refl: "fst c' = fst c \<Longrightarrow> progress time causal s c c'"
  by (simp add: progress_def)

lemma progress_trans: "progress time causal s a b \<Longrightarrow> progress time causal s b c \<Longrightarrow> progress time causal s a c"
  unfolding progress_def by (blast intro: written_trans scheduled_trans)

text \<open>Changes that touch neither the artifacts nor the heap.\<close>

definition same_log :: "mm_shared \<Rightarrow> mm_shared \<Rightarrow> bool" where
  "same_log sh sh' \<longleftrightarrow> ms_heap sh' = ms_heap sh \<and> ms_ordinal sh' = ms_ordinal sh \<and> ms_artifacts sh' = ms_artifacts sh"

lemma progress_start: "progress time causal s c c' \<Longrightarrow> same_log (fst c0) (fst c) \<Longrightarrow> progress time causal s c0 c'"
  by (simp add: progress_def same_log_def written_def scheduled_def log_of_def)

lemma progress_fold:
  assumes "\<And>c x c'. x \<in> set xs \<Longrightarrow> f c x = Inr c' \<Longrightarrow> progress time causal s c c'" and "res_fold f c xs = Inr c'"
  shows "progress time causal s c c'"
  using assms
proof (induction xs arbitrary: c)
  case Nil
  then show ?case by (simp add: progress_refl)
next
  case (Cons x xs)
  from Cons.prems(2) obtain c1 where s: "f c x = Inr c1" "res_fold f c1 xs = Inr c'" by (auto simp: rbind_eq_Inr)
  have "progress time causal s c c1" by (rule Cons.prems(1) [OF _ s(1)]) simp
  moreover have "progress time causal s c1 c'" by (rule Cons.IH [OF Cons.prems(1) s(2)]) simp_all
  ultimately show ?case by (rule progress_trans)
qed

section \<open>\<open>push\<close> and \<open>emit\<close>\<close>

lemma push_progress:
  assumes "push act t causal c = Inr c'" and "time \<le> t" and "s < stage act"
  shows "progress time causal s c c'"
proof -
  from assms(1) obtain g l where heap: "ms_heap (fst c') =
      insort_key fst ((t, causal, stage act, pr_ordinal (snd c), l, g), act) (ms_heap (fst c))"
    and entries: "ms_ordinal (fst c') = ms_ordinal (fst c)" "ms_artifacts (fst c') = ms_artifacts (fst c)"
    by (cases c) (auto simp: push_def rbind_eq_Inr Let_def)
  have "written time (fst c) (fst c')"
    using entries by (auto simp: written_def log_of_def intro: exI [of _ "[]"])
  moreover have "scheduled (later time causal s) (fst c) (fst c')"
    unfolding scheduled_def heap using assms(2,3)
    by (intro conjI exI [of _ "[((t, causal, stage act, pr_ordinal (snd c), l, g), act)]"])
      (simp_all add: later_def sorted_insort_key)
  ultimately show ?thesis by (simp add: progress_def)
qed

lemma artifact_record_fields:
  assumes "artifact_record cfg name rt n time row vs = Inr r"
  shows "oget r ''artifact_ordinal'' = JInt n" "oget r ''effective_time_utc_ns'' = JInt time"
  using assms by (auto simp: artifact_record_def rbind_eq_Inr Let_def oget_def)

lemma emit_progress:
  assumes "emit cfg name time row vs c = Inr c'"
  shows "progress time causal s c c'"
proof -
  from assms obtain r where r: "artifact_record cfg name (snd c) (ms_ordinal (fst c) + 1) time row vs = Inr r"
    and sh: "fst c' = (fst c)\<lparr>ms_ordinal := ms_ordinal (fst c) + 1, ms_artifacts := append_artifact name r (ms_artifacts (fst c))\<rparr>"
    by (cases c) (auto simp: emit_def rbind_eq_Inr Let_def)
  have "written time (fst c) (fst c')"
    unfolding written_def
  proof (intro allI impI)
    fix entries assume "log_of (fst c) entries"
    then have "log_of (fst c') (entries @ [(name, r)])"
      using artifact_record_fields(1) [OF r] by (auto simp: log_of_def sh append_artifact_log nth_append less_Suc_eq)
    then show "\<exists>more. log_of (fst c') (entries @ more) \<and> (\<forall>e \<in> set more. row_time e = JInt time)"
      using artifact_record_fields(2) [OF r] by (intro exI [of _ "[(name, r)]"]) (simp add: row_time_def)
  qed
  then show ?thesis by (simp add: progress_def scheduled_def sh exI [of _ "[]"])
qed

lemma emit_risk_progress:
  "emit_risk step cfg time row op i result c = Inr c' \<Longrightarrow> progress time causal s c c'"
  unfolding emit_risk_def case_prod_beta rbind_eq_Inr
  by (elim exE conjE) (rule progress_start [OF emit_progress], assumption, simp add: same_log_def)

lemma emit_cancellation_progress:
  "emit_cancellation cfg time row i reason c = Inr c' \<Longrightarrow> progress time causal s c c'"
  unfolding emit_cancellation_def by (rule emit_progress)

lemma emit_rejection_progress:
  "emit_rejection cfg time row st reason c = Inr c' \<Longrightarrow> progress time causal s c c'"
  unfolding emit_rejection_def by (rule emit_progress)

lemma emit_withdrawal_progress:
  "emit_withdrawal step cfg time row op i reason c = Inr c' \<Longrightarrow> progress time causal s c c'"
  by (cases row) (auto simp: emit_withdrawal_def rbind_eq_Inr progress_refl
    intro: progress_trans emit_risk_progress emit_cancellation_progress)

lemma emit_cancelled_progress:
  "emit_cancelled step cfg time row op i reason c = Inr c' \<Longrightarrow> progress time causal s c c'"
  by (auto simp: emit_cancelled_def rbind_eq_Inr intro: progress_trans emit_risk_progress emit_cancellation_progress)

end
