(* ===== verification/Multi_Handlers.thy ===== *)
theory Multi_Handlers
  imports Multi_Loop
begin

text \<open>
  The handlers of the multi-market backtest, one by one: the ways each of them may go (\<open>..._cases\<close>) and
  that each makes \<open>progress\<close>.
\<close>

section \<open>Withdrawals and transitions\<close>

lemma withdraw_pending_progress:
  "withdraw_pending step cfg time row reason c o' = Inr c' \<Longrightarrow> progress time causal s c c'"
  unfolding withdraw_pending_def case_prod_beta rbind_eq_Inr
  by (elim exE conjE) (rule progress_start [OF emit_withdrawal_progress], assumption, simp add: same_log_def)

lemma withdraw_live_progress:
  "withdraw_live step cfg time row reason c o' = Inr c' \<Longrightarrow> progress time causal s c c'"
  unfolding withdraw_live_def case_prod_beta rbind_eq_Inr
  by (elim exE conjE) (rule progress_start [OF emit_withdrawal_progress], assumption, simp add: same_log_def)

lemma withdraw_all_progress:
  assumes "withdraw_all step cfg time row reason c = Inr c'"
  shows "progress time causal s c c'"
proof -
  from assms obtain c1 where p: "res_fold (withdraw_pending step cfg time row reason) c (map snd (pr_pending (snd c))) = Inr c1"
    and l: "res_fold (withdraw_live step cfg time row reason) c1 (map snd (pr_live (snd c1))) = Inr c'"
    by (auto simp: withdraw_all_def rbind_eq_Inr)
  have "progress time causal s c c1" by (rule progress_fold [OF _ p]) (rule withdraw_pending_progress)
  moreover have "progress time causal s c1 c'" by (rule progress_fold [OF _ l]) (rule withdraw_live_progress)
  ultimately show ?thesis by (rule progress_trans)
qed

lemma segment_action_progress:
  assumes "segment_action step cfg time r c = Inr c'"
  shows "progress time causal s c c'"
proof -
  from assms have "fst c' = fst c \<or> (\<exists>row rt. withdraw_all step cfg time row ''segment_transition'' c = Inr (fst c', rt))"
    unfolding segment_action_def case_prod_beta rbind_eq_Inr Let_def
    by (elim exE conjE) (auto split: if_splits simp: rbind_eq_Inr)
  then show ?thesis
  proof
    assume "\<exists>row rt. withdraw_all step cfg time row ''segment_transition'' c = Inr (fst c', rt)"
    then obtain row rt where "withdraw_all step cfg time row ''segment_transition'' c = Inr (fst c', rt)" by blast
    from withdraw_all_progress [OF this] show ?thesis by (simp add: progress_def)
  qed (rule progress_refl)
qed

lemma nonnegative_int_Inr: "nonnegative_int v = Inr i \<Longrightarrow> 0 \<le> i"
  by (auto simp: nonnegative_int_def rbind_eq_Inr)

lemma positive_int_Inr: "positive_int v = Inr i \<Longrightarrow> 0 < i"
  by (auto simp: positive_int_def rbind_eq_Inr)

lemma feature_action_cases:
  assumes "feature_action latency strategy time causal row (sh, rt) = Inr (sh', rt')"
  shows "sh' = sh \<and> rt' = rt\<lparr>pr_last_row := Some row\<rparr> \<or>
    (\<exists>v delay cell1 interval. nonnegative_int v = Inr delay \<and>
      push (Decision_Action row) (time + delay) causal (sh, rt\<lparr>pr_last_row := Some row\<rparr>) = Inr cell1 \<and>
      sh' = fst cell1 \<and> rt' = (snd cell1)\<lparr>pr_next_decision := time + interval\<rparr>)"
  using assms unfolding feature_action_def
  by (simp add: Let_def rbind_eq_Inr case_prod_beta split: if_splits) blast

lemma feature_action_progress:
  assumes "feature_action latency strategy time causal row c = Inr c'" and "s < 5"
  shows "progress time causal s c c'"
proof -
  obtain sh rt sh' rt' where c: "c = (sh, rt)" "c' = (sh', rt')" by (cases c, cases c')
  from feature_action_cases [OF assms(1) [unfolded c]] show ?thesis
  proof (elim disjE exE conjE)
    fix v delay cell1 interval
    assume "nonnegative_int v = Inr delay" and sh': "sh' = fst cell1"
      and p: "push (Decision_Action row) (time + delay) causal (sh, rt\<lparr>pr_last_row := Some row\<rparr>) = Inr cell1"
    have "progress time causal s (sh, rt\<lparr>pr_last_row := Some row\<rparr>) cell1"
      by (rule push_progress [OF p]) (use nonnegative_int_Inr [OF \<open>nonnegative_int v = Inr delay\<close>] assms(2) in simp_all)
    then show ?thesis by (simp add: progress_def c sh')
  qed (simp add: c progress_refl)
qed

lemma touch_order_progress:
  assumes "touch_order latency time causal row r tp (m, c) o' = Inr (m', c')" and "s < 4"
  shows "progress time causal s c c'"
proof -
  from assms(1) consider "c' = c"
    | delay q where "0 \<le> delay" "push (Fill_Action row (bo_id o') q r) (time + delay) causal c = Inr c'"
    by (auto simp: touch_order_def rbind_eq_Inr dest: nonnegative_int_Inr split: if_splits)
  then show ?thesis
  proof cases
    case 1
    then show ?thesis by (simp add: progress_refl)
  next
    case 2
    show ?thesis by (rule push_progress [OF 2(2)]) (use 2(1) assms(2) in simp_all)
  qed
qed

lemma touch_orders_progress:
  "res_fold (touch_order latency time causal row r tp) (m, c) os = Inr (m', c') \<Longrightarrow> s < 4 \<Longrightarrow> progress time causal s c c'"
proof (induction os arbitrary: m c)
  case Nil
  then show ?case by (simp add: progress_refl)
next
  case (Cons o' os)
  then obtain m1 c1 where "touch_order latency time causal row r tp (m, c) o' = Inr (m1, c1)"
    and rest: "res_fold (touch_order latency time causal row r tp) (m1, c1) os = Inr (m', c')" by (auto simp: rbind_eq_Inr)
  from touch_order_progress [OF this(1) Cons.prems(2)] Cons.IH [OF rest Cons.prems(2)] show ?case by (rule progress_trans)
qed

lemma trade_action_progress:
  assumes "trade_action cfg latency time causal row r c = Inr c'" and "s < 4"
  shows "progress time causal s c c'"
proof -
  from assms(1) consider "c' = c"
    | m tp os m' where "res_fold (touch_order latency time causal row r tp) (m, c) os = Inr (m', c')"
    by (auto simp: trade_action_def rbind_eq_Inr split: if_splits)
  then show ?thesis by cases (auto intro: progress_refl touch_orders_progress assms(2))
qed

lemma fill_action_cases:
  assumes "fill_action step cfg time row i amount r (sh, rt) = Inr (sh', rt')"
  shows "sh' = sh \<and> rt' = rt \<or>
    (\<exists>o' q left risk cell1 vs rt2. sget (pr_live rt) i = Some o' \<and>
      oracle_apply_fill step (pr_risk rt) (plain_order (o'\<lparr>bo_remaining := left\<rparr>)) q (Some time) = Inr risk \<and>
      emit_risk step cfg time row ''fill'' (bo_id o') ''applied''
        (sh, rt\<lparr>pr_risk := risk, pr_live := sset (pr_live rt) i (o'\<lparr>bo_remaining := left\<rparr>)\<rparr>) = Inr cell1 \<and>
      emit cfg ''fills'' time row vs cell1 = Inr (sh', rt2) \<and>
      (rt' = rt2 \<or> rt' = rt2\<lparr>pr_live := spop (pr_live rt2) (bo_id o')\<rparr>))"
proof (cases "sget (pr_live rt) i")
  case None
  with assms show ?thesis by (simp add: fill_action_def)
next
  case (Some o')
  show ?thesis
  proof (cases "Some (mo_segment o') = pr_segment rt")
    case False
    with assms Some show ?thesis by (simp add: fill_action_def)
  next
    case True
    from assms have "sh' = sh \<and> rt' = rt \<or>
      (\<exists>q left risk cell1 vs rt2. oracle_apply_fill step (pr_risk rt) (plain_order (o'\<lparr>bo_remaining := left\<rparr>)) q (Some time) = Inr risk \<and>
        emit_risk step cfg time row ''fill'' (bo_id o') ''applied''
          (sh, rt\<lparr>pr_risk := risk, pr_live := sset (pr_live rt) i (o'\<lparr>bo_remaining := left\<rparr>)\<rparr>) = Inr cell1 \<and>
        emit cfg ''fills'' time row vs cell1 = Inr (sh', rt2) \<and>
        (rt' = rt2 \<or> rt' = rt2\<lparr>pr_live := spop (pr_live rt2) (bo_id o')\<rparr>))"
      using Some True unfolding fill_action_def
      by (auto simp: rbind_eq_Inr Let_def case_prod_beta split: if_splits) blast+
    with Some show ?thesis by blast
  qed
qed

section \<open>Decisions and commands\<close>

lemma decision_action_cases:
  assumes "decision_action cfg latency strategy time causal row c = Inr c'"
  shows "\<exists>vs c1. emit cfg ''decisions'' time row vs
      ((fst c)\<lparr>ms_next_decision := ms_next_decision (fst c) + 1\<rparr>, snd c) = Inr c1 \<and>
    ((\<exists>reason. emit_rejection cfg time row ''decision'' reason c1 = Inr c') \<or>
     (\<exists>c2 v delay bid ask. res_fold (push_replacement latency time causal row) c1
         (map snd (pr_pending (snd c1)) @ map snd (pr_live (snd c1))) = Inr c2 \<and> nonnegative_int v = Inr delay \<and>
       res_fold (push_command (time + delay) causal row) c2 [(''buy'', bid), (''sell'', ask)] = Inr c'))"
proof -
  from assms obtain vs c1 where e: "emit cfg ''decisions'' time row vs
      ((fst c)\<lparr>ms_next_decision := ms_next_decision (fst c) + 1\<rparr>, snd c) = Inr c1"
    and rest: "(\<exists>reason. emit_rejection cfg time row ''decision'' reason c1 = Inr c') \<or>
     (\<exists>c2 v delay bid ask. res_fold (push_replacement latency time causal row) c1
         (map snd (pr_pending (snd c1)) @ map snd (pr_live (snd c1))) = Inr c2 \<and> nonnegative_int v = Inr delay \<and>
       res_fold (push_command (time + delay) causal row) c2 [(''buy'', bid), (''sell'', ask)] = Inr c')"
    unfolding decision_action_def Let_def rbind_eq_Inr
    by (elim exE conjE) (rule that, assumption, simp add: rbind_eq_Inr split: if_splits del: res_fold.simps, blast+)
  then show ?thesis by blast
qed

lemma push_replacement_progress:
  assumes "push_replacement latency time causal row c o' = Inr c'" and "s < 9"
  shows "progress time causal s c c'"
proof -
  from assms(1) obtain v delay where d: "nonnegative_int v = Inr delay"
    and p: "push (Cancel_Action row (bo_id o') ''quote_replacement'') (time + delay) causal c = Inr c'"
    unfolding push_replacement_def rbind_eq_Inr by blast
  show ?thesis by (rule push_progress [OF p]) (use nonnegative_int_Inr [OF d] assms(2) in simp_all)
qed

lemma push_command_progress:
  assumes "push_command arrival causal row c sp = Inr c'" and "time \<le> arrival" and "s < 6"
  shows "progress time causal s c c'"
  by (rule push_progress [OF assms(1) [unfolded push_command_def]]) (use assms(2,3) in simp_all)

lemma decision_action_progress:
  assumes "decision_action cfg latency strategy time causal row c = Inr c'" and "s < 6"
  shows "progress time causal s c c'"
proof -
  let ?c = "((fst c)\<lparr>ms_next_decision := ms_next_decision (fst c) + 1\<rparr>, snd c)"
  from decision_action_cases [OF assms(1)] obtain vs c1 where e: "emit cfg ''decisions'' time row vs ?c = Inr c1"
    and rest: "(\<exists>reason. emit_rejection cfg time row ''decision'' reason c1 = Inr c') \<or>
     (\<exists>c2 v delay bid ask. res_fold (push_replacement latency time causal row) c1
         (map snd (pr_pending (snd c1)) @ map snd (pr_live (snd c1))) = Inr c2 \<and> nonnegative_int v = Inr delay \<and>
       res_fold (push_command (time + delay) causal row) c2 [(''buy'', bid), (''sell'', ask)] = Inr c')"
    by blast
  from rest have "progress time causal s c1 c'"
  proof (elim disjE exE conjE)
    fix reason assume "emit_rejection cfg time row ''decision'' reason c1 = Inr c'"
    then show ?thesis by (rule emit_rejection_progress)
  next
    fix c2 v delay bid ask
    assume r: "res_fold (push_replacement latency time causal row) c1
        (map snd (pr_pending (snd c1)) @ map snd (pr_live (snd c1))) = Inr c2" and d: "nonnegative_int v = Inr delay"
      and q: "res_fold (push_command (time + delay) causal row) c2 [(''buy'', bid), (''sell'', ask)] = Inr c'"
    have "progress time causal s c1 c2"
      by (rule progress_fold [OF _ r]) (rule push_replacement_progress, assumption, use assms(2) in simp)
    moreover have "progress time causal s c2 c'"
      by (rule progress_fold [OF _ q]) (rule push_command_progress, assumption, use nonnegative_int_Inr [OF d] assms(2) in simp_all)
    ultimately show ?thesis by (rule progress_trans)
  qed
  then have "progress time causal s ?c c'" by (rule progress_trans [OF emit_progress [OF e]])
  then show ?thesis by (rule progress_start) (simp add: same_log_def)
qed

lemma command_action_cases:
  assumes "command_action cfg strategy time causal row side price (sh, rt) = Inr c'"
  shows "\<exists>o' vs c1. push (Risk_Action row o') time causal c1 = Inr c' \<and>
    emit cfg ''submitted-orders'' time row vs (sh\<lparr>ms_next_order := ms_next_order sh + 1\<rparr>, rt) = Inr c1 \<and>
    bo_id o' = ms_next_order sh \<and> mo_client o' = bo_id o' \<and>
    mo_segment o' = (case pr_segment rt of None \<Rightarrow> [] | Some s \<Rightarrow> s)"
  using assms unfolding command_action_def prod.case Let_def rbind_eq_Inr
  by (elim exE conjE) (intro exI conjI, assumption+, simp_all)

lemma command_action_progress:
  assumes "command_action cfg strategy time causal row side price c = Inr c'" and "s < 7"
  shows "progress time causal s c c'"
proof -
  obtain sh rt where c: "c = (sh, rt)" by (cases c)
  from command_action_cases [OF assms(1) [unfolded c]] obtain o' vs c1 where
    p: "push (Risk_Action row o') time causal c1 = Inr c'"
    and e: "emit cfg ''submitted-orders'' time row vs (sh\<lparr>ms_next_order := ms_next_order sh + 1\<rparr>, rt) = Inr c1" by blast
  have "progress time causal s c1 c'" by (rule push_progress [OF p]) (use assms(2) in simp_all)
  from progress_start [OF progress_trans [OF emit_progress [OF e] this]] show ?thesis
    by (simp add: c same_log_def)
qed

section \<open>Admission, acknowledgement and cancellation\<close>

lemma risk_action_cases:
  assumes "risk_action step cfg latency time causal row o' (sh, rt) = Inr c'"
  shows "\<exists>rejection risk result c1.
    oracle_admit step (pr_risk rt) (mo_client o') (bo_side o') (bo_remaining o') (bo_price o') time = Inr (rejection, risk) \<and>
    emit_risk step cfg time row ''admit'' (bo_id o') result (sh, rt\<lparr>pr_risk := risk\<rparr>) = Inr c1 \<and>
    ((\<exists>reason. rejection = Some reason \<and> emit_rejection cfg time row ''risk'' reason c1 = Inr c') \<or>
     (\<exists>v delay. rejection = None \<and> nonnegative_int v = Inr delay \<and>
        push (Ack_Action row (bo_id o')) (time + delay) causal
          (fst c1, (snd c1)\<lparr>pr_pending := sset (pr_pending (snd c1)) (bo_id o') o'\<rparr>) = Inr c'))"
proof -
  from assms obtain x c1 where a: "oracle_admit step (pr_risk rt) (mo_client o') (bo_side o')
      (bo_remaining o') (bo_price o') time = Inr x"
    and e: "emit_risk step cfg time row ''admit'' (bo_id o') (case fst x of None \<Rightarrow> ''approved'' | Some reason \<Rightarrow> reason)
      (sh, rt\<lparr>pr_risk := snd x\<rparr>) = Inr c1"
    and r: "(case fst x of
        None \<Rightarrow> rbind (rbind (jindex latency ''acknowledgement_ns'') nonnegative_int) (\<lambda>delay.
          push (Ack_Action row (bo_id o')) (time + delay) causal
            (fst c1, (snd c1)\<lparr>pr_pending := sset (pr_pending (snd c1)) (bo_id o') o'\<rparr>))
      | Some reason \<Rightarrow> emit_rejection cfg time row ''risk'' reason (fst c1, snd c1)) = Inr c'"
    unfolding risk_action_def case_prod_beta fst_conv snd_conv rbind_eq_Inr by blast
  obtain rejection risk where x: "x = (rejection, risk)" by (cases x)
  note a = a [unfolded x] and e = e [unfolded x fst_conv snd_conv] and rest = r [unfolded x fst_conv prod.collapse]
  from rest have "(\<exists>reason. rejection = Some reason \<and> emit_rejection cfg time row ''risk'' reason c1 = Inr c') \<or>
     (\<exists>v delay. rejection = None \<and> nonnegative_int v = Inr delay \<and>
        push (Ack_Action row (bo_id o')) (time + delay) causal
          (fst c1, (snd c1)\<lparr>pr_pending := sset (pr_pending (snd c1)) (bo_id o') o'\<rparr>) = Inr c')"
    by (cases rejection) (auto simp: rbind_eq_Inr)
  with a e show ?thesis by blast
qed

lemma risk_action_progress:
  assumes "risk_action step cfg latency time causal row o' c = Inr c'" and "s < 8"
  shows "progress time causal s c c'"
proof -
  obtain sh rt where c: "c = (sh, rt)" by (cases c)
  from risk_action_cases [OF assms(1) [unfolded c]] obtain rejection risk result c1 where
    e: "emit_risk step cfg time row ''admit'' (bo_id o') result (sh, rt\<lparr>pr_risk := risk\<rparr>) = Inr c1"
    and rest: "(\<exists>reason. rejection = Some reason \<and> emit_rejection cfg time row ''risk'' reason c1 = Inr c') \<or>
     (\<exists>v delay. rejection = None \<and> nonnegative_int v = Inr delay \<and>
        push (Ack_Action row (bo_id o')) (time + delay) causal
          (fst c1, (snd c1)\<lparr>pr_pending := sset (pr_pending (snd c1)) (bo_id o') o'\<rparr>) = Inr c')" by blast
  from rest have "progress time causal s c1 c'"
  proof (elim disjE exE conjE)
    fix reason assume "emit_rejection cfg time row ''risk'' reason c1 = Inr c'"
    then show ?thesis by (rule emit_rejection_progress)
  next
    fix v delay assume d: "nonnegative_int v = Inr delay"
      and p: "push (Ack_Action row (bo_id o')) (time + delay) causal
          (fst c1, (snd c1)\<lparr>pr_pending := sset (pr_pending (snd c1)) (bo_id o') o'\<rparr>) = Inr c'"
    have "progress time causal s (fst c1, (snd c1)\<lparr>pr_pending := sset (pr_pending (snd c1)) (bo_id o') o'\<rparr>) c'"
      by (rule push_progress [OF p]) (use nonnegative_int_Inr [OF d] assms(2) in simp_all)
    then show ?thesis by (simp add: progress_def)
  qed
  from progress_start [OF progress_trans [OF emit_risk_progress [OF e] this]] show ?thesis
    by (simp add: c same_log_def)
qed

lemma ack_action_cases:
  assumes "ack_action step cfg strategy time causal row i (sh, rt) = Inr c'"
  shows "c' = (sh, rt) \<or>
    (\<exists>o' risk. sget (pr_pending rt) i = Some o' \<and> Some (mo_segment o') \<noteq> pr_segment rt \<and>
       oracle_reject_pending step (pr_risk rt) (plain_order o') time = Inr risk \<and>
       emit_rejection cfg time row ''acknowledgement'' ''segment_changed''
         (sh, rt\<lparr>pr_pending := spop (pr_pending rt) i, pr_risk := risk\<rparr>) = Inr c') \<or>
    (\<exists>o' v lifetime o2 risk c1 vs c2. sget (pr_pending rt) i = Some o' \<and> positive_int v = Inr lifetime \<and>
       o2 = o'\<lparr>bo_active_at := time, bo_expires_at := time + lifetime\<rparr> \<and>
       oracle_acknowledge step (pr_risk rt) (plain_order o2) = Inr risk \<and>
       emit_risk step cfg time row ''acknowledge'' (bo_id o2) ''applied''
         (sh, rt\<lparr>pr_pending := spop (pr_pending rt) i, pr_risk := risk, pr_live := sset (pr_live rt) (bo_id o2) o2\<rparr>) = Inr c1 \<and>
       emit cfg ''acknowledgements'' time row vs c1 = Inr c2 \<and>
       push (Cancel_Action row (bo_id o2) ''logical_expiry'') (time + lifetime) causal c2 = Inr c')"
proof (cases "sget (pr_pending rt) i")
  case None
  with assms show ?thesis by (simp add: ack_action_def)
next
  case (Some o')
  show ?thesis
  proof (cases "Some (mo_segment o') = pr_segment rt")
    case False
    with assms Some show ?thesis by (auto simp: ack_action_def Let_def rbind_eq_Inr)
  next
    case True
    with assms Some have "\<exists>v lifetime o2 risk c1 vs c2. positive_int v = Inr lifetime \<and>
       o2 = o'\<lparr>bo_active_at := time, bo_expires_at := time + lifetime\<rparr> \<and>
       oracle_acknowledge step (pr_risk rt) (plain_order o2) = Inr risk \<and>
       emit_risk step cfg time row ''acknowledge'' (bo_id o2) ''applied''
         (sh, rt\<lparr>pr_pending := spop (pr_pending rt) i, pr_risk := risk, pr_live := sset (pr_live rt) (bo_id o2) o2\<rparr>) = Inr c1 \<and>
       emit cfg ''acknowledgements'' time row vs c1 = Inr c2 \<and>
       push (Cancel_Action row (bo_id o2) ''logical_expiry'') (time + lifetime) causal c2 = Inr c'"
      by (simp add: ack_action_def Let_def rbind_eq_Inr) blast
    with Some show ?thesis by blast
  qed
qed

lemma ack_action_progress:
  assumes "ack_action step cfg strategy time causal row i c = Inr c'" and "s < 9"
  shows "progress time causal s c c'"
proof -
  obtain sh rt where c: "c = (sh, rt)" by (cases c)
  from ack_action_cases [OF assms(1) [unfolded c]] show ?thesis
  proof (elim disjE exE conjE)
    fix risk
    assume "emit_rejection cfg time row ''acknowledgement'' ''segment_changed''
        (sh, rt\<lparr>pr_pending := spop (pr_pending rt) i, pr_risk := risk\<rparr>) = Inr c'"
    from progress_start [OF emit_rejection_progress [OF this]] show ?thesis by (simp add: c same_log_def)
  next
    fix v lifetime o2 risk c1 vs c2
    assume v: "positive_int v = Inr lifetime"
      and r: "emit_risk step cfg time row ''acknowledge'' (bo_id o2) ''applied''
         (sh, rt\<lparr>pr_pending := spop (pr_pending rt) i, pr_risk := risk, pr_live := sset (pr_live rt) (bo_id o2) o2\<rparr>) = Inr c1"
      and e: "emit cfg ''acknowledgements'' time row vs c1 = Inr c2"
      and p: "push (Cancel_Action row (bo_id o2) ''logical_expiry'') (time + lifetime) causal c2 = Inr c'"
    have "progress time causal s c2 c'" by (rule push_progress [OF p]) (use positive_int_Inr [OF v] assms(2) in simp_all)
    from progress_start [OF progress_trans [OF emit_risk_progress [OF r] progress_trans [OF emit_progress [OF e] this]]]
    show ?thesis by (simp add: c same_log_def)
  qed (simp add: c progress_refl)
qed

lemma cancel_action_cases:
  assumes "cancel_action step cfg time row i reason (sh, rt) = Inr c'"
  shows "c' = (sh, rt) \<or>
    (\<exists>o' risk. sget (pr_pending rt) i = Some o' \<and>
       oracle_reject_pending step (pr_risk rt) (plain_order o') time = Inr risk \<and>
       emit_cancelled step cfg time row ''command_reject'' (bo_id o') reason
         (sh, rt\<lparr>pr_risk := risk, pr_pending := spop (pr_pending rt) i\<rparr>) = Inr c') \<or>
    (\<exists>o' risk. sget (pr_live rt) i = Some o' \<and>
       oracle_cancel step (pr_risk rt) (plain_order o') reason (Some time) = Inr risk \<and>
       emit_cancelled step cfg time row ''cancel'' (bo_id o') reason
         (sh, rt\<lparr>pr_risk := risk, pr_live := spop (pr_live rt) i\<rparr>) = Inr c')"
proof (cases "sget (pr_pending rt) i")
  case None
  with assms show ?thesis by (cases "sget (pr_live rt) i") (auto simp: cancel_action_def rbind_eq_Inr)
next
  case (Some o')
  with assms show ?thesis by (auto simp: cancel_action_def rbind_eq_Inr)
qed

lemma cancel_action_progress:
  assumes "cancel_action step cfg time row i reason c = Inr c'"
  shows "progress time causal s c c'"
proof -
  obtain sh rt where c: "c = (sh, rt)" by (cases c)
  from cancel_action_cases [OF assms [unfolded c]] show ?thesis
  proof (elim disjE exE conjE)
    fix o' risk
    assume "emit_cancelled step cfg time row ''command_reject'' (bo_id o') reason
         (sh, rt\<lparr>pr_risk := risk, pr_pending := spop (pr_pending rt) i\<rparr>) = Inr c'"
    from progress_start [OF emit_cancelled_progress [OF this]] show ?thesis by (simp add: c same_log_def)
  next
    fix o' risk
    assume "emit_cancelled step cfg time row ''cancel'' (bo_id o') reason
         (sh, rt\<lparr>pr_risk := risk, pr_live := spop (pr_live rt) i\<rparr>) = Inr c'"
    from progress_start [OF emit_cancelled_progress [OF this]] show ?thesis by (simp add: c same_log_def)
  qed (simp add: c progress_refl)
qed

lemma fill_action_progress:
  assumes "fill_action step cfg time row i amount r c = Inr c'"
  shows "progress time causal s c c'"
proof -
  obtain sh rt sh' rt' where c: "c = (sh, rt)" "c' = (sh', rt')" by (cases c, cases c')
  from fill_action_cases [OF assms [unfolded c]] show ?thesis
  proof (elim disjE exE conjE)
    assume "sh' = sh" "rt' = rt"
    then show ?thesis by (simp add: c progress_refl)
  next
    fix o' q left risk cell1 vs rt2
    assume r: "emit_risk step cfg time row ''fill'' (bo_id o') ''applied''
        (sh, rt\<lparr>pr_risk := risk, pr_live := sset (pr_live rt) i (o'\<lparr>bo_remaining := left\<rparr>)\<rparr>) = Inr cell1"
      and e: "emit cfg ''fills'' time row vs cell1 = Inr (sh', rt2)"
    have "progress time causal s (sh, rt) (sh', rt2)"
      by (rule progress_start [OF progress_trans [OF emit_risk_progress [OF r] emit_progress [OF e]]]) (simp add: same_log_def)
    then show "progress time causal s c c'" by (simp add: c progress_def)
    then show "progress time causal s c c'" .
  qed
qed

end
