(* ===== verification/Multi_Order.thy ===== *)
theory Multi_Order
  imports Multi_Handlers
begin

text \<open>
  The order of a multi-market run: it returns, its actions are taken in the order of time, and its
  artifacts form one log in that order.
\<close>

section \<open>One action\<close>

lemma row_action_progress:
  "row_action step cfg latency strategy time causal act c = Inr c' \<Longrightarrow> progress time causal (stage act) c c'"
  by (cases act)
    (auto intro: feature_action_progress trade_action_progress fill_action_progress decision_action_progress
      command_action_progress risk_action_progress ack_action_progress cancel_action_progress)

lemma cell_action_cases:
  assumes "cell_action step cfg time causal act c = Inr c'"
  shows "(\<exists>r. act = Segment_Action r \<and> segment_action step cfg time r c = Inr c') \<or> c' = c \<or>
    (\<exists>row latency strategy. action_row act = Some row \<and>
       jindex2 (JObj row) ''segment_identity'' ''book_segment_id'' = Inr (segment_value (pr_segment (snd c))) \<and>
       row_action step cfg latency strategy time causal act c = Inr c')"
  using assms
  by (cases act) (simp_all add: cell_action_def rbind_eq_Inr del: row_action.simps split: if_splits, blast+)

lemma cell_action_progress:
  assumes "cell_action step cfg time causal act c = Inr c'"
  shows "progress time causal (stage act) c c'"
  using cell_action_cases [OF assms]
  by (elim disjE exE conjE) (simp_all add: segment_action_progress progress_refl row_action_progress)

lemma mm_action_shared:
  assumes "mm_action step cfg st ((t, causal, k), act) = Inr st'"
  shows "written t (mm_shared st) (mm_shared st') \<and> scheduled (later t causal (stage act)) (mm_shared st) (mm_shared st')"
proof -
  from assms obtain rt c' where "cell_action step cfg t causal act (mm_shared st, rt) = Inr c'" and "mm_shared st' = fst c'"
    by (auto simp: mm_action_def rbind_eq_Inr)
  with cell_action_progress [OF this(1)] show ?thesis by (simp add: progress_def)
qed

section \<open>The loop returns\<close>

definition loop_turn :: "'p process \<Rightarrow> mm_config \<Rightarrow> int \<Rightarrow> 'p mm_state \<Rightarrow> 'p mm_state + 'p mm_state res" where
  "loop_turn step cfg terminal st =
     (case ms_heap (mm_shared st) of
        [] \<Rightarrow> Inr (Inr st)
      | entry # rest \<Rightarrow>
          let st1 = st\<lparr>mm_shared := (mm_shared st)\<lparr>ms_heap := rest\<rparr>\<rparr> in
          if terminal < fst (fst entry) then Inr (Inr st1)
          else (case mm_action step cfg st1 entry of Inl e \<Rightarrow> Inr (Inl e) | Inr st2 \<Rightarrow> Inl st2))"

definition entry_rank :: "action_key \<times> action \<Rightarrow> nat" where
  "entry_rank e = nat (10 - stage (snd e))"

lemma stage_bound: "stage act < 10"
  by (cases act) simp_all

lemma loop_turn_agenda:
  assumes "loop_turn step cfg terminal st = Inl st'"
  shows "\<exists>e rest new. mset (ms_heap (mm_shared st)) = add_mset e rest \<and> mset (ms_heap (mm_shared st')) = rest + mset new \<and>
    (\<forall>x \<in> set new. entry_rank x < entry_rank e)"
proof -
  from assms obtain t causal k act rest where heap: "ms_heap (mm_shared st) = ((t, causal, k), act) # rest"
    and run: "mm_action step cfg (st\<lparr>mm_shared := (mm_shared st)\<lparr>ms_heap := rest\<rparr>\<rparr>) ((t, causal, k), act) = Inr st'"
    by (auto simp: loop_turn_def Let_def split: list.splits if_splits sum.splits)
  from mm_action_shared [OF run] obtain new where "mset (ms_heap (mm_shared st')) = mset rest + mset new"
    and "\<forall>e \<in> set new. later t causal (stage act) e" by (auto simp: scheduled_def)
  moreover have "entry_rank e < entry_rank ((t, causal, k), act)" if "later t causal (stage act) e" for e
    using that stage_bound [of act] by (auto simp: later_def entry_rank_def split: prod.splits)
  ultimately show ?thesis using heap by (intro exI [of _ "((t, causal, k), act)"] exI [of _ "mset rest"] exI [of _ new]) simp
qed

interpretation actions: agenda_loop "action_loop step cfg terminal" "loop_turn step cfg terminal" "\<lambda>st. ms_heap (mm_shared st)" entry_rank
  for step :: "'p process" and cfg terminal
proof
  fix st :: "'p mm_state"
  show "action_loop step cfg terminal st =
      (case loop_turn step cfg terminal st of Inl s' \<Rightarrow> action_loop step cfg terminal s' | Inr r \<Rightarrow> Some r)"
    by (subst action_loop.simps) (simp add: loop_turn_def Let_def split: list.split sum.split)
qed (rule loop_turn_agenda)

section \<open>The log of a run\<close>

text \<open>Everything so far was written at or before everything that is still to do, and by the end of the run.\<close>

definition in_order :: "int \<Rightarrow> mm_shared \<Rightarrow> (string \<times> jobj) list \<Rightarrow> int list \<Rightarrow> bool" where
  "in_order terminal sh entries clocks \<longleftrightarrow>
     log_of sh entries \<and> map row_time entries = map JInt clocks \<and> sorted clocks \<and>
     (\<forall>t \<in> set clocks. t \<le> terminal \<and> (\<forall>e \<in> set (ms_heap sh). t \<le> fst (fst e))) \<and>
     sorted (map fst (ms_heap sh))"

lemma clocks_more: "\<forall>e \<in> set rows. row_time e = JInt t \<Longrightarrow> map row_time rows = map JInt (replicate (length rows) t)"
  by (induction rows) auto

lemma in_order_step:
  assumes ok: "in_order terminal sh entries clocks" and w: "written t sh sh'" and s: "scheduled P sh sh'"
    and P: "\<And>e. P e \<Longrightarrow> t \<le> fst (fst e)" and due: "\<forall>e \<in> set (ms_heap sh). t \<le> fst (fst e)"
    and t: "\<forall>t' \<in> set clocks. t' \<le> t" "t \<le> terminal"
  shows "\<exists>rows. in_order terminal sh' (entries @ rows) (clocks @ replicate (length rows) t)"
proof -
  from w ok obtain rows where rows: "log_of sh' (entries @ rows)" "\<forall>e \<in> set rows. row_time e = JInt t"
    by (auto simp: written_def in_order_def)
  from s obtain new where h: "mset (ms_heap sh') = mset (ms_heap sh) + mset new" and new: "\<forall>e \<in> set new. P e"
    and sorted: "sorted (map fst (ms_heap sh'))" using ok by (auto simp: scheduled_def in_order_def)
  from h have "set (ms_heap sh') = set (ms_heap sh) \<union> set new" by (metis set_mset_mset set_mset_union)
  with new P due have later: "\<forall>e \<in> set (ms_heap sh'). t \<le> fst (fst e)" by auto
  have "in_order terminal sh' (entries @ rows) (clocks @ replicate (length rows) t)"
    unfolding in_order_def
  proof (intro conjI ballI)
    show "log_of sh' (entries @ rows)" by (rule rows(1))
    show "map row_time (entries @ rows) = map JInt (clocks @ replicate (length rows) t)"
      using ok clocks_more [OF rows(2)] by (simp add: in_order_def)
    show "sorted (clocks @ replicate (length rows) t)" using ok t(1) by (auto simp: in_order_def sorted_append)
    show "sorted (map fst (ms_heap sh'))" by (rule sorted)
  next
    fix u e assume "u \<in> set (clocks @ replicate (length rows) t)"
    then have u: "u \<le> t" using t(1) by auto
    with t(2) show "u \<le> terminal" by simp
    assume "e \<in> set (ms_heap sh')"
    with later u show "u \<le> fst (fst e)" by fastforce
  qed
  then show ?thesis by blast
qed

lemma heap_head_least:
  assumes "sorted (map fst (e # rest :: (action_key \<times> action) list))" and "x \<in> set rest"
  shows "fst (fst e) \<le> fst (fst x)"
  using assms by (cases e, cases x) (fastforce simp: less_eq_prod_def)

lemma in_order_rest:
  assumes "in_order terminal sh entries clocks" and "ms_heap sh = e # rest"
  shows "in_order terminal (sh\<lparr>ms_heap := rest\<rparr>) entries clocks" "\<forall>t \<in> set clocks. t \<le> fst (fst e)"
    "\<forall>x \<in> set rest. fst (fst e) \<le> fst (fst x)"
  using assms heap_head_least [of e rest] by (auto simp: in_order_def log_of_def)

definition logged :: "int \<Rightarrow> 'p mm_state \<Rightarrow> bool" where
  "logged terminal st \<longleftrightarrow> (\<exists>entries clocks. in_order terminal (mm_shared st) entries clocks)"

lemma logged_turn:
  assumes ok: "logged terminal st" and turn: "loop_turn step cfg terminal st = Inl st'"
  shows "logged terminal st'"
proof -
  from turn obtain t causal k act rest where heap: "ms_heap (mm_shared st) = ((t, causal, k), act) # rest"
    and t: "t \<le> terminal"
    and run: "mm_action step cfg (st\<lparr>mm_shared := (mm_shared st)\<lparr>ms_heap := rest\<rparr>\<rparr>) ((t, causal, k), act) = Inr st'"
    by (auto simp: loop_turn_def Let_def split: list.splits if_splits sum.splits)
  from ok obtain entries clocks where "in_order terminal (mm_shared st) entries clocks" by (auto simp: logged_def)
  note R = in_order_rest [OF this heap]
  from mm_action_shared [OF run] have w: "written t ((mm_shared st)\<lparr>ms_heap := rest\<rparr>) (mm_shared st')"
    and s: "scheduled (later t causal (stage act)) ((mm_shared st)\<lparr>ms_heap := rest\<rparr>) (mm_shared st')" by simp_all
  have "\<exists>rows. in_order terminal (mm_shared st') (entries @ rows) (clocks @ replicate (length rows) t)"
    by (rule in_order_step [OF R(1) w s]) (use R(2,3) t in \<open>auto simp: later_def\<close>)
  then show ?thesis by (auto simp: logged_def)
qed

lemma logged_loop:
  assumes "action_loop step cfg terminal st = Some (Inr st')" and "logged terminal st"
  shows "logged terminal st' \<and> (\<forall>e \<in> set (ms_heap (mm_shared st')). terminal \<le> fst (fst e))"
proof -
  have "\<exists>s. logged terminal s \<and> loop_turn step cfg terminal s = Inr (Inr st')"
    by (rule actions.ends_in [where ok = "logged terminal", OF _ assms(2,1)]) (rule logged_turn)
  then obtain s where s: "logged terminal s"
    "loop_turn step cfg terminal s = Inr (Inr st')" by blast
  then consider "st' = s" "ms_heap (mm_shared s) = []" | e rest where "ms_heap (mm_shared s) = e # rest"
      "terminal < fst (fst e)" "st' = s\<lparr>mm_shared := (mm_shared s)\<lparr>ms_heap := rest\<rparr>\<rparr>"
    by (auto simp: loop_turn_def Let_def split: list.splits if_splits sum.splits)
  then show ?thesis
  proof cases
    case 1
    with s(1) show ?thesis by simp
  next
    case 2
    from s(1) obtain entries clocks where "in_order terminal (mm_shared s) entries clocks" by (auto simp: logged_def)
    from in_order_rest [OF this 2(1)] 2(2,3) show ?thesis by (force simp: logged_def)
  qed
qed

section \<open>The first and the last actions\<close>

definition unlogged :: "'p mm_cell \<Rightarrow> 'p mm_cell \<Rightarrow> bool" where
  "unlogged c c' \<longleftrightarrow> ms_ordinal (fst c') = ms_ordinal (fst c) \<and> ms_artifacts (fst c') = ms_artifacts (fst c) \<and>
     (sorted (map fst (ms_heap (fst c))) \<longrightarrow> sorted (map fst (ms_heap (fst c'))))"

lemma push_unlogged: "push act t causal c = Inr c' \<Longrightarrow> unlogged c c'"
  by (cases c) (auto simp: push_def rbind_eq_Inr Let_def unlogged_def sorted_insort_key)

lemma unlogged_trans: "unlogged a b \<Longrightarrow> unlogged b c \<Longrightarrow> unlogged a c"
  by (simp add: unlogged_def)

lemma record_cell_unlogged:
  assumes "record_cell features r c = Inr c'"
  shows "unlogged c c'"
  using assms
  by (auto simp: record_cell_def rbind_eq_Inr split: if_splits
    intro: push_unlogged unlogged_trans [OF push_unlogged push_unlogged])

lemma push_records_logged:
  fixes st :: "'p mm_state"
  assumes "res_fold (push_record features) st rs = Inr st'" and "log_of (mm_shared st) []" and "sorted (map fst (ms_heap (mm_shared st)))"
  shows "log_of (mm_shared st') [] \<and> sorted (map fst (ms_heap (mm_shared st')))"
  using assms
proof (induction rs arbitrary: st)
  case (Cons r rs)
  then obtain s where s: "push_record features st r = Inr s" "res_fold (push_record features) s rs = Inr st'"
    by (auto simp: rbind_eq_Inr)
  from s(1) obtain rt and c' :: "'p mm_cell" where "record_cell features r (mm_shared st, rt) = Inr c'" "mm_shared s = fst c'"
    unfolding push_record_def Let_def case_prod_beta rbind_eq_Inr
    by (elim exE conjE) (rule that, assumption, auto)
  from record_cell_unlogged [OF this(1)] this(2) Cons.prems(2,3)
  have "log_of (mm_shared s) []" "sorted (map fst (ms_heap (mm_shared s)))" by (auto simp: unlogged_def log_of_def)
  from Cons.IH [OF s(2) this] show ?case .
qed simp

lemma start_run_logged:
  assumes "start_run step p0 pf = Inr (st, terminal)"
  shows "logged t st"
proof -
  from assms obtain runtimes where
    "res_fold (push_record (pf_features pf)) \<lparr>mm_shared = shared_init, mm_runtimes = runtimes\<rparr> (pf_records pf) = Inr st"
    by (auto simp: start_run_def rbind_eq_Inr)
  from push_records_logged [OF this] have "in_order t (mm_shared st) [] []"
    by (simp add: log_of_init in_order_def) (simp add: shared_init_def)
  then show ?thesis unfolding logged_def by blast
qed

lemma finish_cell_progress:
  assumes "finish_cell step cfg time row c = Inr c'"
  shows "progress time causal s c c'"
proof -
  from assms obtain c1 c2 risk vs vs' where w: "withdraw_all step cfg time (Some row) ''end_of_run'' c = Inr c1"
    and e: "emit cfg ''exposure'' time row vs (fst c1, (snd c1)\<lparr>pr_risk := risk\<rparr>) = Inr c2"
    and f: "emit cfg ''summary'' time row vs' (fst c2, snd c2) = Inr c'"
    unfolding finish_cell_def case_prod_beta rbind_eq_Inr by blast
  have "progress time causal s c1 c2" by (rule progress_start [OF emit_progress [OF e]]) (simp add: same_log_def)
  moreover have "progress time causal s c2 c'" using emit_progress [OF f] by simp
  ultimately show ?thesis by (rule progress_trans [OF withdraw_all_progress [OF w] progress_trans])
qed

lemma finish_fold_logged:
  assumes "res_fold (finish_product step cfg terminal rows) st tickers = Inr st'"
    and "logged terminal st" and "\<forall>e \<in> set (ms_heap (mm_shared st)). terminal \<le> fst (fst e)"
  shows "logged terminal st'"
  using assms
proof (induction tickers arbitrary: st)
  case (Cons x tickers)
  then obtain s where s: "finish_product step cfg terminal rows st x = Inr s"
    "res_fold (finish_product step cfg terminal rows) s tickers = Inr st'" by (auto simp: rbind_eq_Inr)
  from s(1) obtain row rt c' where "finish_cell step cfg terminal row (mm_shared st, rt) = Inr c'" and sh: "mm_shared s = fst c'"
    unfolding finish_product_def case_prod_beta rbind_eq_Inr
    by (elim exE conjE) (rule that, assumption, auto)
  from finish_cell_progress [OF this(1), of 0 0] have w: "written terminal (mm_shared st) (mm_shared s)"
    and sch: "scheduled (later terminal 0 0) (mm_shared st) (mm_shared s)" by (simp_all add: progress_def sh)
  from Cons.prems(2) obtain entries clocks where i: "in_order terminal (mm_shared st) entries clocks" by (auto simp: logged_def)
  have "\<exists>rows. in_order terminal (mm_shared s) (entries @ rows) (clocks @ replicate (length rows) terminal)"
    by (rule in_order_step [OF i w sch]) (use Cons.prems(3) i in \<open>auto simp: later_def in_order_def\<close>)
  then have "logged terminal s" by (auto simp: logged_def)
  from sch obtain new where "mset (ms_heap (mm_shared s)) = mset (ms_heap (mm_shared st)) + mset new"
    and later: "\<forall>e \<in> set new. later terminal 0 0 e" by (auto simp: scheduled_def)
  then have "set (ms_heap (mm_shared s)) = set (ms_heap (mm_shared st)) \<union> set new" by (metis set_mset_mset set_mset_union)
  moreover have "\<forall>e \<in> set new. terminal \<le> fst (fst e)" using later by (auto simp: later_def)
  ultimately have "\<forall>e \<in> set (ms_heap (mm_shared s)). terminal \<le> fst (fst e)" using Cons.prems(3) by auto
  with \<open>logged terminal s\<close> show ?case by (rule Cons.IH [OF s(2)])
qed simp

text \<open>A whole run, seen from its states.\<close>

lemma run_v4_states:
  assumes "run_backtest_v4 step p0 sha valid repo config_text = Some (Inr out)"
  shows "\<exists>pf st terminal st1. run_preflight sha valid repo config_text = Inr pf \<and> start_run step p0 pf = Inr (st, terminal) \<and>
    action_loop step \<lparr>mc_preflight = pf, mc_valid = valid\<rparr> terminal st = Some (Inr st1) \<and>
    finish_run step sha \<lparr>mc_preflight = pf, mc_valid = valid\<rparr> terminal st1 = Inr out"
proof (cases "run_preflight sha valid repo config_text")
  case (Inr pf)
  show ?thesis
  proof (cases "start_run step p0 pf")
    case (Inr x)
    with \<open>run_preflight sha valid repo config_text = Inr pf\<close> assms show ?thesis
      by (cases x) (auto simp: run_backtest_v4_def rbind_eq_Inr Let_def)
  qed (use assms Inr in \<open>simp add: run_backtest_v4_def\<close>)
qed (use assms in \<open>simp add: run_backtest_v4_def\<close>)

section \<open>Properties\<close>

text \<open>C14: The multi-market loop over the actions terminates. From any state, whatever the configuration, the
  orders, the heap and the answers of the oracles are, the loop that takes actions from the heap and
  runs them, while they push new ones, returns after finitely many actions.\<close>

theorem action_loop_terminates:
  "\<exists>r. action_loop step cfg terminal st = Some r"
  by (rule actions.returns)

text \<open>C11: The artifacts of a multi-market run are one log. If a run succeeds, there is a sequence of records,
  numbered 1, 2, 3, ... by their artifact ordinals, in which the effective times never decrease and
  none is after the last record of the input, and each artifact file holds exactly the records of its
  name, in that order.\<close>

theorem multi_artifacts_ordered:
  assumes "run_backtest_v4 step p0 sha valid repo config_text = Some (Inr out)"
  shows "\<exists>pf terminal entries clocks. run_preflight sha valid repo config_text = Inr pf \<and>
    terminal_time (pf_records pf) = Inr terminal \<and> rs_artifacts out = split_log entries \<and>
    (\<forall>i < length entries. oget (snd (entries ! i)) ''artifact_ordinal'' = JInt (int i + 1)) \<and>
    map row_time entries = map JInt clocks \<and> sorted clocks \<and> (\<forall>t \<in> set clocks. t \<le> terminal)"
proof -
  from run_v4_states [OF assms] obtain pf st terminal st1 where pf: "run_preflight sha valid repo config_text = Inr pf"
    and start: "start_run step p0 pf = Inr (st, terminal)"
    and loop: "action_loop step \<lparr>mc_preflight = pf, mc_valid = valid\<rparr> terminal st = Some (Inr st1)"
    and fin: "finish_run step sha \<lparr>mc_preflight = pf, mc_valid = valid\<rparr> terminal st1 = Inr out" by blast
  from fin obtain st2 where p: "finish_products step \<lparr>mc_preflight = pf, mc_valid = valid\<rparr> terminal st1 = Inr st2"
    and out: "rs_artifacts out = ms_artifacts (mm_shared st2)" by (auto simp: finish_run_def rbind_eq_Inr)
  from p obtain rows where f: "res_fold (finish_product step \<lparr>mc_preflight = pf, mc_valid = valid\<rparr> terminal rows) st1
      (map fst (mm_runtimes st1)) = Inr st2" by (auto simp: finish_products_def rbind_eq_Inr Let_def)
  from logged_loop [OF loop start_run_logged [OF start]] have "logged terminal st2"
    using finish_fold_logged [OF f] by blast
  moreover have "terminal_time (pf_records pf) = Inr terminal" using start by (auto simp: start_run_def rbind_eq_Inr)
  moreover from \<open>logged terminal st2\<close> obtain entries clocks where i: "in_order terminal (mm_shared st2) entries clocks"
    by (auto simp: logged_def)
  then have "rs_artifacts out = split_log entries" "\<forall>i < length entries. oget (snd (entries ! i)) ''artifact_ordinal'' = JInt (int i + 1)"
    "map row_time entries = map JInt clocks" "sorted clocks" "\<forall>t \<in> set clocks. t \<le> terminal"
    by (simp_all add: in_order_def log_of_def out)
  ultimately show ?thesis using pf by blast
qed

end
