(* ===== verification/Multi_Lifecycle.thy ===== *)
theory Multi_Lifecycle
  imports Multi_Order Risk_Lifecycle
begin

text \<open>
  The orders of a multi-market run. A product's desk is what its orders are about: the client of its
  oracle, the next order id, the ids that wait for admission, the pending and the live orders. The
  relation \<open>desk_step\<close> is an abstract machine for a desk; every handler is a sequence of its steps, and
  its reachable states keep the lives of the orders in the trace of the oracle in step with the tables.
\<close>

section \<open>What the operations of the client do to the lives\<close>

definition traced_client :: "'p oracle_client \<Rightarrow> bool" where
  "traced_client r \<longleftrightarrow> or_canonical r \<and> numbered_rows (or_trace r)"

abbreviation lives :: "'p oracle_client \<Rightarrow> int \<Rightarrow> life option" where
  "lives r \<equiv> life_of (or_trace r)"

lemma extends_lives:
  assumes "extends r specs r'" and "traced_client r"
  shows "traced_client r' \<and> lives r' i = foldl (spec_life i) (lives r i) specs"
  using assms rows_extend_life rows_extend_numbered by (auto simp: extends_def traced_client_def)

lemma admit_lives:
  assumes "oracle_admit step r i side quantity price time = Inr (rejection, r')"
    and "traced_client r" and "lives r i = Some Fresh"
  shows "traced_client r' \<and> lives r' = (lives r)(i := Some (if rejection = None then Admitted else Fresh))"
proof -
  from admit_extends [OF assms(1)] obtain result where
    e: "extends r [(''admit'', admission_input i side quantity price time, result)] r'"
    and result: "result = ''approved'' \<longleftrightarrow> rejection = None" by blast
  have "lives r' j = (if j = i then Some (if rejection = None then Admitted else Fresh) else lives r j)" for j
    using extends_lives [OF e assms(2), of j] assms(3) result
    by (auto simp: spec_life_def subject_key_def admission_input_def oget_def)
  then show ?thesis using extends_lives [OF e assms(2)] by (auto simp: fun_eq_iff)
qed

lemma appends_lives:
  assumes "appends r op i r'" and "traced_client r" and "lives r i = Some s" and "life_step s op False = Some s'"
  shows "traced_client r' \<and> lives r' = (lives r)(i := Some s')"
proof -
  from assms(1) obtain input where id: "oget input (subject_key op) = JInt i" and e: "extends r [(op, input, ''applied'')] r'"
    by (auto simp: appends_def)
  have "lives r' j = (if j = i then Some s' else lives r j)" for j
    using extends_lives [OF e assms(2), of j] assms(3,4) id by (auto simp: spec_life_def)
  then show ?thesis using extends_lives [OF e assms(2)] by (auto simp: fun_eq_iff)
qed

lemma bind_lives:
  assumes "extends r [(''bind_ingress'', [(''client_intent_id'', JInt client), (''ingress_sequence'', JInt i)], ''bound'')] r'"
    and "traced_client r" and "lives r i = Some Admitted"
  shows "traced_client r' \<and> lives r' = (lives r)(i := Some Bound)"
proof -
  have "lives r' j = (if j = i then Some Bound else lives r j)" for j
    using extends_lives [OF assms(1,2), of j] assms(3) by (auto simp: spec_life_def subject_key_def oget_def)
  then show ?thesis using extends_lives [OF assms(1,2)] by (auto simp: fun_eq_iff)
qed

lemma acknowledge_lives:
  assumes "oracle_acknowledge step r o' = Inr r'" and "traced_client r" and "lives r (bo_id o') = Some Admitted"
  shows "traced_client r' \<and> lives r' = (lives r)(bo_id o' := Some Live)"
proof -
  from acknowledge_appends [OF assms(1)] obtain client r1 where
    b: "extends r [(''bind_ingress'', [(''client_intent_id'', JInt client), (''ingress_sequence'', JInt (bo_id o'))], ''bound'')] r1"
    and a: "appends r1 ''acknowledge'' (bo_id o') r'" by blast
  from bind_lives [OF b assms(2,3)] have "traced_client r1" "lives r1 = (lives r)(bo_id o' := Some Bound)" by simp_all
  with appends_lives [OF a this(1), of Bound Live] show ?thesis by simp
qed

lemma reject_pending_lives:
  assumes "oracle_reject_pending step r o' time = Inr r'" and "traced_client r" and "lives r (bo_id o') = Some Admitted"
  shows "traced_client r' \<and> lives r' = (lives r)(bo_id o' := Some Closed)"
proof -
  from reject_pending_appends [OF assms(1)] obtain client r1 where
    b: "extends r [(''bind_ingress'', [(''client_intent_id'', JInt client), (''ingress_sequence'', JInt (bo_id o'))], ''bound'')] r1"
    and a: "appends r1 ''command_reject'' (bo_id o') r'" by blast
  from bind_lives [OF b assms(2,3)] have "traced_client r1" "lives r1 = (lives r)(bo_id o' := Some Bound)" by simp_all
  with appends_lives [OF a this(1), of Bound Closed] show ?thesis by simp
qed

lemma fill_lives:
  assumes "oracle_apply_fill step r o' quantity time = Inr r'" and "traced_client r" and "lives r (bo_id o') = Some Live"
  shows "traced_client r' \<and> lives r' = lives r"
  using appends_lives [OF fill_appends [OF assms(1)] assms(2,3), of Live] assms(3) by (auto simp: fun_upd_idem)

lemma cancel_lives:
  assumes "oracle_cancel step r o' reason time = Inr r'" and "traced_client r" and "lives r (bo_id o') = Some Live"
  shows "traced_client r' \<and> lives r' = (lives r)(bo_id o' := Some Closed)"
  by (rule appends_lives [OF cancel_appends [OF assms(1)] assms(2,3)]) simp

section \<open>A desk\<close>

type_synonym 'p desk = "'p oracle_client \<times> int \<times> int multiset \<times> (int \<times> mm_order) list \<times> (int \<times> mm_order) list"

inductive desk_step :: "'p process \<Rightarrow> 'p desk \<Rightarrow> 'p desk \<Rightarrow> bool" for step :: "'p process" where
  Asked: "extends r [] r' \<Longrightarrow> desk_step step (r, n, q, p, l) (r', n, q, p, l)"
| Elsewhere: "n \<le> n' \<Longrightarrow> desk_step step (r, n, q, p, l) (r, n', q, p, l)"
| Submit: "desk_step step (r, n, q, p, l) (r, n + 1, add_mset n q, p, l)"
| Refuse: "oracle_admit step r i side quantity price time = Inr (Some reason, r') \<Longrightarrow>
    desk_step step (r, n, add_mset i q, p, l) (r', n, q, p, l)"
| Drop: "desk_step step (r, n, add_mset i q, p, l) (r, n, q, p, l)"
| Approve: "oracle_admit step r (bo_id o') side quantity price time = Inr (None, r') \<Longrightarrow>
    desk_step step (r, n, add_mset (bo_id o') q, p, l) (r', n, q, sset p (bo_id o') o', l)"
| Reject: "sget p i = Some o' \<Longrightarrow> oracle_reject_pending step r (plain_order o') time = Inr r' \<Longrightarrow>
    desk_step step (r, n, q, p, l) (r', n, q, spop p i, l)"
| Acknowledge: "sget p i = Some o' \<Longrightarrow> bo_id o2 = bo_id o' \<Longrightarrow> oracle_acknowledge step r (plain_order o2) = Inr r' \<Longrightarrow>
    desk_step step (r, n, q, p, l) (r', n, q, spop p i, sset l (bo_id o2) o2)"
| Fill: "sget l i = Some o' \<Longrightarrow> bo_id o2 = bo_id o' \<Longrightarrow> oracle_apply_fill step r (plain_order o2) quantity t = Inr r' \<Longrightarrow>
    desk_step step (r, n, q, p, l) (r', n, q, p, sset l i o2)"
| Filled: "desk_step step (r, n, q, p, l) (r, n, q, p, spop l i)"
| Cancel: "sget l i = Some o' \<Longrightarrow> oracle_cancel step r (plain_order o') reason t = Inr r' \<Longrightarrow>
    desk_step step (r, n, q, p, l) (r', n, q, p, spop l i)"

definition keyed :: "(int \<times> mm_order) list \<Rightarrow> bool" where
  "keyed d \<longleftrightarrow> distinct (map fst d) \<and> (\<forall>(i, o') \<in> set d. bo_id o' = i)"

definition desk_ok :: "'p desk \<Rightarrow> bool" where
  "desk_ok d \<longleftrightarrow> (case d of (r, n, q, p, l) \<Rightarrow>
     traced_client r \<and> keyed p \<and> keyed l \<and> (\<forall>i. count q i \<le> 1) \<and>
     (\<forall>i. lives r i \<noteq> None \<and> lives r i \<noteq> Some Bound) \<and> (\<forall>i \<ge> n. lives r i = Some Fresh) \<and>
     (\<forall>i. lives r i = Some Admitted \<longleftrightarrow> i \<in> fst ` set p) \<and> (\<forall>i \<in> fst ` set l. lives r i = Some Live) \<and>
     (\<forall>i \<in># q. i < n \<and> lives r i = Some Fresh))"

lemma keyed_get: "keyed d \<Longrightarrow> sget d i = Some o' \<Longrightarrow> bo_id o' = i \<and> i \<in> fst ` set d"
  by (auto simp: keyed_def dest!: sget_mem intro: rev_image_eqI)

lemma keys_spop: "distinct (map fst d) \<Longrightarrow> fst ` set (spop d i) = fst ` set d - {i}"
proof (induction d)
  case (Cons kv d)
  then show ?case by (cases kv) auto
qed simp

lemma keys_keyed: "keyed d \<Longrightarrow> fst ` set (spop d i) = fst ` set d - {i}"
  by (rule keys_spop) (simp add: keyed_def)

lemma keyed_spop_mem: "(j, o') \<in> set (spop d i) \<Longrightarrow> keyed d \<Longrightarrow> j \<noteq> i \<and> j \<in> fst ` set d"
proof -
  assume "(j, o') \<in> set (spop d i)" and "keyed d"
  then have "j \<in> fst ` set (spop d i)" by (force intro: rev_image_eqI)
  then show ?thesis by (simp add: keys_keyed [OF \<open>keyed d\<close>])
qed

lemma keyed_spop:
  assumes "keyed d"
  shows "keyed (spop d i)"
proof -
  have "distinct (map fst (spop d i))" using plain.dwf_dpop [of d i] assms by (simp add: dwf_plain keyed_def)
  with dpop_subset [of "(=)" d i] assms show ?thesis by (auto simp: keyed_def)
qed

lemma keys_sset: "fst ` set (sset d i v) = insert i (fst ` set d)"
proof (induction d)
  case (Cons kv d)
  then show ?case by (cases kv) auto
qed simp

lemma sset_keys: "(j, o') \<in> set (sset d i v) \<Longrightarrow> j = i \<or> j \<in> fst ` set d"
  using keys_sset [of d i v] by force

lemma keyed_sset:
  assumes "keyed d" and "bo_id v = i"
  shows "keyed (sset d i v)"
proof -
  have "distinct (map fst (sset d i v))" using plain.dwf_dset [of d i v] assms(1) by (simp add: dwf_plain keyed_def)
  moreover have "bo_id o' = j" if "(j, o') \<in> set (sset d i v)" for j o'
    using that assms
  proof (induction d)
    case (Cons kv d)
    then show ?case by (cases kv) (auto simp: keyed_def split: if_splits)
  qed simp
  ultimately show ?thesis by (auto simp: keyed_def)
qed

lemma plain_id [simp]: "bo_id (plain_order o') = bo_id o'"
  by (simp add: plain_order_def backtest_order.truncate_def)

lemma desk_count:
  assumes "desk_ok (r, n, add_mset i q, p, l)"
  shows "count q j \<le> 1"
proof -
  from assms have "count (add_mset i q) j \<le> 1" by (simp only: desk_ok_def prod.case)
  then show ?thesis by (rule order_trans [rotated]) simp
qed

lemma desk_place:
  assumes "desk_ok (r, n, q, p, l)" and "lives r i = Some s" and "s \<noteq> Fresh"
  shows "i < n" "i \<notin># q" "s \<noteq> Live \<Longrightarrow> i \<notin> fst ` set l" "s \<noteq> Admitted \<Longrightarrow> i \<notin> fst ` set p"
proof -
  from assms(1) have ok: "\<forall>i \<ge> n. lives r i = Some Fresh" "\<forall>i \<in># q. i < n \<and> lives r i = Some Fresh"
    "\<forall>i \<in> fst ` set l. lives r i = Some Live" "\<forall>i. lives r i = Some Admitted \<longleftrightarrow> i \<in> fst ` set p"
    by (simp_all add: desk_ok_def)
  show "i < n" using ok(1) assms(2,3) by (metis not_less option.inject)
  show "i \<notin># q" using ok(2) assms(2,3) by auto
  show "i \<notin> fst ` set l" if "s \<noteq> Live" using ok(3) assms(2) that by auto
  show "i \<notin> fst ` set p" if "s \<noteq> Admitted" using ok(4) assms(2) that by (metis option.inject)
qed

lemma desk_step_ok: "desk_step step d d' \<Longrightarrow> desk_ok d \<Longrightarrow> desk_ok d'"
proof (induction rule: desk_step.induct)
  case (Asked r r' n q p l)
  then show ?case using extends_lives [OF Asked(1)] by (auto simp: desk_ok_def)
next
  case (Elsewhere n n' r q p l)
  then show ?case by (fastforce simp: desk_ok_def)
next
  case (Submit r n q p l)
  then have "n \<notin># q" by (auto simp: desk_ok_def)
  then have "count q n = 0" by (simp add: count_eq_zero_iff)
  with Submit show ?case by (auto simp: desk_ok_def)
next
  case (Refuse r i side quantity price time reason r' n q p l)
  then have f: "traced_client r" "lives r i = Some Fresh" by (auto simp: desk_ok_def)
  from admit_lives [OF Refuse(1) f] have "traced_client r'" "lives r' = lives r" using f(2) by (auto simp: fun_upd_idem)
  then show ?case using Refuse(2) desk_count [OF Refuse(2)] by (simp add: desk_ok_def)
next
  case (Drop r n i q p l)
  then show ?case using desk_count [OF Drop] by (simp add: desk_ok_def)
next
  case (Approve r o' side quantity price time r' n q p l)
  let ?i = "bo_id o'"
  from Approve have f: "traced_client r" "lives r ?i = Some Fresh" "?i < n" and c: "?i \<notin># q"
    by (auto simp: desk_ok_def split: if_splits)
  from admit_lives [OF Approve(1) f(1,2)] have r': "traced_client r'" "lives r' = (lives r)(?i := Some Admitted)" by auto
  note c desk_count [OF Approve(2)]
  moreover from f(2) Approve(2) have "?i \<notin> fst ` set l" by (force simp: desk_ok_def)
  ultimately show ?case using Approve(2) r' f(3)
    by (auto simp: desk_ok_def keys_sset keyed_sset split: if_splits)
next
  case (Reject p i o' r time r' n q l)
  then have i: "bo_id o' = i" "i \<in> fst ` set p" using keyed_get [of p i o'] by (auto simp: desk_ok_def)
  then have a: "lives r i = Some Admitted" "traced_client r" using Reject(3) by (auto simp: desk_ok_def)
  have "lives r' = (lives r)(i := Some Closed)" "traced_client r'"
    using reject_pending_lives [OF Reject(2) a(2)] a i by simp_all
  with Reject(3) a desk_place [OF Reject(3) a(1)] show ?case by (auto simp: desk_ok_def keyed_spop keys_keyed intro: rev_image_eqI)
next
  case (Acknowledge p i o' o2 r r' n q l)
  then have i: "bo_id o' = i" "i \<in> fst ` set p" using keyed_get [of p i o'] by (auto simp: desk_ok_def)
  then have a: "lives r i = Some Admitted" "traced_client r" using Acknowledge(4) by (auto simp: desk_ok_def)
  have "lives r' = (lives r)(i := Some Live)" "traced_client r'"
    using acknowledge_lives [OF Acknowledge(3) a(2)] a i Acknowledge(2) by simp_all
  with Acknowledge(2,4) a i desk_place [OF Acknowledge(4) a(1)] show ?case
    by (auto simp: desk_ok_def keyed_spop keyed_sset keys_keyed keys_sset dest!: sset_keys intro: rev_image_eqI)
next
  case (Fill l i o' o2 r quantity t r' n q p)
  then have i: "bo_id o' = i" "i \<in> fst ` set l" using keyed_get [of l i o'] by (auto simp: desk_ok_def)
  then have a: "lives r i = Some Live" "traced_client r" using Fill(4) by (auto simp: desk_ok_def)
  have "lives r' = lives r" "traced_client r'" using fill_lives [OF Fill(3) a(2)] a i Fill(2) by simp_all
  with Fill(2,4) a i desk_place [OF Fill(4) a(1)] show ?case by (auto simp: desk_ok_def keyed_sset keys_sset dest!: sset_keys intro: rev_image_eqI)
next
  case (Filled r n q p l i)
  then show ?case by (auto simp: desk_ok_def keyed_spop dest: subsetD [OF dpop_subset])
next
  case (Cancel l i o' r reason t r' n q p)
  then have i: "bo_id o' = i" "i \<in> fst ` set l" using keyed_get [of l i o'] by (auto simp: desk_ok_def)
  then have a: "lives r i = Some Live" "traced_client r" using Cancel(3) by (auto simp: desk_ok_def)
  have "lives r' = (lives r)(i := Some Closed)" "traced_client r'"
    using cancel_lives [OF Cancel(2) a(2)] a i by simp_all
  with Cancel(3) a desk_place [OF Cancel(3) a(1)] show ?case
    by (auto simp: desk_ok_def keyed_spop dest: keyed_spop_mem subsetD [OF dpop_subset])
qed

lemma desk_steps_ok: "(desk_step step)\<^sup>*\<^sup>* d d' \<Longrightarrow> desk_ok d \<Longrightarrow> desk_ok d'"
  by (induction rule: rtranclp_induct) (auto intro: desk_step_ok)

section \<open>The desk of a product\<close>

text \<open>The id that an action on the heap holds for a product, until the oracle has decided on it.\<close>

definition ticket :: "string \<Rightarrow> action_key \<times> action \<Rightarrow> int multiset" where
  "ticket T e =
     (case snd e of
        Risk_Action row o' \<Rightarrow> (if action_ticker (snd e) = Inr T then {#bo_id o'#} else {#})
      | _ \<Rightarrow> {#})"

definition queue :: "string \<Rightarrow> mm_shared \<Rightarrow> int multiset" where
  "queue T sh = \<Sum>\<^sub># (image_mset (ticket T) (mset (ms_heap sh)))"

definition desk :: "string \<Rightarrow> 'p mm_cell \<Rightarrow> 'p desk" where
  "desk T c = (pr_risk (snd c), ms_next_order (fst c), queue T (fst c), pr_pending (snd c), pr_live (snd c))"

definition own_client :: "action_key \<times> action \<Rightarrow> bool" where
  "own_client e \<longleftrightarrow> (case snd e of Risk_Action row o' \<Rightarrow> mo_client o' = bo_id o' | _ \<Rightarrow> True)"

text \<open>What a handler of product \<open>T\<close> does: steps at its desk, nothing at the others.\<close>

definition desk_run :: "'p process \<Rightarrow> string \<Rightarrow> 'p mm_cell \<Rightarrow> 'p mm_cell \<Rightarrow> bool" where
  "desk_run step T c c' \<longleftrightarrow>
     (desk_step step)\<^sup>*\<^sup>* (desk T c) (desk T c') \<and> (\<forall>T'. T' \<noteq> T \<longrightarrow> queue T' (fst c') = queue T' (fst c)) \<and>
     ms_next_order (fst c) \<le> ms_next_order (fst c') \<and>
     ((\<forall>e \<in> set (ms_heap (fst c)). own_client e) \<longrightarrow> (\<forall>e \<in> set (ms_heap (fst c')). own_client e))"

lemma desk_run_trans: "desk_run step T a b \<Longrightarrow> desk_run step T b c \<Longrightarrow> desk_run step T a c"
  unfolding desk_run_def
  by (elim conjE, intro conjI impI allI) (blast intro: rtranclp_trans, simp, simp, simp)

definition same_desk :: "'p mm_cell \<Rightarrow> 'p mm_cell \<Rightarrow> bool" where
  "same_desk c c' \<longleftrightarrow> ms_heap (fst c') = ms_heap (fst c) \<and> ms_next_order (fst c') = ms_next_order (fst c) \<and>
     pr_risk (snd c') = pr_risk (snd c) \<and> pr_pending (snd c') = pr_pending (snd c) \<and> pr_live (snd c') = pr_live (snd c)"

lemma same_desk_run: "same_desk c c' \<Longrightarrow> desk_run step T c c'"
  by (simp add: same_desk_def desk_run_def desk_def queue_def)

text \<open>One step at the desk, with an unchanged heap.\<close>

lemma desk_run_step:
  assumes "desk_step step (desk T c) (desk T c')" and "ms_heap (fst c') = ms_heap (fst c)"
    and "ms_next_order (fst c') = ms_next_order (fst c)"
  shows "desk_run step T c c'"
  using assms by (auto simp: desk_run_def queue_def)

lemma emit_same: "emit cfg name time row vs c = Inr c' \<Longrightarrow> same_desk c c'"
  by (cases c) (auto simp: emit_def rbind_eq_Inr Let_def same_desk_def)

lemma emit_risk_effect:
  assumes "emit_risk step cfg time row op i result c = Inr c'"
  shows "extends (pr_risk (snd c)) [] (pr_risk (snd c')) \<and> ms_heap (fst c') = ms_heap (fst c) \<and>
    ms_next_order (fst c') = ms_next_order (fst c) \<and> pr_pending (snd c') = pr_pending (snd c) \<and>
    pr_live (snd c') = pr_live (snd c)"
proof -
  from assms obtain x vs where v: "oracle_view step (pr_risk (snd c)) = Inr x"
    and e: "emit cfg ''risk-events'' time row vs (fst c, (snd c)\<lparr>pr_risk := snd x\<rparr>) = Inr c'"
    unfolding emit_risk_def case_prod_beta rbind_eq_Inr by blast
  have "extends (pr_risk (snd c)) [] (snd x)" using view_extends [of step "pr_risk (snd c)" "fst x" "snd x"] v by simp
  with emit_same [OF e] show ?thesis by (simp add: same_desk_def)
qed

lemma emit_risk_run:
  assumes "emit_risk step cfg time row op i result c = Inr c'"
  shows "desk_run step T c c' \<and> pr_pending (snd c') = pr_pending (snd c) \<and> pr_live (snd c') = pr_live (snd c)"
  using emit_risk_effect [OF assms]
  by (auto intro!: desk_run_step simp: desk_def queue_def desk_step.Asked)

lemma push_run:
  assumes "push act t causal c = Inr c'" and "\<forall>row o'. act \<noteq> Risk_Action row o'"
  shows "desk_run step T c c' \<and> pr_pending (snd c') = pr_pending (snd c) \<and> pr_live (snd c') = pr_live (snd c)"
proof -
  have t: "ticket T' (k, act) = {#}" "own_client (k, act)" for T' k
    using assms(2) by (auto simp: ticket_def own_client_def split: action.splits)
  from assms(1) obtain k where heap: "ms_heap (fst c') = insort_key fst (k, act) (ms_heap (fst c))"
    and "ms_next_order (fst c') = ms_next_order (fst c)" "pr_risk (snd c') = pr_risk (snd c)"
    "pr_pending (snd c') = pr_pending (snd c)" "pr_live (snd c') = pr_live (snd c)"
    by (cases c) (auto simp: push_def rbind_eq_Inr Let_def)
  moreover have "queue T' (fst c') = queue T' (fst c)" for T' by (simp add: queue_def heap t)
  ultimately show ?thesis by (auto simp: desk_run_def desk_def heap t set_insort_key)
qed

lemma emit_cancellation_same: "emit_cancellation cfg time row i reason c = Inr c' \<Longrightarrow> same_desk c c'"
  unfolding emit_cancellation_def by (rule emit_same)

lemma emit_rejection_same: "emit_rejection cfg time row st reason c = Inr c' \<Longrightarrow> same_desk c c'"
  unfolding emit_rejection_def by (rule emit_same)

definition same_tables :: "'p mm_cell \<Rightarrow> 'p mm_cell \<Rightarrow> bool" where
  "same_tables c c' \<longleftrightarrow> pr_pending (snd c') = pr_pending (snd c) \<and> pr_live (snd c') = pr_live (snd c)"

lemma emit_cancelled_run:
  assumes "emit_cancelled step cfg time row op i reason c = Inr c'"
  shows "desk_run step T c c' \<and> same_tables c c'"
proof -
  from assms obtain c1 where r: "emit_risk step cfg time row op i ''applied'' c = Inr c1"
    and e: "emit_cancellation cfg time row i reason c1 = Inr c'" by (auto simp: emit_cancelled_def rbind_eq_Inr)
  from emit_risk_run [OF r] emit_cancellation_same [OF e] same_desk_run [OF emit_cancellation_same [OF e]] show ?thesis
    by (auto simp: same_tables_def same_desk_def intro: desk_run_trans)
qed

lemma emit_withdrawal_run:
  assumes "emit_withdrawal step cfg time row op i reason c = Inr c'"
  shows "desk_run step T c c' \<and> same_tables c c'"
proof (cases row)
  case None
  with assms show ?thesis by (auto simp: emit_withdrawal_def same_tables_def intro: same_desk_run simp: same_desk_def)
next
  case (Some row')
  with assms obtain c1 where r: "emit_risk step cfg time row' op i reason c = Inr c1"
    and e: "emit_cancellation cfg time row' i reason c1 = Inr c'" by (auto simp: emit_withdrawal_def rbind_eq_Inr)
  from emit_risk_run [OF r] emit_cancellation_same [OF e] same_desk_run [OF emit_cancellation_same [OF e]] show ?thesis
    by (auto simp: same_tables_def same_desk_def intro: desk_run_trans)
qed

section \<open>Withdrawing all orders\<close>

lemma withdraw_pendings:
  assumes "res_fold (withdraw_pending step cfg time row reason) c (map snd p) = Inr c'"
    and "pr_pending (snd c) = p" and "keyed p"
  shows "desk_run step T c c' \<and> pr_pending (snd c') = [] \<and> pr_live (snd c') = pr_live (snd c)"
  using assms
proof (induction p arbitrary: c)
  case Nil
  then show ?case by (simp add: same_desk_run same_desk_def)
next
  case (Cons kv p)
  obtain i o' where kv: "kv = (i, o')" by (cases kv)
  with Cons.prems(3) have i: "bo_id o' = i" "keyed p" by (auto simp: keyed_def)
  from Cons.prems(1) obtain c1 where w: "withdraw_pending step cfg time row reason c o' = Inr c1"
    and rest: "res_fold (withdraw_pending step cfg time row reason) c1 (map snd p) = Inr c'"
    by (auto simp: kv rbind_eq_Inr)
  let ?c = "\<lambda>risk. (fst c, (snd c)\<lparr>pr_risk := risk, pr_pending := spop (pr_pending (snd c)) (bo_id o')\<rparr>)"
  from w obtain risk where r: "oracle_reject_pending step (pr_risk (snd c)) (plain_order o') time = Inr risk"
    and e: "emit_withdrawal step cfg time row ''command_reject'' (bo_id o') reason (?c risk) = Inr c1"
    unfolding withdraw_pending_def case_prod_beta rbind_eq_Inr by blast
  have "desk_step step (pr_risk (snd c), n, q, (i, o') # p, l) (risk, n, q, spop ((i, o') # p) i, l)" for n q l
    by (rule desk_step.Reject [OF _ r]) simp
  then have "desk_run step T c (?c risk)"
    by (intro desk_run_step) (use Cons.prems(2) i in \<open>simp_all add: desk_def kv\<close>)
  moreover have "pr_pending (snd (?c risk)) = p" using Cons.prems(2) i by (simp add: kv)
  moreover note W = emit_withdrawal_run [OF e, of T]
  ultimately have "desk_run step T c c1" "pr_pending (snd c1) = p" "pr_live (snd c1) = pr_live (snd c)"
    by (auto simp: same_tables_def intro: desk_run_trans)
  with Cons.IH [OF rest _ i(2)] show ?case by (auto intro: desk_run_trans)
qed

lemma withdraw_lives:
  assumes "res_fold (withdraw_live step cfg time row reason) c (map snd l) = Inr c'"
    and "pr_live (snd c) = l" and "keyed l"
  shows "desk_run step T c c' \<and> pr_live (snd c') = [] \<and> pr_pending (snd c') = pr_pending (snd c)"
  using assms
proof (induction l arbitrary: c)
  case Nil
  then show ?case by (simp add: same_desk_run same_desk_def)
next
  case (Cons kv l)
  obtain i o' where kv: "kv = (i, o')" by (cases kv)
  with Cons.prems(3) have i: "bo_id o' = i" "keyed l" by (auto simp: keyed_def)
  from Cons.prems(1) obtain c1 where w: "withdraw_live step cfg time row reason c o' = Inr c1"
    and rest: "res_fold (withdraw_live step cfg time row reason) c1 (map snd l) = Inr c'"
    by (auto simp: kv rbind_eq_Inr)
  let ?c = "\<lambda>risk. (fst c, (snd c)\<lparr>pr_risk := risk, pr_live := spop (pr_live (snd c)) (bo_id o')\<rparr>)"
  from w obtain risk where r: "oracle_cancel step (pr_risk (snd c)) (plain_order o') reason (Some time) = Inr risk"
    and e: "emit_withdrawal step cfg time row ''cancel'' (bo_id o') reason (?c risk) = Inr c1"
    unfolding withdraw_live_def case_prod_beta rbind_eq_Inr by blast
  have "desk_step step (pr_risk (snd c), n, q, p, (i, o') # l) (risk, n, q, p, spop ((i, o') # l) i)" for n q p
    by (rule desk_step.Cancel [OF _ r]) simp
  then have "desk_run step T c (?c risk)"
    by (intro desk_run_step) (use Cons.prems(2) i in \<open>simp_all add: desk_def kv\<close>)
  moreover have "pr_live (snd (?c risk)) = l" using Cons.prems(2) i by (simp add: kv)
  moreover note W = emit_withdrawal_run [OF e, of T]
  ultimately have "desk_run step T c c1" "pr_live (snd c1) = l" "pr_pending (snd c1) = pr_pending (snd c)"
    by (auto simp: same_tables_def intro: desk_run_trans)
  with Cons.IH [OF rest _ i(2)] show ?case by (auto intro: desk_run_trans)
qed

lemma withdraw_all_run:
  assumes "withdraw_all step cfg time row reason c = Inr c'" and "keyed (pr_pending (snd c))" and "keyed (pr_live (snd c))"
  shows "desk_run step T c c' \<and> pr_pending (snd c') = [] \<and> pr_live (snd c') = []"
proof -
  from assms(1) obtain c1 where p: "res_fold (withdraw_pending step cfg time row reason) c (map snd (pr_pending (snd c))) = Inr c1"
    and l: "res_fold (withdraw_live step cfg time row reason) c1 (map snd (pr_live (snd c1))) = Inr c'"
    by (auto simp: withdraw_all_def rbind_eq_Inr)
  from withdraw_pendings [OF p refl assms(2)] have P: "desk_run step T c c1" "pr_pending (snd c1) = []"
    "pr_live (snd c1) = pr_live (snd c)" by simp_all
  with withdraw_lives [OF l refl] assms(3) show ?thesis by (auto intro: desk_run_trans)
qed

section \<open>The handlers at their desk\<close>

lemma segment_action_run:
  assumes "segment_action step cfg time r c = Inr c'" and "keyed (pr_pending (snd c))" and "keyed (pr_live (snd c))"
  shows "desk_run step T c c'"
proof -
  from assms(1) have "same_desk c c' \<or>
      (\<exists>row c1. withdraw_all step cfg time row ''segment_transition'' c = Inr c1 \<and> same_desk c1 c')"
    unfolding segment_action_def case_prod_beta rbind_eq_Inr Let_def
    by (elim exE conjE, simp add: rbind_eq_Inr split: if_splits)
      ((elim exE conjE)?, (rule disjI2, intro exI conjI, assumption, force simp: same_desk_def) | force simp: same_desk_def)+
  then show ?thesis
  proof (elim disjE exE conjE)
    fix row c1
    assume "withdraw_all step cfg time row ''segment_transition'' c = Inr c1" and "same_desk c1 c'"
    with withdraw_all_run [OF _ assms(2,3)] same_desk_run show ?thesis by (blast intro: desk_run_trans)
  qed (rule same_desk_run)
qed

lemma feature_action_run:
  assumes "feature_action latency strategy time causal row c = Inr c'"
  shows "desk_run step T c c'"
proof -
  obtain sh rt sh' rt' where c: "c = (sh, rt)" "c' = (sh', rt')" by (cases c, cases c')
  from feature_action_cases [OF assms [unfolded c]] show ?thesis
  proof (elim disjE exE conjE)
    fix v delay cell1 interval
    assume p: "push (Decision_Action row) (time + delay) causal (sh, rt\<lparr>pr_last_row := Some row\<rparr>) = Inr cell1"
      and e: "sh' = fst cell1" "rt' = (snd cell1)\<lparr>pr_next_decision := time + interval\<rparr>"
    have "desk_run step T c (sh, rt\<lparr>pr_last_row := Some row\<rparr>)" by (rule same_desk_run) (simp add: same_desk_def c)
    moreover have "desk_run step T (sh, rt\<lparr>pr_last_row := Some row\<rparr>) cell1" using push_run [OF p] by blast
    moreover have "desk_run step T cell1 c'" by (rule same_desk_run) (simp add: same_desk_def c e)
    ultimately show ?thesis by (blast intro: desk_run_trans)
  qed (auto intro: same_desk_run simp: same_desk_def c)
qed

lemma desk_run_fold:
  assumes "\<And>c x c'. x \<in> set xs \<Longrightarrow> f c x = Inr c' \<Longrightarrow> desk_run step T c c'" and "res_fold f c xs = Inr c'"
  shows "desk_run step T c c'"
  using assms
proof (induction xs arbitrary: c)
  case Nil
  then show ?case by (simp add: same_desk_run same_desk_def)
next
  case (Cons x xs)
  from Cons.prems(2) obtain c1 where s: "f c x = Inr c1" "res_fold f c1 xs = Inr c'" by (auto simp: rbind_eq_Inr)
  have "desk_run step T c c1" by (rule Cons.prems(1) [OF _ s(1)]) simp
  moreover have "desk_run step T c1 c'" by (rule Cons.IH [OF Cons.prems(1) s(2)]) simp_all
  ultimately show ?case by (rule desk_run_trans)
qed

lemma touch_orders_run:
  "res_fold (touch_order latency time causal row r tp) (m, c) os = Inr (m', c') \<Longrightarrow> desk_run step T c c'"
proof (induction os arbitrary: m c)
  case Nil
  then show ?case by (simp add: same_desk_run same_desk_def)
next
  case (Cons o' os)
  then obtain m1 c1 where t: "touch_order latency time causal row r tp (m, c) o' = Inr (m1, c1)"
    and rest: "res_fold (touch_order latency time causal row r tp) (m1, c1) os = Inr (m', c')" by (auto simp: rbind_eq_Inr)
  from t have "c1 = c \<or> (\<exists>q delay. push (Fill_Action row (bo_id o') q r) (time + delay) causal c = Inr c1)"
    by (auto simp: touch_order_def rbind_eq_Inr split: if_splits)
  then have "desk_run step T c c1"
    by (elim disjE exE) (simp add: same_desk_run same_desk_def, drule push_run, simp, blast)
  with Cons.IH [OF rest] show ?case by (blast intro: desk_run_trans)
qed

lemma trade_action_run:
  assumes "trade_action cfg latency time causal row r c = Inr c'"
  shows "desk_run step T c c'"
proof -
  from assms consider "c' = c"
    | m tp os m' where "res_fold (touch_order latency time causal row r tp) (m, c) os = Inr (m', c')"
    by (auto simp: trade_action_def rbind_eq_Inr split: if_splits)
  then show ?thesis by cases (simp add: same_desk_run same_desk_def, rule touch_orders_run)
qed

lemma fill_action_run:
  assumes "fill_action step cfg time row i amount r c = Inr c'" and k: "keyed (pr_live (snd c))"
  shows "desk_run step T c c'"
proof -
  obtain sh rt sh' rt' where c: "c = (sh, rt)" "c' = (sh', rt')" by (cases c, cases c')
  from fill_action_cases [OF assms(1) [unfolded c]] show ?thesis
  proof (elim disjE exE conjE)
    assume "sh' = sh" "rt' = rt"
    then show ?thesis by (simp add: c same_desk_run same_desk_def)
  next
    fix o' q left risk cell1 vs rt2
    let ?c = "(sh, rt\<lparr>pr_risk := risk, pr_live := sset (pr_live rt) i (o'\<lparr>bo_remaining := left\<rparr>)\<rparr>)"
    assume s: "sget (pr_live rt) i = Some o'"
      and f: "oracle_apply_fill step (pr_risk rt) (plain_order (o'\<lparr>bo_remaining := left\<rparr>)) q (Some time) = Inr risk"
      and r: "emit_risk step cfg time row ''fill'' (bo_id o') ''applied'' ?c = Inr cell1"
      and e: "emit cfg ''fills'' time row vs cell1 = Inr (sh', rt2)"
    have "desk_run step T c ?c"
      by (rule desk_run_step) (use desk_step.Fill [OF s _ f] in \<open>simp_all add: desk_def c\<close>)
    moreover have "desk_run step T ?c cell1" using emit_risk_run [OF r] by blast
    moreover have "desk_run step T cell1 (sh', rt2)" by (rule same_desk_run [OF emit_same [OF e]])
    ultimately have run: "desk_run step T c (sh', rt2)" by (blast intro: desk_run_trans)
    {
      assume "rt' = rt2"
      with run show "desk_run step T c c'" by (simp add: c)
    next
      assume "rt' = rt2\<lparr>pr_live := spop (pr_live rt2) (bo_id o')\<rparr>"
      then have "desk_run step T (sh', rt2) c'"
        by (intro desk_run_step) (simp_all add: desk_def c desk_step.Filled)
      with run show "desk_run step T c c'" by (rule desk_run_trans)
    }
  qed
qed

lemma decision_action_run:
  assumes "decision_action cfg latency strategy time causal row c = Inr c'"
  shows "desk_run step T c c'"
proof -
  let ?c = "((fst c)\<lparr>ms_next_decision := ms_next_decision (fst c) + 1\<rparr>, snd c)"
  from decision_action_cases [OF assms] obtain vs c1 where e: "emit cfg ''decisions'' time row vs ?c = Inr c1"
    and rest: "(\<exists>reason. emit_rejection cfg time row ''decision'' reason c1 = Inr c') \<or>
     (\<exists>c2 v delay bid ask. res_fold (push_replacement latency time causal row) c1
         (map snd (pr_pending (snd c1)) @ map snd (pr_live (snd c1))) = Inr c2 \<and> nonnegative_int v = Inr delay \<and>
       res_fold (push_command (time + delay) causal row) c2 [(''buy'', bid), (''sell'', ask)] = Inr c')"
    by blast
  have "desk_run step T c ?c" by (rule same_desk_run) (simp add: same_desk_def)
  moreover have "desk_run step T ?c c1" by (rule same_desk_run [OF emit_same [OF e]])
  moreover from rest have "desk_run step T c1 c'"
  proof (elim disjE exE conjE)
    fix reason assume "emit_rejection cfg time row ''decision'' reason c1 = Inr c'"
    then show ?thesis by (intro same_desk_run emit_rejection_same)
  next
    fix c2 v delay bid ask
    assume r: "res_fold (push_replacement latency time causal row) c1
        (map snd (pr_pending (snd c1)) @ map snd (pr_live (snd c1))) = Inr c2"
      and q: "res_fold (push_command (time + delay) causal row) c2 [(''buy'', bid), (''sell'', ask)] = Inr c'"
    have "desk_run step T c1 c2"
      by (rule desk_run_fold [OF _ r]) (auto simp: push_replacement_def rbind_eq_Inr dest: push_run)
    moreover have "desk_run step T c2 c'"
      by (rule desk_run_fold [OF _ q]) (auto simp: push_command_def dest: push_run)
    ultimately show ?thesis by (rule desk_run_trans)
  qed
  ultimately show ?thesis by (blast intro: desk_run_trans)
qed

text \<open>A command submits an order: its id waits at the desk of the row's product.\<close>

lemma command_action_run:
  assumes "command_action cfg strategy time causal row side price c = Inr c'"
    and T: "action_ticker (Command_Action row side price) = Inr T"
  shows "desk_run step T c c'"
proof -
  obtain sh rt where c: "c = (sh, rt)" by (cases c)
  let ?c = "(sh\<lparr>ms_next_order := ms_next_order sh + 1\<rparr>, rt)"
  from command_action_cases [OF assms(1) [unfolded c]] obtain o' vs c1 where
    p: "push (Risk_Action row o') time causal c1 = Inr c'" and e: "emit cfg ''submitted-orders'' time row vs ?c = Inr c1"
    and o': "bo_id o' = ms_next_order sh" "mo_client o' = bo_id o'" by blast
  have T': "action_ticker (Risk_Action row o') = Inr T"
    using T by (cases row) (auto simp: action_ticker_def)
  note E = emit_same [OF e]
  from p obtain k where heap: "ms_heap (fst c') = insort_key fst (k, Risk_Action row o') (ms_heap (fst c1))"
    and nx: "ms_next_order (fst c') = ms_next_order (fst c1)" "pr_risk (snd c') = pr_risk (snd c1)"
    "pr_pending (snd c') = pr_pending (snd c1)" "pr_live (snd c') = pr_live (snd c1)"
    by (cases c1) (auto simp: push_def rbind_eq_Inr Let_def)
  have q: "queue t (fst c') = (if t = T then {#bo_id o'#} else {#}) + queue t sh" for t
    using E by (auto simp: queue_def heap ticket_def T' same_desk_def)
  have "desk_step step (desk T c) (desk T c')"
    using E nx by (simp add: desk_def c q o' same_desk_def desk_step.Submit)
  then show ?thesis using E nx q
    by (auto simp: desk_run_def c heap set_insort_key same_desk_def own_client_def o')
qed

lemma ack_action_run:
  assumes "ack_action step cfg strategy time causal row i c = Inr c'"
  shows "desk_run step T c c'"
proof -
  obtain sh rt where c: "c = (sh, rt)" by (cases c)
  from ack_action_cases [OF assms [unfolded c]] show ?thesis
  proof (elim disjE exE conjE)
    fix o' risk
    let ?c = "(sh, rt\<lparr>pr_pending := spop (pr_pending rt) i, pr_risk := risk\<rparr>)"
    assume s: "sget (pr_pending rt) i = Some o'" and r: "oracle_reject_pending step (pr_risk rt) (plain_order o') time = Inr risk"
      and e: "emit_rejection cfg time row ''acknowledgement'' ''segment_changed'' ?c = Inr c'"
    have "desk_run step T c ?c" by (rule desk_run_step) (simp_all add: desk_def c desk_step.Reject [OF s r])
    from this same_desk_run [OF emit_rejection_same [OF e]] show ?thesis by (rule desk_run_trans)
  next
    fix o' v lifetime o2 risk c1 vs c2
    let ?c = "(sh, rt\<lparr>pr_pending := spop (pr_pending rt) i, pr_risk := risk, pr_live := sset (pr_live rt) (bo_id o2) o2\<rparr>)"
    assume s: "sget (pr_pending rt) i = Some o'" and o2: "o2 = o'\<lparr>bo_active_at := time, bo_expires_at := time + lifetime\<rparr>"
      and a: "oracle_acknowledge step (pr_risk rt) (plain_order o2) = Inr risk"
      and r: "emit_risk step cfg time row ''acknowledge'' (bo_id o2) ''applied'' ?c = Inr c1"
      and e: "emit cfg ''acknowledgements'' time row vs c1 = Inr c2"
      and p: "push (Cancel_Action row (bo_id o2) ''logical_expiry'') (time + lifetime) causal c2 = Inr c'"
    have "bo_id o2 = bo_id o'" by (simp add: o2)
    from desk_step.Acknowledge [OF s this a] have "desk_run step T c ?c"
      by (intro desk_run_step) (simp_all add: desk_def c)
    moreover have "desk_run step T ?c c1" using emit_risk_run [OF r] by blast
    moreover have "desk_run step T c1 c2" by (rule same_desk_run [OF emit_same [OF e]])
    moreover have "desk_run step T c2 c'" using push_run [OF p] by blast
    ultimately show ?thesis by (blast intro: desk_run_trans)
  qed (simp add: c same_desk_run same_desk_def)
qed

lemma cancel_action_run:
  assumes "cancel_action step cfg time row i reason c = Inr c'"
  shows "desk_run step T c c'"
proof -
  obtain sh rt where c: "c = (sh, rt)" by (cases c)
  from cancel_action_cases [OF assms [unfolded c]] show ?thesis
  proof (elim disjE exE conjE)
    fix o' risk
    let ?c = "(sh, rt\<lparr>pr_risk := risk, pr_pending := spop (pr_pending rt) i\<rparr>)"
    assume s: "sget (pr_pending rt) i = Some o'" and r: "oracle_reject_pending step (pr_risk rt) (plain_order o') time = Inr risk"
      and e: "emit_cancelled step cfg time row ''command_reject'' (bo_id o') reason ?c = Inr c'"
    have "desk_run step T c ?c" by (rule desk_run_step) (simp_all add: desk_def c desk_step.Reject [OF s r])
    with emit_cancelled_run [OF e] show ?thesis by (blast intro: desk_run_trans)
  next
    fix o' risk
    let ?c = "(sh, rt\<lparr>pr_risk := risk, pr_live := spop (pr_live rt) i\<rparr>)"
    assume s: "sget (pr_live rt) i = Some o'" and r: "oracle_cancel step (pr_risk rt) (plain_order o') reason (Some time) = Inr risk"
      and e: "emit_cancelled step cfg time row ''cancel'' (bo_id o') reason ?c = Inr c'"
    have "desk_run step T c ?c" by (rule desk_run_step) (simp_all add: desk_def c desk_step.Cancel [OF s r])
    with emit_cancelled_run [OF e] show ?thesis by (blast intro: desk_run_trans)
  qed (simp add: c same_desk_run same_desk_def)
qed

text \<open>Admission takes the id from the queue; \<open>held\<close> is the desk with the id still in it.\<close>

definition held :: "int \<Rightarrow> 'p desk \<Rightarrow> 'p desk" where
  "held i d = (case d of (r, n, q, p, l) \<Rightarrow> (r, n, add_mset i q, p, l))"

definition desk_run_from :: "'p process \<Rightarrow> string \<Rightarrow> 'p desk \<Rightarrow> 'p mm_cell \<Rightarrow> 'p mm_cell \<Rightarrow> bool" where
  "desk_run_from step T d c c' \<longleftrightarrow>
     (desk_step step)\<^sup>*\<^sup>* d (desk T c') \<and> (\<forall>T'. T' \<noteq> T \<longrightarrow> queue T' (fst c') = queue T' (fst c)) \<and>
     ms_next_order (fst c) \<le> ms_next_order (fst c') \<and>
     ((\<forall>e \<in> set (ms_heap (fst c)). own_client e) \<longrightarrow> (\<forall>e \<in> set (ms_heap (fst c')). own_client e))"

lemma desk_run_from_desk: "desk_run step T c c' \<Longrightarrow> desk_run_from step T (desk T c) c c'"
  by (simp add: desk_run_def desk_run_from_def)

lemma desk_run_from_step:
  assumes "desk_step step d (desk T c1)" and "desk_run step T c1 c'" and "fst c1 = fst c"
  shows "desk_run_from step T d c c'"
  using assms by (auto simp: desk_run_from_def desk_run_def intro: converse_rtranclp_into_rtranclp)

lemma risk_action_run:
  assumes "risk_action step cfg latency time causal row o' c = Inr c'" and own: "mo_client o' = bo_id o'"
  shows "desk_run_from step T (held (bo_id o') (desk T c)) c c'"
proof -
  obtain sh rt where c: "c = (sh, rt)" by (cases c)
  from risk_action_cases [OF assms(1) [unfolded c]] obtain rejection risk result c1 where
    a: "oracle_admit step (pr_risk rt) (bo_id o') (bo_side o') (bo_remaining o') (bo_price o') time = Inr (rejection, risk)"
    and e: "emit_risk step cfg time row ''admit'' (bo_id o') result (sh, rt\<lparr>pr_risk := risk\<rparr>) = Inr c1"
    and rest: "(\<exists>reason. rejection = Some reason \<and> emit_rejection cfg time row ''risk'' reason c1 = Inr c') \<or>
     (\<exists>v delay. rejection = None \<and> nonnegative_int v = Inr delay \<and>
        push (Ack_Action row (bo_id o')) (time + delay) causal
          (fst c1, (snd c1)\<lparr>pr_pending := sset (pr_pending (snd c1)) (bo_id o') o'\<rparr>) = Inr c')"
    unfolding own by blast
  from rest show ?thesis
  proof (elim disjE exE conjE)
    fix reason
    assume r: "rejection = Some reason" and x: "emit_rejection cfg time row ''risk'' reason c1 = Inr c'"
    show ?thesis
    proof (rule desk_run_from_step)
      show "desk_step step (held (bo_id o') (desk T c)) (desk T (sh, rt\<lparr>pr_risk := risk\<rparr>))"
        using desk_step.Refuse [OF a [unfolded r]] by (simp add: held_def desk_def c)
      show "desk_run step T (sh, rt\<lparr>pr_risk := risk\<rparr>) c'"
        using emit_risk_run [OF e] same_desk_run [OF emit_rejection_same [OF x]] by (blast intro: desk_run_trans)
    qed (simp add: c)
  next
    fix v delay
    let ?p = "sset (pr_pending rt) (bo_id o') o'"
    assume r: "rejection = None" and x: "push (Ack_Action row (bo_id o')) (time + delay) causal
          (fst c1, (snd c1)\<lparr>pr_pending := sset (pr_pending (snd c1)) (bo_id o') o'\<rparr>) = Inr c'"
    note E = emit_risk_run [OF e, of T]
    show ?thesis
    proof (rule desk_run_from_step)
      show "desk_step step (held (bo_id o') (desk T c)) (desk T (sh, rt\<lparr>pr_risk := risk, pr_pending := ?p\<rparr>))"
        using desk_step.Approve [OF a [unfolded r]] by (simp add: held_def desk_def c)
      have "desk_run step T (sh, rt\<lparr>pr_risk := risk, pr_pending := ?p\<rparr>)
          (fst c1, (snd c1)\<lparr>pr_pending := sset (pr_pending (snd c1)) (bo_id o') o'\<rparr>)"
        using emit_risk_effect [OF e] by (auto intro!: desk_run_step simp: desk_def queue_def desk_step.Asked)
      then show "desk_run step T (sh, rt\<lparr>pr_risk := risk, pr_pending := ?p\<rparr>) c'"
        using push_run [OF x] by (blast intro: desk_run_trans)
    qed (simp add: c)
  qed
qed

section \<open>All desks of a run\<close>

lemma desk_ok_keyed: "desk_ok (desk T c) \<Longrightarrow> keyed (pr_pending (snd c)) \<and> keyed (pr_live (snd c))"
  by (simp add: desk_ok_def desk_def)

lemma sset_other_mem: "(a, b) \<in> set (sset d k v) \<Longrightarrow> a \<noteq> k \<Longrightarrow> (a, b) \<in> set d"
  by (induction d) (auto split: if_splits)

text \<open>The desk before an action, whose ticket is still on the heap.\<close>

definition desk_at :: "string \<Rightarrow> action_key \<times> action \<Rightarrow> 'p mm_cell \<Rightarrow> 'p desk" where
  "desk_at T e c = (pr_risk (snd c), ms_next_order (fst c), ticket T e + queue T (fst c), pr_pending (snd c), pr_live (snd c))"

lemma ticket_none: "\<forall>row o'. snd e \<noteq> Risk_Action row o' \<Longrightarrow> ticket T e = {#}"
  by (cases "snd e") (auto simp: ticket_def)

lemma desk_at_plain: "ticket T e = {#} \<Longrightarrow> desk_at T e c = desk T c"
  by (simp add: desk_at_def desk_def)

lemma row_action_run:
  assumes "row_action step cfg latency strategy time causal act c = Inr c'" and T: "action_ticker act = Inr T"
    and own: "own_client (k, act)" and ok: "desk_ok (desk_at T (k, act) c)"
  shows "desk_run_from step T (desk_at T (k, act) c) c c'"
proof (cases "\<exists>row o'. act = Risk_Action row o'")
  case True
  then obtain row o' where act: "act = Risk_Action row o'" by blast
  have "desk_at T (k, act) c = held (bo_id o') (desk T c)"
    using T by (simp add: desk_at_def ticket_def act held_def desk_def)
  moreover have "risk_action step cfg latency time causal row o' c = Inr c'" using assms(1) by (simp add: act)
  moreover have "mo_client o' = bo_id o'" using own by (simp add: own_client_def act)
  ultimately show ?thesis using risk_action_run by metis
next
  case False
  then have d: "desk_at T (k, act) c = desk T c" by (intro desk_at_plain ticket_none) simp
  with ok have "keyed (pr_live (snd c))" using desk_ok_keyed by metis
  with assms(1) T False have "desk_run step T c c'"
    by (cases act) (auto intro: feature_action_run trade_action_run fill_action_run decision_action_run
      command_action_run ack_action_run cancel_action_run)
  then show ?thesis unfolding d by (rule desk_run_from_desk)
qed

lemma desk_run_from_same: "desk_run_from step T (desk_at T (k, act) c) c c"
proof -
  consider "ticket T (k, act) = {#}" | i where "ticket T (k, act) = {#i#}" by (cases act; cases "action_ticker act = Inr T") (auto simp: ticket_def)
  then have "(desk_step step)\<^sup>*\<^sup>* (desk_at T (k, act) c) (desk T c)"
    by cases (simp_all add: desk_at_def desk_def, blast intro: desk_step.Drop)
  then show ?thesis by (simp add: desk_run_from_def)
qed

lemma cell_action_run:
  assumes run: "cell_action step cfg time causal act c = Inr c'" and T: "action_ticker act = Inr T"
    and own: "own_client (k, act)" and ok: "desk_ok (desk_at T (k, act) c)"
  shows "desk_run_from step T (desk_at T (k, act) c) c c'"
  using cell_action_cases [OF run]
proof (elim disjE exE conjE)
  fix r assume act: "act = Segment_Action r" and s: "segment_action step cfg time r c = Inr c'"
  then have d: "desk_at T (k, act) c = desk T c" by (intro desk_at_plain ticket_none) simp
  with ok have "keyed (pr_pending (snd c))" "keyed (pr_live (snd c))" using desk_ok_keyed by metis+
  from segment_action_run [OF s this] show ?thesis unfolding d by (rule desk_run_from_desk)
next
  assume "c' = c"
  then show ?thesis using desk_run_from_same by simp
next
  fix latency strategy assume "row_action step cfg latency strategy time causal act c = Inr c'"
  from row_action_run [OF this T own ok] show ?thesis .
qed

definition desks_ok :: "mm_shared \<Rightarrow> (string \<times> 'p product_runtime) list \<Rightarrow> bool" where
  "desks_ok sh runtimes \<longleftrightarrow> distinct (map fst runtimes) \<and> (\<forall>e \<in> set (ms_heap sh). own_client e) \<and>
     (\<forall>(T, rt) \<in> set runtimes. desk_ok (desk T (sh, rt)))"

lemma desks_ok_update:
  assumes ok: "desks_ok sh runtimes" and T: "sget runtimes T = Some rt"
    and run: "desk_run_from step T (desk T (sh, rt)) (sh0, rt) (sh', rt')"
    and sh0: "\<And>T'. T' \<noteq> T \<Longrightarrow> queue T' sh0 = queue T' sh" "ms_next_order sh0 = ms_next_order sh"
      "set (ms_heap sh0) \<subseteq> set (ms_heap sh)"
  shows "desks_ok sh' (sset runtimes T rt')"
proof -
  from ok T have d: "desk_ok (desk T (sh, rt))" by (auto simp: desks_ok_def dest!: sget_mem)
  with run have own: "desk_ok (desk T (sh', rt'))" by (auto simp: desk_run_from_def intro: desk_steps_ok)
  have other: "desk_ok (desk T' (sh', rt2))" if "(T', rt2) \<in> set runtimes" "T' \<noteq> T" for T' rt2
  proof -
    from ok that have "desk_ok (desk T' (sh, rt2))" by (auto simp: desks_ok_def)
    moreover have "desk_step step (desk T' (sh, rt2)) (desk T' (sh', rt2))"
      using run sh0 that(2) by (auto simp: desk_run_from_def desk_def intro: desk_step.Elsewhere)
    ultimately show ?thesis by (rule desk_step_ok [rotated])
  qed
  have "distinct (map fst (sset runtimes T rt'))"
    using plain.dwf_dset [of runtimes T rt'] ok by (simp add: dwf_plain desks_ok_def)
  moreover have "desk_ok (desk T' (sh', rt2))" if "(T', rt2) \<in> set (sset runtimes T rt')" for T' rt2
  proof (cases "T' = T")
    case True
    with \<open>distinct (map fst (sset runtimes T rt'))\<close> that have "sget (sset runtimes T rt') T = Some rt2"
      by (metis plain.dget_member dwf_plain)
    with own True show ?thesis by simp
  next
    case False
    from other [OF sset_other_mem [OF that False] False] show ?thesis .
  qed
  ultimately show ?thesis using run ok sh0(3) by (auto simp: desks_ok_def desk_run_from_def)
qed

definition all_ok :: "'p mm_state \<Rightarrow> bool" where
  "all_ok st \<longleftrightarrow> desks_ok (mm_shared st) (mm_runtimes st)"

lemma mm_action_ok:
  assumes heap: "ms_heap (mm_shared st) = (k, act) # rest" and ok: "all_ok st"
    and run: "mm_action step cfg (st\<lparr>mm_shared := (mm_shared st)\<lparr>ms_heap := rest\<rparr>\<rparr>) (k, act) = Inr st'"
  shows "all_ok st'"
proof -
  let ?sh0 = "(mm_shared st)\<lparr>ms_heap := rest\<rparr>"
  obtain t causal k' where k: "k = (t, causal, k')" by (cases k)
  from run obtain T rt c' where T: "action_ticker act = Inr T" and rt: "sget (mm_runtimes st) T = Some rt"
    and c: "cell_action step cfg t causal act (?sh0, rt) = Inr c'"
    and st': "mm_shared st' = fst c'" "mm_runtimes st' = sset (mm_runtimes st) T (snd c')"
    unfolding mm_action_def k case_prod_beta rbind_eq_Inr of_option_eq fst_conv snd_conv
    by (elim exE conjE) (rule that, assumption, auto)
  have q: "queue T' (mm_shared st) = ticket T' (k, act) + queue T' ?sh0" for T'
    by (simp add: queue_def heap)
  have at: "desk_at T (k, act) (?sh0, rt) = desk T (mm_shared st, rt)"
    by (simp add: desk_at_def desk_def q)
  from ok rt have "desk_ok (desk T (mm_shared st, rt))" by (auto simp: all_ok_def desks_ok_def dest!: sget_mem)
  moreover have "own_client (k, act)" using ok heap by (simp add: all_ok_def desks_ok_def)
  ultimately have "desk_run_from step T (desk T (mm_shared st, rt)) (?sh0, rt) c'"
    using cell_action_run [OF c T, of k] by (simp add: at)
  moreover have "queue T' ?sh0 = queue T' (mm_shared st)" if "T' \<noteq> T" for T'
  proof -
    have "ticket T' (k, act) = {#}" using T that by (auto simp: ticket_def split: action.splits)
    then show ?thesis by (simp add: q)
  qed
  moreover have "set rest \<subseteq> set (ms_heap (mm_shared st))" using heap by auto
  ultimately have "desks_ok (fst c') (sset (mm_runtimes st) T (snd c'))"
    using desks_ok_update [of "mm_shared st" "mm_runtimes st" T rt step ?sh0 "fst c'" "snd c'"] ok rt
    by (simp add: all_ok_def)
  then show ?thesis by (simp add: all_ok_def st')
qed

lemma turn_ok:
  assumes ok: "all_ok st" and turn: "loop_turn step cfg terminal st = Inl st'"
  shows "all_ok st'"
proof -
  from turn obtain k act rest where heap: "ms_heap (mm_shared st) = (k, act) # rest"
    and run: "mm_action step cfg (st\<lparr>mm_shared := (mm_shared st)\<lparr>ms_heap := rest\<rparr>\<rparr>) (k, act) = Inr st'"
    by (auto simp: loop_turn_def Let_def split: list.splits if_splits sum.splits)
  from mm_action_ok [OF heap ok run] show ?thesis .
qed

lemma desks_ok_drop:
  assumes ok: "desks_ok sh runtimes" and heap: "ms_heap sh = e # rest"
  shows "desks_ok (sh\<lparr>ms_heap := rest\<rparr>) runtimes"
proof -
  have "desk_ok (desk T (sh\<lparr>ms_heap := rest\<rparr>, rt))" if "desk_ok (desk T (sh, rt))" for T and rt :: "'a product_runtime"
  proof -
    obtain k act where e: "e = (k, act)" by (cases e)
    have "desk_at T (k, act) (sh\<lparr>ms_heap := rest\<rparr>, rt) = desk T (sh, rt)"
      by (simp add: desk_at_def desk_def queue_def heap e)
    with desk_run_from_same [of step T k act "(sh\<lparr>ms_heap := rest\<rparr>, rt)" for step] that show ?thesis
      by (auto simp: desk_run_from_def intro: desk_steps_ok)
  qed
  with ok show ?thesis by (auto simp: desks_ok_def heap)
qed

lemma desks_loop_ok:
  assumes "action_loop step cfg terminal st = Some (Inr st')" and "all_ok st"
  shows "all_ok st'"
proof -
  have "\<exists>s. all_ok s \<and> loop_turn step cfg terminal s = Inr (Inr st')"
    by (rule actions.ends_in [where ok = all_ok, OF _ assms(2,1)]) (rule turn_ok)
  then obtain s where s: "all_ok s" "loop_turn step cfg terminal s = Inr (Inr st')" by blast
  then consider "st' = s" | e rest where "ms_heap (mm_shared s) = e # rest"
      "st' = s\<lparr>mm_shared := (mm_shared s)\<lparr>ms_heap := rest\<rparr>\<rparr>"
    by (auto simp: loop_turn_def Let_def split: list.splits if_splits sum.splits)
  then show ?thesis using s(1) desks_ok_drop by cases (auto simp: all_ok_def)
qed

end
