(* ===== verification/Multi_Resolved.thy ===== *)
theory Multi_Resolved
  imports Multi_Lifecycle
begin

text \<open>
  No order of a multi-market run is left unresolved: the runtimes start with the desks in order, the loop keeps
  them so (\<open>Multi_Lifecycle\<close>), and the end of the run withdraws every order that is left.
\<close>

section \<open>The start\<close>

lemma oracle_start_fresh:
  assumes "oracle_start step p config True = Inr r"
  shows "traced_client r \<and> (\<forall>i. lives r i = Some Fresh)"
proof -
  from assms obtain r0 cmd x r1 input where a: "oracle_ask step r0 cmd = Inr x" and r0: "or_canonical r0"
    and rec: "oracle_record step (snd x) ''init'' input ''ready'' = Inr r"
    unfolding oracle_start_def case_prod_beta rbind_eq_Inr
    by (elim exE conjE) (rule that, assumption, simp, assumption)
  have "extends r0 [] (snd x)" by (rule ask_extends [of step r0 cmd "fst x"]) (simp add: a)
  with record_extends [OF rec] r0 have c: "or_canonical r" by (simp add: extends_def)
  have "lives_ok r n Map.empty" for n using oracle_start_lives [OF assms] by blast
  with c have "numbered_rows (or_trace r)" "\<And>n i. n \<le> i \<longrightarrow> lives r i = Some Fresh" by (simp_all add: lives_ok_def)
  with c show ?thesis by (auto simp: traced_client_def)
qed

definition fresh_runtimes :: "(string \<times> 'p product_runtime) list \<Rightarrow> bool" where
  "fresh_runtimes runtimes \<longleftrightarrow> distinct (map fst runtimes) \<and>
     (\<forall>(T, rt) \<in> set runtimes. pr_pending rt = [] \<and> pr_live rt = [] \<and> traced_client (pr_risk rt) \<and>
        (\<forall>i. lives (pr_risk rt) i = Some Fresh))"

lemma sset_mem: "(a, b) \<in> set (sset d k v) \<Longrightarrow> (a, b) = (k, v) \<or> (a, b) \<in> set d"
  by (induction d) (auto split: if_splits)

lemma start_runtime_cases:
  assumes "start_runtime step p0 d risk limits runtimes x = Inr runtimes'"
  shows "\<exists>config r T rt. oracle_start step p0 config True = Inr r \<and> runtimes' = sset runtimes T rt \<and>
    pr_pending rt = [] \<and> pr_live rt = [] \<and> pr_risk rt = r"
  using assms unfolding start_runtime_def case_prod_beta rbind_eq_Inr
  by (elim exE conjE) (intro exI conjI, assumption, rule sym, erule sum.inject(2) [THEN iffD1], simp_all (no_asm_simp))

lemma start_runtime_fresh:
  assumes "fresh_runtimes runtimes" and "start_runtime step p0 d risk limits runtimes x = Inr runtimes'"
  shows "fresh_runtimes runtimes'"
proof -
  from start_runtime_cases [OF assms(2)] obtain config r T and rt :: "'a product_runtime"
    where r: "oracle_start step p0 config True = Inr r" and u: "runtimes' = sset runtimes T rt"
    and rt: "pr_pending rt = []" "pr_live rt = []" "pr_risk rt = r" by blast
  have "distinct (map fst runtimes')"
    using plain.dwf_dset [of runtimes T rt] assms(1) by (simp add: dwf_plain fresh_runtimes_def u)
  moreover have "(T', rt') = (T, rt) \<or> (T', rt') \<in> set runtimes" if "(T', rt') \<in> set runtimes'" for T' rt'
    using that sset_mem [of T' rt' runtimes T rt] by (auto simp: u)
  ultimately show ?thesis using oracle_start_fresh [OF r] rt assms(1)
    unfolding fresh_runtimes_def by fast
qed

lemma start_runtimes_fresh:
  "res_fold (start_runtime step p0 d risk limits) runtimes xs = Inr runtimes' \<Longrightarrow> fresh_runtimes runtimes \<Longrightarrow>
   fresh_runtimes runtimes'"
proof (induction xs arbitrary: runtimes)
  case (Cons x xs)
  then obtain rs where "start_runtime step p0 d risk limits runtimes x = Inr rs"
    "res_fold (start_runtime step p0 d risk limits) rs xs = Inr runtimes'" by (auto simp: rbind_eq_Inr)
  with Cons.IH start_runtime_fresh [OF Cons.prems(2)] show ?case by blast
qed simp

lemma fresh_desks: "fresh_runtimes runtimes \<Longrightarrow> desks_ok shared_init runtimes"
  by (auto simp: fresh_runtimes_def desks_ok_def shared_init_def desk_ok_def desk_def queue_def keyed_def)

lemma record_cell_run:
  assumes "record_cell features r c = Inr c'"
  shows "desk_run step T c c'"
  using assms
  by (auto simp: record_cell_def rbind_eq_Inr split: if_splits
    intro: push_run [THEN conjunct1] desk_run_trans [OF push_run [THEN conjunct1] push_run [THEN conjunct1]])

lemma push_record_ok:
  assumes ok: "all_ok st" and run: "push_record features st r = Inr st'"
  shows "all_ok st'"
proof -
  from run obtain T rt and c' :: "'a mm_cell" where rt: "sget (mm_runtimes st) T = Some rt"
    and c: "record_cell features r (mm_shared st, rt) = Inr c'"
    and st': "mm_shared st' = fst c'" "mm_runtimes st' = sset (mm_runtimes st) T (snd c')"
    unfolding push_record_def case_prod_beta rbind_eq_Inr of_option_eq Let_def
    by (elim exE conjE) (rule that, assumption, auto)
  have "desk_run_from step T (desk T (mm_shared st, rt)) (mm_shared st, rt) c'" for step
    by (rule desk_run_from_desk [OF record_cell_run [OF c]])
  then have "desks_ok (fst c') (sset (mm_runtimes st) T (snd c'))" using ok rt
    by (intro desks_ok_update [of "mm_shared st" _ _ rt _ "mm_shared st"]) (simp_all add: all_ok_def)
  then show ?thesis by (simp add: all_ok_def st')
qed

lemma push_records_ok:
  "res_fold (push_record features) st rs = Inr st' \<Longrightarrow> all_ok st \<Longrightarrow> all_ok st'"
proof (induction rs arbitrary: st)
  case (Cons r rs)
  then obtain s where "push_record features st r = Inr s" "res_fold (push_record features) s rs = Inr st'"
    by (auto simp: rbind_eq_Inr)
  with Cons.IH push_record_ok [OF Cons.prems(2)] show ?case by blast
qed simp

lemma start_run_ok:
  assumes "start_run step p0 pf = Inr (st, terminal)"
  shows "all_ok st"
proof -
  from assms obtain runtimes where r: "start_runtimes step p0 pf = Inr runtimes"
    and p: "res_fold (push_record (pf_features pf)) \<lparr>mm_shared = shared_init, mm_runtimes = runtimes\<rparr> (pf_records pf) = Inr st"
    by (auto simp: start_run_def rbind_eq_Inr)
  from r obtain risk limits xs where
    "res_fold (start_runtime step p0 (pf_definition_sha256 pf) risk limits) [] xs = Inr runtimes"
    unfolding start_runtimes_def rbind_eq_Inr by blast
  then have "fresh_runtimes runtimes" by (rule start_runtimes_fresh) (simp add: fresh_runtimes_def)
  from push_records_ok [OF p] fresh_desks [OF this] show ?thesis by (simp add: all_ok_def)
qed

section \<open>The end of the run\<close>

definition resolved :: "'p product_runtime \<Rightarrow> bool" where
  "resolved rt \<longleftrightarrow> pr_pending rt = [] \<and> pr_live rt = []"

lemma finish_cell_run:
  assumes "finish_cell step cfg time row c = Inr c'" and "keyed (pr_pending (snd c))" and "keyed (pr_live (snd c))"
  shows "desk_run step T c c' \<and> resolved (snd c')"
proof -
  from assms(1) obtain c1 x c2 vs vs' where w: "withdraw_all step cfg time (Some row) ''end_of_run'' c = Inr c1"
    and v: "oracle_view step (pr_risk (snd c1)) = Inr x"
    and e: "emit cfg ''exposure'' time row vs (fst c1, (snd c1)\<lparr>pr_risk := snd x\<rparr>) = Inr c2"
    and e': "emit cfg ''summary'' time row vs' c2 = Inr c'"
    unfolding finish_cell_def case_prod_beta rbind_eq_Inr prod.collapse by blast
  let ?c = "(fst c1, (snd c1)\<lparr>pr_risk := snd x\<rparr>)"
  have "extends (pr_risk (snd c1)) [] (snd x)" using view_extends [of step "pr_risk (snd c1)" "fst x" "snd x"] v by simp
  then have "desk_run step T c1 ?c" by (intro desk_run_step) (simp_all add: desk_def desk_step.Asked)
  moreover note withdraw_all_run [OF w assms(2,3), of T]
  moreover have "desk_run step T ?c c2" "desk_run step T c2 c'"
    using same_desk_run [OF emit_same [OF e]] same_desk_run [OF emit_same [OF e']] by simp_all
  ultimately have "desk_run step T c c'" by (blast intro: desk_run_trans)
  moreover have "pr_pending (snd c1) = []" "pr_live (snd c1) = []" using withdraw_all_run [OF w assms(2,3)] by simp_all
  ultimately show ?thesis using emit_same [OF e] emit_same [OF e'] by (simp add: resolved_def same_desk_def)
qed

lemma sset_keys_in: "sget d k = Some v \<Longrightarrow> map fst (sset d k v') = map fst d"
  by (induction d) (auto split: if_splits)

lemma finish_product_ok:
  fixes st :: "'p mm_state"
  assumes ok: "all_ok st" and run: "finish_product step cfg time rows st T = Inr st'"
  shows "all_ok st' \<and> map fst (mm_runtimes st') = map fst (mm_runtimes st) \<and>
    (\<forall>(t, rt) \<in> set (mm_runtimes st'). (t = T \<and> resolved rt) \<or> (t \<noteq> T \<and> (t, rt) \<in> set (mm_runtimes st)))"
proof -
  from run obtain row rt and c' :: "'p mm_cell" where rt: "sget (mm_runtimes st) T = Some rt"
    and c: "finish_cell step cfg time row (mm_shared st, rt) = Inr c'"
    and st': "mm_shared st' = fst c'" "mm_runtimes st' = sset (mm_runtimes st) T (snd c')"
    unfolding finish_product_def case_prod_beta rbind_eq_Inr of_option_eq Let_def
    by (elim exE conjE) (rule that, assumption, auto)
  from ok rt have "desk_ok (desk T (mm_shared st, rt))" by (auto simp: all_ok_def desks_ok_def dest!: sget_mem)
  from desk_ok_keyed [OF this] finish_cell_run [OF c]
  have run: "desk_run step T (mm_shared st, rt) c'" and res: "resolved (snd c')" by simp_all
  have ok': "desks_ok (fst c') (sset (mm_runtimes st) T (snd c'))" using ok rt desk_run_from_desk [OF run]
    by (intro desks_ok_update [of "mm_shared st" _ _ rt _ "mm_shared st"]) (simp_all add: all_ok_def)
  have "(t = T \<and> resolved r) \<or> (t \<noteq> T \<and> (t, r) \<in> set (mm_runtimes st))"
    if "(t, r) \<in> set (mm_runtimes st')" for t r
  proof (cases "t = T")
    case True
    with that ok' have "sget (mm_runtimes st') T = Some r" by (metis plain.dget_member dwf_plain desks_ok_def st'(2))
    then show ?thesis using res True by (simp add: st')
  next
    case False
    with sset_other_mem that st'(2) show ?thesis by fastforce
  qed
  then show ?thesis using ok' sset_keys_in [OF rt] by (auto simp: all_ok_def st')
qed

lemma res_map_mem: "res_map f xs = Inr ys \<Longrightarrow> y \<in> set ys \<Longrightarrow> \<exists>x \<in> set xs. f x = Inr y"
  by (induction xs arbitrary: ys) (auto simp: rbind_eq_Inr)

lemma finish_folds:
  "res_fold (finish_product step cfg time rows) st ts = Inr st' \<Longrightarrow> all_ok st \<Longrightarrow>
   \<forall>(t, rt) \<in> set (mm_runtimes st). t \<in> set ts \<or> resolved rt \<Longrightarrow>
   all_ok st' \<and> (\<forall>(t, rt) \<in> set (mm_runtimes st'). resolved rt)"
proof (induction ts arbitrary: st)
  case (Cons T ts)
  then obtain s where s: "finish_product step cfg time rows st T = Inr s"
    and rest: "res_fold (finish_product step cfg time rows) s ts = Inr st'" by (auto simp: rbind_eq_Inr)
  note F = finish_product_ok [OF Cons.prems(2) s]
  from F Cons.prems(3) have "\<forall>(t, rt) \<in> set (mm_runtimes s). t \<in> set ts \<or> resolved rt" by fastforce
  with Cons.IH [OF rest] F show ?case by blast
qed auto

lemma finish_products_ok:
  assumes "finish_products step cfg time st = Inr st'" and "all_ok st"
  shows "all_ok st' \<and> (\<forall>(t, rt) \<in> set (mm_runtimes st'). resolved rt)"
proof -
  from assms(1) obtain rows where
    "res_fold (finish_product step cfg time rows) st (map fst (mm_runtimes st)) = Inr st'"
    unfolding finish_products_def Let_def rbind_eq_Inr by blast
  from finish_folds [OF this assms(2)] show ?thesis by force
qed

lemma desk_resolved:
  assumes "desk_ok (desk T (sh, rt))" and "resolved rt"
  shows "numbered_rows (or_trace (pr_risk rt)) \<and> lives (pr_risk rt) i \<in> {Some Fresh, Some Live, Some Closed}"
proof -
  from assms have a: "lives (pr_risk rt) i \<notin> {None, Some Bound, Some Admitted}" "numbered_rows (or_trace (pr_risk rt))"
    by (auto simp: desk_ok_def desk_def resolved_def traced_client_def)
  then show ?thesis by (cases "lives (pr_risk rt) i") (auto, metis life.exhaust)
qed


end
