(* ===== verification/Multi_Sample.thy ===== *)
theory Multi_Sample
  imports Multi_Resolved Backtest_Sample
begin

text \<open>
  A small multi-market run, from its files to its result: one product, one segment, a snapshot and two
  trades, and a risk oracle that grants everything. The properties of the multi-market backtest are applied
  to it. Every hash is the same, so that the files can be written down.
\<close>

section \<open>The files\<close>

definition quick_oracle :: "unit process" where
  \<open>quick_oracle line u =
     (u, if line = ''SNAPSHOT'' then ''{"event_watermark":0,"live_orders":[],"pending_orders":[]}''
         else snd (sample_oracle line u))\<close>

definition sm_identity :: json where
  "sm_identity = JObj [(''input_product_entry_sha256'', JStr ''h''), (''ticker'', JStr ''T''), (''venue_market_id'', JStr ''V'')]"

definition sm_product :: json where
  "sm_product = JObj
     [(''contract_identity'', JObj [(''contract_id'', JInt 7)]),
      (''latency'', JObj [(''acknowledgement_ns'', JInt 1), (''cancellation_ns'', JInt 1), (''decision_ns'', JInt 1),
         (''fill_ns'', JInt 1), (''market_data_ns'', JInt 1), (''order_ns'', JInt 1)]),
      (''product_identity'', sm_identity),
      (''reviewed_lineage'', JNull),
      (''risk_binding'', JObj [(''account_id'', JInt 1), (''contract_id'', JInt 7), (''strategy_id'', JInt 1), (''trader_id'', JInt 1)]),
      (''strategy'', JObj [(''decision_interval_ns'', JInt 100), (''minimum_spread_dollars'', JStr ''0.1''),
         (''order_lifetime_ns'', JInt 50), (''quote_quantity_contracts'', JInt 1), (''strategy_instance_id'', JStr ''s'')])]"

definition sm_config :: jobj where
  "sm_config =
     [(''execution'', JObj [(''model'', JStr ''trade_touch_v1'')]),
      (''inputs'', JObj
         [(''features'', JObj [(''feature_definition_sha256'', JStr ''h''), (''manifest_path'', JStr ''f''),
             (''manifest_sha256'', JStr ''h''), (''rows_path'', JStr ''w''), (''rows_sha256'', JStr ''h'')]),
          (''normalization'', JObj [(''manifest_path'', JStr ''n''), (''manifest_sha256'', JStr ''h''),
             (''product_map_path'', JStr ''p''), (''product_map_sha256'', JStr ''h''), (''records_path'', JStr ''r''),
             (''records_sha256'', JStr ''h''), (''source_scopes_path'', JStr ''s''), (''source_scopes_sha256'', JStr ''h'')])]),
      (''limitations'', JArr []),
      (''products'', JArr [sm_product]),
      (''risk'', JObj
         [(''launcher'', JStr ''o''),
          (''limits_by_contract'', JArr [JObj [(''contract_id'', JInt 7),
             (''limits'', JObj (map (\<lambda>k. (k, JInt 10)) (sort_key id oracle_limits)))]]),
          (''risk_contract'', JObj [(''post_only'', JBool True), (''price_unit'', JStr ''cent''),
             (''quantity_unit'', JStr ''whole_contract''), (''schema'', JStr ''pmm.research_risk_contract.v1'')])]),
      (''run_id'', JStr ''m'')]"

definition sm_normalization :: jobj where
  "sm_normalization =
     [(''completeness'', complete_interval), (''market_tickers'', JArr [JStr ''T'']), (''output_product_sha256'', JStr ''h''),
      (''output_records_sha256'', JStr ''h''), (''output_source_scopes_sha256'', JStr ''h'')]"

definition sm_features :: jobj where
  "sm_features =
     [(''completeness'', complete_interval),
      (''input'', JObj [(''normalization_manifest_sha256'', JStr ''h''), (''product_map_sha256'', JStr ''h''),
         (''records_sha256'', JStr ''h''), (''source_scopes_sha256'', JStr ''h'')]),
      (''output'', JObj [(''feature_row_count'', JInt 3), (''feature_rows_sha256'', JStr ''h'')]),
      (''products'', JArr [JObj [(''input_product_entry_sha256'', JStr ''h''), (''product_identity'', JObj [(''ticker'', JStr ''T'')])]])]"

definition sm_product_map :: jobj where
  "sm_product_map = [(''products'', JArr [JObj [(''ticker'', JStr ''T''), (''venue_market_id'', JStr ''V'')]])]"

definition sm_event :: "int \<Rightarrow> int \<Rightarrow> int \<Rightarrow> jobj" where
  "sm_event ordinal raw time =
     [(''book_segment_id'', JStr ''g''), (''event_id'', JStr ''e''),
      (''event_type'', JStr (if ordinal = 2 then ''book_snapshot'' else ''trade'')), (''kind'', JStr ''market_event''),
      (''logical_time_utc_ns'', JInt time), (''normalization_ordinal'', JInt ordinal),
      (''payload'', JObj [(''quantity_contracts'', JStr ''1''), (''yes_price_dollars'', JStr ''0.4'')]),
      (''raw_ingress_ordinal'', JInt raw), (''source_scope_id'', JStr ''c''), (''ticker'', JStr ''T'')]"

definition sm_records :: "jobj list" where
  "sm_records =
     [[(''book_segment_id'', JStr ''g''), (''kind'', JStr ''segment_boundary''), (''logical_time_utc_ns'', JInt 10),
       (''normalization_ordinal'', JInt 1), (''raw_ingress_ordinal'', JInt 1), (''source_scope_id'', JStr ''c''),
       (''ticker'', JStr ''T'')],
      sm_event 2 1 10, sm_event 3 2 20, sm_event 4 3 30]"

definition sm_row :: "int \<Rightarrow> int \<Rightarrow> int \<Rightarrow> jobj" where
  "sm_row ordinal raw time =
     [(''as_of'', JObj [(''capture_raw_ingress_watermark'', JInt raw), (''logical_time_utc_ns'', JInt time),
         (''normalization_watermark'', JInt ordinal),
         (''product_applied_watermark'', JObj [(''normalization_ordinal'', JInt ordinal), (''raw_ingress_ordinal'', JInt raw)])]),
      (''product_identity'', JObj [(''ticker'', JStr ''T'')]),
      (''segment_identity'', JObj [(''book_segment_id'', JStr ''g'')]),
      (''values'', JObj [(''best_yes_ask_dollars'', JStr ''0.6''), (''best_yes_bid_dollars'', JStr ''0.4'')])]"

definition sm_rows :: "jobj list" where
  "sm_rows = [sm_row 2 1 10, sm_row 3 2 20, sm_row 4 3 30]"

definition sm_repository :: repository where
  "sm_repository =
     \<lparr>rp_inside = (\<lambda>_. True),
      rp_file = map_of [(''n'', canonical_json (JObj sm_normalization)), (''r'', jsonl_text sm_records), (''s'', []),
        (''p'', canonical_json (JObj sm_product_map)), (''f'', canonical_json (JObj sm_features)), (''w'', jsonl_text sm_rows)]\<rparr>"

definition sm_sha :: "string \<Rightarrow> string" where
  "sm_sha s = ''h''"

definition sm_valid :: validator where
  "sm_valid d v = True"

section \<open>The preflight\<close>

lemma sm_plain:
  "json_plain (JObj sm_config)" "sorted_obj sm_config = sm_config"
  "json_plain (JObj sm_normalization)" "sorted_obj sm_normalization = sm_normalization"
  "json_plain (JObj sm_features)" "sorted_obj sm_features = sm_features"
  "json_plain (JObj sm_product_map)" "sorted_obj sm_product_map = sm_product_map"
  "\<forall>d \<in> set sm_records. json_plain (JObj d)" "map sorted_obj sm_records = sm_records"
  "\<forall>d \<in> set sm_rows. json_plain (JObj d)" "map sorted_obj sm_rows = sm_rows"
  by code_simp+

definition sm_texts :: input_texts where
  "sm_texts =
     \<lparr>it_normalization = canonical_json (JObj sm_normalization), it_records = jsonl_text sm_records, it_scopes = [],
      it_product_map = canonical_json (JObj sm_product_map), it_features = canonical_json (JObj sm_features),
      it_rows = jsonl_text sm_rows\<rparr>"

definition sm_section :: "string \<Rightarrow> json" where
  "sm_section name = (case oget sm_config ''inputs'' of JObj d \<Rightarrow> oget d name | _ \<Rightarrow> JNull)"

lemma sm_files:
  "input_files sm_repository sm_sha (sm_section ''normalization'') (sm_section ''features'') = Inr sm_texts"
  by (simp add: input_files_def declared_file_def repo_path_def sm_section_def sm_config_def sm_repository_def sm_sha_def
    sm_texts_def jget_def oget_def del: canonical_json.simps)

lemma sm_manifests:
  "check_manifests sm_sha sm_texts (sm_section ''features'') sm_normalization sm_features = Inr ''h''"
  by (simp add: check_manifests_def sm_texts_def sm_section_def sm_config_def sm_normalization_def sm_features_def
    expected_feature_inputs_def value_sha_def sm_sha_def jget2_def jget_default_def jget_def oget_def oget_default_def
    del: canonical_json.simps)

lemma sm_products_checked:
  "case check_products sm_sha sm_config sm_normalization sm_features sm_product_map of
     Inl _ \<Rightarrow> False | Inr cs \<Rightarrow> cs = [sm_product]"
  by code_simp

lemma sm_rows_checked:
  "case res_fold (check_row sm_valid) ([], []) sm_rows of Inl _ \<Rightarrow> False | Inr t \<Rightarrow> fst t = zip [2, 3, 4] sm_rows"
  by code_simp

lemma sm_records_checked:
  "case res_fold (check_record sm_valid (zip [2, 3, 4] sm_rows)) rc_init sm_records of Inl _ \<Rightarrow> False
   | Inr st \<Rightarrow> rc_boundary st = None \<and> rc_records st = sm_records \<and> rc_market st = [2, 3, 4]"
  by code_simp

lemma sm_rows_and_records:
  "check_rows_and_records sm_valid sm_texts sm_features = Inr (zip [2, 3, 4] sm_rows, sm_records)"
proof -
  have rows: "res_fold (read_row sm_valid) ([], []) (text_lines (it_rows sm_texts)) = res_fold (check_row sm_valid) ([], []) sm_rows"
    using res_fold_jsonl [of "read_row sm_valid", OF read_row_def sm_plain(11)] by (simp add: sm_texts_def sm_plain)
  have records: "res_fold (check_record_line sm_valid rows') rc_init (text_lines (it_records sm_texts)) =
      res_fold (check_record sm_valid rows') rc_init sm_records" for rows'
    using res_fold_jsonl [of "check_record_line sm_valid rows'", OF check_record_line_def sm_plain(9)]
    by (simp add: sm_texts_def sm_plain)
  have n: "jget2 (JObj sm_features) ''output'' ''feature_row_count'' = Inr (JInt 3)"
    by (simp add: sm_features_def jget2_def jget_default_def jget_def oget_def oget_default_def)
  obtain w where r: "res_fold (check_row sm_valid) ([], []) sm_rows = Inr (zip [2, 3, 4] sm_rows, w)"
    using sm_rows_checked by (auto split: sum.splits)
  obtain st where st: "res_fold (check_record sm_valid (zip [2, 3, 4] sm_rows)) rc_init sm_records = Inr st"
    "rc_boundary st = None" "rc_records st = sm_records" "rc_market st = [2, 3, 4]"
    using sm_records_checked by (auto split: sum.splits)
  have "length (zip [2, 3, 4 :: int] sm_rows) = 3" "set (map fst (zip [2, 3, 4 :: int] sm_rows)) = {2, 3, 4}"
    by (simp_all add: sm_rows_def)
  then show ?thesis unfolding check_rows_and_records_def rows records r
    by (simp add: st n num_of_def)
qed

definition sm_preflight :: preflight where
  "sm_preflight =
     \<lparr>pf_config = sm_config, pf_config_sha256 = ''h'', pf_normalization = sm_normalization, pf_feature_manifest = sm_features,
      pf_records = sm_records, pf_features = zip [2, 3, 4] sm_rows, pf_product_map = sm_product_map,
      pf_products = [sm_product], pf_definition_sha256 = ''h''\<rparr>"

lemma sm_preflight_passes:
  "run_preflight sm_sha sm_valid sm_repository (canonical_json (JObj sm_config)) = Inr sm_preflight"
proof -
  have inputs: "rbind (oindex sm_config ''inputs'') (\<lambda>i. rbind (jindex i ''normalization'') (\<lambda>n.
      rbind (jindex i ''features'') (\<lambda>f. Inr (n, f)))) = Inr (sm_section ''normalization'', sm_section ''features'')"
    by (simp add: sm_section_def sm_config_def oindex_def jindex_def oget_def)
  obtain i where i: "oindex sm_config ''inputs'' = Inr i" "jindex i ''normalization'' = Inr (sm_section ''normalization'')"
    "jindex i ''features'' = Inr (sm_section ''features'')"
    using inputs by (auto simp: rbind_eq_Inr)
  have products: "check_products sm_sha sm_config sm_normalization sm_features sm_product_map = Inr [sm_product]"
    using sm_products_checked by (auto split: sum.splits)
  have texts: "it_normalization sm_texts = canonical_json (JObj sm_normalization)"
    "it_features sm_texts = canonical_json (JObj sm_features)" "it_product_map sm_texts = canonical_json (JObj sm_product_map)"
    by (simp_all add: sm_texts_def del: canonical_json.simps)
  have valid: "validate_historical_schema sm_valid d n e = Inr ()" for d n e
    by (simp add: validate_historical_schema_def sm_valid_def)
  show ?thesis unfolding run_preflight_def read_json_canonical [OF sm_plain(1)] sm_plain(2) rbind_simps i sm_files texts
    read_json_canonical [OF sm_plain(3)] read_json_canonical [OF sm_plain(5)] read_json_canonical [OF sm_plain(7)]
    sm_plain valid sm_manifests products sm_rows_and_records
    by (simp add: sm_preflight_def sm_sha_def)
qed

section \<open>The run\<close>

abbreviation sm_cfg :: mm_config where
  "sm_cfg \<equiv> \<lparr>mc_preflight = sm_preflight, mc_valid = sm_valid\<rparr>"

text \<open>\<open>action_loop\<close> with a bound on its turns, for the evaluation.\<close>

primrec action_turns :: "nat \<Rightarrow> 'p process \<Rightarrow> mm_config \<Rightarrow> int \<Rightarrow> 'p mm_state \<Rightarrow> 'p mm_state res option" where
  "action_turns 0 step cfg terminal st = None"
| "action_turns (Suc n) step cfg terminal st =
     (case ms_heap (mm_shared st) of
        [] \<Rightarrow> Some (Inr st)
      | entry # rest \<Rightarrow>
          let st1 = st\<lparr>mm_shared := (mm_shared st)\<lparr>ms_heap := rest\<rparr>\<rparr> in
          if terminal < fst (fst entry) then Some (Inr st1)
          else
            (case mm_action step cfg st1 entry of
               Inl e \<Rightarrow> Some (Inl e)
             | Inr st2 \<Rightarrow> action_turns n step cfg terminal st2))"

lemma action_turns_loop: "action_turns n step cfg terminal st = Some r \<Longrightarrow> action_loop step cfg terminal st = Some r"
proof (induction n arbitrary: st)
  case (Suc n)
  then show ?case by (subst action_loop.simps) (auto simp: Let_def split: list.splits if_splits sum.splits)
qed simp

definition sm_finished :: "unit mm_state res" where
  "sm_finished =
     rbind (start_run quick_oracle () sm_preflight) (\<lambda>(st, terminal).
     rbind (case action_turns 40 quick_oracle sm_cfg terminal st of None \<Rightarrow> Inl AssertionError | Some r \<Rightarrow> r) (\<lambda>st1.
     finish_products quick_oracle sm_cfg terminal st1))"

text \<open>What the result manifest needs of a runtime.\<close>

definition sm_describable :: "string \<times> unit product_runtime \<Rightarrow> bool" where
  "sm_describable x \<longleftrightarrow>
     (case contract_of (snd x) of Inr c \<Rightarrow> c = 7 | Inl _ \<Rightarrow> False) \<and>
     (case oracle_view quick_oracle (pr_risk (snd x)) of Inr _ \<Rightarrow> True | Inl _ \<Rightarrow> False) \<and> pr_config (snd x) = sm_product"

lemma sm_describableD:
  assumes "sm_describable x"
  shows "contract_of (snd x) = Inr 7 \<and> pr_config (snd x) = sm_product \<and> (\<exists>v. oracle_view quick_oracle (pr_risk (snd x)) = Inr v)"
  using assms
  by (cases "contract_of (snd x)"; cases "oracle_view quick_oracle (pr_risk (snd x))") (auto simp: sm_describable_def)

lemmas sm_describable_contract = sm_describableD [THEN conjunct1]

lemma sm_finished_ok:
  "case sm_finished of Inl _ \<Rightarrow> False | Inr st \<Rightarrow>
     list_all sm_describable (mm_runtimes st) \<and>
     map (\<lambda>(n, rs). length rs) (ms_artifacts (mm_shared st)) = [1, 2, 1, 2, 0, 1, 1, 6, 1] \<and>
     map (\<lambda>x. length (or_trace (pr_risk (snd x)))) (mm_runtimes st) = [9]"
  by code_simp

lemma sm_traces: "list_all sm_describable rts \<Longrightarrow> res_map trace_file rts = Inr (map (\<lambda>x. (trace_name 7, or_trace (pr_risk (snd x)))) rts)"
  by (rule res_map_ok) (simp add: trace_file_def list_all_iff sm_describable_contract)

lemma sm_entries: "list_all sm_describable rts \<Longrightarrow> \<exists>entries. res_map (result_product quick_oracle sm_sha) rts = Inr entries"
proof (induction rts)
  case (Cons x rts)
  obtain T rt where x: "x = (T, rt)" by (cases x)
  from Cons.prems have "contract_of rt = Inr 7" "pr_config rt = sm_product"
    and "\<exists>v. oracle_view quick_oracle (pr_risk rt) = Inr v"
    using sm_describableD [of x] by (simp_all add: x)
  moreover have "\<exists>a b c. jindex sm_product ''product_identity'' = Inr a \<and> jindex sm_product ''contract_identity'' = Inr b \<and>
      jindex sm_product ''reviewed_lineage'' = Inr c"
    by (simp add: sm_product_def jindex_def oindex_def oget_def)
  ultimately have "\<exists>e. result_product quick_oracle sm_sha x = Inr e"
    by (auto simp: x result_product_def trace_descriptor_def)
  with Cons show ?case by auto
qed simp

definition sm_run :: "mm_result res option" where
  "sm_run = run_backtest_v4 quick_oracle () sm_sha sm_valid sm_repository (canonical_json (JObj sm_config))"

lemma sm_returns:
  "\<exists>out. sm_run = Some (Inr out) \<and>
     map (\<lambda>(n, rs). length rs) (rs_artifacts out) = [1, 2, 1, 2, 0, 1, 1, 6, 1] \<and>
     map fst (rs_traces out) = [trace_name 7] \<and> map (\<lambda>x. length (snd x)) (rs_traces out) = [9]"
proof -
  obtain st2 where fin: "sm_finished = Inr st2" and good: "list_all sm_describable (mm_runtimes st2)"
    and n: "map (\<lambda>(n, rs). length rs) (ms_artifacts (mm_shared st2)) = [1, 2, 1, 2, 0, 1, 1, 6, 1]"
    and t: "map (\<lambda>x. length (or_trace (pr_risk (snd x)))) (mm_runtimes st2) = [9]"
    using sm_finished_ok by (auto split: sum.splits)
  from fin obtain st terminal st1 where s: "start_run quick_oracle () sm_preflight = Inr (st, terminal)"
    and l: "action_turns 40 quick_oracle sm_cfg terminal st = Some (Inr st1)"
    and f: "finish_products quick_oracle sm_cfg terminal st1 = Inr st2"
    by (auto simp: sm_finished_def rbind_eq_Inr split: option.splits)
  from sm_entries [OF good] obtain entries where e: "res_map (result_product quick_oracle sm_sha) (mm_runtimes st2) = Inr entries"
    by blast
  have "\<exists>m. result_manifest quick_oracle sm_sha sm_cfg st2 = Inr m"
    by (simp add: result_manifest_def e Let_def sm_preflight_def sm_config_def oindex_def oget_def)
  then obtain m where m: "result_manifest quick_oracle sm_sha sm_cfg st2 = Inr m" by blast
  have valid: "validate_historical_schema sm_valid d n e = Inr ()" for d n e
    by (simp add: validate_historical_schema_def sm_valid_def)
  have "finish_run quick_oracle sm_sha sm_cfg terminal st1 = Inr \<lparr>rs_artifacts = ms_artifacts (mm_shared st2),
      rs_traces = map (\<lambda>x. (trace_name 7, or_trace (pr_risk (snd x)))) (mm_runtimes st2), rs_manifest = m\<rparr>"
    by (simp add: finish_run_def f sm_traces [OF good] m valid)
  moreover have "length (mm_runtimes st2) = 1" using arg_cong [OF t, of length] by simp
  ultimately show ?thesis using n t
    unfolding sm_run_def run_backtest_v4_def sm_preflight_passes
    by (auto simp: s action_turns_loop [OF l] Let_def length_Suc_conv)
qed

theorem multi_artifacts_ordered_witness:
  "\<exists>out entries. sm_run = Some (Inr out) \<and>
     map (\<lambda>(n, rs). length rs) (rs_artifacts out) = [1, 2, 1, 2, 0, 1, 1, 6, 1] \<and> rs_artifacts out = split_log entries \<and>
     (\<forall>i < length entries. oget (snd (entries ! i)) ''artifact_ordinal'' = JInt (int i + 1))"
proof -
  from sm_returns obtain out where out: "sm_run = Some (Inr out)"
    and n: "map (\<lambda>(n, rs). length rs) (rs_artifacts out) = [1, 2, 1, 2, 0, 1, 1, 6, 1]" by (elim exE conjE) (rule that)
  from multi_artifacts_ordered [OF out [unfolded sm_run_def]] obtain entries where
    "rs_artifacts out = split_log entries"
    "\<forall>i < length entries. oget (snd (entries ! i)) ''artifact_ordinal'' = JInt (int i + 1)" by (elim exE conjE) (rule that)
  with out n show ?thesis by (intro exI conjI)
qed


end
