(* ===== verification/Capture_Records.thy ===== *)
theory Capture_Records
  imports Normalize_V1
begin

text \<open>
  The recorders of \<open>kalshi_capture.py\<close>: the binding of subscriptions to channels (\<open>SubscriptionBinding\<close>), the
  sequence numbers (\<open>SequenceTracker\<close>), the decoding of a frame and the two writers (\<open>JsonlCapture\<close>,
  \<open>JsonlCaptureV2\<close>).

  A writer is the list of the records it has written, as objects; the clock is a parameter, \<open>clock n\<close> is the
  time it shows when record number \<open>n\<close> (from zero) is written.
\<close>

section \<open>Subscriptions\<close>

definition capture_channels :: "string list" where
  "capture_channels = [''orderbook_delta'', ''trade'']"

definition names_array :: "string list \<Rightarrow> json" where
  "names_array ss = JArr (map JStr ss)"

text \<open>\<open>subscription_payload\<close> and \<open>subscription_payload_v2\<close>, which differ in the number of tickers.\<close>

definition subscription_payload :: "string list \<Rightarrow> int \<Rightarrow> jobj" where
  "subscription_payload tickers request_id =
     [(''id'', JInt request_id), (''cmd'', JStr ''subscribe''),
      (''params'', JObj [(''channels'', names_array capture_channels), (''market_tickers'', names_array tickers),
         (''use_yes_price'', JBool True)])]"

record subscription_binding =
  sb_connection :: int
  sb_request :: int
  sb_channels :: "string list"
  sb_tickers :: "string list"
  sb_sids :: "(string \<times> string) list"

definition observe_acknowledgement ::
  "subscription_binding \<Rightarrow> jobj \<Rightarrow> ((string \<times> string) \<times> subscription_binding) res" where
  "observe_acknowledgement b message =
     (let mismatch = CaptureV2Error ''SubscriptionAckMismatch'' in
      rbind (ensure (py_eq (oget message ''id'') (JInt (sb_request b))) mismatch) (\<lambda>_.
      rbind (of_option mismatch (as_obj (oget message ''msg''))) (\<lambda>payload.
      rbind (ensure (oget payload ''channel'' \<in> JStr ` set (sb_channels b)) mismatch) (\<lambda>_.
      rbind (ensure (oget payload ''sid'' \<noteq> JNull) mismatch) (\<lambda>_.
      let channel = py_str (oget payload ''channel''); sid = py_str (oget payload ''sid'') in
      rbind (ensure (sget (sb_sids b) channel = None) mismatch) (\<lambda>_.
      rbind (ensure (sid \<notin> snd ` set (sb_sids b)) mismatch) (\<lambda>_.
      Inr ((channel, sid), b\<lparr>sb_sids := sset (sb_sids b) channel sid\<rparr>))))))))"

definition binding_complete :: "subscription_binding \<Rightarrow> bool" where
  "binding_complete b \<longleftrightarrow> set (map fst (sb_sids b)) = set (sb_channels b)"

definition channel_for_sid :: "subscription_binding \<Rightarrow> json \<Rightarrow> string option" where
  "channel_for_sid b sid = map_option fst (find (\<lambda>(_, bound). bound = py_str sid) (sb_sids b))"

section \<open>Sequence numbers\<close>

record sequence_tracker =
  tr_previous :: "((int \<times> string) \<times> int) list"
  tr_gaps :: "jobj list"
  tr_non_monotonic :: "jobj list"

definition tracker_init :: sequence_tracker where
  "tracker_init = \<lparr>tr_previous = [], tr_gaps = [], tr_non_monotonic = []\<rparr>"

text \<open>A number that is missing is skipped, anything that is no integer (a boolean is none) is reported.\<close>

definition tracker_gap :: "int \<Rightarrow> json \<Rightarrow> int \<Rightarrow> int \<Rightarrow> jobj" where
  "tracker_gap connection sid expected received =
     [(''connection_id'', JInt connection), (''sid'', JStr (py_str sid)), (''expected_sequence'', JInt expected),
      (''received_sequence'', JInt received)]"

definition tracker_observe :: "sequence_tracker \<Rightarrow> int \<times> json \<times> json \<Rightarrow> sequence_tracker" where
  "tracker_observe t obs =
     (case obs of (connection, sid, sequence) \<Rightarrow>
        case sequence of
          JNull \<Rightarrow> t
        | JInt current \<Rightarrow>
            let key = (connection, py_str sid);
                t1 = (case sget (tr_previous t) key of
                        None \<Rightarrow> t
                      | Some previous \<Rightarrow>
                          if previous + 1 < current then
                            t\<lparr>tr_gaps := tr_gaps t @ [tracker_gap connection sid (previous + 1) current]\<rparr>
                          else if current \<le> previous then
                            t\<lparr>tr_non_monotonic := tr_non_monotonic t @
                               [[(''connection_id'', JInt connection), (''sid'', JStr (py_str sid)),
                                 (''previous_sequence'', JInt previous), (''received_sequence'', JInt current)]]\<rparr>
                          else t)
            in t1\<lparr>tr_previous := sset (tr_previous t1) key current\<rparr>
        | _ \<Rightarrow>
            t\<lparr>tr_non_monotonic := tr_non_monotonic t @
               [[(''connection_id'', JInt connection), (''sid'', JStr (py_str sid)), (''sequence'', sequence)]]\<rparr>)"

section \<open>Frames\<close>

text \<open>Type, subscription id, sequence number and the decoded object.\<close>

definition decode_frame :: "string \<Rightarrow> string \<times> json \<times> json \<times> jobj option" where
  "decode_frame raw =
     (case json_loads raw of
        None \<Rightarrow> (''invalid_json'', JNull, JNull, None)
      | Some (JObj d) \<Rightarrow> (py_str (oget_default d ''type'' (JStr ''unknown'')), oget d ''sid'', oget d ''seq'', Some d)
      | Some _ \<Rightarrow> (''non_object_json'', JNull, JNull, None))"

section \<open>The first recorder\<close>

record recorder_v1 =
  r1_records :: "jobj list"
  r1_counts :: "(string \<times> int) list"
  r1_tracker :: sequence_tracker

definition recorder_v1_init :: recorder_v1 where
  "recorder_v1_init = \<lparr>r1_records = [], r1_counts = [], r1_tracker = tracker_init\<rparr>"

definition write_v1 :: "(nat \<Rightarrow> int) \<Rightarrow> string \<Rightarrow> int \<Rightarrow> jobj \<Rightarrow> recorder_v1 \<Rightarrow> recorder_v1" where
  "write_v1 clock kind connection values' rec =
     rec\<lparr>r1_records := r1_records rec @
       [[(''kind'', JStr kind), (''received_at_utc_ns'', JInt (clock (length (r1_records rec)))),
         (''connection_id'', JInt connection)] @ values']\<rparr>"

definition inbound_frame_v1 :: "(nat \<Rightarrow> int) \<Rightarrow> int \<Rightarrow> string \<Rightarrow> recorder_v1 \<Rightarrow> recorder_v1" where
  "inbound_frame_v1 clock connection raw rec =
     (case decode_frame raw of (message_type, sid, sequence, _) \<Rightarrow>
        write_v1 clock ''inbound_frame'' connection
          [(''message_type'', JStr message_type), (''subscription_id'', sid), (''source_sequence'', sequence),
           (''raw_frame_utf8'', JStr raw)]
          (rec\<lparr>r1_counts := counter_add (r1_counts rec) message_type 1,
              r1_tracker := tracker_observe (r1_tracker rec) (connection, sid, sequence)\<rparr>))"

section \<open>The second recorder\<close>

record recorder =
  rv_records :: "jobj list"
  rv_next :: int
  rv_counts :: "(string \<times> int) list"
  rv_markets :: "(string \<times> (string \<times> int) list) list"
  rv_tracker :: sequence_tracker

definition recorder_init :: recorder where
  "recorder_init = \<lparr>rv_records = [], rv_next = 1, rv_counts = [], rv_markets = [], rv_tracker = tracker_init\<rparr>"

text \<open>\<open>write_record\<close>.\<close>

definition capture_record :: "(nat \<Rightarrow> int) \<Rightarrow> string \<Rightarrow> jobj \<Rightarrow> recorder \<Rightarrow> recorder" where
  "capture_record clock kind values' rec =
     rec\<lparr>rv_records := rv_records rec @
           [[(''schema'', JStr ''pmm.kalshi.raw_capture_record.v2''), (''kind'', JStr kind),
             (''raw_ingress_ordinal'', JInt (rv_next rec)),
             (''received_at_utc_ns'', JInt (clock (length (rv_records rec))))] @ values'],
         rv_next := rv_next rec + 1\<rparr>"

definition record_count :: "recorder \<Rightarrow> int" where
  "record_count rec = rv_next rec - 1"

definition message_field :: "jobj option \<Rightarrow> string \<Rightarrow> json" where
  "message_field decoded name =
     (case decoded of
        Some d \<Rightarrow> (case oget d ''msg'' of JObj msg \<Rightarrow> oget msg name | _ \<Rightarrow> JNull)
      | None \<Rightarrow> JNull)"

definition count_market :: "json \<Rightarrow> string \<Rightarrow> recorder \<Rightarrow> recorder" where
  "count_market ticker message_type rec =
     (case ticker of
        JStr t \<Rightarrow>
          rec\<lparr>rv_markets := sset (rv_markets rec) t
            (counter_add (case sget (rv_markets rec) t of None \<Rightarrow> [] | Some c \<Rightarrow> c) message_type 1)\<rparr>
      | _ \<Rightarrow> rec)"

definition inbound_frame ::
  "(nat \<Rightarrow> int) \<Rightarrow> int \<Rightarrow> string \<Rightarrow> recorder \<Rightarrow> recorder \<times> (string \<times> json \<times> json \<times> jobj option)" where
  "inbound_frame clock connection raw rec =
     (case decode_frame raw of (message_type, sid, sequence, decoded) \<Rightarrow>
        let ticker = message_field decoded ''market_ticker'';
            rec1 = rec\<lparr>rv_counts := counter_add (rv_counts rec) message_type 1,
                      rv_tracker := tracker_observe (rv_tracker rec) (connection, sid, sequence)\<rparr>
        in (capture_record clock ''inbound_frame''
              [(''connection_segment_id'', JInt connection), (''message_type'', JStr message_type), (''subscription_id'', sid),
               (''source_sequence'', sequence), (''market_ticker'', ticker),
               (''venue_market_id'', message_field decoded ''market_id''), (''raw_frame_utf8'', JStr raw)]
              (count_market ticker message_type rec1),
            (message_type, sid, sequence, decoded)))"

end
