(* ===== verification/Capture_Session.thy ===== *)
theory Capture_Session
  imports Capture_Records
begin

text \<open>
  The capture sessions of \<open>kalshi_capture.py\<close>: \<open>run_capture_v2\<close> with its metadata and command, and \<open>run_capture\<close>.

  What the network does is a parameter: a list of attempts to connect, each with the frames that arrive. The
  end of a list is the deadline: a session receives until the list of arrivals is used up, and connects again
  while there are attempts left. The sleeps between attempts and the headers (keys, signatures) are left out.
\<close>

section \<open>The network\<close>

text \<open>
  A coded error of the capture, a recoverable error of the transport, any other exception; an interrupt, which
  cancels the session, reaches the command as \<open>KeyboardInterrupt\<close>.
\<close>

datatype fault = Refused string | Dropped string | Fatal string

datatype arrival = Text string | Binary int | Quiet | Broken fault

record attempt =
  at_open :: "fault option"
  at_send :: "fault option"
  at_arrivals :: "arrival list"

section \<open>One connection\<close>

record capture_config =
  cf_tickers :: "string list"
  cf_duration :: int
  cf_strategy :: string

record segment_summary =
  su_connection :: int
  su_status :: string
  su_request :: int
  su_sids :: "(string \<times> string) list"
  su_snapshots :: "(string \<times> int) list"
  su_failure :: "string option"

record session =
  ss_recorder :: recorder
  ss_binding :: subscription_binding
  ss_summary :: segment_summary

definition summary_start :: "capture_config \<Rightarrow> int \<Rightarrow> segment_summary" where
  "summary_start cfg connection =
     \<lparr>su_connection = connection, su_status = ''attempting'', su_request = connection, su_sids = [],
      su_snapshots = map (\<lambda>t. (t, 0)) (cf_tickers cfg), su_failure = None\<rparr>"

definition binding_start :: "capture_config \<Rightarrow> int \<Rightarrow> subscription_binding" where
  "binding_start cfg connection =
     \<lparr>sb_connection = connection, sb_request = connection, sb_channels = capture_channels, sb_tickers = cf_tickers cfg,
      sb_sids = []\<rparr>"

definition websocket_url :: string where
  "websocket_url = ''wss://external-api-ws.kalshi.com/trade-api/ws/v2''"

definition logical_request :: "int \<Rightarrow> string" where
  "logical_request connection = ''c'' @ int_str connection @ '':r1''"

definition session_record :: "(nat \<Rightarrow> int) \<Rightarrow> string \<Rightarrow> jobj \<Rightarrow> session \<Rightarrow> session" where
  "session_record clock kind values' s =
     s\<lparr>ss_recorder := capture_record clock kind
         ((''connection_segment_id'', JInt (su_connection (ss_summary s))) # values') (ss_recorder s)\<rparr>"

definition fault_of :: "exn \<Rightarrow> fault" where
  "fault_of e = (case e of CaptureV2Error code \<Rightarrow> Refused code | _ \<Rightarrow> Fatal ''Exception'')"

definition sorted_sids :: "subscription_binding \<Rightarrow> (string \<times> string) list" where
  "sorted_sids b = sort_key fst (sb_sids b)"

definition acknowledge_channel ::
  "capture_config \<Rightarrow> (nat \<Rightarrow> int) \<Rightarrow> jobj \<Rightarrow> session \<Rightarrow> session \<times> fault option" where
  "acknowledge_channel cfg clock message s =
     (case observe_acknowledgement (ss_binding s) message of
        Inl e \<Rightarrow> (s, Some (fault_of e))
      | Inr ((channel, sid), b) \<Rightarrow>
          (session_record clock ''subscription_acknowledged''
             [(''subscription_request_id'', JStr (logical_request (su_connection (ss_summary s)))),
              (''wire_request_id'', JInt (su_request (ss_summary s))), (''channel'', JStr channel),
              (''venue_subscription_id'', JStr sid), (''requested_market_tickers'', names_array (cf_tickers cfg)),
              (''membership_claim'', JStr ''request_bound_not_echoed_by_acknowledgement'')]
             (s\<lparr>ss_binding := b, ss_summary := (ss_summary s)\<lparr>su_sids := sorted_sids b\<rparr>\<rparr>), None))"

definition observe_market ::
  "capture_config \<Rightarrow> string \<Rightarrow> json \<Rightarrow> jobj \<Rightarrow> session \<Rightarrow> session \<times> fault option" where
  "observe_market cfg message_type sid message s =
     (let expected = (if message_type = ''trade'' then ''trade'' else ''orderbook_delta'');
          ticker = message_field (Some message) ''market_ticker'' in
      if channel_for_sid (ss_binding s) sid \<noteq> Some expected then (s, Some (Refused ''UnboundSourceScope''))
      else if ticker \<notin> JStr ` set (cf_tickers cfg) then (s, Some (Refused ''MarketMembershipMismatch''))
      else if message_type = ''orderbook_snapshot'' then
        (s\<lparr>ss_summary := (ss_summary s)\<lparr>su_snapshots := counter_add (su_snapshots (ss_summary s)) (py_str ticker) 1\<rparr>\<rparr>, None)
      else (s, None))"

definition receive_text :: "capture_config \<Rightarrow> (nat \<Rightarrow> int) \<Rightarrow> string \<Rightarrow> session \<Rightarrow> session \<times> fault option" where
  "receive_text cfg clock raw s =
     (case inbound_frame clock (su_connection (ss_summary s)) raw (ss_recorder s) of
        (rec, message_type, sid, _, decoded) \<Rightarrow>
          let s1 = s\<lparr>ss_recorder := rec\<rparr> in
          case decoded of
            None \<Rightarrow> (s1, Some (Refused ''MalformedSourceFrame''))
          | Some message \<Rightarrow>
              if message_type = ''subscribed'' then acknowledge_channel cfg clock message s1
              else if message_type = ''error'' \<and> py_eq (oget message ''id'') (JInt (su_request (ss_summary s1))) then
                (s1, Some (Refused ''SubscriptionRefused''))
              else if message_type \<notin> {''orderbook_snapshot'', ''orderbook_delta'', ''trade''} then (s1, None)
              else observe_market cfg message_type sid message s1)"

definition receive :: "capture_config \<Rightarrow> (nat \<Rightarrow> int) \<Rightarrow> session \<Rightarrow> arrival \<Rightarrow> session \<times> fault option" where
  "receive cfg clock s a =
     (case a of
        Text raw \<Rightarrow> receive_text cfg clock raw s
      | Binary n \<Rightarrow> (session_record clock ''binary_frame_rejected'' [(''byte_length'', JInt n)] s, Some (Refused ''UnsupportedBinaryFrame''))
      | Quiet \<Rightarrow> (s, None)
      | Broken f \<Rightarrow> (s, Some f))"

text \<open>The deadline.\<close>

definition close_session :: "(nat \<Rightarrow> int) \<Rightarrow> session \<Rightarrow> session" where
  "close_session clock s =
     session_record clock ''connection_closed'' [(''close_reason'', JStr ''capture_deadline''), (''clean'', JBool True)]
       (s\<lparr>ss_summary := (ss_summary s)
          \<lparr>su_status := (if binding_complete (ss_binding s) then ''completed'' else ''incomplete_acknowledgements''),
           su_sids := sorted_sids (ss_binding s)\<rparr>\<rparr>)"

fun receive_all :: "capture_config \<Rightarrow> (nat \<Rightarrow> int) \<Rightarrow> session \<Rightarrow> arrival list \<Rightarrow> session \<times> fault option" where
  "receive_all cfg clock s [] = (close_session clock s, None)"
| "receive_all cfg clock s (a # rest) =
     (case receive cfg clock s a of
        (s', None) \<Rightarrow> receive_all cfg clock s' rest
      | (s', Some f) \<Rightarrow> (s', Some f))"

text \<open>
  An attempt, up to the exception that ends it, if any; with the phase it was in and whether the delay before
  the next attempt had been reset.
\<close>

definition connect ::
  "capture_config \<Rightarrow> (nat \<Rightarrow> int) \<Rightarrow> attempt \<Rightarrow> session \<Rightarrow> (session \<times> fault option) \<times> string" where
  "connect cfg clock a s =
     (let url = [(''websocket_url'', JStr websocket_url)];
          s1 = session_record clock ''connection_attempt'' url s in
      case at_open a of
        Some f \<Rightarrow> ((s1, Some f), ''connect'')
      | None \<Rightarrow>
          let s2 = session_record clock ''connection_opened'' url (s1\<lparr>ss_summary := (ss_summary s1)\<lparr>su_status := ''connected''\<rparr>\<rparr>) in
          case at_send a of
            Some f \<Rightarrow> ((s2, Some f), ''subscribe'')
          | None \<Rightarrow>
              let request = su_request (ss_summary s2);
                  s3 = session_record clock ''subscription_sent''
                    [(''subscription_request_id'', JStr (logical_request (su_connection (ss_summary s2)))),
                     (''wire_request_id'', JInt request),
                     (''subscription'', JObj (subscription_payload (cf_tickers cfg) request))] s2
              in (receive_all cfg clock s3 (at_arrivals a), ''receive''))"

definition disconnect :: "(nat \<Rightarrow> int) \<Rightarrow> string \<Rightarrow> int \<Rightarrow> string \<Rightarrow> string \<Rightarrow> session \<Rightarrow> session" where
  "disconnect clock phase delay error_type error_code s =
     session_record clock ''connection_gap''
       [(''failure_phase'', JStr phase), (''error_type'', JStr error_type), (''error_code'', JStr error_code),
        (''reconnect_delay_seconds'', JInt delay)]
       (s\<lparr>ss_summary := (ss_summary s)\<lparr>su_status := ''disconnected''\<rparr>\<rparr>)"

section \<open>All connections\<close>

record capture_summary =
  cs_connections :: int
  cs_segments :: "segment_summary list"

definition disconnects :: "capture_summary \<Rightarrow> int" where
  "disconnects r = int (length (filter (\<lambda>s. su_status s = ''disconnected'') (cs_segments r)))"

definition session_start :: "capture_config \<Rightarrow> int \<Rightarrow> recorder \<Rightarrow> session" where
  "session_start cfg connection rec =
     \<lparr>ss_recorder = rec, ss_binding = binding_start cfg connection, ss_summary = summary_start cfg connection\<rparr>"

text \<open>The result is the summary, or the type of the exception that the run ends with.\<close>

fun run_attempts ::
  "capture_config \<Rightarrow> (nat \<Rightarrow> int) \<Rightarrow> attempt list \<Rightarrow> recorder \<Rightarrow> int \<Rightarrow> int \<Rightarrow> segment_summary list
    \<Rightarrow> recorder \<times> (string + capture_summary)" where
  "run_attempts cfg clock [] rec connection delay segments =
     (rec, Inr \<lparr>cs_connections = connection, cs_segments = segments\<rparr>)"
| "run_attempts cfg clock (a # rest) rec connection delay segments =
     (case connect cfg clock a (session_start cfg (connection + 1) rec) of
        ((s, None), phase) \<Rightarrow>
          (ss_recorder s, Inr \<lparr>cs_connections = connection + 1, cs_segments = segments @ [ss_summary s]\<rparr>)
      | ((s, Some f), phase) \<Rightarrow>
          let current = (if phase = ''receive'' then 1 else delay) in
          case f of
            Fatal t \<Rightarrow> (ss_recorder s, Inl t)
          | Refused code \<Rightarrow>
              let s' = disconnect clock phase current ''CaptureV2Error'' code
                         (s\<lparr>ss_summary := (ss_summary s)\<lparr>su_failure := Some code\<rparr>\<rparr>) in
              run_attempts cfg clock rest (ss_recorder s') (connection + 1) (min (current * 2) 30) (segments @ [ss_summary s'])
          | Dropped t \<Rightarrow>
              let s' = disconnect clock phase current t ''TransportDisconnected'' s in
              run_attempts cfg clock rest (ss_recorder s') (connection + 1) (min (current * 2) 30) (segments @ [ss_summary s']))"

definition run_capture_v2 ::
  "capture_config \<Rightarrow> (nat \<Rightarrow> int) \<Rightarrow> attempt list \<Rightarrow> recorder \<Rightarrow> recorder \<times> (string + capture_summary)" where
  "run_capture_v2 cfg clock attempts rec = run_attempts cfg clock attempts rec 0 1 []"

section \<open>Configuration and metadata\<close>

text \<open>The arguments; where the output path is and whether it exists is given.\<close>

record capture_arguments =
  ca_tickers :: "string list"
  ca_duration :: int
  ca_strategy :: string
  ca_inside :: bool
  ca_exists :: bool

definition parse_capture_config :: "string \<Rightarrow> capture_arguments \<Rightarrow> capture_config res" where
  "parse_capture_config ticker args =
     rbind (ensure (strip ticker \<noteq> []) (ValueError ''--ticker must not be empty'')) (\<lambda>_.
     rbind (ensure (0 < ca_duration args) (ValueError ''--duration must be positive'')) (\<lambda>_.
     rbind (ensure (ca_inside args) (ValueError ''--output must be within the repository'')) (\<lambda>_.
     rbind (ensure (\<not> ca_exists args) (ValueError ''--output already exists'')) (\<lambda>_.
     Inr \<lparr>cf_tickers = [strip ticker], cf_duration = ca_duration args, cf_strategy = []\<rparr>))))"

definition parse_capture_v2_config :: "capture_arguments \<Rightarrow> capture_config res" where
  "parse_capture_v2_config args =
     (let supplied = map strip (ca_tickers args); invalid = CaptureV2Error ''CaptureConfigInvalid'' in
      rbind (ensure (supplied \<noteq> [] \<and> [] \<notin> set supplied) invalid) (\<lambda>_.
      rbind (ensure (distinct supplied) invalid) (\<lambda>_.
      rbind (ensure (0 < ca_duration args) invalid) (\<lambda>_.
      rbind (ensure (ca_strategy args = ''single_connection_v1'') invalid) (\<lambda>_.
      rbind (ensure (ca_inside args) invalid) (\<lambda>_.
      rbind (ensure (\<not> ca_exists args) (CaptureV2Error ''CaptureOutputExists'')) (\<lambda>_.
      Inr \<lparr>cf_tickers = sort supplied, cf_duration = ca_duration args, cf_strategy = ca_strategy args\<rparr>)))))))"

text \<open>What the metadata say of the machine: the git revision and the package versions.\<close>

record provenance =
  pv_revision :: json
  pv_packages :: json

definition credential_names :: json where
  "credential_names = names_array [''KALSHI_API_KEY_ID'', ''KALSHI_PRIVATE_KEY_PATH'']"

definition shutdown_document :: "string \<Rightarrow> bool \<Rightarrow> string option \<Rightarrow> json" where
  "shutdown_document status clean error_type =
     JObj ([(''status'', JStr status), (''clean'', JBool clean)] @
       (case error_type of None \<Rightarrow> [] | Some t \<Rightarrow> [(''error_type'', JStr t)]))"

definition capture_metadata :: "capture_config \<Rightarrow> provenance \<Rightarrow> int \<Rightarrow> jobj" where
  "capture_metadata cfg pv started =
     [(''schema'', JStr ''pmm.kalshi.raw_capture.v1''), (''source'', JStr ''kalshi''),
      (''ticker'', JStr (hd (cf_tickers cfg))), (''capture_started_at_utc_ns'', JInt started),
      (''requested_duration_seconds'', JInt (cf_duration cfg)), (''websocket_endpoint'', JStr websocket_url),
      (''subscription_payload'', JObj (subscription_payload (cf_tickers cfg) 1)),
      (''credential_environment_variables'', credential_names), (''credential_values_persisted'', JBool False),
      (''git_revision'', pv_revision pv), (''package_versions'', pv_packages pv), (''message_counts_by_type'', JObj []),
      (''disconnects'', JInt 0), (''sequence_gaps'', JArr []), (''non_monotonic_sequences'', JArr []),
      (''shutdown'', shutdown_document ''running'' False None)]"

definition unknown_sequence_domain :: json where
  "unknown_sequence_domain =
     JObj [(''status'', JStr ''unknown''), (''topology'', JStr ''unknown''), (''components'', JArr []),
       (''mechanical_validation_key'', names_array [''connection_segment_id'', ''venue_subscription_id'']),
       (''limitation'', JStr ''Venue sequence-domain scope is not established by retained evidence.'')]"

definition capture_metadata_v2 :: "capture_config \<Rightarrow> provenance \<Rightarrow> int \<Rightarrow> jobj" where
  "capture_metadata_v2 cfg pv started =
     [(''schema'', JStr ''pmm.kalshi.raw_capture.v2''), (''source'', JStr ''kalshi''), (''environment'', JStr ''production''),
      (''truth_category'', JStr ''Observed''), (''source_fidelity'', JStr ''level_2''),
      (''market_tickers'', names_array (cf_tickers cfg)), (''capture_started_at_utc_ns'', JInt started),
      (''requested_duration_seconds'', JInt (cf_duration cfg)), (''connection_strategy'', JStr (cf_strategy cfg)),
      (''websocket_endpoint'', JStr websocket_url),
      (''subscription_template'', JObj (subscription_payload (cf_tickers cfg) 1)),
      (''sequence_domain'', unknown_sequence_domain),
      (''credential_environment_variables'', credential_names), (''credential_values_persisted'', JBool False),
      (''git_revision'', pv_revision pv), (''package_versions'', pv_packages pv), (''message_counts_by_type'', JObj []),
      (''message_counts_by_market'', JObj []), (''connections'', JInt 0), (''disconnects'', JInt 0),
      (''connection_segments'', JArr []), (''sequence_gaps'', JArr []), (''non_monotonic_sequences'', JArr []),
      (''capture_continuity'', JStr ''incomplete''), (''data_usability'', JStr ''unusable''),
      (''shutdown'', shutdown_document ''running'' False None)]"

section \<open>The verdict on a capture\<close>

definition segment_ready :: "string list \<Rightarrow> segment_summary \<Rightarrow> bool" where
  "segment_ready tickers s \<longleftrightarrow>
     (su_status s = ''completed'' \<or> su_status s = ''disconnected'') \<and>
     set (map fst (su_sids s)) = {''orderbook_delta'', ''trade''} \<and>
     (\<forall>t \<in> set tickers. sget (su_snapshots s) t = Some 1)"

definition sequence_clean :: "sequence_tracker \<Rightarrow> bool" where
  "sequence_clean t \<longleftrightarrow> tr_gaps t = [] \<and> tr_non_monotonic t = []"

text \<open>\<open>capture_continuity\<close> and \<open>data_usability\<close>; no summary is the summary of the initial metadata.\<close>

definition capture_verdict :: "string list \<Rightarrow> sequence_tracker \<Rightarrow> string \<Rightarrow> capture_summary option \<Rightarrow> string \<times> string" where
  "capture_verdict tickers tracker status summary =
     (let segments = (case summary of None \<Rightarrow> [] | Some r \<Rightarrow> cs_segments r);
          lost = (case summary of None \<Rightarrow> 0 | Some r \<Rightarrow> disconnects r) in
      if status \<noteq> ''completed'' \<or> \<not> (segments \<noteq> [] \<and> list_all (segment_ready tickers) segments) \<or> \<not> sequence_clean tracker
      then (''incomplete'', ''unusable'')
      else if lost \<noteq> 0 then (''observed_discontinuous'', ''record_only'')
      else (''continuous_within_recorded_mechanical_scopes'', ''strict_eligible''))"

definition summary_document :: "segment_summary \<Rightarrow> json" where
  "summary_document s =
     JObj ([(''connection_segment_id'', JInt (su_connection s)), (''status'', JStr (su_status s)),
        (''request_id'', JInt (su_request s)), (''channel_sids'', JObj (map (\<lambda>(c, i). (c, JStr i)) (su_sids s))),
        (''snapshots_by_ticker'', JObj (map (\<lambda>(t, n). (t, JInt n)) (su_snapshots s)))] @
       (case su_failure s of None \<Rightarrow> [] | Some code \<Rightarrow> [(''failure_code'', JStr code)]))"

definition objects :: "jobj list \<Rightarrow> json" where
  "objects ds = JArr (map JObj ds)"

definition update_all :: "jobj \<Rightarrow> (string \<times> json) list \<Rightarrow> jobj" where
  "update_all d kvs = foldl (\<lambda>d (k, v). sset d k v) d kvs"

definition finalize_capture_v2_metadata ::
  "string list \<Rightarrow> int \<Rightarrow> recorder \<Rightarrow> string \<Rightarrow> capture_summary option \<Rightarrow> jobj \<Rightarrow> jobj" where
  "finalize_capture_v2_metadata tickers ended rec status summary metadata =
     (let verdict = capture_verdict tickers (rv_tracker rec) status summary;
          d1 = update_all metadata
            [(''capture_ended_at_utc_ns'', JInt ended), (''raw_record_count'', JInt (record_count rec)),
             (''message_counts_by_type'', sorted_counts (rv_counts rec)),
             (''message_counts_by_market'', JObj (map (\<lambda>(t, c). (t, sorted_counts c)) (sort_key fst (rv_markets rec)))),
             (''sequence_gaps'', objects (tr_gaps (rv_tracker rec))),
             (''non_monotonic_sequences'', objects (tr_non_monotonic (rv_tracker rec)))];
          d2 = (case summary of
                  None \<Rightarrow> d1
                | Some r \<Rightarrow> update_all d1
                    [(''connections'', JInt (cs_connections r)), (''disconnects'', JInt (disconnects r)),
                     (''connection_segments'', JArr (map summary_document (cs_segments r)))])
      in update_all d2 [(''capture_continuity'', JStr (fst verdict)), (''data_usability'', JStr (snd verdict))])"

text \<open>The command: the records, the final metadata and the exit code.\<close>

definition run_capture_v2_command ::
  "provenance \<Rightarrow> int \<Rightarrow> int \<Rightarrow> capture_arguments \<Rightarrow> (nat \<Rightarrow> int) \<Rightarrow> attempt list \<Rightarrow> (jobj list \<times> jobj \<times> int) res" where
  "run_capture_v2_command pv started ended args clock attempts =
     rbind (parse_capture_v2_config args) (\<lambda>cfg.
     case run_capture_v2 cfg clock attempts recorder_init of
       (rec, result) \<Rightarrow>
         let status = (case result of Inr _ \<Rightarrow> ''completed''
                       | Inl t \<Rightarrow> if t = ''KeyboardInterrupt'' then ''interrupted'' else ''failed'');
             document = shutdown_document status (status \<noteq> ''failed'')
                          (case result of Inr _ \<Rightarrow> None | Inl t \<Rightarrow> if status = ''failed'' then Some t else None);
             summary = (case result of Inr r \<Rightarrow> Some r | Inl _ \<Rightarrow> None);
             metadata = sset (capture_metadata_v2 cfg pv started) ''shutdown'' document;
             final = finalize_capture_v2_metadata (cf_tickers cfg) ended rec status summary metadata;
             code = (if status = ''interrupted'' then 130 else if status = ''failed'' then 1
                     else if oget final ''data_usability'' = JStr ''strict_eligible'' then 0 else 2)
         in Inr (rv_records rec, final, code))"

section \<open>The first capture\<close>

definition receive_v1 :: "(nat \<Rightarrow> int) \<Rightarrow> int \<Rightarrow> recorder_v1 \<Rightarrow> arrival \<Rightarrow> recorder_v1 \<times> fault option" where
  "receive_v1 clock connection rec a =
     (case a of
        Text raw \<Rightarrow> (inbound_frame_v1 clock connection raw rec, None)
      | Binary n \<Rightarrow> (write_v1 clock ''binary_frame_rejected'' connection [] rec, None)
      | Quiet \<Rightarrow> (rec, None)
      | Broken f \<Rightarrow> (rec, Some f))"

fun receive_all_v1 :: "(nat \<Rightarrow> int) \<Rightarrow> int \<Rightarrow> recorder_v1 \<Rightarrow> arrival list \<Rightarrow> recorder_v1 \<times> fault option" where
  "receive_all_v1 clock connection rec [] = (rec, None)"
| "receive_all_v1 clock connection rec (a # rest) =
     (case receive_v1 clock connection rec a of
        (rec', None) \<Rightarrow> receive_all_v1 clock connection rec' rest
      | (rec', Some f) \<Rightarrow> (rec', Some f))"

definition connect_v1 ::
  "string list \<Rightarrow> (nat \<Rightarrow> int) \<Rightarrow> attempt \<Rightarrow> int \<Rightarrow> recorder_v1 \<Rightarrow> (recorder_v1 \<times> fault option) \<times> bool" where
  "connect_v1 tickers clock a connection rec =
     (let rec1 = write_v1 clock ''connection_opening'' connection [(''websocket_url'', JStr websocket_url)] rec in
      case (case at_open a of None \<Rightarrow> at_send a | Some f \<Rightarrow> Some f) of
        Some f \<Rightarrow> ((rec1, Some f), False)
      | None \<Rightarrow>
          let rec2 = write_v1 clock ''subscription_sent'' connection
                       [(''subscription'', JObj (subscription_payload tickers connection))] rec1
          in (receive_all_v1 clock connection rec2 (at_arrivals a), True))"

text \<open>
  Here every exception but a cancellation (\<open>Fatal\<close>) is a gap; the number of connections and of
  disconnects, or the type of the exception.
\<close>

fun run_attempts_v1 ::
  "string list \<Rightarrow> (nat \<Rightarrow> int) \<Rightarrow> attempt list \<Rightarrow> recorder_v1 \<Rightarrow> int \<Rightarrow> int \<Rightarrow> int \<Rightarrow> recorder_v1 \<times> (string + int \<times> int)" where
  "run_attempts_v1 tickers clock [] rec connection delay lost = (rec, Inr (connection, lost))"
| "run_attempts_v1 tickers clock (a # rest) rec connection delay lost =
     (case connect_v1 tickers clock a (connection + 1) rec of
        ((rec1, None), reset) \<Rightarrow> (rec1, Inr (connection + 1, lost))
      | ((rec1, Some f), reset) \<Rightarrow>
          let current = (if reset then 1 else delay) in
          case f of
            Fatal t \<Rightarrow> (rec1, Inl t)
          | Refused t \<Rightarrow> run_attempts_v1 tickers clock rest
              (write_v1 clock ''connection_gap'' (connection + 1)
                 [(''error_type'', JStr t), (''reconnect_delay_seconds'', JInt current)] rec1)
              (connection + 1) (min (current * 2) 30) (lost + 1)
          | Dropped t \<Rightarrow> run_attempts_v1 tickers clock rest
              (write_v1 clock ''connection_gap'' (connection + 1)
                 [(''error_type'', JStr t), (''reconnect_delay_seconds'', JInt current)] rec1)
              (connection + 1) (min (current * 2) 30) (lost + 1))"

definition run_capture ::
  "string list \<Rightarrow> (nat \<Rightarrow> int) \<Rightarrow> attempt list \<Rightarrow> recorder_v1 \<Rightarrow> recorder_v1 \<times> (string + int \<times> int)" where
  "run_capture tickers clock attempts rec = run_attempts_v1 tickers clock attempts rec 0 1 0"

definition run_capture_command ::
  "provenance \<Rightarrow> int \<Rightarrow> int \<Rightarrow> string \<Rightarrow> capture_arguments \<Rightarrow> (nat \<Rightarrow> int) \<Rightarrow> attempt list \<Rightarrow> (jobj list \<times> jobj \<times> int) res" where
  "run_capture_command pv started ended ticker args clock attempts =
     rbind (parse_capture_config ticker args) (\<lambda>cfg.
     case run_capture (cf_tickers cfg) clock attempts recorder_v1_init of
       (rec, result) \<Rightarrow>
         let d1 = (case result of
                     Inr (connections, lost) \<Rightarrow> update_all (capture_metadata cfg pv started)
                       [(''shutdown'', shutdown_document ''completed'' True None), (''connections'', JInt connections),
                        (''disconnects'', JInt lost)]
                   | Inl t \<Rightarrow> update_all (capture_metadata cfg pv started)
                       [(''shutdown'', if t = ''KeyboardInterrupt'' then shutdown_document ''interrupted'' True None
                                     else shutdown_document ''failed'' False (Some t))]);
             d2 = update_all d1
               [(''capture_ended_at_utc_ns'', JInt ended), (''message_counts_by_type'', sorted_counts (r1_counts rec)),
                (''sequence_gaps'', objects (tr_gaps (r1_tracker rec))),
                (''non_monotonic_sequences'', objects (tr_non_monotonic (r1_tracker rec)))];
             code = (case result of Inr _ \<Rightarrow> 0 | Inl t \<Rightarrow> if t = ''KeyboardInterrupt'' then 130 else 1)
         in Inr (r1_records rec, d2, code))"

end
