(* ===== verification/Capture_Replay.thy ===== *)
theory Capture_Replay
  imports Capture_Session Documents
begin

text \<open>
  The inspection of a capture (\<open>ObservedBookReplay\<close>, \<open>inspect_capture\<close>, \<open>inspect_capture_command\<close> in
  \<open>kalshi_capture.py\<close>). An exception inside a message is counted by the replay, and whatever the message had
  changed by then stays, which is why its parts return the state together with the exception. Only the
  classes that \<open>apply\<close> names are caught.
\<close>

section \<open>The replay of the book\<close>

type_synonym text_levels = "(string \<times> decimal) list"

record book_replay =
  rp_yes :: text_levels
  rp_no :: text_levels
  rp_snapshots :: int
  rp_deltas :: int
  rp_early :: int
  rp_errors :: int

definition replay_init :: book_replay where
  "replay_init = \<lparr>rp_yes = [], rp_no = [], rp_snapshots = 0, rp_deltas = 0, rp_early = 0, rp_errors = 0\<rparr>"

definition replay_payload :: "jobj \<Rightarrow> jobj" where
  "replay_payload message = (case oget message ''msg'' of JObj d \<Rightarrow> d | _ \<Rightarrow> message)"

text \<open>A level is a list of at least two values or an object; anything else is passed over.\<close>

definition replay_level :: "json \<Rightarrow> (json \<times> json) list" where
  "replay_level level =
     (case level of
        JArr (p # q # _) \<Rightarrow> [(p, q)]
      | JObj d \<Rightarrow> [(oget_default d ''price_dollars'' (oget d ''price''), oget_default d ''quantity_fp'' (oget d ''quantity''))]
      | _ \<Rightarrow> [])"

definition replay_levels :: "jobj \<Rightarrow> string \<Rightarrow> (json \<times> json) list" where
  "replay_levels payload side =
     (case filter (\<lambda>v. as_arr v \<noteq> None) (map (oget payload) [side @ ''_dollars'', side, side @ ''_levels'']) of
        JArr levels # _ \<Rightarrow> concat (map replay_level levels)
      | _ \<Rightarrow> [])"

fun load_levels :: "text_levels \<Rightarrow> (json \<times> json) list \<Rightarrow> text_levels \<times> exn option" where
  "load_levels d [] = (d, None)"
| "load_levels d ((price, quantity) # rest) =
     (case rbind (decimal_of quantity) (\<lambda>q. rbind (dec_lt (dec_of_int 0) q) (\<lambda>positive. Inr (q, positive))) of
        Inl e \<Rightarrow> (d, Some e)
      | Inr (q, positive) \<Rightarrow> load_levels (if positive then sset d (py_str price) q else d) rest)"

definition replay_snapshot :: "jobj \<Rightarrow> book_replay \<Rightarrow> book_replay \<times> exn option" where
  "replay_snapshot payload r =
     (case load_levels [] (replay_levels payload ''yes'') of
        (yes, Some e) \<Rightarrow> (r\<lparr>rp_yes := yes, rp_no := []\<rparr>, Some e)
      | (yes, None) \<Rightarrow>
          (case load_levels [] (replay_levels payload ''no'') of
             (no, Some e) \<Rightarrow> (r\<lparr>rp_yes := yes, rp_no := no\<rparr>, Some e)
           | (no, None) \<Rightarrow> (r\<lparr>rp_yes := yes, rp_no := no, rp_snapshots := rp_snapshots r + 1\<rparr>, None)))"

definition lower_text :: "string \<Rightarrow> string" where
  "lower_text s = map lower_char s"

text \<open>One side of the book after a delta.\<close>

definition replay_side :: "text_levels \<Rightarrow> string \<Rightarrow> json \<Rightarrow> text_levels res" where
  "replay_side levels price delta =
     rbind (decimal_of delta) (\<lambda>d.
     rbind (dec_add (case sget levels price of None \<Rightarrow> dec_of_int 0 | Some q \<Rightarrow> q) d) (\<lambda>quantity.
     rbind (dec_le quantity (dec_of_int 0)) (\<lambda>none.
     Inr (if none then spop levels price else sset levels price quantity))))"

definition replay_change :: "string \<Rightarrow> json \<Rightarrow> json \<Rightarrow> book_replay \<Rightarrow> book_replay \<times> exn option" where
  "replay_change side price delta r =
     (if side \<noteq> ''yes'' \<and> side \<noteq> ''no'' then (r\<lparr>rp_errors := rp_errors r + 1\<rparr>, None)
      else if price = JNull \<or> delta = JNull then (r\<lparr>rp_errors := rp_errors r + 1\<rparr>, None)
      else
        (case replay_side (if side = ''yes'' then rp_yes r else rp_no r) (py_str price) delta of
           Inl e \<Rightarrow> (r, Some e)
         | Inr levels \<Rightarrow>
             ((if side = ''yes'' then r\<lparr>rp_yes := levels\<rparr> else r\<lparr>rp_no := levels\<rparr>)\<lparr>rp_deltas := rp_deltas r + 1\<rparr>, None)))"

definition replay_delta :: "jobj \<Rightarrow> book_replay \<Rightarrow> book_replay \<times> exn option" where
  "replay_delta payload r =
     replay_change (lower_text (py_str (oget_default payload ''side'' (JStr []))))
       (oget_default payload ''price_dollars'' (oget payload ''price'')) (oget_default payload ''delta_fp'' (oget payload ''delta''))
       (if rp_snapshots r = 0 then r\<lparr>rp_early := rp_early r + 1\<rparr> else r)"

definition replay_caught :: "exn \<Rightarrow> bool" where
  "replay_caught e \<longleftrightarrow> e = InvalidOperation \<or> e = TypeError \<or> is_value_error e"

definition replay_apply :: "book_replay \<Rightarrow> jobj \<Rightarrow> book_replay res" where
  "replay_apply r message =
     (let payload = replay_payload message; message_type = oget message ''type'';
          result = (if message_type = JStr ''orderbook_snapshot'' then replay_snapshot payload r
                    else if message_type = JStr ''orderbook_delta'' then replay_delta payload r
                    else (r, None))
      in case result of
           (r', None) \<Rightarrow> Inr r'
         | (r', Some e) \<Rightarrow> if replay_caught e then Inr (r'\<lparr>rp_errors := rp_errors r' + 1\<rparr>) else Inl e)"

section \<open>The inspection\<close>

record inspection =
  in_counts :: "(string \<times> int) list"
  in_tracker :: sequence_tracker
  in_replay :: book_replay
  in_malformed :: int

definition inspect_init :: inspection where
  "inspect_init = \<lparr>in_counts = [], in_tracker = tracker_init, in_replay = replay_init, in_malformed = 0\<rparr>"

definition inspect_frame :: "book_replay \<Rightarrow> json \<Rightarrow> book_replay res" where
  "inspect_frame r raw =
     (case raw of
        JStr text \<Rightarrow> (case decode_frame text of (_, _, _, Some d) \<Rightarrow> replay_apply r d | _ \<Rightarrow> Inr r)
      | _ \<Rightarrow> Inr r)"

definition inspect_record :: "inspection \<Rightarrow> jobj \<Rightarrow> inspection res" where
  "inspect_record st r =
     (if oget r ''kind'' \<noteq> JStr ''inbound_frame'' then Inr st
      else
        rbind (py_int (oget_default r ''connection_id'' (JInt 0))) (\<lambda>connection.
        rbind (inspect_frame (in_replay st) (oget r ''raw_frame_utf8'')) (\<lambda>replay.
        Inr (st\<lparr>in_counts := counter_add (in_counts st) (py_str (oget_default r ''message_type'' (JStr ''unknown''))) 1,
               in_tracker := tracker_observe (in_tracker st) (connection, oget r ''subscription_id'', oget r ''source_sequence''),
               in_replay := replay\<rparr>))))"

definition inspect_line :: "inspection \<Rightarrow> string \<Rightarrow> inspection res" where
  "inspect_line st line =
     (case json_loads line of
        Some (JObj r) \<Rightarrow> inspect_record st r
      | _ \<Rightarrow> Inr (st\<lparr>in_malformed := in_malformed st + 1\<rparr>))"

definition inspect_report :: "jobj \<Rightarrow> inspection \<Rightarrow> jobj" where
  "inspect_report metadata st =
     (let r = in_replay st in
      [(''ticker'', oget metadata ''ticker''), (''shutdown'', oget metadata ''shutdown''),
       (''message_counts_by_type'', sorted_counts (in_counts st)), (''malformed_jsonl_records'', JInt (in_malformed st)),
       (''sequence_gaps'', objects (tr_gaps (in_tracker st))),
       (''non_monotonic_sequences'', objects (tr_non_monotonic (in_tracker st))),
       (''observed_l2_replay'', JObj
          [(''snapshots_applied'', JInt (rp_snapshots r)), (''deltas_applied'', JInt (rp_deltas r)),
           (''deltas_before_snapshot'', JInt (rp_early r)), (''parse_errors'', JInt (rp_errors r)),
           (''remaining_yes_levels'', JInt (int (length (rp_yes r)))), (''remaining_no_levels'', JInt (int (length (rp_no r))))])])"

definition inspect_capture :: "string \<Rightarrow> string \<Rightarrow> (inspection \<times> jobj) res" where
  "inspect_capture metadata_text frames_text =
     rbind (of_option (ValueError ''JSONDecodeError'') (json_loads metadata_text)) (\<lambda>v.
     rbind (res_fold inspect_line inspect_init (text_lines frames_text)) (\<lambda>st.
     rbind (of_option AttributeError (as_obj v)) (\<lambda>metadata.
     Inr (st, inspect_report metadata st))))"

record inspect_options =
  io_snapshot :: bool
  io_subscription :: bool
  io_delta :: bool
  io_trade :: bool
  io_contiguous :: bool
  io_clean :: bool

definition failed :: "bool \<Rightarrow> string \<Rightarrow> string list" where
  "failed b message = (if b then [message] else [])"

definition inspect_failures :: "inspect_options \<Rightarrow> jobj \<Rightarrow> inspection \<Rightarrow> string list" where
  "inspect_failures opt metadata st =
     (let counts = in_counts st; r = in_replay st in
      failed (io_snapshot opt \<and> counter_get counts ''orderbook_snapshot'' = 0) ''no orderbook_snapshot received'' @
      failed (io_subscription opt \<and> counter_get counts ''subscribed'' = 0) ''no subscription acknowledgement received'' @
      failed (io_delta opt \<and> counter_get counts ''orderbook_delta'' = 0) ''no orderbook_delta received'' @
      failed (io_trade opt \<and> counter_get counts ''trade'' = 0) ''no trade received'' @
      failed (io_contiguous opt \<and> \<not> sequence_clean (in_tracker st)) ''source sequences were not continuous'' @
      failed (io_clean opt \<and> \<not> py_eq (oget metadata ''shutdown'') (shutdown_document ''completed'' True None))
        ''capture did not complete with a clean normal shutdown'' @
      failed (in_malformed st \<noteq> 0) ''malformed JSONL records found'' @
      failed (rp_early r \<noteq> 0) ''delta encountered before an order-book snapshot'' @
      failed (rp_errors r \<noteq> 0) ''observed L2 replay parse errors'')"

definition inspect_capture_command :: "inspect_options \<Rightarrow> string \<Rightarrow> string \<Rightarrow> (jobj \<times> int) res" where
  "inspect_capture_command opt metadata_text frames_text =
     rbind (inspect_capture metadata_text frames_text) (\<lambda>(st, report).
     let failures = inspect_failures opt report st in
     Inr (report @ [(''validation_failures'', names_array failures)], if failures = [] then 0 else 1))"

end
