(* ===== verification/Capture_Facts.thy ===== *)
theory Capture_Facts
  imports Capture_Replay
begin

text \<open>
  The recorders and their inspection: what a clean sequence tracker says, that the inspection of a capture
  counts what the recorder counted, and that the replayed book keeps its shape.
\<close>

section \<open>The sequence tracker\<close>

text \<open>The numbers that a run presents on one subscription, in order.\<close>

definition tracked :: "int \<times> string \<Rightarrow> (int \<times> json \<times> json) list \<Rightarrow> int list" where
  "tracked k obs =
     concat (map (\<lambda>(c, sid, s). case s of JInt n \<Rightarrow> if (c, py_str sid) = k then [n] else [] | _ \<Rightarrow> []) obs)"

fun successive :: "int list \<Rightarrow> bool" where
  "successive (a # b # xs) \<longleftrightarrow> b = a + 1 \<and> successive (b # xs)"
| "successive _ \<longleftrightarrow> True"

definition numbered_or_absent :: "int \<times> json \<times> json \<Rightarrow> bool" where
  "numbered_or_absent ob \<longleftrightarrow> (case snd (snd ob) of JNull \<Rightarrow> True | JInt _ \<Rightarrow> True | _ \<Rightarrow> False)"

lemma tracked_snoc:
  "tracked k (obs @ [(c, sid, s)]) =
     tracked k obs @ (case s of JInt n \<Rightarrow> if (c, py_str sid) = k then [n] else [] | _ \<Rightarrow> [])"
  by (simp add: tracked_def)

lemma successive_snoc: "successive (xs @ [n]) \<longleftrightarrow> successive xs \<and> (xs = [] \<or> n = last xs + 1)"
proof (induction xs rule: successive.induct)
  case (1 a b xs)
  then show ?case by (cases xs) auto
qed auto

lemma tracker_last:
  "sget (tr_previous (foldl tracker_observe tracker_init obs)) k =
     (if tracked k obs = [] then None else Some (last (tracked k obs)))"
proof (induction obs rule: rev_induct)
  case Nil
  then show ?case by (simp add: tracker_init_def tracked_def)
next
  case (snoc ob obs)
  obtain c sid s where ob: "ob = (c, sid, s)" by (cases ob)
  show ?case using snoc
    by (cases s) (auto simp: ob tracker_observe_def tracked_snoc Let_def split: option.splits)
qed

lemma tracker_step_clean:
  "sequence_clean (tracker_observe t (c, sid, s)) \<longleftrightarrow> sequence_clean t \<and> numbered_or_absent (c, sid, s) \<and>
     (\<forall>n p. s = JInt n \<longrightarrow> sget (tr_previous t) (c, py_str sid) = Some p \<longrightarrow> n = p + 1)"
  by (cases s) (auto simp: tracker_observe_def sequence_clean_def numbered_or_absent_def Let_def split: option.splits)

lemma tracker_clean:
  "sequence_clean (foldl tracker_observe tracker_init obs) \<longleftrightarrow>
     (\<forall>ob \<in> set obs. numbered_or_absent ob) \<and> (\<forall>k. successive (tracked k obs))"
proof (induction obs rule: rev_induct)
  case Nil
  then show ?case by (simp add: sequence_clean_def tracker_init_def tracked_def)
next
  case (snoc ob obs)
  obtain c sid s where ob: "ob = (c, sid, s)" by (cases ob)
  have split: "(\<forall>k. successive (tracked k (obs @ [ob]))) \<longleftrightarrow> (\<forall>k. successive (tracked k obs)) \<and>
      (\<forall>n. s = JInt n \<longrightarrow> tracked (c, py_str sid) obs = [] \<or> n = last (tracked (c, py_str sid) obs) + 1)"
    by (cases s) (auto simp: ob tracked_snoc successive_snoc)
  show ?case
    unfolding split using snoc by (auto simp: ob tracker_step_clean tracker_last)
qed

text \<open>What the normalizer keeps of the same frames.\<close>

lemma tracker_step_seq:
  assumes "sequence_clean (tracker_observe t ob)" and "sv_previous sv = tr_previous t" and "sv_gaps sv = []"
  shows "\<exists>sv'. seq_observe sv ob = Inr sv' \<and> sv_previous sv' = tr_previous (tracker_observe t ob) \<and> sv_gaps sv' = []"
proof -
  obtain c sid s where ob: "ob = (c, sid, s)" by (cases ob)
  from assms(1) show ?thesis unfolding ob tracker_step_clean using assms(2,3)
    by (cases s; cases "sget (tr_previous t) (c, py_str sid)")
      (auto simp: numbered_or_absent_def seq_observe_def tracker_observe_def Let_def)
qed

lemma tracker_seq:
  "sequence_clean (foldl tracker_observe tracker_init obs) \<Longrightarrow>
   \<exists>sv. res_fold seq_observe seq_init obs = Inr sv \<and>
     sv_previous sv = tr_previous (foldl tracker_observe tracker_init obs) \<and> sv_gaps sv = []"
proof (induction obs rule: rev_induct)
  case Nil
  then show ?case by (simp add: seq_init_def tracker_init_def)
next
  case (snoc ob obs)
  obtain c sid s where ob: "ob = (c, sid, s)" by (cases ob)
  from snoc.prems have "sequence_clean (foldl tracker_observe tracker_init obs)" by (simp add: ob tracker_step_clean)
  with snoc.IH obtain sv where "res_fold seq_observe seq_init obs = Inr sv"
    "sv_previous sv = tr_previous (foldl tracker_observe tracker_init obs)" "sv_gaps sv = []" by blast
  with tracker_step_seq [of "foldl tracker_observe tracker_init obs" ob sv] snoc.prems
  show ?case by (auto simp: res_fold_append)
qed

text \<open>C34: The recorder reports no gap and no irregular number exactly when every frame carries an integer or no
  sequence number, and on every subscription of every connection the numbers rise by one. The normalizer
  then accepts the same sequence of frames and finds no gap in it either.
\<close>

theorem clean_tracker_exact:
  "(sequence_clean (foldl tracker_observe tracker_init obs) \<longleftrightarrow>
     (\<forall>ob \<in> set obs. numbered_or_absent ob) \<and> (\<forall>k. successive (tracked k obs))) \<and>
   (sequence_clean (foldl tracker_observe tracker_init obs) \<longrightarrow>
     (\<exists>sv. res_fold seq_observe seq_init obs = Inr sv \<and> sv_gaps sv = []))"
  using tracker_clean tracker_seq by blast

section \<open>Inspection counts what was recorded\<close>

text \<open>The inspection of the records so far.\<close>

definition recounts :: "recorder_v1 \<Rightarrow> bool" where
  "recounts rec \<longleftrightarrow> (\<forall>st. res_fold inspect_record inspect_init (r1_records rec) = Inr st \<longrightarrow>
     in_counts st = r1_counts rec \<and> in_tracker st = r1_tracker rec \<and> in_malformed st = 0)"

lemma recounts_init: "recounts recorder_v1_init"
  by (simp add: recounts_def recorder_v1_init_def inspect_init_def)

lemma recounts_write: "kind \<noteq> ''inbound_frame'' \<Longrightarrow> recounts rec \<Longrightarrow> recounts (write_v1 clock kind c vs rec)"
  by (auto simp: recounts_def write_v1_def res_fold_append rbind_eq_Inr inspect_record_def oget_def)

lemma recounts_frame: "recounts rec \<Longrightarrow> recounts (inbound_frame_v1 clock c raw rec)"
  by (fastforce simp: recounts_def inbound_frame_v1_def write_v1_def res_fold_append rbind_eq_Inr inspect_record_def
    oget_def oget_default_def split: prod.splits)

lemma recounts_receive: "recounts rec \<Longrightarrow> recounts (fst (receive_v1 clock c rec a))"
  by (cases a) (auto simp: receive_v1_def intro: recounts_frame recounts_write)

lemma recounts_receive_all: "recounts rec \<Longrightarrow> recounts (fst (receive_all_v1 clock c rec as))"
proof (induction as arbitrary: rec)
  case (Cons a as)
  from recounts_receive [OF Cons.prems, of clock c a] Cons.IH show ?case
    by (auto split: prod.splits option.splits)
qed simp

lemma recounts_connect: "recounts rec \<Longrightarrow> recounts (fst (fst (connect_v1 tickers clock a c rec)))"
  by (auto simp: connect_v1_def Let_def split: option.splits intro!: recounts_write recounts_receive_all)

lemma recounts_attempts: "recounts rec \<Longrightarrow> recounts (fst (run_attempts_v1 tickers clock as rec c delay lost))"
proof (induction as arbitrary: rec c delay lost)
  case (Cons a as)
  obtain rec1 f reset where conn: "connect_v1 tickers clock a (c + 1) rec = ((rec1, f), reset)" by (metis prod.collapse)
  from recounts_connect [OF Cons.prems, of tickers clock a "c + 1"] have "recounts rec1" by (simp add: conn)
  then show ?case using Cons.IH by (auto simp: conn Let_def recounts_write split: option.splits fault.splits)
qed simp

lemma inspect_lines:
  "map json_loads lines = map (\<lambda>r. Some (JObj r)) rs \<Longrightarrow> res_fold inspect_line st lines = res_fold inspect_record st rs"
proof (induction rs arbitrary: lines st)
  case (Cons r rs)
  then obtain l ls where "lines = l # ls" "json_loads l = Some (JObj r)" "map json_loads ls = map (\<lambda>r. Some (JObj r)) rs"
    by (cases lines) auto
  with Cons.IH show ?case by (simp add: inspect_line_def)
qed simp

text \<open>C35: The inspection of a capture repeats the recorder's own count. Whatever the network did and however the
  run of the first capture ended, if each line of the frames file decodes to the record that was written, the
  inspection of the file finds the message counts and the gaps and irregular numbers that the recorder has
  put into the metadata, and no malformed line.
\<close>

theorem inspection_recounts:
  assumes "run_capture tickers clock attempts recorder_v1_init = (rec, result)"
    and "map json_loads (text_lines frames) = map (\<lambda>r. Some (JObj r)) (r1_records rec)"
    and "inspect_capture metadata frames = Inr (st, report)"
  shows "in_counts st = r1_counts rec \<and> in_tracker st = r1_tracker rec \<and> in_malformed st = 0"
proof -
  from assms(3) have "res_fold inspect_line inspect_init (text_lines frames) = Inr st"
    by (auto simp: inspect_capture_def rbind_eq_Inr)
  then have "res_fold inspect_record inspect_init (r1_records rec) = Inr st" by (simp add: inspect_lines [OF assms(2)])
  moreover have "recounts rec"
    using recounts_attempts [OF recounts_init, of tickers clock attempts 0 1 0] assms(1) by (simp add: run_capture_def)
  ultimately show ?thesis by (simp add: recounts_def)
qed

section \<open>The replayed book\<close>

definition positive_levels :: "text_levels \<Rightarrow> bool" where
  "positive_levels d \<longleftrightarrow> distinct (map fst d) \<and> (\<forall>(price, q) \<in> set d. dec_lt (dec_of_int 0) q = Inr True)"

definition book_shaped :: "book_replay \<Rightarrow> bool" where
  "book_shaped r \<longleftrightarrow> positive_levels (rp_yes r) \<and> positive_levels (rp_no r)"

lemma positive_levels_Nil [simp]: "positive_levels []"
  by (simp add: positive_levels_def)

lemma positive_levels_set: "positive_levels d \<Longrightarrow> dec_lt (dec_of_int 0) q = Inr True \<Longrightarrow> positive_levels (sset d p q)"
  using plain.dwf_dset [of d p q] by (auto simp: positive_levels_def dwf_plain dest: dset_valuesD)

lemma positive_levels_pop: "positive_levels d \<Longrightarrow> positive_levels (spop d p)"
  using plain.dwf_dpop [of d p] dpop_subset [of "(=)" d p] by (auto simp: positive_levels_def dwf_plain)

lemma decimal_of_Inl: "decimal_of v = Inl e \<Longrightarrow> e = InvalidOperation"
  by (simp add: decimal_of_def py_decimal_def)

lemma dec_le_Inl: "dec_le a b = Inl e \<Longrightarrow> e = InvalidOperation"
  by (cases a; cases b) (auto simp: Let_def)

lemma dec_fix_Inl: "dec_fix d = Inl e \<Longrightarrow> e = DecimalOverflow"
  by (cases d) (auto simp: dec_fix.simps Let_def split: if_splits)

lemma dec_add_Inl: "dec_add a b = Inl e \<Longrightarrow> e = InvalidOperation \<or> e = DecimalOverflow"
  by (cases a; cases b) (auto simp: dec_add_def nan_result_def Let_def dest: dec_fix_Inl split: if_splits)

lemma load_levels_shaped:
  "load_levels d pqs = (d', e) \<Longrightarrow> positive_levels d \<Longrightarrow> positive_levels d' \<and> (e = None \<or> e = Some InvalidOperation)"
proof (induction pqs arbitrary: d)
  case (Cons pq rest)
  obtain price quantity where pq: "pq = (price, quantity)" by (cases pq)
  show ?case
  proof (cases "decimal_of quantity")
    case (Inl x)
    with Cons.prems show ?thesis by (auto simp: pq dest: decimal_of_Inl)
  next
    case (Inr q)
    show ?thesis
    proof (cases "dec_le q (dec_of_int 0)")
      case (Inl x)
      with Inr Cons.prems show ?thesis by (auto simp: pq dec_lt_def dest: dec_le_Inl)
    next
      case (Inr none)
      then have "dec_lt (dec_of_int 0) q = Inr (\<not> none)" by (simp add: dec_lt_def)
      with \<open>decimal_of quantity = Inr q\<close> Cons show ?thesis
        by (cases none) (auto simp: pq positive_levels_set)
    qed
  qed
qed simp

lemma replay_side_shaped:
  assumes "positive_levels d"
  shows "case replay_side d p v of Inr d' \<Rightarrow> positive_levels d' | Inl e \<Rightarrow> e = InvalidOperation \<or> e = DecimalOverflow"
  using assms
  by (auto simp: replay_side_def rbind_eq_Inr rbind_eq_Inl dec_lt_def positive_levels_pop
    dest: decimal_of_Inl dec_add_Inl dec_le_Inl intro: positive_levels_set split: sum.splits if_splits)

lemma replay_snapshot_shaped:
  assumes "replay_snapshot payload r = (r', e)"
  shows "book_shaped r' \<and> (e = None \<or> e = Some InvalidOperation)"
  using assms load_levels_shaped [of "[]" "replay_levels payload ''yes''"] load_levels_shaped [of "[]" "replay_levels payload ''no''"]
  by (auto simp: replay_snapshot_def book_shaped_def split: prod.splits option.splits)

lemma replay_change_shaped:
  assumes "replay_change side price delta r = (r', e)" and "book_shaped r"
  shows "book_shaped r' \<and> (e = None \<or> e = Some InvalidOperation \<or> e = Some DecimalOverflow)"
proof (cases "replay_side (if side = ''yes'' then rp_yes r else rp_no r) (py_str price) delta")
  case (Inl x)
  with replay_side_shaped [of "if side = ''yes'' then rp_yes r else rp_no r" "py_str price" delta] assms(2)
  have "x = InvalidOperation \<or> x = DecimalOverflow" by (simp add: book_shaped_def split: if_splits)
  with assms Inl show ?thesis by (auto simp: replay_change_def book_shaped_def split: if_splits)
next
  case (Inr d)
  with replay_side_shaped [of "if side = ''yes'' then rp_yes r else rp_no r" "py_str price" delta] assms(2)
  have "positive_levels d" by (simp add: book_shaped_def split: if_splits)
  with assms Inr show ?thesis by (auto simp: replay_change_def book_shaped_def split: if_splits)
qed

lemma replay_delta_shaped:
  assumes "replay_delta payload r = (r', e)" and "book_shaped r"
  shows "book_shaped r' \<and> (e = None \<or> e = Some InvalidOperation \<or> e = Some DecimalOverflow)"
proof -
  have "book_shaped (if rp_snapshots r = 0 then r\<lparr>rp_early := rp_early r + 1\<rparr> else r)"
    using assms(2) by (simp add: book_shaped_def)
  from replay_change_shaped [OF assms(1) [unfolded replay_delta_def] this] show ?thesis .
qed

text \<open>C36: The replay of the inspection keeps its book well formed: whatever a message contains, on each side no
  price appears twice and every quantity is above zero, also when the message fails half way and is only
  counted. The one exception that escapes the replay is the overflow of \<open>decimal\<close>.
\<close>

theorem replay_keeps_book:
  assumes "book_shaped r"
  shows "case replay_apply r message of Inr r' \<Rightarrow> book_shaped r' | Inl e \<Rightarrow> e = DecimalOverflow"
proof -
  obtain r' e where res: "(if oget message ''type'' = JStr ''orderbook_snapshot'' then replay_snapshot (replay_payload message) r
      else if oget message ''type'' = JStr ''orderbook_delta'' then replay_delta (replay_payload message) r
      else (r, None)) = (r', e)" by fastforce
  have "book_shaped r' \<and> (e = None \<or> e = Some InvalidOperation \<or> e = Some DecimalOverflow)"
    using res replay_snapshot_shaped replay_delta_shaped [OF _ assms] assms by (auto split: if_splits)
  then show ?thesis
    by (auto simp: replay_apply_def Let_def res replay_caught_def book_shaped_def)
qed

lemma big_sum_overflows:
  assumes "0 < c" and "999999 < e"
  shows "dec_add (dec_of_int 0) (Fin False c e) = Inl DecimalOverflow"
proof -
  have "10 ^ nat e \<le> c * 10 ^ nat e" using assms(1) by simp
  then have big: "\<not> c * 10 ^ nat e < 10 ^ nat e" by simp
  have "\<not> ndigits (c * 10 ^ nat e) \<le> nat e" using big assms(2) by (simp add: ndigits_le_iff)
  then have n: "999999 < int (ndigits (c * 10 ^ nat e)) - 1" using assms(2) by linarith
  have pos: "\<not> int c * 10 ^ nat e < 0" by (simp add: not_less)
  have "dec_add (dec_of_int 0) (Fin False c e) = dec_fix (Fin False (c * 10 ^ nat e) 0)"
    using assms pos by (simp add: dec_add_def nan_result_def dec_of_int_def Let_def scaled_def nat_mult_distrib nat_power_eq)
  also have "\<dots> = Inl DecimalOverflow"
    using n assms(1) by (simp add: dec_fix.simps(1) Let_def dec_ctx)
  finally show ?thesis .
qed

text \<open>C37: The exception that escapes is real: a delta whose amount is a number with an exponent above 999999, on
  a price that is not in the book, ends the inspection with an overflow instead of being counted as an error.
\<close>

theorem replay_overflow_escapes:
  assumes "decimal_of amount = Inr (Fin False c e)" and "0 < c" and "999999 < e" and "sget (rp_yes r) price = None"
  shows "replay_apply r [(''type'', JStr ''orderbook_delta''),
           (''msg'', JObj [(''side'', JStr ''yes''), (''price_dollars'', JStr price), (''delta_fp'', amount)])] = Inl DecimalOverflow"
proof -
  have "case decimal_of JNull of Inl _ \<Rightarrow> True | Inr _ \<Rightarrow> False" by code_simp
  then have "amount \<noteq> JNull" using assms(1) by auto
  moreover have "lower_text ''yes'' = ''yes''" by code_simp
  ultimately show ?thesis
    using assms big_sum_overflows [OF assms(2,3)]
    by (simp add: replay_apply_def replay_payload_def replay_delta_def replay_change_def replay_side_def replay_caught_def oget_def
      oget_default_def Let_def)
qed

end
