(* ===== verification/Capture_Log.thy ===== *)
theory Capture_Log
  imports Capture_Facts Normalize_V3
begin

text \<open>
  The log of a capture V2 against its reader. \<open>capture_log\<close> is the protocol of the log: which control records
  may follow which. Every run of the recorder follows it (\<open>run_attempts_log\<close>), and the normalizer accepts every
  control record of a log that does (\<open>control_accepted\<close>).
\<close>

section \<open>The protocol\<close>

definition log_record :: "nat \<Rightarrow> int \<Rightarrow> string \<Rightarrow> jobj \<Rightarrow> jobj" where
  "log_record n time kind values' =
     [(''schema'', JStr ''pmm.kalshi.raw_capture_record.v2''), (''kind'', JStr kind),
      (''raw_ingress_ordinal'', JInt (int n + 1)), (''received_at_utc_ns'', JInt time)] @ values'"

definition sent_values :: "string list \<Rightarrow> int \<Rightarrow> jobj" where
  "sent_values T c =
     [(''connection_segment_id'', JInt c), (''subscription_request_id'', JStr (logical_request c)),
      (''wire_request_id'', JInt c), (''subscription'', JObj (subscription_payload T c))]"

definition ack_values :: "string list \<Rightarrow> int \<Rightarrow> string \<Rightarrow> string \<Rightarrow> jobj" where
  "ack_values T c channel sid =
     [(''connection_segment_id'', JInt c), (''subscription_request_id'', JStr (logical_request c)),
      (''wire_request_id'', JInt c), (''channel'', JStr channel), (''venue_subscription_id'', JStr sid),
      (''requested_market_tickers'', names_array T),
      (''membership_claim'', JStr ''request_bound_not_echoed_by_acknowledgement'')]"

text \<open>The connections that have subscribed and the channels they have bound.\<close>

definition passive_kinds :: "string set" where
  "passive_kinds =
     {''connection_attempt'', ''connection_opened'', ''connection_closed'', ''binary_frame_rejected'', ''inbound_frame''}"

inductive capture_log :: "string list \<Rightarrow> jobj list \<Rightarrow> int set \<Rightarrow> (int \<times> string \<times> string) set \<Rightarrow> bool" for T where
  Start: "capture_log T [] {} {}"
| Sent: "capture_log T rows R A \<Longrightarrow> c \<notin> R \<Longrightarrow>
    capture_log T (rows @ [log_record (length rows) t ''subscription_sent'' (sent_values T c)]) (insert c R) A"
| Acknowledged: "capture_log T rows R A \<Longrightarrow> c \<in> R \<Longrightarrow> channel \<in> set capture_channels \<Longrightarrow>
    (\<And>channel' sid'. (c, channel', sid') \<in> A \<Longrightarrow> channel' \<noteq> channel \<and> sid' \<noteq> sid) \<Longrightarrow>
    capture_log T (rows @ [log_record (length rows) t ''subscription_acknowledged'' (ack_values T c channel sid)]) R
      (insert (c, channel, sid) A)"
| Gap: "capture_log T rows R A \<Longrightarrow>
    capture_log T (rows @ [log_record (length rows) t ''connection_gap'' ((''connection_segment_id'', JInt c) # vs)]) R A"
| Passive: "capture_log T rows R A \<Longrightarrow>
    kind \<in> passive_kinds \<Longrightarrow> (kind = ''inbound_frame'' \<Longrightarrow> \<exists>s. oget vs ''message_type'' = JStr s) \<Longrightarrow>
    capture_log T (rows @ [log_record (length rows) t kind ((''connection_segment_id'', JInt c) # vs)]) R A"

inductive_cases capture_log_snocE: "capture_log T (rows @ [r]) R A"

lemma capture_log_prefix: "capture_log T (rows @ rest) R A \<Longrightarrow> \<exists>R' A'. capture_log T rows R' A'"
proof (induction rest arbitrary: R A rule: rev_induct)
  case (snoc r rest)
  then have "capture_log T ((rows @ rest) @ [r]) R A" by simp
  then obtain R' A' where "capture_log T (rows @ rest) R' A'" by (rule capture_log_snocE) auto
  with snoc.IH show ?case by blast
qed auto

section \<open>The recorder follows the protocol\<close>

definition follows :: "string list \<Rightarrow> recorder \<Rightarrow> int set \<Rightarrow> (int \<times> string \<times> string) set \<Rightarrow> bool" where
  "follows T rec R A \<longleftrightarrow> capture_log T (rv_records rec) R A \<and> rv_next rec = int (length (rv_records rec)) + 1"

text \<open>A session in the middle of a connection: its binding is what the log says of the connection.\<close>

definition session_follows :: "string list \<Rightarrow> session \<Rightarrow> int set \<Rightarrow> (int \<times> string \<times> string) set \<Rightarrow> bool" where
  "session_follows T s R A \<longleftrightarrow>
     (let c = su_connection (ss_summary s); b = ss_binding s in
      follows T (ss_recorder s) R A \<and> su_request (ss_summary s) = c \<and> sb_channels b = capture_channels \<and> (\<forall>i \<in> R. i \<le> c) \<and>
      (\<forall>(i, x) \<in> A. i \<le> c) \<and> (\<forall>ch sid. (c, ch, sid) \<in> A \<longleftrightarrow> (ch, sid) \<in> set (sb_sids b)))"

lemma session_follows_summary:
  "session_follows T (s\<lparr>ss_summary := su\<rparr>) R A \<longleftrightarrow>
     session_follows T s R A" if "su_connection su = su_connection (ss_summary s)" "su_request su = su_request (ss_summary s)"
  using that by (simp add: session_follows_def)

lemma capture_record_follows:
  assumes "follows T rec R A"
    and "\<And>t. capture_log T (rv_records rec @ [log_record (length (rv_records rec)) t kind vs]) R' A'"
  shows "follows T (capture_record clock kind vs rec) R' A'"
  using assms by (simp add: follows_def capture_record_def log_record_def)

lemma capture_log_plain:
  assumes "capture_log T rows R A" and "kind \<in> insert ''connection_gap'' passive_kinds"
    and "kind = ''inbound_frame'' \<Longrightarrow> \<exists>s. oget vs ''message_type'' = JStr s"
  shows "capture_log T (rows @ [log_record (length rows) t kind ((''connection_segment_id'', JInt c) # vs)]) R A"
proof (cases "kind = ''connection_gap''")
  case True
  show ?thesis unfolding True by (rule capture_log.Gap [OF assms(1)])
next
  case False
  with assms(2) have "kind \<in> passive_kinds" by simp
  from capture_log.Passive [OF assms(1) this assms(3)] show ?thesis .
qed

lemma follows_plain:
  assumes "follows T rec R A" and "kind \<in> insert ''connection_gap'' passive_kinds"
    and "kind = ''inbound_frame'' \<Longrightarrow> \<exists>s. oget vs ''message_type'' = JStr s"
  shows "follows T (capture_record clock kind ((''connection_segment_id'', JInt c) # vs) rec) R A"
proof (rule capture_record_follows [OF assms(1)])
  fix t
  from assms(1) have "capture_log T (rv_records rec) R A" by (simp add: follows_def)
  from capture_log_plain [OF this assms(2,3)]
  show "capture_log T (rv_records rec @ [log_record (length (rv_records rec)) t kind
    ((''connection_segment_id'', JInt c) # vs)]) R A" .
qed

lemma session_follows_recorder:
  "session_follows T s R A \<Longrightarrow> follows T rec R A \<Longrightarrow> session_follows T (s\<lparr>ss_recorder := rec\<rparr>) R A"
  by (simp add: session_follows_def Let_def)

lemma session_follows_log: "session_follows T s R A \<Longrightarrow> follows T (ss_recorder s) R A"
  by (simp add: session_follows_def Let_def)

lemma session_record_passive:
  assumes "session_follows T s R A" and "kind \<in> insert ''connection_gap'' passive_kinds - {''inbound_frame''}"
  shows "session_follows T (session_record clock kind vs s) R A"
proof -
  have "kind \<in> insert ''connection_gap'' passive_kinds" "kind \<noteq> ''inbound_frame''" using assms(2) by simp_all
  then show ?thesis unfolding session_record_def
    by (intro session_follows_recorder [OF assms(1)] follows_plain [OF session_follows_log [OF assms(1)]]) simp_all
qed

lemma count_market_log:
  "rv_records (count_market t m rec) = rv_records rec" "rv_next (count_market t m rec) = rv_next rec"
  by (simp_all add: count_market_def split: json.splits)

lemma inbound_frame_record:
  "\<exists>rec0 vs. fst (inbound_frame clock c raw rec) = capture_record clock ''inbound_frame'' ((''connection_segment_id'', JInt c) # vs) rec0 \<and>
     rv_records rec0 = rv_records rec \<and> rv_next rec0 = rv_next rec \<and> (\<exists>s. oget vs ''message_type'' = JStr s)"
  unfolding inbound_frame_def Let_def case_prod_beta fst_conv
  by (intro exI conjI, rule refl) (simp_all add: count_market_log)

lemma inbound_follows:
  assumes "session_follows T s R A" and "inbound_frame clock (su_connection (ss_summary s)) raw (ss_recorder s) = (rec, x)"
  shows "session_follows T (s\<lparr>ss_recorder := rec\<rparr>) R A"
proof -
  let ?c = "su_connection (ss_summary s)"
  from inbound_frame_record [of clock ?c raw "ss_recorder s"] obtain rec0 vs m where
    rec: "fst (inbound_frame clock ?c raw (ss_recorder s)) =
      capture_record clock ''inbound_frame'' ((''connection_segment_id'', JInt ?c) # vs) rec0"
    and r0: "rv_records rec0 = rv_records (ss_recorder s)" "rv_next rec0 = rv_next (ss_recorder s)"
    and m: "oget vs ''message_type'' = JStr m" by (elim exE conjE) (rule that)
  from session_follows_log [OF assms(1)] have "follows T rec0 R A" by (simp add: follows_def r0)
  from follows_plain [OF this, of "''inbound_frame''" vs] m
  have "follows T (capture_record clock ''inbound_frame'' ((''connection_segment_id'', JInt ?c) # vs) rec0) R A"
    by (simp add: passive_kinds_def)
  moreover have "rec = capture_record clock ''inbound_frame'' ((''connection_segment_id'', JInt ?c) # vs) rec0"
    using rec by (simp only: assms(2) fst_conv)
  ultimately have "follows T rec R A" by (simp only:)
  with assms(1) show ?thesis by (rule session_follows_recorder)
qed

lemma observe_acknowledgement_Inr:
  assumes "observe_acknowledgement b message = Inr ((channel, sid), b')"
  shows "channel \<in> set (sb_channels b) \<and> sget (sb_sids b) channel = None \<and> sid \<notin> snd ` set (sb_sids b) \<and>
    b' = b\<lparr>sb_sids := sb_sids b @ [(channel, sid)]\<rparr>"
  using assms by (auto simp: observe_acknowledgement_def Let_def rbind_eq_Inr plain.dset_new)

lemma acknowledge_follows:
  assumes "session_follows T s R A" and R: "su_connection (ss_summary s) \<in> R" and T: "cf_tickers cfg = T"
    and "acknowledge_channel cfg clock message s = (s', f)"
  shows "\<exists>A'. session_follows T s' R A'"
proof (cases "observe_acknowledgement (ss_binding s) message")
  case (Inl e)
  with assms(1,4) show ?thesis by (auto simp: acknowledge_channel_def)
next
  case (Inr x)
  obtain channel sid b where x: "x = ((channel, sid), b)" by (cases x) (metis surj_pair)
  let ?c = "su_connection (ss_summary s)" and ?vs = "ack_values T (su_connection (ss_summary s)) channel sid"
  note F = assms(1) [unfolded session_follows_def Let_def]
  note O = observe_acknowledgement_Inr [OF Inr [unfolded x]]
  from F have sids: "(?c, ch, i) \<in> A \<longleftrightarrow> (ch, i) \<in> set (sb_sids (ss_binding s))" for ch i by blast
  have new: "ch \<noteq> channel \<and> i \<noteq> sid" if "(?c, ch, i) \<in> A" for ch i
  proof -
    from that have "(ch, i) \<in> set (sb_sids (ss_binding s))" by (simp add: sids)
    with O show ?thesis by (force simp: dget_None)
  qed
  have channel: "channel \<in> set capture_channels" using O F by simp
  have f: "follows T (ss_recorder s) R A" by (rule session_follows_log [OF assms(1)])
  then have "capture_log T (rv_records (ss_recorder s)) R A" by (simp add: follows_def)
  note logged = capture_log.Acknowledged [OF this R channel new]
  have vs: "(''connection_segment_id'', JInt ?c) # tl ?vs = ?vs" by (simp add: ack_values_def)
  have s': "s' = s\<lparr>ss_binding := b, ss_summary := (ss_summary s)\<lparr>su_sids := sorted_sids b\<rparr>,
      ss_recorder := capture_record clock ''subscription_acknowledged'' ?vs (ss_recorder s)\<rparr>"
    using assms(4) F T by (simp add: acknowledge_channel_def Inr x ack_values_def session_record_def)
  have "follows T (ss_recorder s') R (insert (?c, channel, sid) A)"
    using capture_record_follows [OF f logged] by (simp add: s')
  moreover have "\<forall>(i, x) \<in> insert (?c, channel, sid) A. i \<le> ?c" using F by auto
  moreover have "(?c, ch, i) \<in> insert (?c, channel, sid) A \<longleftrightarrow> (ch, i) \<in> set (sb_sids b)" for ch i
    using O sids by auto
  ultimately have "session_follows T s' R (insert (?c, channel, sid) A)"
    using F O by (simp add: session_follows_def s')
  then show ?thesis by blast
qed

lemma observe_market_follows:
  "session_follows T s R A \<Longrightarrow> observe_market cfg mt sid message s = (s', f) \<Longrightarrow>
   session_follows T s' R A \<and> ss_recorder s' = ss_recorder s \<and> su_connection (ss_summary s') = su_connection (ss_summary s)"
  by (auto simp: observe_market_def Let_def session_follows_summary split: if_splits)

lemma session_connection [simp]: "su_connection (ss_summary (session_record clock kind vs s)) = su_connection (ss_summary s)"
  by (simp add: session_record_def)

lemma acknowledge_connection:
  "acknowledge_channel cfg clock message s = (s', f) \<Longrightarrow> su_connection (ss_summary s') = su_connection (ss_summary s)"
  by (auto simp: acknowledge_channel_def split: sum.splits prod.splits)

lemma receive_follows:
  assumes "session_follows T s R A" and "su_connection (ss_summary s) \<in> R" and "cf_tickers cfg = T"
    and "receive cfg clock s a = (s', f)"
  shows "(\<exists>A'. session_follows T s' R A') \<and> su_connection (ss_summary s') = su_connection (ss_summary s)"
proof (cases a)
  case (Text raw)
  obtain rec mt sid seq d where i: "inbound_frame clock (su_connection (ss_summary s)) raw (ss_recorder s) = (rec, mt, sid, seq, d)"
    by (metis prod.collapse)
  let ?s = "s\<lparr>ss_recorder := rec\<rparr>"
  have S: "session_follows T ?s R A" by (rule inbound_follows [OF assms(1) i])
  from assms(4) consider "s' = ?s" | m where "acknowledge_channel cfg clock m ?s = (s', f)"
    | m where "observe_market cfg mt sid m ?s = (s', f)"
    by (auto simp: receive_def Text receive_text_def i Let_def split: option.splits if_splits)
  then show ?thesis
  proof cases
    case 2
    with acknowledge_follows [OF S _ assms(3) 2] acknowledge_connection [OF 2] assms(2) show ?thesis by simp
  next
    case 3
    from observe_market_follows [OF S 3] show ?thesis by auto
  qed (use S in auto)
next
  case (Binary n)
  with assms session_record_passive [OF assms(1), of "''binary_frame_rejected''"] show ?thesis
    by (auto simp: receive_def passive_kinds_def)
qed (use assms in \<open>auto simp: receive_def\<close>)

lemma receive_all_follows:
  assumes "receive_all cfg clock s as = (s', f)" and "session_follows T s R A" and "su_connection (ss_summary s) \<in> R"
    and "cf_tickers cfg = T"
  shows "(\<exists>A'. session_follows T s' R A') \<and> su_connection (ss_summary s') = su_connection (ss_summary s)"
  using assms(1-3)
proof (induction as arbitrary: s A)
  case Nil
  then show ?case
    by (auto simp: close_session_def passive_kinds_def session_follows_summary intro!: session_record_passive)
next
  case (Cons a as)
  obtain s1 f1 where r: "receive cfg clock s a = (s1, f1)" by fastforce
  from receive_follows [OF Cons.prems(2,3) assms(4) r] obtain A' where
    A': "session_follows T s1 R A'" "su_connection (ss_summary s1) = su_connection (ss_summary s)" by blast
  show ?case
  proof (cases f1)
    case None
    with Cons.prems(1) r have "receive_all cfg clock s1 as = (s', f)" by simp
    with Cons.IH [OF this A'(1)] A'(2) Cons.prems(3) show ?thesis by simp
  qed (use Cons.prems(1) r A' in auto)
qed

definition below :: "int \<Rightarrow> int set \<Rightarrow> (int \<times> string \<times> string) set \<Rightarrow> bool" where
  "below c R A \<longleftrightarrow> (\<forall>i \<in> R. i \<le> c) \<and> (\<forall>(i, x) \<in> A. i \<le> c)"

lemma session_start_follows:
  assumes "follows T rec R A" and "below c R A"
  shows "session_follows T (session_start cfg (c + 1) rec) R A"
  using assms
  by (fastforce simp: session_follows_def session_start_def summary_start_def binding_start_def below_def Let_def)

lemma subscribe_follows:
  assumes "session_follows T s R A" and "su_connection (ss_summary s) \<notin> R"
  shows "session_follows T (session_record clock ''subscription_sent'' (tl (sent_values T (su_connection (ss_summary s)))) s)
    (insert (su_connection (ss_summary s)) R) A"
proof -
  let ?c = "su_connection (ss_summary s)"
  have f: "follows T (ss_recorder s) R A" by (rule session_follows_log [OF assms(1)])
  then have "capture_log T (rv_records (ss_recorder s)) R A" by (simp add: follows_def)
  note sent = capture_log.Sent [OF this assms(2)]
  have vs: "(''connection_segment_id'', JInt ?c) # tl (sent_values T ?c) = sent_values T ?c" by (simp add: sent_values_def)
  from capture_record_follows [OF f sent]
  have "follows T (ss_recorder (session_record clock ''subscription_sent'' (tl (sent_values T ?c)) s)) (insert ?c R) A"
    by (simp add: session_record_def vs)
  with assms(1) show ?thesis by (simp add: session_follows_def session_record_def Let_def)
qed

lemma connect_follows:
  assumes "follows T rec R A" and "below c R A" and T: "cf_tickers cfg = T"
    and conn: "connect cfg clock a (session_start cfg (c + 1) rec) = ((s, f), phase)"
  shows "\<exists>R' A'. session_follows T s R' A' \<and> su_connection (ss_summary s) = c + 1"
proof -
  let ?s0 = "session_start cfg (c + 1) rec" and ?url = "[(''websocket_url'', JStr websocket_url)]"
  let ?s1 = "session_record clock ''connection_attempt'' ?url ?s0"
  let ?s2 = "session_record clock ''connection_opened'' ?url (?s1\<lparr>ss_summary := (ss_summary ?s1)\<lparr>su_status := ''connected''\<rparr>\<rparr>)"
  have c0: "su_connection (ss_summary ?s0) = c + 1" "su_request (ss_summary ?s0) = c + 1"
    by (simp_all add: session_start_def summary_start_def)
  have S1: "session_follows T ?s1 R A"
    by (rule session_record_passive [OF session_start_follows [OF assms(1,2)]]) (simp add: passive_kinds_def)
  have c1: "su_connection (ss_summary ?s1) = c + 1" "su_request (ss_summary ?s1) = c + 1"
    using c0 by (simp_all add: session_record_def)
  have S2: "session_follows T ?s2 R A"
    by (rule session_record_passive) (use S1 in \<open>simp_all add: session_follows_summary passive_kinds_def\<close>)
  have c2: "su_connection (ss_summary ?s2) = c + 1" "su_request (ss_summary ?s2) = c + 1"
    using c1 by (simp_all add: session_record_def)
  have new: "su_connection (ss_summary ?s2) \<notin> R" using assms(2) unfolding c2 below_def by force
  let ?s3 = "session_record clock ''subscription_sent'' (tl (sent_values T (c + 1))) ?s2"
  have S3: "session_follows T ?s3 (insert (c + 1) R) A" using subscribe_follows [OF S2 new, of clock] unfolding c2 .
  have c3: "su_connection (ss_summary ?s3) = c + 1" using c2 by simp
  show ?thesis
  proof (cases "at_open a")
    case (Some x)
    with conn have "s = ?s1" by (simp add: connect_def Let_def)
    with S1 c1 show ?thesis by blast
  next
    case opened: None
    show ?thesis
    proof (cases "at_send a")
      case (Some x)
      with conn opened have "s = ?s2" by (simp add: connect_def Let_def)
      with S2 c2 show ?thesis by blast
    next
      case None
      have "(receive_all cfg clock ?s3 (at_arrivals a), ''receive'') = ((s, f), phase)"
        using conn unfolding connect_def Let_def opened None option.case c2 T by (simp add: sent_values_def)
      then have "receive_all cfg clock ?s3 (at_arrivals a) = (s, f)" by simp
      from receive_all_follows [OF this S3 _ T] show ?thesis unfolding c3 by auto
    qed
  qed
qed

lemma disconnect_follows:
  assumes "session_follows T s R A"
  shows "session_follows T (disconnect clock phase delay t code s) R A"
  unfolding disconnect_def
  by (rule session_record_passive) (use assms in \<open>simp_all add: session_follows_summary\<close>)

lemma session_below: "session_follows T s R A \<Longrightarrow> below (su_connection (ss_summary s)) R A"
  by (simp add: session_follows_def below_def Let_def)

lemma disconnect_connection [simp]:
  "su_connection (ss_summary (disconnect clock phase delay t code s)) = su_connection (ss_summary s)"
  by (simp add: disconnect_def)

lemma run_attempts_log:
  assumes "run_attempts cfg clock as rec c delay segments = (rec', result)" and "follows T rec R A" and "below c R A"
    and T: "cf_tickers cfg = T"
  shows "\<exists>R' A'. follows T rec' R' A'"
  using assms(1-3)
proof (induction as arbitrary: rec c delay segments R A)
  case Nil
  then show ?case by auto
next
  case (Cons a as)
  obtain s f phase where conn: "connect cfg clock a (session_start cfg (c + 1) rec) = ((s, f), phase)"
    by (metis prod.collapse)
  from connect_follows [OF Cons.prems(2,3) T conn] obtain R' A' where
    S: "session_follows T s R' A'" and c: "su_connection (ss_summary s) = c + 1" by blast
  have next_run: "\<exists>R' A'. follows T rec' R' A'"
    if "run_attempts cfg clock as (ss_recorder s') (c + 1) d segs = (rec', result)"
      and "session_follows T s' R' A'" "su_connection (ss_summary s') = c + 1" for s' d segs
    using Cons.IH [OF that(1) session_follows_log [OF that(2)]] session_below [OF that(2)] that(3) by simp
  show ?case
  proof (cases f)
    case None
    with Cons.prems(1) conn session_follows_log [OF S] show ?thesis by auto
  next
    case (Some x)
    show ?thesis
    proof (cases x)
      case (Refused code)
      let ?s = "s\<lparr>ss_summary := (ss_summary s)\<lparr>su_failure := Some code\<rparr>\<rparr>"
      have "session_follows T ?s R' A'" using S by (simp add: session_follows_summary)
      note D = disconnect_follows [OF this, of clock phase "if phase = ''receive'' then 1 else delay" "''CaptureV2Error''" code]
      show ?thesis by (rule next_run [OF _ D]) (use Cons.prems(1) c in \<open>simp_all add: conn Some Refused Let_def\<close>)
    next
      case (Dropped t)
      note D = disconnect_follows [OF S, of clock phase "if phase = ''receive'' then 1 else delay" t "''TransportDisconnected''"]
      show ?thesis by (rule next_run [OF _ D]) (use Cons.prems(1) c in \<open>simp_all add: conn Some Dropped Let_def\<close>)
    next
      case (Fatal t)
      with Cons.prems(1) conn Some session_follows_log [OF S] show ?thesis by auto
    qed
  qed
qed

end
