(* ===== verification/Capture_Accepted.thy ===== *)
theory Capture_Accepted
  imports Capture_Log Normalized_V3
begin

text \<open>
  The normalizer as the reader of a capture log: it keeps the requests and the bindings that the log announces
  (\<open>reads\<close>), and never refuses a record that is not a market frame.
\<close>

section \<open>What market frames leave alone\<close>

definition market_names :: "nv_state \<Rightarrow> string set" where
  "market_names st = fst ` set (nv_markets st)"

text \<open>The tables of the subscriptions stay as they are, no market is forgotten.\<close>

definition same_scopes :: "nv_state \<Rightarrow> nv_state \<Rightarrow> bool" where
  "same_scopes st st' \<longleftrightarrow> nv_requests st' = nv_requests st \<and> nv_scopes st' = nv_scopes st \<and> nv_acks st' = nv_acks st \<and>
     nv_logical_ids st' = nv_logical_ids st \<and> nv_raw st' = nv_raw st \<and> market_names st \<subseteq> market_names st'"

lemma same_scopes_refl: "same_scopes st st"
  by (simp add: same_scopes_def)

lemma same_scopes_trans [trans]: "same_scopes a b \<Longrightarrow> same_scopes b c \<Longrightarrow> same_scopes a c"
  unfolding same_scopes_def by (elim conjE, intro conjI) (simp_all add: subset_trans)

lemma names_kept: "fst ` set d \<subseteq> fst ` set (sset d k v)"
  by (induction d) (fastforce simp: image_iff)+

text \<open>Fields that no table depends on.\<close>

lemma same_scopes_base:
  "nv_requests st' = nv_requests st \<Longrightarrow> nv_scopes st' = nv_scopes st \<Longrightarrow> nv_acks st' = nv_acks st \<Longrightarrow>
   nv_logical_ids st' = nv_logical_ids st \<Longrightarrow> nv_raw st' = nv_raw st \<Longrightarrow>
   nv_markets st' = nv_markets st \<or> (\<exists>t m. nv_markets st' = sset (nv_markets st) t m) \<Longrightarrow> same_scopes st st'"
  unfolding same_scopes_def market_names_def
  by (elim disjE exE, simp, simp add: names_kept)

lemma write_record_scopes:
  assumes "write_record cfg st r = Inr st'"
  shows "same_scopes st st'"
proof -
  obtain rs n where st': "st' = st\<lparr>nv_ordinal := n, nv_records := rs\<rparr>"
    using assms unfolding write_record_def Let_def rbind_eq_Inr by (elim exE conjE) (simp add: that [OF sym])
  show ?thesis unfolding st' by (rule same_scopes_base) simp_all
qed

lemma control_record_scopes:
  assumes "control_record cfg st raw received t k i d = Inr st'"
  shows "same_scopes st st'"
proof -
  let ?st = "st\<lparr>nv_time := max (nv_time st) received, nv_gap_counts := counter_add (nv_gap_counts st) t 1, nv_discontinuous := True\<rparr>"
  have "same_scopes st ?st" by (rule same_scopes_base) simp_all
  also from assms have "same_scopes ?st st'" unfolding control_record_def Let_def by (rule write_record_scopes)
  finally show ?thesis .
qed

lemma add_reason_scopes: "same_scopes st (add_reason st x)"
  by (rule same_scopes_base) (simp_all add: add_reason_def)

lemma markets_scopes: "same_scopes st (st\<lparr>nv_markets := sset (nv_markets st) t m\<rparr>)"
  by (rule same_scopes_base) auto

lemma lose_market_scopes: "lose_market st t = Inr st' \<Longrightarrow> same_scopes st st'"
  unfolding lose_market_def rbind_eq_Inr by (elim exE conjE) (simp, drule sym, simp add: markets_scopes)

lemma lose_connection_scopes:
  assumes "lose_connection cfg r c raw received st t = Inr st'"
  shows "same_scopes st st'"
proof -
  from assms obtain m st1 d where
    s1: "st1 = (if ms_ever_valid m then st
                else add_reason st [(''code'', JStr ''IncompletePrefix''), (''ticker'', JStr t), (''raw_ingress_ordinal'', JInt raw)])"
    and c: "control_record cfg (st1\<lparr>nv_markets := sset (nv_markets st1) t (market_lost m)\<rparr>) raw received ''connection_gap''
      (JStr t) JNull d = Inr st'"
    unfolding lose_connection_def Let_def rbind_eq_Inr by (elim exE conjE) (rule that [OF refl])
  have "same_scopes st st1" unfolding s1 by (simp add: same_scopes_refl add_reason_scopes)
  also have "same_scopes st1 (st1\<lparr>nv_markets := sset (nv_markets st1) t (market_lost m)\<rparr>)" by (rule markets_scopes)
  also have "same_scopes \<dots> st'" by (rule control_record_scopes [OF c])
  finally show ?thesis .
qed

interpretation lost_markets: res_machine lose_market "same_scopes s" for s
  by unfold_locales (rule same_scopes_trans, assumption, rule lose_market_scopes)

interpretation lost_connections: res_machine "lose_connection cfg r c raw received" "same_scopes s" for cfg r c raw received s
  by unfold_locales (rule same_scopes_trans, assumption, rule lose_connection_scopes)

lemma connection_gap_scopes:
  assumes "connection_gap cfg st r raw received = Inr st'"
  shows "same_scopes st st'"
proof -
  from assms obtain c where "res_fold (lose_connection cfg r c raw received) st (nv_tickers cfg) = Inr st'"
    unfolding connection_gap_def rbind_eq_Inr by (elim exE conjE) (rule that)
  with same_scopes_refl show ?thesis by (rule lost_connections.run_inv)
qed

lemma sequence_gap_scopes:
  assumes "sequence_gap cfg st scope t raw received p n = Inr st'"
  shows "same_scopes st st'"
proof -
  from assms obtain st1 k i d ts where c: "control_record cfg st raw received ''sequence_gap'' k i d = Inr st1"
    and out: "(if so_channel scope = ''orderbook_delta'' then res_fold lose_market st1 ts else Inr st1) = Inr st'"
    unfolding sequence_gap_def Let_def rbind_eq_Inr by (elim exE conjE) (rule that)
  from control_record_scopes [OF c] have "same_scopes st st1" .
  with out lost_markets.run_inv show ?thesis by (auto split: if_splits simp del: res_fold.simps)
qed

lemma check_sequence_scopes:
  assumes "check_sequence cfg st scope key t m raw received n = Inr (d, st')"
  shows "same_scopes st st'"
proof (cases "sget (nv_payloads st) (key, n)")
  case (Some h)
  have "st' = st\<lparr>nv_duplicates := nv_duplicates st + 1\<rparr>"
    using assms unfolding check_sequence_def Let_def Some option.case rbind_eq_Inr by (elim exE conjE) simp
  then show ?thesis by (simp add: same_scopes_base)
next
  case None
  define gap where "gap = (case sget (nv_previous st) key of
      None \<Rightarrow> Inr st
    | Some p \<Rightarrow> (if p + 1 < n then sequence_gap cfg st scope t raw received p n else Inr st))"
  from assms obtain st1 where g: "gap = Inr st1" and rest: "same_scopes st1 st'"
    unfolding check_sequence_def Let_def None option.case gap_def rbind_eq_Inr by (auto simp: same_scopes_def market_names_def)
  have "same_scopes st st1"
    using g sequence_gap_scopes same_scopes_refl unfolding gap_def
    by (cases "sget (nv_previous st) key") (auto split: if_splits)
  also note rest
  finally show ?thesis .
qed

lemma nv_sequenced_scopes:
  assumes "nv_sequenced cfg st r scope ty m t raw received s = Inr (d, st')"
  shows "same_scopes st st'"
proof (cases "s = JNull")
  case True
  with assms have "st' = st \<or> (\<exists>x. st' = add_reason st x)"
    by (auto simp: nv_sequenced_def rbind_eq_Inr Let_def split: if_splits)
  then show ?thesis using same_scopes_refl add_reason_scopes by blast
next
  case False
  with assms obtain key n where "check_sequence cfg st scope key t m raw received n = Inr (d, st')"
    by (auto simp: nv_sequenced_def rbind_eq_Inr Let_def)
  then show ?thesis by (rule check_sequence_scopes)
qed

lemma open_segment_scopes:
  assumes "open_segment cfg st scope c t raw received = Inr st'"
  shows "same_scopes st st'"
proof -
  from assms obtain m n x where w: "write_record cfg
       (st\<lparr>nv_markets := sset (nv_markets st) t m, nv_snapshots := n\<rparr>) x = Inr st'"
    unfolding open_segment_def rbind_eq_Inr by (elim exE conjE) (rule that)
  have "same_scopes st (st\<lparr>nv_markets := sset (nv_markets st) t m, nv_snapshots := n\<rparr>)"
    by (rule same_scopes_base) auto
  also have "same_scopes \<dots> st'" by (rule write_record_scopes [OF w])
  finally show ?thesis .
qed

lemma check_delta_scopes:
  assumes "check_delta cfg st t raw = Inr st'"
  shows "same_scopes st st'"
proof -
  from assms have "st' = st \<or> (\<exists>x. st' = add_reason st x)"
    unfolding check_delta_def rbind_eq_Inr by (elim exE conjE) (auto simp: rbind_eq_Inr split: if_splits)
  then show ?thesis using same_scopes_refl add_reason_scopes by blast
qed

lemma book_step_scopes: "book_step cfg st scope c ty t raw received = Inr st' \<Longrightarrow> same_scopes st st'"
  unfolding book_step_def
  by (auto split: if_splits intro: open_segment_scopes check_delta_scopes same_scopes_refl)

lemma market_event_scopes:
  assumes "market_event cfg st r scope ty m t market im p c sq raw = Inr st'"
  shows "same_scopes st st'"
proof -
  from assms obtain et x where w: "write_record cfg (event_clock st (so_id scope) ty et) x = Inr st'"
    unfolding market_event_def Let_def rbind_eq_Inr by (elim exE conjE) (rule that)
  have "same_scopes st (event_clock st (so_id scope) ty et)" unfolding event_clock_def by (rule same_scopes_base) simp_all
  also have "same_scopes \<dots> st'" by (rule write_record_scopes [OF w])
  finally show ?thesis .
qed

lemma nv_bind_market_scopes:
  assumes "nv_bind_market st t pm = Inr (m, st')"
  shows "same_scopes st st'"
proof -
  have "st' = st \<or> (\<exists>x. st' = st\<lparr>nv_market_ids := x\<rparr>)"
    using assms by (cases "sget (nv_market_ids st) t") (auto simp: nv_bind_market_def rbind_eq_Inr)
  then show ?thesis by (auto intro: same_scopes_base)
qed

lemma nv_market_scopes:
  assumes "nv_market cfg st r scope c ty m t pm p raw received = Inr st'"
  shows "same_scopes st st'"
proof -
  from nv_market_Inr [OF assms] obtain market st1 sequence d st2 where
    b: "nv_bind_market st t pm = Inr (market, st1)"
    and q: "nv_sequenced cfg st1 r scope ty m t raw received sequence = Inr (d, st2)"
    and out: "d \<and> st' = st2 \<or> \<not> d \<and> (\<exists>st3. book_step cfg st2 scope c ty t raw received = Inr st3 \<and>
       market_event cfg st3 r scope ty m t market (pm \<noteq> None) p c sequence raw = Inr st')"
    by (elim exE conjE) (rule that)
  have "same_scopes st st1" by (rule nv_bind_market_scopes [OF b])
  also have "same_scopes st1 st2" by (rule nv_sequenced_scopes [OF q])
  also have "same_scopes st2 st'"
    using out same_scopes_refl book_step_scopes market_event_scopes same_scopes_trans by metis
  finally show ?thesis .
qed

lemma nv_frame_scopes:
  assumes "nv_frame cfg st r raw received = Inr st'"
  shows "same_scopes st st'"
proof -
  from nv_frame_Inr [OF assms] obtain c scope ty m t pm p where
    "nv_market cfg st r scope c ty m t pm p raw received = Inr st'" by (elim exE conjE) (rule that)
  then show ?thesis by (rule nv_market_scopes)
qed

section \<open>What the reader knows of the log\<close>

definition reads :: "nv_config \<Rightarrow> nv_state \<Rightarrow> jobj list \<Rightarrow> int set \<Rightarrow> (int \<times> string \<times> string) set \<Rightarrow> bool" where
  "reads cfg st rows R A \<longleftrightarrow>
     nv_raw st = int (length rows) \<and> set (nv_tickers cfg) \<subseteq> market_names st \<and>
     (\<forall>c. sget (nv_requests st) c =
        (if c \<in> R then Some \<lparr>rq_logical_id = logical_request c, rq_wire_id = c\<rparr> else None)) \<and>
     set (nv_logical_ids st) = logical_request ` R \<and>
     (\<forall>c ch. sget (nv_acks st) (c, ch) \<noteq> None \<longleftrightarrow> (\<exists>sid. (c, ch, sid) \<in> A)) \<and>
     (\<forall>c sid. sget (nv_scopes st) (c, sid) \<noteq> None \<longleftrightarrow> (\<exists>ch. (c, ch, sid) \<in> A))"

lemma logical_request_inject [simp]: "logical_request c = logical_request d \<longleftrightarrow> c = d"
  by (simp add: logical_request_def)

lemma log_fields [simp]:
  "oget (log_record n t kind vs) ''schema'' = JStr ''pmm.kalshi.raw_capture_record.v2''"
  "oget (log_record n t kind vs) ''kind'' = JStr kind"
  "oget (log_record n t kind vs) ''raw_ingress_ordinal'' = JInt (int n + 1)"
  "oget (log_record n t kind vs) ''received_at_utc_ns'' = JInt t"
  by (simp_all add: log_record_def)

lemma log_values [simp]:
  assumes "k \<notin> {''schema'', ''kind'', ''raw_ingress_ordinal'', ''received_at_utc_ns''}"
  shows "oget (log_record n t kind vs) k = oget vs k"
  using assms by (auto simp: log_record_def)

text \<open>The reader of record number \<open>length rows\<close>.\<close>

definition at_row :: "nv_state \<Rightarrow> jobj list \<Rightarrow> nv_state" where
  "at_row st rows = st\<lparr>nv_processed := nv_processed st + 1, nv_raw := int (length rows) + 1\<rparr>"

lemma nv_record_log_record:
  assumes "reads cfg st rows R A"
  shows "nv_record cfg st (log_record (length rows) t kind vs) =
    rbind (validate_historical_schema (nv_valid cfg) (JObj (log_record (length rows) t kind vs)) ''raw-capture-record-v2.schema.json''
        ''CaptureRecordSchemaMismatch'') (\<lambda>_.
      nv_dispatch cfg (at_row st rows) (log_record (length rows) t kind vs) (int (length rows) + 1) t)"
proof -
  have raw: "nv_raw st = int (length rows)" using assms by (simp add: reads_def)
  show ?thesis unfolding nv_record_def log_fields by (simp add: raw at_row_def)
qed

lemma at_row_fields [simp]:
  "nv_requests (at_row st rows) = nv_requests st" "nv_scopes (at_row st rows) = nv_scopes st" "nv_acks (at_row st rows) = nv_acks st"
  "nv_logical_ids (at_row st rows) = nv_logical_ids st" "nv_raw (at_row st rows) = int (length rows) + 1"
  "market_names (at_row st rows) = market_names st"
  by (simp_all add: at_row_def market_names_def)

lemma reads_row:
  assumes "reads cfg st rows R A" and "same_scopes (at_row st rows) st'"
  shows "reads cfg st' (rows @ [r]) R A"
proof -
  from assms(2) have tables: "nv_requests st' = nv_requests st" "nv_scopes st' = nv_scopes st" "nv_acks st' = nv_acks st"
    "nv_logical_ids st' = nv_logical_ids st" and n: "nv_raw st' = int (length (rows @ [r]))"
    and names: "market_names st \<subseteq> market_names st'"
    by (simp_all add: same_scopes_def)
  from assms(1) names have "set (nv_tickers cfg) \<subseteq> market_names st'" unfolding reads_def by (blast intro: subset_trans)
  with n assms(1) show ?thesis unfolding reads_def tables by (elim conjE, intro conjI)
qed

section \<open>Requests\<close>

lemma py_eq_names [simp]: "py_eq (names_json xs) (names_json xs)"
  by (simp add: names_json_def list_all2_map1 list_all2_map2 list.rel_refl)

lemma names_array_json: "names_array = names_json"
  by (simp add: names_array_def names_json_def fun_eq_iff)

lemma subscription_sent_reads:
  assumes "reads cfg st rows R A" and "nv_tickers cfg = T" and "c \<notin> R"
  shows "\<exists>st'. subscription_sent cfg (at_row st rows) (log_record (length rows) t ''subscription_sent'' (sent_values T c)) = Inr st' \<and>
    reads cfg st' (rows @ [r]) (insert c R) A"
proof -
  let ?r = "log_record (length rows) t ''subscription_sent'' (sent_values T c)"
  note reads = assms(1) [unfolded reads_def]
  have requests: "sget (nv_requests st) c = None" using reads assms(3) by simp
  have ids: "logical_request c \<notin> set (nv_logical_ids st)" using reads assms(3) by auto
  have "subscription_sent cfg (at_row st rows) ?r =
    Inr ((at_row st rows)\<lparr>nv_logical_ids := logical_request c # nv_logical_ids st,
      nv_requests := sset (nv_requests st) c \<lparr>rq_logical_id = logical_request c, rq_wire_id = c\<rparr>\<rparr>)"
    using requests ids assms(2)
    by (simp add: subscription_sent_def sent_values_def subscription_payload_def at_row_def Let_def names_array_json
        logical_request_def capture_channels_def)
  moreover have "reads cfg ((at_row st rows)\<lparr>nv_logical_ids := logical_request c # nv_logical_ids st,
      nv_requests := sset (nv_requests st) c \<lparr>rq_logical_id = logical_request c, rq_wire_id = c\<rparr>\<rparr>) (rows @ [r]) (insert c R) A"
    using reads unfolding reads_def by (simp add: at_row_def market_names_def plain.dget_dset)
  ultimately show ?thesis by blast
qed

lemma subscription_acknowledged_reads:
  assumes "reads cfg st rows R A" and "nv_tickers cfg = T" and "c \<in> R" and "channel \<in> set capture_channels" and "sid \<noteq> []"
    and new: "\<And>channel' sid'. (c, channel', sid') \<in> A \<Longrightarrow> channel' \<noteq> channel \<and> sid' \<noteq> sid"
  shows "\<exists>st'. subscription_acknowledged cfg (at_row st rows)
      (log_record (length rows) t ''subscription_acknowledged'' (ack_values T c channel sid)) = Inr st' \<and>
    reads cfg st' (rows @ [r]) R (insert (c, channel, sid) A)"
proof -
  let ?r = "log_record (length rows) t ''subscription_acknowledged'' (ack_values T c channel sid)"
  let ?scope = "\<lparr>so_id = ''c'' @ int_str c @ '':sid'' @ sid, so_connection = c, so_request = logical_request c, so_wire_id = c,
    so_channel = channel, so_sid = sid\<rparr>"
  note reads = assms(1) [unfolded reads_def]
  have request: "sget (nv_requests st) c = Some \<lparr>rq_logical_id = logical_request c, rq_wire_id = c\<rparr>" using reads assms(3) by simp
  have free: "sget (nv_acks st) (c, channel) = None" "sget (nv_scopes st) (c, sid) = None" using reads new by blast+
  have channel: "channel \<in> set [''orderbook_delta'', ''trade'']" using assms(4) by (simp add: capture_channels_def)
  have "subscription_acknowledged cfg (at_row st rows) ?r =
    Inr ((at_row st rows)\<lparr>nv_acks := sset (nv_acks st) (c, channel) sid, nv_scopes := sset (nv_scopes st) (c, sid) ?scope\<rparr>)"
    using request free channel assms(2,5)
    by (simp add: subscription_acknowledged_def ack_values_def at_row_def Let_def names_array_json)
  moreover have "reads cfg ((at_row st rows)\<lparr>nv_acks := sset (nv_acks st) (c, channel) sid,
      nv_scopes := sset (nv_scopes st) (c, sid) ?scope\<rparr>) (rows @ [r]) R (insert (c, channel, sid) A)"
    using reads unfolding reads_def by (auto simp: at_row_def market_names_def plain.dget_dset)
  ultimately show ?thesis by blast
qed

lemma acknowledged_needs_sid:
  assumes "subscription_acknowledged cfg st (log_record n t ''subscription_acknowledged'' (ack_values T c channel sid)) = Inr st'"
  shows "sid \<noteq> []"
  using assms unfolding subscription_acknowledged_def Let_def rbind_eq_Inr by (elim exE conjE) (simp add: ack_values_def)

section \<open>Everything but market frames\<close>

definition schema_refusal :: "exn \<Rightarrow> bool" where
  "schema_refusal e \<longleftrightarrow>
     e = HistoricalDataError ''CaptureRecordSchemaMismatch'' \<or> e = HistoricalDataError ''NormalizedRecordSchemaMismatch''"

lemma control_record_Inl: "control_record cfg st raw received t k i d = Inl e \<Longrightarrow> schema_refusal e"
  by (simp add: control_record_def write_record_def Let_def rbind_eq_Inl validate_historical_schema_def schema_refusal_def)

lemma market_at_known: "t \<in> market_names st \<Longrightarrow> \<exists>m. market_at st t = Inr m"
  unfolding market_names_def market_at_def by (cases "sget (nv_markets st) t") (auto simp: dget_None)

lemma lose_connection_Inl:
  assumes "lose_connection cfg r c raw received st t = Inl e" and "t \<in> market_names st"
  shows "schema_refusal e"
proof -
  from market_at_known [OF assms(2)] obtain m where m: "market_at st t = Inr m" ..
  show ?thesis using assms(1) unfolding lose_connection_def m rbind_simps Let_def by (rule control_record_Inl)
qed

lemma lose_connections_Inl:
  "res_fold (lose_connection cfg r c raw received) st ts = Inl e \<Longrightarrow> set ts \<subseteq> market_names st \<Longrightarrow> schema_refusal e"
proof (induction ts arbitrary: st)
  case (Cons t ts)
  show ?case
  proof (cases "lose_connection cfg r c raw received st t")
    case (Inl x)
    with Cons.prems lose_connection_Inl [OF Inl] show ?thesis by simp
  next
    case (Inr st1)
    from lose_connection_scopes [OF Inr] Cons.prems(2) have "set ts \<subseteq> market_names st1" by (auto simp: same_scopes_def)
    with Cons.IH [of st1] Cons.prems(1) Inr show ?thesis by simp
  qed
qed simp

text \<open>A record that is no frame of a market.\<close>

definition control_row :: "jobj \<Rightarrow> bool" where
  "control_row r \<longleftrightarrow> oget r ''kind'' \<noteq> JStr ''inbound_frame'' \<or> oget r ''message_type'' \<notin> JStr ` set market_types"

lemma connection_gap_log:
  assumes "reads cfg st rows R A"
    and r_def: "r = log_record (length rows) t ''connection_gap'' ((''connection_segment_id'', JInt c) # vs)"
  shows "case connection_gap cfg (at_row st rows) r raw t of
      Inr st' \<Rightarrow> reads cfg st' (rows @ [r]) R A | Inl e \<Rightarrow> schema_refusal e"
proof -
  have c: "int_value (oget r ''connection_segment_id'') = Inr c" by (simp add: r_def)
  show ?thesis
  proof (cases "connection_gap cfg (at_row st rows) r raw t")
    case (Inr st')
    from reads_row [OF assms(1) connection_gap_scopes [OF Inr]] Inr show ?thesis by simp
  next
    case (Inl e)
    then have "res_fold (lose_connection cfg r c raw t) (at_row st rows) (nv_tickers cfg) = Inl e"
      by (simp add: connection_gap_def c)
    moreover have "set (nv_tickers cfg) \<subseteq> market_names (at_row st rows)" using assms(1) by (simp add: reads_def)
    ultimately have "schema_refusal e" by (rule lose_connections_Inl)
    with Inl show ?thesis by simp
  qed
qed

lemma passive_log:
  assumes "reads cfg st rows R A" and "kind \<in> passive_kinds"
    and m: "kind = ''inbound_frame'' \<Longrightarrow> \<exists>s. oget vs ''message_type'' = JStr s"
    and r_def: "r = log_record (length rows) t kind ((''connection_segment_id'', JInt c) # vs)"
  shows "case nv_dispatch cfg (at_row st rows) r raw t of
      Inr st' \<Rightarrow> reads cfg st' (rows @ [r]) R A | Inl e \<Rightarrow> \<not> control_row r"
proof (cases "kind = ''inbound_frame''")
  case False
  have k: "oget r ''kind'' = JStr kind" by (simp add: r_def)
  have "nv_dispatch cfg (at_row st rows) r raw t = Inr (if kind = ''binary_frame_rejected''
      then add_reason (at_row st rows) [(''code'', JStr ''UnsupportedBinaryFrame''), (''raw_ingress_ordinal'', JInt raw)]
      else at_row st rows)"
    using assms(2) False unfolding nv_dispatch_def Let_def k passive_kinds_def by auto
  moreover have "same_scopes (at_row st rows) (add_reason (at_row st rows) x)" "same_scopes (at_row st rows) (at_row st rows)" for x
    by (rule add_reason_scopes, rule same_scopes_refl)
  ultimately show ?thesis using reads_row [OF assms(1)] by simp
next
  case True
  with m obtain s where s: "oget r ''message_type'' = JStr s" by (auto simp: r_def)
  have k: "oget r ''kind'' = JStr ''inbound_frame''" by (simp add: r_def True)
  have d: "nv_dispatch cfg (at_row st rows) r raw t =
      (if s \<in> set market_types then nv_frame cfg (at_row st rows) r raw t else Inr (at_row st rows))"
    unfolding nv_dispatch_def Let_def k s by simp
  show ?thesis
  proof (cases "nv_dispatch cfg (at_row st rows) r raw t")
    case (Inl e)
    with d have "s \<in> set market_types" by (simp split: if_splits)
    with Inl k s show ?thesis by (simp add: control_row_def)
  next
    case (Inr st')
    have "same_scopes (at_row st rows) st'"
      using Inr nv_frame_scopes same_scopes_refl unfolding d by (auto split: if_splits)
    from reads_row [OF assms(1) this] Inr show ?thesis by simp
  qed
qed

section \<open>The reader follows the log\<close>

lemma nv_record_reads:
  assumes "capture_log T (rows @ [r]) R' A'" and "nv_tickers cfg = T" and "nv_record cfg st r = Inr st'"
    and reads: "\<And>R A. capture_log T rows R A \<Longrightarrow> reads cfg st rows R A"
  shows "reads cfg st' (rows @ [r]) R' A'"
  using assms(1)
proof (rule capture_log_snocE)
  fix R c t
  assume 1: "r = log_record (length rows) t ''subscription_sent'' (sent_values T c)" "R' = insert c R"
    "capture_log T rows R A'" "c \<notin> R"
  note S = reads [OF 1(3)]
  have "subscription_sent cfg (at_row st rows) r = Inr st'"
    using assms(3) unfolding 1(1) nv_record_log_record [OF S] by (simp add: rbind_eq_Inr nv_dispatch_def)
  with subscription_sent_reads [OF S assms(2) 1(4), of t r] show ?thesis by (simp add: 1)
next
  fix A c channel sid t
  assume 2: "r = log_record (length rows) t ''subscription_acknowledged'' (ack_values T c channel sid)"
    "A' = insert (c, channel, sid) A" "capture_log T rows R' A" "c \<in> R'" "channel \<in> set capture_channels"
    "\<And>channel' sid'. (c, channel', sid') \<in> A \<Longrightarrow> channel' \<noteq> channel \<and> sid' \<noteq> sid"
  note S = reads [OF 2(3)]
  have ack: "subscription_acknowledged cfg (at_row st rows) r = Inr st'"
    using assms(3) unfolding 2(1) nv_record_log_record [OF S] by (simp add: rbind_eq_Inr nv_dispatch_def)
  with subscription_acknowledged_reads [OF S assms(2) 2(4,5) acknowledged_needs_sid [OF ack [unfolded 2(1)]] 2(6), of t r]
  show ?thesis by (simp add: 2)
next
  fix t c vs
  assume 3: "r = log_record (length rows) t ''connection_gap'' ((''connection_segment_id'', JInt c) # vs)"
    "capture_log T rows R' A'"
  note S = reads [OF 3(2)]
  have "connection_gap cfg (at_row st rows) r (int (length rows) + 1) t = Inr st'"
    using assms(3) unfolding 3(1) nv_record_log_record [OF S] by (simp add: rbind_eq_Inr nv_dispatch_def)
  with connection_gap_log [OF S 3(1), of "int (length rows) + 1"] show ?thesis by simp
next
  fix kind vs t c
  assume 4: "r = log_record (length rows) t kind ((''connection_segment_id'', JInt c) # vs)"
    "capture_log T rows R' A'" "kind \<in> passive_kinds" "kind = ''inbound_frame'' \<Longrightarrow> \<exists>s. oget vs ''message_type'' = JStr s"
  note S = reads [OF 4(2)]
  have "nv_dispatch cfg (at_row st rows) r (int (length rows) + 1) t = Inr st'"
    using assms(3) unfolding 4(1) nv_record_log_record [OF S] by (simp add: rbind_eq_Inr)
  with passive_log [OF S 4(3,4,1), of "int (length rows) + 1"] show ?thesis by simp
qed

lemma reads_log:
  "capture_log T rows R A \<Longrightarrow> nv_tickers cfg = T \<Longrightarrow> res_fold (nv_record cfg) (nv_init cfg) rows = Inr st \<Longrightarrow> reads cfg st rows R A"
proof (induction rows arbitrary: R A st rule: rev_induct)
  case Nil
  then have "R = {}" "A = {}" "st = nv_init cfg" by (auto elim: capture_log.cases)
  then show ?case by (simp add: reads_def nv_init_def market_names_def image_image)
next
  case (snoc r rows)
  then obtain st0 where run: "res_fold (nv_record cfg) (nv_init cfg) rows = Inr st0" "nv_record cfg st0 r = Inr st"
    by (auto simp: res_fold_append rbind_eq_Inr)
  show ?case by (rule nv_record_reads [OF snoc.prems(1,2) run(2)]) (rule snoc.IH [OF _ snoc.prems(2) run(1)])
qed

text \<open>An acknowledgement whose subscription id is the empty text: the recorder takes it, the normalizer does not.\<close>

definition nameless_acknowledgement :: "jobj \<Rightarrow> bool" where
  "nameless_acknowledgement r \<longleftrightarrow>
     oget r ''kind'' = JStr ''subscription_acknowledged'' \<and> oget r ''venue_subscription_id'' = JStr []"

lemma nv_record_control:
  assumes "capture_log T (rows @ [r]) R' A'" and "nv_tickers cfg = T" and "nv_record cfg st r = Inl e"
    and reads: "\<And>R A. capture_log T rows R A \<Longrightarrow> reads cfg st rows R A" and "control_row r" "\<not> nameless_acknowledgement r"
  shows "schema_refusal e"
  using assms(1)
proof (rule capture_log_snocE)
  fix R c t
  assume 1: "r = log_record (length rows) t ''subscription_sent'' (sent_values T c)" "R' = insert c R"
    "capture_log T rows R A'" "c \<notin> R"
  note S = reads [OF 1(3)]
  from subscription_sent_reads [OF S assms(2) 1(4), of t r] assms(3) show ?thesis
    unfolding 1(1) nv_record_log_record [OF S]
    by (auto simp: rbind_eq_Inl nv_dispatch_def validate_historical_schema_def schema_refusal_def)
next
  fix A c channel sid t
  assume 2: "r = log_record (length rows) t ''subscription_acknowledged'' (ack_values T c channel sid)"
    "A' = insert (c, channel, sid) A" "capture_log T rows R' A" "c \<in> R'" "channel \<in> set capture_channels"
    "\<And>channel' sid'. (c, channel', sid') \<in> A \<Longrightarrow> channel' \<noteq> channel \<and> sid' \<noteq> sid"
  note S = reads [OF 2(3)]
  from assms(6) have "sid \<noteq> []" by (simp add: nameless_acknowledgement_def 2(1) ack_values_def)
  from subscription_acknowledged_reads [OF S assms(2) 2(4,5) this 2(6), of t r] assms(3) show ?thesis
    unfolding 2(1) nv_record_log_record [OF S]
    by (auto simp: rbind_eq_Inl nv_dispatch_def validate_historical_schema_def schema_refusal_def)
next
  fix t c vs
  assume 3: "r = log_record (length rows) t ''connection_gap'' ((''connection_segment_id'', JInt c) # vs)"
    "capture_log T rows R' A'"
  note S = reads [OF 3(2)]
  from connection_gap_log [OF S 3(1), of "int (length rows) + 1"] assms(3) show ?thesis
    unfolding 3(1) nv_record_log_record [OF S]
    by (auto simp: rbind_eq_Inl nv_dispatch_def validate_historical_schema_def schema_refusal_def)
next
  fix kind vs t c
  assume 4: "r = log_record (length rows) t kind ((''connection_segment_id'', JInt c) # vs)"
    "capture_log T rows R' A'" "kind \<in> passive_kinds" "kind = ''inbound_frame'' \<Longrightarrow> \<exists>s. oget vs ''message_type'' = JStr s"
  note S = reads [OF 4(2)]
  from passive_log [OF S 4(3,4,1), of "int (length rows) + 1"] assms(3,5) show ?thesis
    unfolding 4(1) nv_record_log_record [OF S]
    by (auto simp: rbind_eq_Inl validate_historical_schema_def schema_refusal_def)
qed

lemma run_log:
  assumes "run_capture_v2 c clock attempts recorder_init = (rec, result)"
  shows "\<exists>R A. capture_log (cf_tickers c) (rv_records rec) R A"
proof -
  have "follows (cf_tickers c) recorder_init {} {}" by (simp add: follows_def recorder_init_def capture_log.Start)
  from run_attempts_log [OF assms [unfolded run_capture_v2_def] this _ refl] show ?thesis
    by (auto simp: below_def follows_def)
qed

text \<open>C2: The normalizer reads what the recorder writes. Whatever the network did and however the run ended, in the log
  of a capture V2 no record but a frame of a market can be refused for what it says: once the normalizer has
  read the log up to such a record, it reads that one too, unless a JSON schema refuses it or it acknowledges
  a subscription whose id is the empty text.\<close>

theorem control_accepted:
  assumes "run_capture_v2 c clock attempts recorder_init = (rec, result)" and "rv_records rec = earlier @ r # later"
    and "nv_tickers cfg = cf_tickers c" and "res_fold (nv_record cfg) (nv_init cfg) earlier = Inr st"
    and "control_row r" "\<not> nameless_acknowledgement r"
  shows "case nv_record cfg st r of Inr _ \<Rightarrow> True | Inl e \<Rightarrow> schema_refusal e"
proof -
  from run_log [OF assms(1)] obtain R A where "capture_log (cf_tickers c) ((earlier @ [r]) @ later) R A"
    unfolding assms(2) by auto
  from capture_log_prefix [OF this] obtain R' A' where "capture_log (cf_tickers c) (earlier @ [r]) R' A'" by blast
  from nv_record_control [OF this assms(3) _ _ assms(5,6)] reads_log [OF _ assms(3,4)]
  show ?thesis by (cases "nv_record cfg st r") auto
qed

end
