(* ===== verification/Capture_Verdict.thy ===== *)
theory Capture_Verdict
  imports Capture_Accepted
begin

text \<open>
  The verdict on a capture V2 against its log: the disconnects that the summary counts are the gaps that the log
  records, a strictly eligible capture is one unbroken connection, and the normalizer takes the metadata of
  every capture.
\<close>

section \<open>Counting gaps\<close>

definition gap_row :: "jobj \<Rightarrow> bool" where
  "gap_row r \<longleftrightarrow> oget r ''kind'' = JStr ''connection_gap''"

definition gaps :: "recorder \<Rightarrow> nat" where
  "gaps rec = length (filter gap_row (rv_records rec))"

lemma gaps_record: "gaps (capture_record clock kind vs rec) = gaps rec + (if kind = ''connection_gap'' then 1 else 0)"
  by (simp add: gaps_def capture_record_def gap_row_def)

lemma gaps_same: "rv_records rec' = rv_records rec \<Longrightarrow> gaps rec' = gaps rec"
  by (simp add: gaps_def)

lemma gaps_session:
  "gaps (ss_recorder (session_record clock kind vs s)) = gaps (ss_recorder s) + (if kind = ''connection_gap'' then 1 else 0)"
  by (simp add: session_record_def gaps_record)

lemma gaps_frame: "gaps (fst (inbound_frame clock c raw rec)) = gaps rec"
proof -
  from inbound_frame_record [of clock c raw rec] obtain rec0 vs m where
    rec: "fst (inbound_frame clock c raw rec) = capture_record clock ''inbound_frame'' ((''connection_segment_id'', JInt c) # vs) rec0"
    and r0: "rv_records rec0 = rv_records rec" "rv_next rec0 = rv_next rec" and "oget vs ''message_type'' = JStr m"
    by (elim exE conjE) (rule that)
  show ?thesis unfolding rec gaps_record gaps_same [OF r0(1)] by simp
qed

lemma gaps_acknowledge: "acknowledge_channel cfg clock m s = (s', f) \<Longrightarrow> gaps (ss_recorder s') = gaps (ss_recorder s)"
  by (auto simp: acknowledge_channel_def gaps_session split: sum.splits prod.splits)

lemma gaps_receive:
  assumes "receive cfg clock s a = (s', f)"
  shows "gaps (ss_recorder s') = gaps (ss_recorder s)"
proof (cases a)
  case (Text raw)
  obtain rec mt sid seq d where i: "inbound_frame clock (su_connection (ss_summary s)) raw (ss_recorder s) = (rec, mt, sid, seq, d)"
    by (metis prod.collapse)
  let ?s = "s\<lparr>ss_recorder := rec\<rparr>"
  have "gaps rec = gaps (ss_recorder s)" using gaps_frame [of clock _ raw "ss_recorder s"] i by (metis fst_conv)
  then have S: "gaps (ss_recorder ?s) = gaps (ss_recorder s)" by simp
  from assms consider "s' = ?s" | m where "acknowledge_channel cfg clock m ?s = (s', f)"
    | m where "observe_market cfg mt sid m ?s = (s', f)"
    by (auto simp: receive_def Text receive_text_def i Let_def split: option.splits if_splits)
  then show ?thesis
  proof cases
    case 2
    from gaps_acknowledge [OF 2] S show ?thesis by simp
  next
    case 3
    then have "ss_recorder s' = ss_recorder ?s" by (auto simp: observe_market_def Let_def split: if_splits)
    with S show ?thesis by simp
  qed (use S in simp)
qed (use assms in \<open>auto simp: receive_def gaps_session\<close>)

lemma gaps_receive_all:
  "receive_all cfg clock s as = (s', f) \<Longrightarrow> gaps (ss_recorder s') = gaps (ss_recorder s) \<and> (f = None \<longrightarrow> su_status (ss_summary s') \<noteq> ''disconnected'')"
proof (induction as arbitrary: s)
  case Nil
  then show ?case by (auto simp: close_session_def gaps_session session_record_def [of _ "''connection_closed''"] gaps_record
      split: if_splits)
next
  case (Cons a as)
  obtain s1 f1 where r: "receive cfg clock s a = (s1, f1)" by fastforce
  show ?case using Cons.prems Cons.IH [of s1] gaps_receive [OF r] by (cases f1) (auto simp: r)
qed

lemma gaps_connect:
  assumes "connect cfg clock a s = ((s', f), phase)"
  shows "gaps (ss_recorder s') = gaps (ss_recorder s) \<and> (f = None \<longrightarrow> su_status (ss_summary s') \<noteq> ''disconnected'')"
  using assms gaps_receive_all unfolding connect_def Let_def
  by (auto simp: gaps_session split: option.splits dest!: gaps_receive_all)

definition lost_segments :: "segment_summary list \<Rightarrow> nat" where
  "lost_segments segments = length (filter (\<lambda>s. su_status s = ''disconnected'') segments)"

text \<open>Every attempt adds a segment, and every attempt but the one that reaches the deadline a gap.\<close>

lemma run_attempts_gaps:
  "run_attempts cfg clock as rec c delay segments = (rec', Inr r) \<Longrightarrow> c = int (length segments) \<Longrightarrow>
   gaps rec = length segments \<Longrightarrow> lost_segments segments = length segments \<Longrightarrow>
   gaps rec' = lost_segments (cs_segments r) \<and> cs_connections r = int (length (cs_segments r)) \<and>
   length (cs_segments r) \<le> lost_segments (cs_segments r) + 1"
proof (induction as arbitrary: rec c delay segments)
  case (Cons a as)
  obtain s f phase where conn: "connect cfg clock a (session_start cfg (c + 1) rec) = ((s, f), phase)"
    by (metis prod.collapse)
  from gaps_connect [OF conn] have g: "gaps (ss_recorder s) = gaps rec" "f = None \<longrightarrow> su_status (ss_summary s) \<noteq> ''disconnected''"
    by (simp_all add: session_start_def)
  have d: "gaps (ss_recorder (disconnect clock phase n t e s1)) = gaps (ss_recorder s1) + 1"
    "su_status (ss_summary (disconnect clock phase n t e s1)) = ''disconnected''" for n t e s1
    by (simp_all add: disconnect_def session_record_def gaps_record)
  show ?case
  proof (cases f)
    case None
    with Cons.prems(1) conn have "rec' = ss_recorder s" "r = \<lparr>cs_connections = c + 1, cs_segments = segments @ [ss_summary s]\<rparr>"
      by auto
    with Cons.prems g None show ?thesis by (simp add: lost_segments_def)
  next
    case (Some x)
    show ?thesis
    proof (cases x)
      case (Refused code)
      show ?thesis
        using Cons.prems(1) unfolding run_attempts.simps conn Some Refused prod.case option.case fault.case Let_def
        by (rule Cons.IH) (use Cons.prems in \<open>simp_all add: d g lost_segments_def\<close>)
    next
      case (Dropped t)
      show ?thesis
        using Cons.prems(1) unfolding run_attempts.simps conn Some Dropped prod.case option.case fault.case Let_def
        by (rule Cons.IH) (use Cons.prems in \<open>simp_all add: d g lost_segments_def\<close>)
    next
      case (Fatal t)
      with Cons.prems(1) conn Some show ?thesis by simp
    qed
  qed
qed auto

section \<open>Strictly eligible captures\<close>

lemma disconnects_lost: "disconnects r = int (lost_segments (cs_segments r))"
  by (simp add: disconnects_def lost_segments_def)

lemma run_capture_gaps:
  assumes "run_capture_v2 cfg clock attempts recorder_init = (rec, Inr r)"
  shows "int (gaps rec) = disconnects r \<and> cs_connections r = int (length (cs_segments r)) \<and>
    cs_connections r \<le> disconnects r + 1"
proof -
  have "gaps recorder_init = length ([] :: segment_summary list)" by (simp add: gaps_def recorder_init_def)
  from run_attempts_gaps [OF assms [unfolded run_capture_v2_def] _ this] show ?thesis
    by (simp add: disconnects_lost) (simp add: lost_segments_def)
qed

lemma strict_verdict:
  assumes "snd (capture_verdict tickers tracker status summary) = ''strict_eligible''"
  shows "\<exists>r. summary = Some r \<and> status = ''completed'' \<and> cs_segments r \<noteq> [] \<and> list_all (segment_ready tickers) (cs_segments r) \<and>
    sequence_clean tracker \<and> disconnects r = 0"
  using assms by (cases summary) (auto simp: capture_verdict_def Let_def split: if_splits)

lemma update_all_simps [simp]:
  "update_all d [] = d" "update_all d ((k, v) # kvs) = update_all (sset d k v) kvs"
  by (simp_all add: update_all_def)

lemma final_usability:
  "oget (finalize_capture_v2_metadata tickers ended rec status summary metadata) ''data_usability'' =
     JStr (snd (capture_verdict tickers (rv_tracker rec) status summary))"
  by (simp add: finalize_capture_v2_metadata_def Let_def)

text \<open>C5: A capture that the command ends with exit code 0 is one unbroken connection. The recorder has connected once,
  the log holds no gap, the session has reached its deadline with both channels bound and exactly one
  snapshot of every market, and the sequence numbers are clean.\<close>

theorem strict_eligible:
  assumes "run_capture_v2_command pv started ended args clock attempts = Inr (records, final, 0)"
  shows "\<exists>cfg rec r s. parse_capture_v2_config args = Inr cfg \<and>
    run_capture_v2 cfg clock attempts recorder_init = (rec, Inr r) \<and> records = rv_records rec \<and>
    cs_connections r = 1 \<and> cs_segments r = [s] \<and> su_status s = ''completed'' \<and>
    set (map fst (su_sids s)) = set capture_channels \<and> (\<forall>t \<in> set (cf_tickers cfg). sget (su_snapshots s) t = Some 1) \<and>
    (\<forall>x \<in> set records. \<not> gap_row x) \<and> sequence_clean (rv_tracker rec)"
proof -
  from assms obtain cfg where cfg: "parse_capture_v2_config args = Inr cfg"
    unfolding run_capture_v2_command_def rbind_eq_Inr by (elim exE conjE) (rule that)
  obtain rec result where run: "run_capture_v2 cfg clock attempts recorder_init = (rec, result)" by fastforce
  define status where "status = (case result of Inr _ \<Rightarrow> ''completed''
    | Inl t \<Rightarrow> if t = ''KeyboardInterrupt'' then ''interrupted'' else ''failed'')"
  define summary where "summary = (case result of Inr r \<Rightarrow> Some r | Inl _ \<Rightarrow> None)"
  from assms have records: "records = rv_records rec"
    and strict: "snd (capture_verdict (cf_tickers cfg) (rv_tracker rec) status summary) = ''strict_eligible''"
    unfolding run_capture_v2_command_def cfg rbind_simps run prod.case Let_def status_def [symmetric] summary_def [symmetric]
    by (simp_all add: final_usability split: if_splits)
  from strict_verdict [OF strict] obtain r where r: "summary = Some r" "cs_segments r \<noteq> []"
    "list_all (segment_ready (cf_tickers cfg)) (cs_segments r)" "sequence_clean (rv_tracker rec)" "disconnects r = 0"
    by blast
  have result: "result = Inr r" using r(1) by (auto simp: summary_def split: sum.splits)
  note counted = run_capture_gaps [OF run [unfolded result]]
  have "0 < length (cs_segments r)" using r(2) by simp
  with counted r(5) have one: "cs_connections r = 1" by linarith
  with counted obtain s where s: "cs_segments r = [s]" by (auto simp: length_Suc_conv)
  have "su_status s \<noteq> ''disconnected''" using r(5) by (simp add: disconnects_def s split: if_splits)
  with r(3) have ready: "su_status s = ''completed''" "set (map fst (su_sids s)) = set capture_channels"
    "\<forall>t \<in> set (cf_tickers cfg). sget (su_snapshots s) t = Some 1"
    unfolding s segment_ready_def capture_channels_def by auto
  have "\<forall>x \<in> set records. \<not> gap_row x" using counted r(5) by (simp add: gaps_def records filter_empty_conv)
  with cfg run result records one s ready r(4) show ?thesis by blast
qed

section \<open>The metadata\<close>

lemma capture_config_tickers:
  assumes "parse_capture_v2_config args = Inr cfg"
  shows "cf_tickers cfg \<noteq> [] \<and> [] \<notin> set (cf_tickers cfg) \<and> sorted (cf_tickers cfg) \<and> distinct (cf_tickers cfg)"
  using assms by (auto simp: parse_capture_v2_config_def Let_def rbind_eq_Inr dest!: arg_cong [of "sort _" "[]" set])

lemma as_names_array: "[] \<notin> set ss \<Longrightarrow> as_names (names_array ss) = Some ss"
  by (auto simp: as_names_def names_array_def nonempty_str_def list_all_iff o_def)

lemma sorted_set_sorted: "sorted ss \<Longrightarrow> distinct ss \<Longrightarrow> sorted_set ss = ss"
  by (simp add: sorted_set_def distinct_remdups_id sorted_sort_id)

lemma update_all_other: "k \<notin> fst ` set kvs \<Longrightarrow> sget (update_all d kvs) k = sget d k"
  by (induction kvs arbitrary: d) (auto simp: update_all_def)

definition final_names :: "string set" where
  "final_names = {''shutdown'', ''capture_ended_at_utc_ns'', ''raw_record_count'', ''message_counts_by_type'',
     ''message_counts_by_market'', ''sequence_gaps'', ''non_monotonic_sequences'', ''connections'', ''disconnects'',
     ''connection_segments'', ''capture_continuity'', ''data_usability''}"

lemma final_other:
  assumes "k \<notin> final_names"
  shows "sget (finalize_capture_v2_metadata tickers ended rec status summary (sset d ''shutdown'' document)) k = sget d k"
proof -
  have out: "fst ` set kvs \<subseteq> final_names \<Longrightarrow> sget (update_all d kvs) k = sget d k" for d kvs
    using assms by (intro update_all_other) blast
  have "k \<noteq> ''shutdown''" using assms by (auto simp: final_names_def)
  then show ?thesis unfolding finalize_capture_v2_metadata_def Let_def
    by (cases summary) (simp_all del: update_all_simps add: out final_names_def)
qed

lemma final_field:
  assumes "k \<notin> final_names"
  shows "oget (finalize_capture_v2_metadata tickers ended rec status summary (sset d ''shutdown'' document)) k = oget d k"
    "oget_default (finalize_capture_v2_metadata tickers ended rec status summary (sset d ''shutdown'' document)) k v = oget_default d k v"
  by (simp_all add: oget_def oget_default_def final_other [OF assms])

lemma metadata_fields [simp]:
  "oget (capture_metadata_v2 c pv started) ''schema'' = JStr ''pmm.kalshi.raw_capture.v2''"
  "oget (capture_metadata_v2 c pv started) ''market_tickers'' = names_array (cf_tickers c)"
  "oget (capture_metadata_v2 c pv started) ''sequence_domain'' = unknown_sequence_domain"
  "oget_default (capture_metadata_v2 c pv started) ''truth_category'' v = JStr ''Observed''"
  by (simp_all add: capture_metadata_v2_def)

text \<open>C33: The normalizer takes the metadata of every capture V2, whatever its verdict: if the JSON schema of the metadata
  allows them, the preparation of the normalizer succeeds under either continuity policy and starts from the
  tickers that the recorder has subscribed to, an unknown sequence domain and observed truth.\<close>

theorem capture_metadata_accepted:
  assumes "run_capture_v2_command pv started ended args clock attempts = Inr (records, final, code)"
    and "continuity = ''refuse'' \<or> continuity = ''record''" and "valid ''raw-capture-v2.schema.json'' (JObj final)"
  shows "\<exists>c cfg. parse_capture_v2_config args = Inr c \<and> nv_prepare sha valid continuity load None None (Inr final) = Inr cfg \<and>
    nv_tickers cfg = cf_tickers c \<and> nv_topology cfg = ''unknown'' \<and> nv_truth cfg = ''Observed''"
proof -
  from assms(1) obtain c where c: "parse_capture_v2_config args = Inr c"
    unfolding run_capture_v2_command_def rbind_eq_Inr by (elim exE conjE) (rule that)
  obtain rec result where run: "run_capture_v2 c clock attempts recorder_init = (rec, result)" by fastforce
  from assms(1) obtain tickers status summary document where
    final: "final = finalize_capture_v2_metadata tickers ended rec status summary
      (sset (capture_metadata_v2 c pv started) ''shutdown'' document)"
    unfolding run_capture_v2_command_def c rbind_simps run prod.case Let_def sum.inject prod.inject
    by (elim conjE) (rule that, erule sym)
  have fields: "oget final ''schema'' = JStr ''pmm.kalshi.raw_capture.v2''" "oget final ''market_tickers'' = names_array (cf_tickers c)"
    "oget final ''sequence_domain'' = unknown_sequence_domain" "oget_default final ''truth_category'' v = JStr ''Observed''" for v
    unfolding final by (simp_all add: final_field final_names_def)
  note T = capture_config_tickers [OF c]
  have names: "as_names (names_array (cf_tickers c)) = Some (cf_tickers c)" using T by (simp add: as_names_array)
  obtain domain where domain: "unknown_sequence_domain = JObj domain" and d: "oget domain ''status'' = JStr ''unknown''"
    "oget domain ''topology'' = JStr ''unknown''" "oget domain ''mechanical_validation_key'' = sequence_key ''unknown''"
    by (auto simp: unknown_sequence_domain_def sequence_key_def names_array_def names_json_def)
  have key: "py_eq (sequence_key ''unknown'') (sequence_key ''unknown'')" by (simp add: sequence_key_def)
  show ?thesis
    using assms(2,3) T c
    by (simp add: nv_prepare_def fields names sorted_set_sorted domain d key Let_def validate_historical_schema_def)
qed

end
