(* ===== verification/Capture_Sample.thy ===== *)
theory Capture_Sample
  imports Capture_Verdict
begin

text \<open>
  A capture of one market, run: two acknowledgements and a snapshot on one connection. The properties of the
  recorders and of the inspection are applied to it.
\<close>

definition sample_frame_ack :: "string \<Rightarrow> string \<Rightarrow> string" where
  "sample_frame_ack channel sid =
     ''{\"id\":1,\"type\":\"subscribed\",\"msg\":{\"channel\":\"'' @ channel @ ''\",\"sid\":'' @ sid @ ''}}''"

definition sample_frame_snapshot :: string where
  "sample_frame_snapshot = ''{\"type\":\"orderbook_snapshot\",\"sid\":7,\"seq\":1,\"msg\":{\"market_ticker\":\"T\"}}''"

definition sample_attempt :: attempt where
  "sample_attempt =
     \<lparr>at_open = None, at_send = None,
      at_arrivals = [Text (sample_frame_ack ''orderbook_delta'' ''7''), Text (sample_frame_ack ''trade'' ''8''),
        Text sample_frame_snapshot, Quiet]\<rparr>"

definition sample_capture_arguments :: capture_arguments where
  "sample_capture_arguments =
     \<lparr>ca_tickers = ['' T''], ca_duration = 5, ca_strategy = ''single_connection_v1'', ca_inside = True, ca_exists = False\<rparr>"

definition sample_provenance :: provenance where
  "sample_provenance = \<lparr>pv_revision = JNull, pv_packages = JObj []\<rparr>"

definition sample_capture_run :: "(jobj list \<times> jobj \<times> int) res" where
  "sample_capture_run = run_capture_v2_command sample_provenance 1 9 sample_capture_arguments int [sample_attempt]"

definition sample_capture_config :: capture_config where
  "sample_capture_config = \<lparr>cf_tickers = [''T''], cf_duration = 5, cf_strategy = ''single_connection_v1''\<rparr>"

lemma sample_capture_code: "(case sample_capture_run of Inr (records, final, code) \<Rightarrow> code = 0 | Inl _ \<Rightarrow> False)"
  by code_simp

lemma sample_captured:
  "\<exists>records final. run_capture_v2_command sample_provenance 1 9 sample_capture_arguments int [sample_attempt] = Inr (records, final, 0)"
proof (cases "sample_capture_run")
  case (Inl e)
  show ?thesis using sample_capture_code unfolding Inl sum.case by (rule FalseE)
next
  case (Inr x)
  obtain records final code where x: "x = (records, final, code)" by (rule prod_cases3)
  have code: "code = 0" using sample_capture_code unfolding Inr x sum.case prod.case .
  show ?thesis
    by (intro exI) (rule Inr [unfolded x code sample_capture_run_def])
qed

lemma sample_parsed: "parse_capture_v2_config sample_capture_arguments = Inr sample_capture_config"
  by code_simp

theorem strict_eligible_witness:
  "\<exists>rec r s. run_capture_v2 sample_capture_config int [sample_attempt] recorder_init = (rec, Inr r) \<and> cs_segments r = [s] \<and>
    su_status s = ''completed'' \<and> (\<forall>x \<in> set (rv_records rec). \<not> gap_row x)"
proof -
  from sample_captured obtain records final where
    "run_capture_v2_command sample_provenance 1 9 sample_capture_arguments int [sample_attempt] = Inr (records, final, 0)" by blast
  from strict_eligible [OF this] show ?thesis unfolding sample_parsed sum.inject by blast
qed

theorem capture_metadata_accepted_witness:
  "\<exists>final cfg. nv_prepare (\<lambda>_. ''h'') (\<lambda>_ _. True) ''refuse'' (\<lambda>_. Inl KeyError) None None (Inr final) = Inr cfg \<and>
    nv_tickers cfg = [''T'']"
proof -
  from sample_captured obtain records final where
    "run_capture_v2_command sample_provenance 1 9 sample_capture_arguments int [sample_attempt] = Inr (records, final, 0)" by blast
  from capture_metadata_accepted [OF this, of "''refuse''" "\<lambda>_ _. True" "\<lambda>_. ''h''" "\<lambda>_. Inl KeyError"]
  show ?thesis unfolding sample_parsed sum.inject by (auto simp: sample_capture_config_def)
qed

section \<open>The log, read\<close>

text \<open>A connection whose request is sent and whose first acknowledgement arrives.\<close>

definition sample_short :: attempt where
  "sample_short = \<lparr>at_open = None, at_send = None, at_arrivals = [Text (sample_frame_ack ''trade'' ''8'')]\<rparr>"

definition sample_short_records :: "jobj list" where
  "sample_short_records = rv_records (fst (run_capture_v2 sample_capture_config int [sample_short] recorder_init))"

lemma sample_short_run:
  "length sample_short_records = 6"
  "control_row (sample_short_records ! 4)" "\<not> nameless_acknowledgement (sample_short_records ! 4)"
  "case res_fold (nv_record sample_nv_config) (nv_init sample_nv_config) (take 4 sample_short_records) of Inr _ \<Rightarrow> True | Inl _ \<Rightarrow> False"
  "nv_tickers sample_nv_config = cf_tickers sample_capture_config"
  by code_simp+

theorem control_accepted_witness:
  "\<exists>st. res_fold (nv_record sample_nv_config) (nv_init sample_nv_config) (take 4 sample_short_records) = Inr st \<and>
     (case nv_record sample_nv_config st (sample_short_records ! 4) of Inr _ \<Rightarrow> True | Inl e \<Rightarrow> schema_refusal e)"
proof -
  obtain rec result where run: "run_capture_v2 sample_capture_config int [sample_short] recorder_init = (rec, result)" by fastforce
  have rows: "rv_records rec = sample_short_records" by (simp add: sample_short_records_def run)
  from sample_short_run(1) have at: "sample_short_records = take 4 sample_short_records @ sample_short_records ! 4 # drop 5 sample_short_records"
    using id_take_nth_drop [of 4 sample_short_records] by simp
  from sample_short_run(4) obtain st where
    st: "res_fold (nv_record sample_nv_config) (nv_init sample_nv_config) (take 4 sample_short_records) = Inr st"
    by (auto split: sum.splits)
  from control_accepted [OF run rows [THEN trans, OF at] sample_short_run(5) st sample_short_run(2,3)] st show ?thesis by blast
qed

section \<open>The sequence tracker\<close>

theorem clean_tracker_exact_witness:
  "sequence_clean (foldl tracker_observe tracker_init [(1, JInt 7, JInt 4), (1, JInt 7, JNull), (1, JInt 7, JInt 5)])"
  by (subst clean_tracker_exact [THEN conjunct1])
    (auto simp: numbered_or_absent_def tracked_def)

section \<open>The inspection\<close>

definition sample_first :: attempt where
  "sample_first = \<lparr>at_open = None, at_send = None, at_arrivals = [Text ''{\"seq\":1}'', Broken (Fatal ''KeyboardInterrupt'')]\<rparr>"

definition sample_first_text :: string where
  "sample_first_text =
     ''{\"kind\":\"connection_opening\",\"received_at_utc_ns\":0,\"connection_id\":1,\"websocket_url\":\"wss://external-api-ws.kalshi.com/trade-api/ws/v2\"}'' @ [CHR 10] @
     ''{\"kind\":\"subscription_sent\",\"received_at_utc_ns\":1,\"connection_id\":1,\"subscription\":{\"id\":1,\"cmd\":\"subscribe\",\"params\":{\"channels\":[\"orderbook_delta\",\"trade\"],\"market_tickers\":[\"T\"],\"use_yes_price\":true}}}'' @ [CHR 10] @
     ''{\"kind\":\"inbound_frame\",\"received_at_utc_ns\":2,\"connection_id\":1,\"message_type\":\"unknown\",\"subscription_id\":null,\"source_sequence\":1,\"raw_frame_utf8\":\"{'' @ [CHR 92] @ ''\"seq'' @ [CHR 92] @ ''\":1}\"}'' @ [CHR 10]"

definition sample_first_run :: "recorder_v1 \<times> (string + int \<times> int)" where
  "sample_first_run = run_capture [''T''] int [sample_first] recorder_v1_init"

lemma sample_first_facts:
  "map json_loads (text_lines sample_first_text) = map (\<lambda>r. Some (JObj r)) (r1_records (fst sample_first_run))"
  "is_ok (res_fold inspect_record inspect_init (r1_records (fst sample_first_run)))"
  "json_loads ''{}'' = Some (JObj [])"
  "r1_counts (fst sample_first_run) = [(''unknown'', 1)]"
  by code_simp+

theorem inspection_recounts_witness:
  "\<exists>st report. inspect_capture ''{}'' sample_first_text = Inr (st, report) \<and> in_counts st = [(''unknown'', 1)]"
proof -
  obtain rec result where run: "sample_first_run = (rec, result)" by (rule prod.exhaust)
  note facts = sample_first_facts [unfolded run fst_conv]
  obtain st where st: "res_fold inspect_record inspect_init (r1_records rec) = Inr st"
    using facts(2) unfolding is_ok_def by (cases "res_fold inspect_record inspect_init (r1_records rec)") simp_all
  define report where "report = inspect_report [] st"
  have i: "inspect_capture ''{}'' sample_first_text = Inr (st, report)"
    unfolding inspect_capture_def facts(3) inspect_lines [OF facts(1)] st report_def by simp
  have "in_counts st = [(''unknown'', 1)]"
    using inspection_recounts [OF run [unfolded sample_first_run_def] facts(1) i] unfolding facts(4) by (rule conjunct1)
  then show ?thesis using i by (intro exI conjI)
qed

theorem replay_keeps_book_witness:
  "case replay_apply (replay_init\<lparr>rp_yes := [(''0.5'', Fin False 3 0)]\<rparr>) [(''type'', JStr ''orderbook_delta'')] of
     Inr r' \<Rightarrow> book_shaped r' | Inl e \<Rightarrow> e = DecimalOverflow"
  by (rule replay_keeps_book) code_simp

text \<open>The exponent is too large for an evaluation in \<open>nat\<close>: the parser runs up to it, the rest is arithmetic.\<close>

lemma big_exponent_text:
  "remove_char (CHR ''_'') (strip ''1E1000000'') = ''1E1000000''"
  "takeWhile is_digit ''1E1000000'' = ''1''" "dropWhile is_digit ''1E1000000'' = ''E1000000''" "digits_val ''1'' = 1"
  by code_simp+

lemma big_exponent_value: "digits_val ''1000000'' = 1000000"
  by (simp add: digits_val_def digit_val_def)

lemma big_exponent: "decimal_of (JStr ''1E1000000'') = Inr (Fin False 1 1000000)"
  by (simp add: decimal_of_def py_decimal_def dec_of_str_def big_exponent_text dec_unsigned_def dec_exponent_def big_exponent_value Let_def
    del: is_digit_basic takeWhile.simps dropWhile.simps) (simp add: is_digit_def)

theorem replay_overflow_escapes_witness:
  "replay_apply replay_init [(''type'', JStr ''orderbook_delta''),
     (''msg'', JObj [(''side'', JStr ''yes''), (''price_dollars'', JStr ''0.5''), (''delta_fp'', JStr ''1E1000000'')])] = Inl DecimalOverflow"
  by (rule replay_overflow_escapes [OF big_exponent]) (simp_all add: replay_init_def)

end
