(* ===== verification/Spec2Isabelle.thy ===== *)
theory Spec2Isabelle
  imports Projection_Restart Raw_Messages Json_Roundtrip Envelopes Product_Catalog Normalized_Projection Features Features_V3
    Normalized_V3 Backtest_Sample Multi_Sample Capture_Sample
begin

text \<open>
  Verification of the historical-data pipeline of the repository (\<open>src/python\<close>).

  \<^bold>\<open>The program.\<close> A capture of the public websocket of an exchange (\<open>kalshi_capture.py\<close>) is normalized into
  an ordered event history (\<open>pmm_phase7.py\<close>, \<open>normalize_capture\<close> for one market, \<open>normalize_capture_v3\<close> for
  several), an order book is rebuilt from it (\<open>ObservedMarketProjection\<close>, \<open>ObservedSegmentCursor\<close>), feature
  rows are cut from the book (\<open>materialize_features\<close>, \<open>materialize_features_v3\<close>), and a quoting strategy is
  simulated on events and features (\<open>run_backtest\<close>, for several markets at once \<open>run_backtest_v4\<close>) behind a risk gate, which is either a Python class or an
  external C++ oracle. Product terms, their reviewed packages, conversion policies and catalogs
  (\<open>pmm_product_terms.py\<close>) say what a market is; their hashes tie every later artifact to them.

  \<^bold>\<open>Theories, from the bottom up.\<close>
  \<^item> \<open>Prelude\<close>: results (\<open>exn + 'a\<close>), loops that may raise (\<open>res_fold\<close>, \<open>res_map\<close>, \<open>res_all\<close>), dictionaries as
    association lists in insertion order, and the interfaces \<open>res_machine\<close>, \<open>res_counter\<close> and \<open>dict_keys\<close>.
  \<^item> \<open>Py_Strings\<close>, \<open>Py_Floats\<close>, \<open>Decimals\<close>, \<open>Decimal_Text\<close>, \<open>Json\<close>, \<open>Json_Roundtrip\<close>, \<open>Utc_Time\<close>: what the program
    uses of Python and its library: text, \<open>decimal.Decimal\<close> at the default context (28 digits, so
    arithmetic rounds and may raise), \<open>json\<close> and the calendar. Strings are their UTF-8 bytes.
  \<^item> \<open>Field_Values\<close>, \<open>Raw_Messages\<close>, \<open>Documents\<close>, \<open>Jsonl\<close>: the readers of single fields, of levels and sequence
    numbers, of files of JSON lines.
  \<^item> \<open>Projection\<close>, \<open>Projection_Restart\<close>: the order book, its checkpoints and the feature values of a book.
  \<^item> \<open>Product_Terms\<close>, \<open>Envelopes\<close>, \<open>Product_Catalog\<close>: terms, hashed documents, packages, policies, catalogs.
  \<^item> \<open>Normalize_V1\<close>, \<open>Normalized_Runs\<close>, \<open>Normalized_Projection\<close>: the normalization of one market.
  \<^item> \<open>Segment_Cursor\<close>, \<open>Normalize_V3\<close>, \<open>Normalized_V3\<close>: several markets, with losses and recoveries.
  \<^item> \<open>Features\<close>, \<open>Features_V3\<close>: the feature rows and their manifests.
  \<^item> \<open>Backtest_Risk\<close>, \<open>Backtest\<close>, \<open>Backtest_Run\<close>: the simulated orders, the two risk gates, the ledger, the event loop
    and its frame. \<open>Backtest_Gate\<close> states the contract of a gate as the locale \<open>risk_gate\<close>; \<open>Backtest_Limits\<close> and
    \<open>Backtest_Lifecycle\<close> interpret it for the reference gate and for the trace of the oracle (whose order
    lives are in \<open>Risk_Lifecycle\<close>), \<open>Backtest_Causality\<close> follows the decisions, \<open>Backtest_Sample\<close> runs an example.
  \<^item> \<open>Multi_Preflight\<close>, \<open>Multi_Backtest\<close>, \<open>Multi_Run\<close>: the multi-market backtest (\<open>pmm_phase7_multimarket.py\<close>): its checks,
    one definition per kind of action, the heap, the result and its verification. \<open>Multi_Loop\<close> states what a loop
    over an agenda needs to end and to write an ordered log as the locale \<open>agenda_loop\<close>; \<open>Multi_Handlers\<close> and
    \<open>Multi_Order\<close> interpret it. \<open>Multi_Lifecycle\<close> abstracts a product to its desk, a small machine of orders,
    and shows that every handler is a sequence of its steps; \<open>Multi_Resolved\<close> concludes for a whole run.

  \<^item> \<open>Capture_Records\<close>, \<open>Capture_Session\<close>, \<open>Capture_Replay\<close>: the first stage (\<open>kalshi_capture.py\<close>): subscriptions, sequence
    numbers and the two recorders; the sessions \<open>run_capture\<close> and \<open>run_capture_v2\<close> with their metadata, verdict
    and commands; the inspection of a capture. \<open>Capture_Facts\<close> has the tracker, the inspection and the replayed
    book. \<open>Capture_Log\<close> states the protocol of a log as the inductive relation \<open>capture_log\<close>, which every run of
    the recorder follows, and \<open>Capture_Accepted\<close> runs the normalizer of several markets against it.
    \<open>Capture_Verdict\<close> has the verdict and the metadata, \<open>Capture_Sample\<close> runs an example.

  \<^bold>\<open>How the parts meet.\<close> The log and the metadata of a capture are what the normalizer reads (\<open>control_accepted\<close>,
  \<open>capture_metadata_accepted\<close>); the records of a complete normalization are what the segment cursors of the
  feature stage read (\<open>complete_capture_accepted\<close>); the feature rows are what the backtests quote from
  (\<open>features_v3_causal\<close>, \<open>backtest_no_lookahead\<close>).

  \<^bold>\<open>How the code is modelled.\<close> Each function is a definition of the same name (prefixed where several
  components have the same one), its statements in the code's order as nested \<open>rbind\<close>s, so the first failing
  check decides the exception. Exceptions carry their class and their code or constant message; the parts
  of a message that repeat the offending value are dropped. Objects are records, dictionaries and JSON objects
  association lists. Files are passed as texts and outputs returned as values; hashes (\<open>sha\<close>), the schema
  validator (\<open>valid\<close>), package loaders and the oracle process (\<open>step\<close>) are parameters, about which nothing is
  assumed unless a property says so.

  \<^bold>\<open>Bounds.\<close> No loop of the model needs fuel: all of them run over lists that are there when they start, but for
  \<open>action_loop\<close>, whose handlers push new actions; it is a partial function, proved to return from every state.
  Decimals are exact for amounts on a grid of at most 1000 places that fit into 28 digits (\<open>dgrid\<close>,
  \<open>dfits\<close>); properties about sums of quantities say so.

  The capture sessions run over the list of attempts to connect, and a connection over the list of its arrivals;
  the end of a list is the deadline.

  \<^bold>\<open>Not modelled.\<close> Clocks, the network, file system state (temporary directories, atomic renames, cleanup
  after an error), command line parsing, and the C++ programs. Outside the ASCII range, digits and white space
  are not recognised as such, and text is valid UTF-8 (no lone surrogates). Of the product terms, the acquisition
  and the review of source documents are left out; so are the evidence bundles (\<open>pmm_phase7_evidence.py\<close>), the
  resource measurement (\<open>pmm_phase7_measurement.py\<close>), the operator commands (\<open>pmm_b2c_operator.py\<close>) and the check
  of the fixtures (\<open>src/tools\<close>), which run programs, measure them and compare files.
\<close>

end
